(* ===== verification/PyBase.thy ===== *)
theory PyBase
  imports Complex_Main "HOL-Library.AList" "HOL-Library.Multiset"
begin

text \<open>
  The prelude of the development: Python exceptions as values, the result type of code that may
  raise, insertion-ordered dictionaries as association lists, stable sorting with an arbitrary
  strict comparison, and the decimal notation of integers.  The two collections declared here
  carry the component proofs: \<open>res_simps\<close> unfolds the plumbing of the result type,
  \<open>dict_simps\<close> the dictionary operations.
\<close>

named_theorems res_simps "equations of the result type"
named_theorems dict_simps "equations of the dictionary operations"

section \<open>Exceptions and results\<close>

text \<open>
  One constructor per exception class the sources raise or catch.  A message is kept where the
  source gives one; a failure raised by the interpreter carries the empty message.
  \<open>HTTPError\<close> is the failure of an HTTP exchange (\<open>httpx.HTTPError\<close>), \<open>ZMQError\<close> the expiry of a
  socket timeout, \<open>SequenceGap\<close> is declared by \<open>engine_events/vllm.py\<close>.
\<close>

datatype pyerr =
    ValueError string
  | TypeError
  | KeyError
  | IndexError
  | AttributeError
  | ZeroDivisionError
  | OverflowError
  | OSError
  | StatisticsError
  | RuntimeError string
  | HTTPError
  | ZMQError
  | SequenceGap int int

type_synonym 'a res = "pyerr + 'a"

text \<open>Sequencing: the rest of the body runs only when the call did not raise.\<close>

definition bindR :: "'a res \<Rightarrow> ('a \<Rightarrow> 'b res) \<Rightarrow> 'b res" where
  "bindR m f = (case m of Inl e \<Rightarrow> Inl e | Inr x \<Rightarrow> f x)"

text \<open>An \<open>if cond: raise e\<close> in front of the rest of the body.\<close>

definition guardR :: "bool \<Rightarrow> pyerr \<Rightarrow> 'b res \<Rightarrow> 'b res" where
  "guardR c e k = (if c then Inl e else k)"

text \<open>A loop or comprehension whose body may raise: the first failure ends it.\<close>

fun mapR :: "('a \<Rightarrow> 'b res) \<Rightarrow> 'a list \<Rightarrow> 'b list res" where
  "mapR f [] = Inr []"
| "mapR f (x # xs) = bindR (f x) (\<lambda>y. bindR (mapR f xs) (\<lambda>ys. Inr (y # ys)))"

fun filterR :: "('a \<Rightarrow> bool res) \<Rightarrow> 'a list \<Rightarrow> 'a list res" where
  "filterR p [] = Inr []"
| "filterR p (x # xs) = bindR (p x) (\<lambda>b. bindR (filterR p xs) (\<lambda>ys. Inr (if b then x # ys else ys)))"

fun foldR :: "('a \<Rightarrow> 's \<Rightarrow> 's res) \<Rightarrow> 'a list \<Rightarrow> 's \<Rightarrow> 's res" where
  "foldR f [] s = Inr s"
| "foldR f (x # xs) s = bindR (f x s) (foldR f xs)"

lemma bindR_simps [simp, res_simps]:
  "bindR (Inl e) f = Inl e"
  "bindR (Inr x) f = f x"
  by (simp_all add: bindR_def)

lemma bindR_eq_Inr [res_simps]: "bindR m f = Inr y \<longleftrightarrow> (\<exists>x. m = Inr x \<and> f x = Inr y)"
  by (cases m) auto

lemma bindR_eq_Inl [res_simps]:
  "bindR m f = Inl e \<longleftrightarrow> m = Inl e \<or> (\<exists>x. m = Inr x \<and> f x = Inl e)"
  by (cases m) auto

lemma guardR_eq_Inr [res_simps]: "guardR c e k = Inr y \<longleftrightarrow> \<not> c \<and> k = Inr y"
  by (simp add: guardR_def)

lemma guardR_simps [simp]: "guardR True e k = Inl e" "guardR False e k = k"
  by (simp_all add: guardR_def)

lemma mapR_Inr_length: "mapR f xs = Inr ys \<Longrightarrow> length ys = length xs"
  by (induction xs arbitrary: ys) (auto simp: bindR_eq_Inr)

lemma mapR_Inr_nth:
  "mapR f xs = Inr ys \<Longrightarrow> i < length xs \<Longrightarrow> f (xs ! i) = Inr (ys ! i)"
proof (induction xs arbitrary: ys i)
  case (Cons x xs)
  then show ?case by (cases i) (auto simp: bindR_eq_Inr)
qed simp

lemma mapR_Inr_set:
  assumes "mapR f xs = Inr ys" "y \<in> set ys"
  shows "\<exists>x \<in> set xs. f x = Inr y"
  using assms mapR_Inr_length [OF assms(1)] mapR_Inr_nth [OF assms(1)]
  by (metis in_set_conv_nth nth_mem)

lemma mapR_Inr_all: "mapR f xs = Inr ys \<Longrightarrow> (\<And>x y. f x = Inr y \<Longrightarrow> P y) \<Longrightarrow> list_all P ys"
  by (induction xs arbitrary: ys) (auto simp: bindR_eq_Inr)

lemma mapR_total:
  "(\<And>x. x \<in> set xs \<Longrightarrow> f x = Inr (g x)) \<Longrightarrow> mapR f xs = Inr (map g xs)"
  by (induction xs) auto

lemma mapR_returns: "(\<exists>ys. mapR f xs = Inr ys) \<longleftrightarrow> (\<forall>x \<in> set xs. \<exists>y. f x = Inr y)"
  by (induction xs) (auto simp: bindR_eq_Inr)

lemma mapR_update: "i < length xs \<Longrightarrow> f y = f (xs ! i) \<Longrightarrow> mapR f (xs[i := y]) = mapR f xs"
proof (induction xs arbitrary: i)
  case (Cons x xs)
  then show ?case by (cases i) auto
qed simp

lemma mapR_map: "mapR f xs = Inr ys \<Longrightarrow> (\<And>x y. f x = Inr y \<Longrightarrow> g y = h x) \<Longrightarrow> map g ys = map h xs"
  by (induction xs arbitrary: ys) (auto simp: bindR_eq_Inr)

lemma foldR_append: "foldR f (xs @ ys) s = bindR (foldR f xs s) (foldR f ys)"
proof (induction xs arbitrary: s)
  case (Cons x xs)
  then show ?case by (cases "f x s") auto
qed simp

lemma foldR_invariant:
  assumes "foldR f xs s = Inr t" "I s"
    and "\<And>x a b. x \<in> set xs \<Longrightarrow> I a \<Longrightarrow> f x a = Inr b \<Longrightarrow> I b"
  shows "I t"
  using assms by (induction xs arbitrary: s) (auto simp: bindR_eq_Inr)

section \<open>Dictionaries\<close>

text \<open>
  A Python \<open>dict\<close> keeps insertion order and an assignment to a present key keeps its place:
  exactly \<open>AList.update\<close>.  \<open>dget\<close> is \<open>d.get(k)\<close>, \<open>dget_or\<close> is \<open>d.get(k, default)\<close>, \<open>dset\<close> the
  assignment, \<open>ddel\<close> the \<open>del\<close> statement.
\<close>

definition dget :: "('k \<times> 'v) list \<Rightarrow> 'k \<Rightarrow> 'v option" where
  "dget d k = map_of d k"

definition dget_or :: "('k \<times> 'v) list \<Rightarrow> 'k \<Rightarrow> 'v \<Rightarrow> 'v" where
  "dget_or d k x = (case dget d k of None \<Rightarrow> x | Some v \<Rightarrow> v)"

definition dhas :: "('k \<times> 'v) list \<Rightarrow> 'k \<Rightarrow> bool" where
  "dhas d k = (k \<in> set (map fst d))"

definition dset :: "('k \<times> 'v) list \<Rightarrow> 'k \<Rightarrow> 'v \<Rightarrow> ('k \<times> 'v) list" where
  "dset d k v = AList.update k v d"

definition ddel :: "('k \<times> 'v) list \<Rightarrow> 'k \<Rightarrow> ('k \<times> 'v) list" where
  "ddel d k = AList.delete k d"

lemma dget_dset [dict_simps]: "dget (dset d k v) k' = (if k = k' then Some v else dget d k')"
  by (simp add: dget_def dset_def update_conv')

lemma dget_ddel [dict_simps]: "dget (ddel d k) k' = (if k = k' then None else dget d k')"
  by (simp add: dget_def ddel_def delete_conv')

lemma dget_None_iff [dict_simps]: "dget d k = None \<longleftrightarrow> k \<notin> set (map fst d)"
  by (simp add: dget_def map_of_eq_None_iff)

lemma dhas_dget: "dhas d k \<longleftrightarrow> dget d k \<noteq> None"
  by (simp add: dhas_def dget_None_iff)

lemma set_keys_dset [dict_simps]: "set (map fst (dset d k v)) = insert k (set (map fst d))"
  by (induction d) (auto simp: dset_def)

lemma set_keys_ddel [dict_simps]: "set (map fst (ddel d k)) = set (map fst d) - {k}"
  by (simp add: ddel_def delete_keys set_eq_iff)

lemma distinct_dset [dict_simps, intro]:
  "distinct (map fst d) \<Longrightarrow> distinct (map fst (dset d k v))"
  by (simp add: dset_def distinct_update)

lemma distinct_ddel [dict_simps, intro]:
  "distinct (map fst d) \<Longrightarrow> distinct (map fst (ddel d k))"
  by (simp add: ddel_def distinct_delete)

lemma ddel_dset: "ddel (dset d k v) k = ddel d k"
  by (induction d) (auto simp: ddel_def dset_def)

lemma dset_dset: "dset (dset d k v) k w = dset d k w"
  by (induction d) (auto simp: dset_def)

lemma set_dset: "set (dset d k v) \<subseteq> insert (k, v) (set d)"
  by (induction d) (auto simp: dset_def)

lemma dget_mem: "dget d k = Some v \<Longrightarrow> (k, v) \<in> set d"
  by (simp add: dget_def map_of_SomeD)

text \<open>The interface the components rely on when they write a dictionary and read it back.\<close>

locale dict =
  fixes get :: "'m \<Rightarrow> 'k \<Rightarrow> 'v option"
    and put :: "'m \<Rightarrow> 'k \<Rightarrow> 'v \<Rightarrow> 'm"
    and rem :: "'m \<Rightarrow> 'k \<Rightarrow> 'm"
    and keys :: "'m \<Rightarrow> 'k set"
    and inv_d :: "'m \<Rightarrow> bool"
  assumes get_put: "get (put m k v) k' = (if k = k' then Some v else get m k')"
    and get_rem: "get (rem m k) k' = (if k = k' then None else get m k')"
    and keys_get: "k \<in> keys m \<longleftrightarrow> get m k \<noteq> None"
    and inv_put: "inv_d m \<Longrightarrow> inv_d (put m k v)"
    and inv_rem: "inv_d m \<Longrightarrow> inv_d (rem m k)"
begin

lemma keys_put: "keys (put m k v) = insert k (keys m)"
  by (auto simp: keys_get get_put split: if_splits)

lemma keys_rem: "keys (rem m k) = keys m - {k}"
  by (auto simp: keys_get get_rem split: if_splits)

text \<open>Setting a key to an optional value, the deletion of the key when the value is absent.\<close>

lemma get_put_opt:
  "get (case x of None \<Rightarrow> rem m k | Some v \<Rightarrow> put m k v) k' = (if k = k' then x else get m k')"
  by (cases x) (auto simp: get_put get_rem)

lemma get_foldl_put:
  "get (foldl (\<lambda>a (k, v). put a k v) m kvs) k =
     (case map_of (rev kvs) k of None \<Rightarrow> get m k | Some v \<Rightarrow> Some v)"
  by (induction kvs arbitrary: m) (auto simp: get_put map_add_def split: option.splits)

end

interpretation alist: dict dget dset ddel "\<lambda>d. set (map fst d)" "\<lambda>d. distinct (map fst d)"
  by unfold_locales (auto simp: dget_dset dget_ddel dget_None_iff distinct_dset distinct_ddel
      simp flip: dget_def)

section \<open>Stable sorting\<close>

text \<open>
  \<open>list.sort\<close> is stable and uses the strict comparison only.  \<open>sort_lt lt\<close> is the stable sort for
  a comparison \<open>lt\<close>; with \<open>reverse=True\<close> Python keeps the order of equal elements, which is
  \<open>sort_lt\<close> of the converse comparison.
\<close>

fun ins_lt :: "('a \<Rightarrow> 'a \<Rightarrow> bool) \<Rightarrow> 'a \<Rightarrow> 'a list \<Rightarrow> 'a list" where
  "ins_lt lt x [] = [x]"
| "ins_lt lt x (y # ys) = (if lt y x then y # ins_lt lt x ys else x # y # ys)"

definition sort_lt :: "('a \<Rightarrow> 'a \<Rightarrow> bool) \<Rightarrow> 'a list \<Rightarrow> 'a list" where
  "sort_lt lt xs = foldr (ins_lt lt) xs []"

lemma sort_lt_simps [simp]:
  "sort_lt lt [] = []" "sort_lt lt (x # xs) = ins_lt lt x (sort_lt lt xs)"
  by (simp_all add: sort_lt_def)

lemma mset_ins_lt [simp]: "mset (ins_lt lt x ys) = add_mset x (mset ys)"
  by (induction ys) auto

lemma mset_sort_lt [simp]: "mset (sort_lt lt xs) = mset xs"
  by (induction xs) auto

lemma set_sort_lt [simp]: "set (sort_lt lt xs) = set xs"
  by (metis mset_sort_lt set_mset_mset)

lemma length_sort_lt [simp]: "length (sort_lt lt xs) = length xs"
  by (metis mset_sort_lt size_mset)

lemma sort_lt_Nil_iff [simp]: "sort_lt lt xs = [] \<longleftrightarrow> xs = []"
  by (metis mset_sort_lt mset_zero_iff)

text \<open>
  What a comparison has to satisfy on the elements it is used on: asymmetry and negative
  transitivity.  Floats are such a carrier as soon as no element is a NaN.
\<close>

locale weak_order_on =
  fixes carrier :: "'a \<Rightarrow> bool" and lt :: "'a \<Rightarrow> 'a \<Rightarrow> bool"
  assumes lt_asym: "carrier x \<Longrightarrow> carrier y \<Longrightarrow> lt x y \<Longrightarrow> \<not> lt y x"
    and lt_neg_trans: "carrier x \<Longrightarrow> carrier y \<Longrightarrow> carrier z \<Longrightarrow> lt x z \<Longrightarrow> lt x y \<or> lt y z"
begin

lemma sorted_ins:
  "carrier x \<Longrightarrow> (\<forall>y\<in>set ys. carrier y) \<Longrightarrow> sorted_wrt (\<lambda>a b. \<not> lt b a) ys \<Longrightarrow>
   sorted_wrt (\<lambda>a b. \<not> lt b a) (ins_lt lt x ys)"
proof (induction ys)
  case (Cons y ys)
  have s: "set (ins_lt lt x ys) = insert x (set ys)"
    by (metis mset_ins_lt set_mset_add_mset_insert set_mset_mset)
  show ?case
  proof (cases "lt y x")
    case True
    with Cons s lt_asym show ?thesis by auto
  next
    case False
    have "\<not> lt z x" if z: "z \<in> set ys" for z
      using Cons.prems False z lt_neg_trans [of z y x] by auto
    with False Cons.prems show ?thesis by simp
  qed
qed simp

lemma sorted_sort:
  "(\<forall>x\<in>set xs. carrier x) \<Longrightarrow> sorted_wrt (\<lambda>a b. \<not> lt b a) (sort_lt lt xs)"
  by (induction xs) (auto intro: sorted_ins)

lemma hd_sort_least:
  assumes "\<forall>x\<in>set xs. carrier x" "y \<in> set xs"
  shows "\<not> lt y (hd (sort_lt lt xs))"
proof -
  obtain z zs where z: "sort_lt lt xs = z # zs" using assms(2) by (cases "sort_lt lt xs") auto
  then have "y \<in> set (z # zs)" using assms(2) by (metis set_sort_lt)
  moreover have "\<not> lt z z" using lt_asym assms(1) z
    by (metis list.set_intros(1) set_sort_lt)
  ultimately show ?thesis using sorted_sort [OF assms(1)] z by auto
qed

end

section \<open>Step systems\<close>

text \<open>
  An invariant of a step relation, and a forward simulation of it by an abstract one: the two ways the
  theories of processes state what holds of every run.
\<close>

locale kept_invariant =
  fixes step :: "'s \<Rightarrow> 's \<Rightarrow> bool" and good :: "'s \<Rightarrow> bool"
  assumes keeps: "step s t \<Longrightarrow> good s \<Longrightarrow> good t"
begin

lemma keeps_runs: "step\<^sup>*\<^sup>* s t \<Longrightarrow> good s \<Longrightarrow> good t"
  by (induction rule: rtranclp_induct) (auto intro: keeps)

end

locale forward_simulation = kept_invariant step good
  for step :: "'s \<Rightarrow> 's \<Rightarrow> bool" and good :: "'s \<Rightarrow> bool" +
  fixes astep :: "'a \<Rightarrow> 'a \<Rightarrow> bool" and abs_of :: "'s \<Rightarrow> 'a"
  assumes simulated: "step s t \<Longrightarrow> good s \<Longrightarrow> astep\<^sup>*\<^sup>* (abs_of s) (abs_of t)"
begin

lemma simulated_runs: "step\<^sup>*\<^sup>* s t \<Longrightarrow> good s \<Longrightarrow> astep\<^sup>*\<^sup>* (abs_of s) (abs_of t)"
proof (induction rule: rtranclp_induct)
  case (step t u)
  then show ?case using simulated [OF step.hyps(2)] keeps_runs [OF step.hyps(1)] by (auto intro: rtranclp_trans)
qed simp

end

section \<open>Decimal notation of integers\<close>

text \<open>\<open>str(n)\<close> for an integer, and the two-digit and three-digit zero-padded forms of \<open>f"{n:03d}"\<close>.\<close>

definition digit_char :: "nat \<Rightarrow> char" where
  "digit_char d = char_of (48 + d)"

fun nat_str :: "nat \<Rightarrow> string" where
  "nat_str n = (if n < 10 then [digit_char n] else nat_str (n div 10) @ [digit_char (n mod 10)])"

declare nat_str.simps [simp del]

definition int_str :: "int \<Rightarrow> string" where
  "int_str n = (if n < 0 then CHR ''-'' # nat_str (nat (- n)) else nat_str (nat n))"

definition pad_left :: "nat \<Rightarrow> char \<Rightarrow> string \<Rightarrow> string" where
  "pad_left w c s = replicate (w - length s) c @ s"

definition is_digit :: "char \<Rightarrow> bool" where
  "is_digit c = (48 \<le> (of_char c :: nat) \<and> (of_char c :: nat) \<le> 57)"

definition digit_val :: "char \<Rightarrow> nat" where
  "digit_val c = of_char c - 48"

definition digits_val :: "string \<Rightarrow> nat" where
  "digits_val s = foldl (\<lambda>a c. 10 * a + digit_val c) 0 s"

lemma of_char_digit_char [simp]: "d < 10 \<Longrightarrow> (of_char (digit_char d) :: nat) = 48 + d"
  by (simp add: digit_char_def of_char_of)

lemma digit_char_props [simp]:
  "d < 10 \<Longrightarrow> is_digit (digit_char d)" "d < 10 \<Longrightarrow> digit_val (digit_char d) = d"
  by (simp_all add: is_digit_def digit_val_def)

lemma digit_char_numerals [simp]:
  "digit_char 0 = CHR ''0''" "digit_char (Suc 0) = CHR ''1''" "digit_char 1 = CHR ''1''"
  "digit_char 2 = CHR ''2''" "digit_char 3 = CHR ''3''"
  "digit_char 4 = CHR ''4''" "digit_char 5 = CHR ''5''" "digit_char 6 = CHR ''6''" "digit_char 7 = CHR ''7''"
  "digit_char 8 = CHR ''8''" "digit_char 9 = CHR ''9''"
  by code_simp+

text \<open>Evaluation on numerals: conditional, so that the simplifier does not unfold a symbolic number.\<close>

lemma nat_str_eval:
  "n < 10 \<Longrightarrow> nat_str n = [digit_char n]"
  "10 \<le> n \<Longrightarrow> nat_str n = nat_str (n div 10) @ [digit_char (n mod 10)]"
  by (subst nat_str.simps, simp)+

lemma nat_str_digits: "c \<in> set (nat_str n) \<Longrightarrow> is_digit c"
proof (induction n rule: nat_str.induct)
  case (1 n)
  then show ?case by (subst (asm) nat_str.simps) (auto split: if_splits)
qed

lemma nat_str_nonempty [simp]: "nat_str n \<noteq> []"
  by (subst nat_str.simps) simp

text \<open>Reading back what was printed.\<close>

lemma digits_val_nat_str [simp]: "digits_val (nat_str n) = n"
proof (induction n rule: nat_str.induct)
  case (1 n)
  show ?case
  proof (cases "n < 10")
    case True
    then show ?thesis by (subst nat_str.simps) (simp add: digits_val_def)
  next
    case False
    with "1.IH" show ?thesis by (subst nat_str.simps) (simp add: digits_val_def)
  qed
qed

lemma nat_str_inject [simp]: "nat_str m = nat_str n \<longleftrightarrow> m = n"
  by (metis digits_val_nat_str)

lemma int_str_no_colon: "CHR '':'' \<notin> set (int_str n)"
  using nat_str_digits [of "CHR '':''"] by (auto simp: int_str_def is_digit_def)

lemma minus_not_digit: "\<not> is_digit (CHR ''-'')"
  by (simp add: is_digit_def)

lemma int_str_inject [simp]: "int_str m = int_str n \<longleftrightarrow> m = n"
proof -
  have nd: "CHR ''-'' # xs \<noteq> nat_str k" for xs k
    using nat_str_digits [of "CHR ''-''" k] nat_str_digits [of _ k]
    by (metis list.set_intros(1) minus_not_digit)
  show ?thesis
    using nd nd [symmetric] by (auto simp: int_str_def)
qed

end
