(* ===== verification/PyFloat.thy ===== *)
theory PyFloat
  imports PyBase "HOL-Library.Log_Nat"
begin

text \<open>
  Python's \<open>float\<close> is an IEEE 754 binary64 number.  The model keeps the exact rational value of a
  finite double and rounds every arithmetic result to the nearest double, ties to even, with the
  exponent range of binary64: \<open>rnd64\<close> is that rounding, \<open>fl\<close> adds the overflow to an infinity.
  Infinities and NaN are values of their own, with the comparison rules of IEEE 754 (every
  comparison with a NaN is false).  The two zeros are one value: the sources only compare and
  divide, and neither tells them apart (a division by either raises).
  The section on rounding proves the facts every component uses: rounding is monotone, odd,
  idempotent and exact on integers up to \<open>2 ^ 53\<close>.
\<close>

named_theorems float_simps "evaluation of float comparisons and constants"

section \<open>Rounding to binary64\<close>

text \<open>Nearest integer, ties to even.\<close>

definition rne :: "rat \<Rightarrow> int" where
  "rne x = (let f = \<lfloor>x\<rfloor>; d = x - of_int f
            in if d < 1 / 2 then f
               else if 1 / 2 < d then f + 1
               else if even f then f else f + 1)"

text \<open>The exponent of the leading bit of a positive rational.\<close>

definition ilog2 :: "rat \<Rightarrow> int" where
  "ilog2 x = (case quotient_of x of (p, q) \<Rightarrow>
                let k = bitlen p - bitlen q in if 2 powi k \<le> x then k else k - 1)"

text \<open>The exponent of the last bit: 53 significant bits, never below the subnormal spacing.\<close>

definition ulp_exp :: "rat \<Rightarrow> int" where
  "ulp_exp x = max (ilog2 \<bar>x\<bar> - 52) (- 1074)"

definition rnd64 :: "rat \<Rightarrow> rat" where
  "rnd64 x = (if x = 0 then 0
              else of_int (rne (x / 2 powi ulp_exp x)) * 2 powi ulp_exp x)"

lemma rne_of_int [simp]: "rne (of_int n) = n"
  by (simp add: rne_def)

lemma rne_bounds: "\<lfloor>x\<rfloor> \<le> rne x" "rne x \<le> \<lfloor>x\<rfloor> + 1"
  by (simp_all add: rne_def Let_def)

lemma rne_mono: assumes "x \<le> y" shows "rne x \<le> rne y"
proof (cases "\<lfloor>x\<rfloor> = \<lfloor>y\<rfloor>")
  case True
  with assms show ?thesis by (simp add: rne_def Let_def)
next
  case False
  with floor_mono [OF assms] have "\<lfloor>x\<rfloor> + 1 \<le> \<lfloor>y\<rfloor>" by linarith
  with rne_bounds(2) [of x] rne_bounds(1) [of y] show ?thesis by linarith
qed

lemma rne_minus: "rne (- x) = - rne x"
proof (cases "x = of_int \<lfloor>x\<rfloor>")
  case True
  then show ?thesis by (metis of_int_minus rne_of_int)
next
  case False
  then have f: "\<lfloor>- x\<rfloor> = - \<lfloor>x\<rfloor> - 1"
    using of_int_floor_le [of x] floor_correct [of x]
    by (intro floor_unique) (auto simp: less_le simp del: of_int_floor_le)
  show ?thesis unfolding rne_def f by (auto simp: Let_def algebra_simps)
qed

lemma ilog2_bounds:
  assumes "0 < x"
  shows "2 powi ilog2 x \<le> x" "x < 2 powi (ilog2 x + 1)"
proof -
  obtain p q where pq: "quotient_of x = (p, q)" by force
  have q: "0 < q" using quotient_of_denom_pos [OF pq] .
  have x: "x = of_int p / of_int q" using quotient_of_div [OF pq] .
  have p: "0 < p" using assms x q by (simp add: zero_less_divide_iff)
  define a b where "a = nat (bitlen p - 1)" and "b = nat (bitlen q - 1)"
  have bp: "bitlen p = int a + 1" "bitlen q = int b + 1"
    using p q by (simp_all add: a_def b_def bitlen_def floorlog_def)
  have P: "2 ^ a \<le> p" "p < 2 * 2 ^ a" and Q: "2 ^ b \<le> q" "q < 2 * 2 ^ b"
    using bitlen_bounds [OF p] bitlen_bounds [OF q] bp by (simp_all add: nat_add_distrib)
  have P': "(2::rat) ^ a \<le> of_int p" "of_int p < (2::rat) * 2 ^ a"
    and Q': "(2::rat) ^ b \<le> of_int q" "of_int q < (2::rat) * 2 ^ b"
    using P Q by (simp_all only: of_int_le_iff [symmetric, where 'a = rat] of_int_less_iff [symmetric, where 'a = rat]
        of_int_power of_int_mult of_int_numeral)
  let ?k = "bitlen p - bitlen q"
  have k: "(2::rat) powi ?k = 2 ^ a / 2 ^ b"
    by (simp add: bp power_int_diff)
  have qq: "(0::rat) < of_int q" using q by simp
  have "x < 2 * 2 ^ a / 2 ^ b"
  proof -
    have "x \<le> of_int p / 2 ^ b" unfolding x using Q'(1) p qq by (intro divide_left_mono) auto
    also have "\<dots> < 2 * 2 ^ a / 2 ^ b" using P'(2) by (intro divide_strict_right_mono) auto
    finally show ?thesis .
  qed
  then have up: "x < 2 powi (?k + 1)" using k by (simp add: power_int_add mult.commute)
  have "2 ^ a / (2 * 2 ^ b) \<le> x"
  proof -
    have "2 ^ a / (2 * 2 ^ b) \<le> of_int p / ((2::rat) * 2 ^ b)" using P'(1) by (intro divide_right_mono) auto
    also have "\<dots> \<le> x" unfolding x using Q'(2) p q by (intro divide_left_mono) auto
    finally show ?thesis .
  qed
  then have lo: "2 powi (?k - 1) \<le> x" using k by (simp add: power_int_diff)
  have il: "ilog2 x = (if 2 powi ?k \<le> x then ?k else ?k - 1)"
    by (simp add: ilog2_def pq Let_def)
  show "2 powi ilog2 x \<le> x" "x < 2 powi (ilog2 x + 1)"
    using up lo by (simp_all add: il)
qed

lemma powi2_lessD: "(2::rat) powi i < 2 powi j \<Longrightarrow> i < j"
  using power_int_increasing [of j i "2::rat"] by (cases "i < j") auto

lemma ilog2_unique:
  assumes "0 < x" "2 powi k \<le> x" "x < 2 powi (k + 1)"
  shows "ilog2 x = k"
proof -
  have "(2::rat) powi k < 2 powi (ilog2 x + 1)" and "(2::rat) powi ilog2 x < 2 powi (k + 1)"
    using ilog2_bounds [OF assms(1)] assms(2,3) by linarith+
  then have "k < ilog2 x + 1" and "ilog2 x < k + 1" using powi2_lessD by blast+
  then show ?thesis by linarith
qed

lemma ilog2_mono:
  assumes "0 < x" "x \<le> y" shows "ilog2 x \<le> ilog2 y"
proof -
  have "0 < y" using assms by linarith
  then have "(2::rat) powi ilog2 x < 2 powi (ilog2 y + 1)"
    using ilog2_bounds(1) [OF assms(1)] ilog2_bounds(2) [of y] assms(2) by linarith
  then have "ilog2 x < ilog2 y + 1"
    by (rule powi2_lessD)
  then show ?thesis by linarith
qed

lemma powi2_grid:
  assumes "i \<le> j"
  shows "(2::rat) powi j = of_int (2 ^ nat (j - i)) * 2 powi i"
proof -
  have "(2::rat) powi j = 2 powi (j - i) * 2 powi i" by (simp add: power_int_diff)
  also have "(2::rat) powi (j - i) = of_int (2 ^ nat (j - i))"
    using assms by (simp add: power_int_def)
  finally show ?thesis .
qed

lemma rnd64_0 [simp]: "rnd64 0 = 0"
  by (simp add: rnd64_def)

lemma rnd64_minus: "rnd64 (- x) = - rnd64 x"
  by (simp add: rnd64_def ulp_exp_def rne_minus)

lemma rnd64_le_grid:
  assumes "x \<noteq> 0" "x \<le> of_int m * 2 powi ulp_exp x"
  shows "rnd64 x \<le> of_int m * 2 powi ulp_exp x"
proof -
  have "x / 2 powi ulp_exp x \<le> of_int m"
    using assms(2) by (simp add: divide_le_eq)
  then have "rne (x / 2 powi ulp_exp x) \<le> m"
    using rne_mono by (metis rne_of_int)
  then show ?thesis using assms(1)
    by (simp add: rnd64_def mult_right_mono)
qed

lemma rnd64_ge_grid:
  assumes "x \<noteq> 0" "of_int m * 2 powi ulp_exp x \<le> x"
  shows "of_int m * 2 powi ulp_exp x \<le> rnd64 x"
proof -
  have "of_int m \<le> x / 2 powi ulp_exp x"
    using assms(2) by (simp add: le_divide_eq)
  then have "m \<le> rne (x / 2 powi ulp_exp x)"
    using rne_mono by (metis rne_of_int)
  then show ?thesis using assms(1)
    by (simp add: rnd64_def mult_right_mono)
qed

lemma rnd64_nonneg: "0 \<le> x \<Longrightarrow> 0 \<le> rnd64 x"
  using rnd64_ge_grid [of x 0] by (cases "x = 0") auto

lemma rnd64_mono_pos:
  assumes "0 < x" "x \<le> y" shows "rnd64 x \<le> rnd64 y"
proof (cases "ulp_exp x = ulp_exp y")
  case True
  have "x / 2 powi ulp_exp y \<le> y / 2 powi ulp_exp y"
    using assms(2) by (intro divide_right_mono) auto
  then have "rne (x / 2 powi ulp_exp y) \<le> rne (y / 2 powi ulp_exp y)" by (rule rne_mono)
  with True assms show ?thesis by (auto simp: rnd64_def intro!: mult_right_mono)
next
  case False
  have y: "0 < y" using assms by linarith
  have le: "ilog2 x \<le> ilog2 y" using ilog2_mono [OF assms] .
  with False have lt: "ilog2 x < ilog2 y" and uy: "ulp_exp y = ilog2 y - 52" and big: "- 1074 < ilog2 y - 52"
    using assms y by (auto simp: ulp_exp_def max_def split: if_splits)
  let ?b = "(2::rat) powi ilog2 y"
  have ux: "ulp_exp x \<le> ilog2 y" using lt big assms by (auto simp: ulp_exp_def)
  have bx: "?b = of_int (2 ^ nat (ilog2 y - ulp_exp x)) * 2 powi ulp_exp x"
    by (rule powi2_grid [OF ux])
  have bY: "?b = of_int (2 ^ nat (ilog2 y - ulp_exp y)) * 2 powi ulp_exp y"
    by (rule powi2_grid) (use uy in linarith)
  have "x < 2 powi (ilog2 x + 1)" using ilog2_bounds(2) [OF assms(1)] .
  also have "\<dots> \<le> ?b" using lt by (intro power_int_increasing) auto
  finally have "x \<le> ?b" by simp
  then have "rnd64 x \<le> ?b"
    using rnd64_le_grid [of x "2 ^ nat (ilog2 y - ulp_exp x)"] bx assms(1) by simp
  also have "?b \<le> rnd64 y"
    using rnd64_ge_grid [of y "2 ^ nat (ilog2 y - ulp_exp y)"] bY ilog2_bounds(1) [OF y] y by simp
  finally show ?thesis .
qed

theorem rnd64_mono: assumes "x \<le> y" shows "rnd64 x \<le> rnd64 y"
proof -
  consider "0 < x" | "x \<le> 0" "0 \<le> y" | "y < 0" by linarith
  then show ?thesis
  proof cases
    case 1
    then show ?thesis using rnd64_mono_pos assms by blast
  next
    case 2
    then have "rnd64 x \<le> 0" using rnd64_nonneg [of "- x"] by (simp add: rnd64_minus)
    with rnd64_nonneg [OF 2(2)] show ?thesis by linarith
  next
    case 3
    then have "rnd64 (- y) \<le> rnd64 (- x)" using assms by (intro rnd64_mono_pos) auto
    then show ?thesis by (simp add: rnd64_minus)
  qed
qed

lemma rnd64_grid_exact:
  assumes "x = of_int m * 2 powi ulp_exp x" shows "rnd64 x = x"
proof (cases "x = 0")
  case False
  have "x / 2 powi ulp_exp x = of_int m" using assms by (simp add: divide_eq_eq)
  with assms False show ?thesis by (simp add: rnd64_def)
qed simp

lemma rnd64_repr_pos:
  assumes "0 < m" "m \<le> 2 ^ 53" "- 1074 \<le> k"
  shows "rnd64 (of_int m * 2 powi k) = of_int m * 2 powi k"
proof -
  let ?x = "of_int m * 2 powi k :: rat"
  have x0: "0 < ?x" using assms(1) by simp
  have p53: "(2::rat) powi (53 + k) = of_int (2 ^ 53) * 2 powi k"
    by (simp add: power_int_add)
  show ?thesis
  proof (cases "m = 2 ^ 53")
    case True
    have x: "?x = 2 powi (53 + k)" using True p53 by simp
    have "ilog2 ?x = 53 + k"
      unfolding x by (rule ilog2_unique) (auto intro: power_int_strict_increasing)
    then have u: "ulp_exp ?x = k + 1" using x0 assms(3) by (simp add: ulp_exp_def)
    show ?thesis
      by (rule rnd64_grid_exact [where m = "2 ^ 52"])
         (unfold u, simp add: True power_int_add)
  next
    case False
    have "2 powi ilog2 ?x \<le> ?x" by (rule ilog2_bounds(1) [OF x0])
    also have "?x < of_int (2 ^ 53) * 2 powi k"
      using False assms(2) by (intro mult_strict_right_mono) (auto simp only: of_int_less_iff power_int_not_zero zero_less_power_int zero_less_numeral)
    finally have "ilog2 ?x < 53 + k" unfolding p53 [symmetric] by (rule powi2_lessD)
    then have u: "ulp_exp ?x \<le> k" using x0 assms(3) by (simp add: ulp_exp_def)
    show ?thesis
      by (rule rnd64_grid_exact [where m = "m * 2 ^ nat (k - ulp_exp ?x)"])
         (subst powi2_grid [OF u], simp)
  qed
qed

lemma rnd64_repr:
  assumes "\<bar>m\<bar> \<le> 2 ^ 53" "- 1074 \<le> k"
  shows "rnd64 (of_int m * 2 powi k) = of_int m * 2 powi k"
proof -
  consider "m = 0" | "0 < m" | "0 < - m" by linarith
  then show ?thesis
  proof cases
    case 3
    with assms have "rnd64 (of_int (- m) * 2 powi k) = of_int (- m) * 2 powi k"
      by (intro rnd64_repr_pos) auto
    then show ?thesis using rnd64_minus [of "of_int m * 2 powi k"] by simp
  qed (use rnd64_repr_pos assms in auto)
qed

lemma rnd64_int_exact: "\<bar>n\<bar> \<le> 2 ^ 53 \<Longrightarrow> rnd64 (of_int n) = of_int n"
  using rnd64_repr [of n 0] by simp

lemma rnd64_idem [simp]: "rnd64 (rnd64 x) = rnd64 x"
proof (cases "x = 0")
  case False
  let ?u = "ulp_exp x" and ?m = "rne (x / 2 powi ulp_exp x)"
  have r: "rnd64 x = of_int ?m * 2 powi ?u" using False by (simp add: rnd64_def)
  have "\<bar>x\<bar> < 2 powi (ilog2 \<bar>x\<bar> + 1)" using False by (intro ilog2_bounds(2)) simp
  also have "\<dots> \<le> 2 powi (53 + ?u)" by (intro power_int_increasing) (auto simp: ulp_exp_def)
  finally have "\<bar>x / 2 powi ?u\<bar> \<le> of_int (2 ^ 53)"
    by (simp add: power_int_add divide_le_eq abs_divide)
  then have "x / 2 powi ?u \<le> of_int (2 ^ 53)" and "of_int (- (2 ^ 53)) \<le> x / 2 powi ?u"
    by linarith+
  then have "?m \<le> 2 ^ 53" and "- (2 ^ 53) \<le> ?m"
    using rne_mono rne_of_int by metis+
  then have "\<bar>?m\<bar> \<le> 2 ^ 53" by linarith
  moreover have "- 1074 \<le> ?u" by (simp add: ulp_exp_def)
  ultimately show ?thesis unfolding r by (rule rnd64_repr)
qed simp

lemma rne_error: "\<bar>of_int (rne x) - x\<bar> \<le> 1 / 2"
proof -
  have "of_int \<lfloor>x\<rfloor> \<le> x" "x < of_int \<lfloor>x\<rfloor> + 1" using floor_correct [of x] by simp_all
  then show ?thesis unfolding rne_def Let_def abs_le_iff by (auto simp del: of_int_floor_le)
qed

text \<open>The relative error of a rounding, and the absolute one below the normal range.\<close>

lemma rnd64_error: "\<bar>rnd64 x - x\<bar> \<le> \<bar>x\<bar> / 2 ^ 53 + 2 powi (- 1075)"
proof (cases "x = 0")
  case False
  define u where "u = (2::rat) powi ulp_exp x"
  have u: "0 < u" by (simp add: u_def)
  have "rnd64 x - x = (of_int (rne (x / u)) - x / u) * u"
    using False u by (simp add: rnd64_def u_def [symmetric] left_diff_distrib)
  then have "\<bar>rnd64 x - x\<bar> = \<bar>of_int (rne (x / u)) - x / u\<bar> * u" using u by (simp add: abs_mult)
  also have "\<dots> \<le> 1 / 2 * u" using rne_error u by (intro mult_right_mono) auto
  also have "\<dots> \<le> \<bar>x\<bar> / 2 ^ 53 + 2 powi (- 1075)"
  proof (cases "ulp_exp x = - 1074")
    case True
    then have "1 / 2 * u = 2 powi (- 1075)" by (simp add: u_def power_int_diff [of "2::rat" "- 1074" 1, simplified])
    then show ?thesis by simp
  next
    case False
    then have e: "ulp_exp x = ilog2 \<bar>x\<bar> - 52" by (auto simp: ulp_exp_def)
    have "2 powi ilog2 \<bar>x\<bar> \<le> \<bar>x\<bar>" using \<open>x \<noteq> 0\<close> by (intro ilog2_bounds) simp
    moreover have "1 / 2 * u = 2 powi ilog2 \<bar>x\<bar> / 2 ^ 53" by (simp add: u_def e power_int_diff)
    moreover have "(0::rat) \<le> 2 powi (- 1075)" by simp
    moreover have "2 powi ilog2 \<bar>x\<bar> / 2 ^ 53 \<le> \<bar>x\<bar> / 2 ^ 53" using calculation(1) by (intro divide_right_mono) simp_all
    ultimately show ?thesis by linarith
  qed
  finally show ?thesis .
qed simp

section \<open>Floats\<close>

datatype pyfloat = Fin rat | PInf | NInf | NaN

definition fl :: "rat \<Rightarrow> pyfloat" where
  "fl x = (let r = rnd64 x
           in if 2 ^ 1024 \<le> r then PInf else if r \<le> - (2 ^ 1024) then NInf else Fin r)"

definition is_nan :: "pyfloat \<Rightarrow> bool" where
  "is_nan x = (x = NaN)"

fun isfinite :: "pyfloat \<Rightarrow> bool" where
  "isfinite (Fin x) = True"
| "isfinite _ = False"

text \<open>The values that are doubles.\<close>

fun is_f64 :: "pyfloat \<Rightarrow> bool" where
  "is_f64 (Fin x) = (rnd64 x = x \<and> \<bar>x\<bar> < 2 ^ 1024)"
| "is_f64 _ = True"

fun flt :: "pyfloat \<Rightarrow> pyfloat \<Rightarrow> bool" where
  "flt (Fin a) (Fin b) = (a < b)"
| "flt (Fin a) PInf = True"
| "flt NInf (Fin b) = True"
| "flt NInf PInf = True"
| "flt _ _ = False"

fun feq :: "pyfloat \<Rightarrow> pyfloat \<Rightarrow> bool" where
  "feq (Fin a) (Fin b) = (a = b)"
| "feq PInf PInf = True"
| "feq NInf NInf = True"
| "feq _ _ = False"

definition fle :: "pyfloat \<Rightarrow> pyfloat \<Rightarrow> bool" where
  "fle a b = (flt a b \<or> feq a b)"

fun fneg :: "pyfloat \<Rightarrow> pyfloat" where
  "fneg (Fin a) = Fin (- a)"
| "fneg PInf = NInf"
| "fneg NInf = PInf"
| "fneg NaN = NaN"

fun fadd :: "pyfloat \<Rightarrow> pyfloat \<Rightarrow> pyfloat" where
  "fadd (Fin a) (Fin b) = fl (a + b)"
| "fadd NaN _ = NaN"
| "fadd _ NaN = NaN"
| "fadd PInf NInf = NaN"
| "fadd NInf PInf = NaN"
| "fadd PInf _ = PInf"
| "fadd _ PInf = PInf"
| "fadd NInf _ = NInf"
| "fadd _ NInf = NInf"

definition fsub :: "pyfloat \<Rightarrow> pyfloat \<Rightarrow> pyfloat" where
  "fsub a b = fadd a (fneg b)"

text \<open>The infinity with the sign of a nonzero rational; a product of an infinity and zero is a NaN.\<close>

definition inf_of_sgn :: "rat \<Rightarrow> pyfloat" where
  "inf_of_sgn a = (if 0 < a then PInf else if a < 0 then NInf else NaN)"

fun fmul :: "pyfloat \<Rightarrow> pyfloat \<Rightarrow> pyfloat" where
  "fmul (Fin a) (Fin b) = fl (a * b)"
| "fmul NaN _ = NaN"
| "fmul _ NaN = NaN"
| "fmul (Fin a) PInf = inf_of_sgn a"
| "fmul (Fin a) NInf = inf_of_sgn (- a)"
| "fmul PInf (Fin b) = inf_of_sgn b"
| "fmul NInf (Fin b) = inf_of_sgn (- b)"
| "fmul PInf PInf = PInf"
| "fmul NInf NInf = PInf"
| "fmul PInf NInf = NInf"
| "fmul NInf PInf = NInf"

text \<open>The quotient for a nonzero divisor, and Python's operator, which raises on a zero divisor.\<close>

fun fquot :: "pyfloat \<Rightarrow> pyfloat \<Rightarrow> pyfloat" where
  "fquot (Fin a) (Fin b) = fl (a / b)"
| "fquot NaN _ = NaN"
| "fquot _ NaN = NaN"
| "fquot (Fin a) PInf = Fin 0"
| "fquot (Fin a) NInf = Fin 0"
| "fquot PInf (Fin b) = inf_of_sgn b"
| "fquot NInf (Fin b) = inf_of_sgn (- b)"
| "fquot _ _ = NaN"

definition fdiv :: "pyfloat \<Rightarrow> pyfloat \<Rightarrow> pyfloat res" where
  "fdiv a b = (if feq b (Fin 0) then Inl ZeroDivisionError else Inr (fquot a b))"

definition fabs :: "pyfloat \<Rightarrow> pyfloat" where
  "fabs a = (case a of Fin x \<Rightarrow> Fin \<bar>x\<bar> | PInf \<Rightarrow> PInf | NInf \<Rightarrow> PInf | NaN \<Rightarrow> NaN)"

text \<open>
  \<open>max(a, b)\<close> and \<open>min(a, b)\<close> keep the first argument unless the second one compares strictly
  better, so they are not symmetric in a NaN.  \<open>max(xs)\<close> is the left fold of the same rule.
\<close>

definition py_max :: "pyfloat \<Rightarrow> pyfloat \<Rightarrow> pyfloat" where
  "py_max a b = (if flt a b then b else a)"

definition py_min :: "pyfloat \<Rightarrow> pyfloat \<Rightarrow> pyfloat" where
  "py_min a b = (if flt b a then b else a)"

fun py_max_list :: "pyfloat list \<Rightarrow> pyfloat res" where
  "py_max_list [] = Inl (ValueError ''max() iterable argument is empty'')"
| "py_max_list (x # xs) = Inr (foldl py_max x xs)"

text \<open>\<open>float(n)\<close> for an integer, which raises when the integer is beyond the largest double.\<close>

definition float_of_int :: "int \<Rightarrow> pyfloat res" where
  "float_of_int n = (case fl (of_int n) of Fin x \<Rightarrow> Inr (Fin x) | _ \<Rightarrow> Inl OverflowError)"

text \<open>\<open>int(x)\<close>: truncation towards zero; a NaN and an infinity raise.\<close>

fun int_of_float :: "pyfloat \<Rightarrow> int res" where
  "int_of_float (Fin a) = Inr (if 0 \<le> a then \<lfloor>a\<rfloor> else \<lceil>a\<rceil>)"
| "int_of_float NaN = Inl (ValueError ''cannot convert float NaN to integer'')"
| "int_of_float _ = Inl OverflowError"

definition py_sorted :: "pyfloat list \<Rightarrow> pyfloat list" where
  "py_sorted xs = sort_lt flt xs"

subsection \<open>Comparison\<close>

lemma flt_irrefl [simp]: "\<not> flt a a"
  by (cases a) auto

lemma flt_asym: "flt a b \<Longrightarrow> \<not> flt b a"
  by (cases a; cases b) auto

lemma flt_trans: "flt a b \<Longrightarrow> flt b c \<Longrightarrow> flt a c"
  by (cases a; cases b; cases c) auto

lemma flt_NaN [simp]: "\<not> flt NaN a" "\<not> flt a NaN"
  by (cases a; simp)+

lemma feq_iff: "feq a b \<longleftrightarrow> a = b \<and> a \<noteq> NaN"
  by (cases a; cases b) auto

lemma fle_NaN [simp]: "\<not> fle NaN a" "\<not> fle a NaN"
  by (simp_all add: fle_def feq_iff)

lemma fle_refl: "a \<noteq> NaN \<Longrightarrow> fle a a"
  by (simp add: fle_def feq_iff)

lemma fle_trans: "fle a b \<Longrightarrow> fle b c \<Longrightarrow> fle a c"
  by (auto simp: fle_def feq_iff dest: flt_trans)

lemma flt_fle_trans: "flt a b \<Longrightarrow> fle b c \<Longrightarrow> flt a c"
  by (auto simp: fle_def feq_iff dest: flt_trans)

lemma fle_flt_trans: "fle a b \<Longrightarrow> flt b c \<Longrightarrow> flt a c"
  by (auto simp: fle_def feq_iff dest: flt_trans)

lemma fle_antisym: "fle a b \<Longrightarrow> fle b a \<Longrightarrow> a = b"
  by (auto simp: fle_def feq_iff dest: flt_asym)

lemma fle_iff_not_flt: "a \<noteq> NaN \<Longrightarrow> b \<noteq> NaN \<Longrightarrow> fle a b \<longleftrightarrow> \<not> flt b a"
  by (cases a; cases b) (auto simp: fle_def)

lemma fle_linear: "a \<noteq> NaN \<Longrightarrow> b \<noteq> NaN \<Longrightarrow> fle a b \<or> fle b a"
  by (cases a; cases b) (auto simp: fle_def)

lemma flt_imp_fle: "flt a b \<Longrightarrow> fle a b"
  by (simp add: fle_def)

lemma fle_Fin [simp]: "fle (Fin a) (Fin b) \<longleftrightarrow> a \<le> b"
  by (auto simp: fle_def)

lemma fle_PInf [simp]: "fle (Fin a) PInf" "fle NInf (Fin a)" "fle NInf PInf" "fle PInf PInf" "fle NInf NInf"
  "\<not> fle PInf (Fin a)" "\<not> fle (Fin a) NInf" "\<not> fle PInf NInf"
  by (simp_all add: fle_def)

lemma flt_not_NaN: "flt a b \<Longrightarrow> a \<noteq> NaN \<and> b \<noteq> NaN"
  by auto

lemma fle_not_NaN: "fle a b \<Longrightarrow> a \<noteq> NaN \<and> b \<noteq> NaN"
  by auto

text \<open>Without NaN the comparison of floats is one that sorting can rely on.\<close>

interpretation float_order: weak_order_on "\<lambda>x. x \<noteq> NaN" flt
  by unfold_locales (use flt_asym in blast, auto elim!: flt.elims)

lemma py_max_bounds:
  assumes "a \<noteq> NaN" "b \<noteq> NaN"
  shows "fle a (py_max a b)" "fle b (py_max a b)"
  using assms fle_linear by (auto simp: py_max_def fle_refl fle_iff_not_flt dest: flt_asym)

lemma py_max_not_NaN: "a \<noteq> NaN \<Longrightarrow> py_max a b \<noteq> NaN"
  by (auto simp: py_max_def)

lemma py_min_not_NaN: "a \<noteq> NaN \<Longrightarrow> py_min a b \<noteq> NaN"
  by (auto simp: py_min_def)

lemma foldl_py_max_mem: "foldl py_max a xs \<in> insert a (set xs)"
  by (induction xs arbitrary: a) (auto simp: py_max_def split: if_splits)

lemma foldl_py_max_ge:
  assumes "a \<noteq> NaN" "\<forall>x\<in>set xs. x \<noteq> NaN" "y \<in> insert a (set xs)"
  shows "fle y (foldl py_max a xs)"
  using assms
proof (induction xs arbitrary: a y)
  case Nil
  then show ?case by (simp add: fle_refl)
next
  case (Cons x xs)
  then have m: "py_max a x \<noteq> NaN" by (simp add: py_max_not_NaN)
  have top: "fle (py_max a x) (foldl py_max (py_max a x) xs)"
    using Cons.IH [OF m] Cons.prems(2) by simp
  consider "y = a" | "y = x" | "y \<in> set xs" using Cons.prems(3) by auto
  then show ?case
  proof cases
    case 1
    then show ?thesis using py_max_bounds(1) [of a x] top Cons.prems fle_trans by auto
  next
    case 2
    then show ?thesis using py_max_bounds(2) [of a x] top Cons.prems fle_trans by auto
  next
    case 3
    then show ?thesis using Cons.IH [OF m] Cons.prems(2) by simp
  qed
qed

text \<open>The unit interval, and the clamp to it, which also catches a NaN.\<close>

definition in_unit :: "pyfloat \<Rightarrow> bool" where
  "in_unit x \<longleftrightarrow> fle (Fin 0) x \<and> fle x (Fin 1)"

lemma clamp_in_unit: "in_unit (py_max (Fin 0) (py_min (Fin 1) v))"
  by (cases v) (auto simp: in_unit_def py_max_def py_min_def)

lemma in_unit_finite: "in_unit x \<Longrightarrow> isfinite x"
  by (cases x) (auto simp: in_unit_def)

subsection \<open>Rounded arithmetic\<close>

lemma fl_is_f64 [simp]: "is_f64 (fl x)"
  by (auto simp: fl_def Let_def)

lemma fl_not_NaN [simp]: "fl x \<noteq> NaN" "NaN \<noteq> fl x"
  by (simp_all add: fl_def Let_def)

lemma fl_mono: "x \<le> y \<Longrightarrow> fle (fl x) (fl y)"
  using rnd64_mono [of x y] by (auto simp: fl_def Let_def)

lemma fl_exact: "is_f64 (Fin x) \<Longrightarrow> fl x = Fin x"
  by (auto simp: fl_def)

lemma fl_int: "\<bar>n\<bar> \<le> 2 ^ 53 \<Longrightarrow> fl (of_int n) = Fin (of_int n)"
proof -
  assume n: "\<bar>n\<bar> \<le> 2 ^ 53"
  then have "\<bar>of_int n :: rat\<bar> \<le> 2 ^ 53"
    by (metis of_int_abs of_int_le_iff of_int_numeral of_int_power)
  moreover have "(2::rat) ^ 53 < 2 ^ 1024" by (intro power_strict_increasing) auto
  ultimately show ?thesis using rnd64_int_exact [OF n] by (intro fl_exact) auto
qed

lemma fl_const [simp, float_simps]: "fl 0 = Fin 0" "fl 1 = Fin 1"
  using fl_int [of 0] fl_int [of 1] by simp_all

lemma fl_numeral [float_simps]: "numeral n \<le> (2 ^ 53 :: int) \<Longrightarrow> fl (numeral n) = Fin (numeral n)"
  using fl_int [of "numeral n"] by simp

lemma fl_minus_numeral [float_simps]: "numeral n \<le> (2 ^ 53 :: int) \<Longrightarrow> fl (- numeral n) = Fin (- numeral n)"
  using fl_int [of "- numeral n"] by simp

lemma fl_nonneg: "0 \<le> x \<Longrightarrow> fle (Fin 0) (fl x)"
  using fl_mono [of 0 x] by simp

lemma fl_le_1: "x \<le> 1 \<Longrightarrow> fle (fl x) (Fin 1)"
  using fl_mono [of x 1] by simp

lemma fl_unit_fraction: "0 \<le> x \<Longrightarrow> x \<le> y \<Longrightarrow> 0 < y \<Longrightarrow> in_unit (fl (x / y))"
  by (auto simp: in_unit_def intro!: fl_nonneg fl_le_1)

lemma fadd_f64 [simp]: "is_f64 (fadd a b)"
  by (cases a; cases b) auto

lemma fmul_f64 [simp]: "is_f64 (fmul a b)"
  by (cases a; cases b) (auto simp: inf_of_sgn_def)

text \<open>Scaling by a nonnegative finite factor keeps the order of non-NaN values.\<close>

lemma fmul_mono:
  assumes "fle a b" "0 < c"
  shows "fle (fmul a (Fin c)) (fmul b (Fin c))"
proof -
  have "fle (fl x) PInf" "fle NInf (fl x)" for x
    by (auto simp: fl_def Let_def)
  with assms show ?thesis
    by (cases a; cases b) (auto simp: inf_of_sgn_def intro!: fl_mono mult_right_mono)
qed

lemma fmul_nonneg: "fle (Fin 0) a \<Longrightarrow> 0 < c \<Longrightarrow> fle (Fin 0) (fmul a (Fin c))"
  using fmul_mono [of "Fin 0" a c] by simp

subsection \<open>Sorting floats\<close>

lemma set_py_sorted [simp]: "set (py_sorted xs) = set xs"
  by (simp add: py_sorted_def)

lemma length_py_sorted [simp]: "length (py_sorted xs) = length xs"
  by (simp add: py_sorted_def)

lemma py_sorted_mono:
  assumes "\<forall>x\<in>set xs. x \<noteq> NaN" "i \<le> j" "j < length xs"
  shows "fle (py_sorted xs ! i) (py_sorted xs ! j)"
proof -
  have mem: "py_sorted xs ! k \<noteq> NaN" if "k < length xs" for k
    using assms(1) that by (metis length_py_sorted nth_mem set_py_sorted)
  show ?thesis
  proof (cases "i = j")
    case True
    with assms mem show ?thesis by (simp add: fle_refl)
  next
    case False
    with assms have "\<not> flt (py_sorted xs ! j) (py_sorted xs ! i)"
      using float_order.sorted_sort [OF assms(1)]
      by (auto simp: py_sorted_def sorted_wrt_iff_nth_less)
    with assms mem [of i] mem [of j] show ?thesis by (simp add: fle_iff_not_flt)
  qed
qed

text \<open>Sums of nonnegative floats keep an order.\<close>

lemma fadd_nonneg_mono:
  assumes "fle (Fin 0) a" "fle a b" "fle (Fin 0) c" "fle c d"
  shows "fle (Fin 0) (fadd a c) \<and> fle (fadd a c) (fadd b d)"
proof -
  have top: "fle (fl x) PInf" for x by (cases "fl x") (auto simp: fl_def Let_def split: if_splits)
  show ?thesis
    using assms top fl_mono fl_nonneg by (cases a; cases b; cases c; cases d) auto
qed

lemma fdiv_positive: "flt (Fin 0) b \<Longrightarrow> fdiv a b = Inr (fquot a b)"
  by (cases b) (auto simp: fdiv_def)

end
