(* ===== verification/PyVal.thy ===== *)
theory PyVal
  imports PyFloat
begin

text \<open>
  Dynamically typed values: what \<open>json.loads\<close> and \<open>msgspec.msgpack.decode\<close> return and what the
  sources then inspect with \<open>isinstance\<close>, \<open>.get\<close>, \<open>float(...)\<close>, \<open>int(...)\<close>, \<open>str(...)\<close> and truth
  tests.  The conversions raise where Python's do.  Strings are lists of characters; a character
  stands for one code point.
\<close>

datatype pyval =
    VNone
  | VBool bool
  | VInt int
  | VFloat pyfloat
  | VStr string
  | VBytes string
  | VList "pyval list"
  | VDict "(string \<times> pyval) list"

type_synonym pydict = "(string \<times> pyval) list"

section \<open>Strings\<close>

definition is_space :: "char \<Rightarrow> bool" where
  "is_space c = (let n = (of_char c :: nat)
                 in (9 \<le> n \<and> n \<le> 13) \<or> (28 \<le> n \<and> n \<le> 32) \<or> n = 133 \<or> n = 160)"

definition lstrip :: "string \<Rightarrow> string" where
  "lstrip s = dropWhile is_space s"

definition strip :: "string \<Rightarrow> string" where
  "strip s = rev (lstrip (rev (lstrip s)))"

definition lower_char :: "char \<Rightarrow> char" where
  "lower_char c = (let n = (of_char c :: nat) in if 65 \<le> n \<and> n \<le> 90 then char_of (n + 32) else c)"

definition lower :: "string \<Rightarrow> string" where
  "lower s = map lower_char s"

fun startswith :: "string \<Rightarrow> string \<Rightarrow> bool" where
  "startswith s [] = True"
| "startswith [] (p # ps) = False"
| "startswith (c # s) (p # ps) = (c = p \<and> startswith s ps)"

text \<open>\<open>s.rstrip("/")\<close>.\<close>

definition rstrip_slash :: "string \<Rightarrow> string" where
  "rstrip_slash s = rev (dropWhile (\<lambda>c. c = CHR ''/'') (rev s))"

text \<open>\<open>s[:n]\<close>, where a negative \<open>n\<close> counts from the end.\<close>

definition slice_to :: "int \<Rightarrow> string \<Rightarrow> string" where
  "slice_to n s = (if 0 \<le> n then take (nat n) s else take (nat (int (length s) + n)) s)"

text \<open>\<open>s.split(",")\<close>: always at least one part.\<close>

fun split_on :: "char \<Rightarrow> string \<Rightarrow> string list" where
  "split_on d [] = [[]]"
| "split_on d (c # s) =
     (if c = d then [] # split_on d s
      else (case split_on d s of [] \<Rightarrow> [[c]] | p # ps \<Rightarrow> (c # p) # ps))"

text \<open>\<open>s.partition(d)\<close> for a one-character separator: head, whether it was found, tail.\<close>

definition partition_at :: "char \<Rightarrow> string \<Rightarrow> string \<times> bool \<times> string" where
  "partition_at d s = (let h = takeWhile (\<lambda>c. c \<noteq> d) s; r = dropWhile (\<lambda>c. c \<noteq> d) s
                       in (h, r \<noteq> [], tl r))"

definition hex_digit :: "nat \<Rightarrow> char" where
  "hex_digit d = (if d < 10 then char_of (48 + d) else char_of (87 + d))"

text \<open>\<open>bytes.hex()\<close>: two lower-case hexadecimal digits per byte.\<close>

definition bytes_hex :: "string \<Rightarrow> string" where
  "bytes_hex b = concat (map (\<lambda>c. [hex_digit (of_char c div 16), hex_digit (of_char c mod 16)]) b)"

section \<open>Numbers in text\<close>

text \<open>A run of digits, single underscores between digits allowed.\<close>

fun digs :: "string \<Rightarrow> string \<times> string" where
  "digs [] = ([], [])"
| "digs (c # cs) =
     (if is_digit c then (case digs cs of (d, r) \<Rightarrow> (c # d, r))
      else if c = CHR ''_'' \<and> cs \<noteq> [] \<and> is_digit (hd cs) then digs cs
      else ([], c # cs))"

definition digs0 :: "string \<Rightarrow> string \<times> string" where
  "digs0 s = (case s of [] \<Rightarrow> ([], []) | c # _ \<Rightarrow> if is_digit c then digs s else ([], s))"

definition take_sign :: "string \<Rightarrow> bool \<times> string" where
  "take_sign s = (case s of [] \<Rightarrow> (False, [])
                  | c # r \<Rightarrow> if c = CHR ''-'' then (True, r) else if c = CHR ''+'' then (False, r) else (False, s))"

text \<open>The exponent part: absent, or \<open>e\<close>, an optional sign and digits to the end.\<close>

definition parse_exp :: "string \<Rightarrow> int option" where
  "parse_exp s = (case s of [] \<Rightarrow> Some 0
     | c # r \<Rightarrow> if c \<noteq> CHR ''e'' \<and> c \<noteq> CHR ''E'' then None
                else (case take_sign r of (neg, r1) \<Rightarrow>
                        (case digs0 r1 of (d, r2) \<Rightarrow>
                           if d = [] \<or> r2 \<noteq> [] then None
                           else Some (if neg then - int (digits_val d) else int (digits_val d)))))"

definition parse_decimal :: "string \<Rightarrow> rat option" where
  "parse_decimal s =
     (case digs0 s of (ip, r) \<Rightarrow>
        let (fp, r2) = (case r of c # r1 \<Rightarrow> if c = CHR ''.'' then digs0 r1 else ([], r) | [] \<Rightarrow> ([], []))
        in if ip = [] \<and> fp = [] then None
           else map_option (\<lambda>e. of_nat (digits_val (ip @ fp)) * 10 powi (e - int (length fp))) (parse_exp r2))"

definition str_to_float :: "string \<Rightarrow> pyfloat res" where
  "str_to_float s0 =
     (case take_sign (strip s0) of (neg, s) \<Rightarrow>
        if lower s \<in> {''inf'', ''infinity''} then Inr (if neg then NInf else PInf)
        else if lower s = ''nan'' then Inr NaN
        else (case parse_decimal s of
                None \<Rightarrow> Inl (ValueError ''could not convert string to float'')
              | Some q \<Rightarrow> Inr (fl (if neg then - q else q))))"

definition str_to_int :: "string \<Rightarrow> int res" where
  "str_to_int s0 =
     (case take_sign (strip s0) of (neg, s) \<Rightarrow>
        (case digs0 s of (d, r) \<Rightarrow>
           if d = [] \<or> r \<noteq> [] then Inl (ValueError ''invalid literal for int()'')
           else Inr (if neg then - int (digits_val d) else int (digits_val d))))"

section \<open>Conversions of dynamic values\<close>

fun py_float :: "pyval \<Rightarrow> pyfloat res" where
  "py_float (VFloat x) = Inr x"
| "py_float (VInt n) = float_of_int n"
| "py_float (VBool b) = Inr (Fin (if b then 1 else 0))"
| "py_float (VStr s) = str_to_float s"
| "py_float (VBytes s) = str_to_float s"
| "py_float _ = Inl TypeError"

fun py_int :: "pyval \<Rightarrow> int res" where
  "py_int (VInt n) = Inr n"
| "py_int (VBool b) = Inr (if b then 1 else 0)"
| "py_int (VFloat x) = int_of_float x"
| "py_int (VStr s) = str_to_int s"
| "py_int (VBytes s) = str_to_int s"
| "py_int _ = Inl TypeError"

text \<open>\<open>try: ... except (TypeError, ValueError): None\<close>; other exceptions pass through.\<close>

fun catch_tv :: "'a res \<Rightarrow> 'a option res" where
  "catch_tv (Inr x) = Inr (Some x)"
| "catch_tv (Inl TypeError) = Inr None"
| "catch_tv (Inl (ValueError m)) = Inr None"
| "catch_tv (Inl e) = Inl e"

text \<open>\<open>float(value)\<close> when it is a finite number, else \<open>None\<close>; an integer too large for a double raises.\<close>

definition coerce_finite_float :: "pyval \<Rightarrow> pyfloat option res" where
  "coerce_finite_float v =
     bindR (catch_tv (py_float v)) (\<lambda>x. Inr (case x of Some y \<Rightarrow> if isfinite y then Some y else None | None \<Rightarrow> None))"

text \<open>The truth value of a dynamic value.\<close>

fun truthy :: "pyval \<Rightarrow> bool" where
  "truthy VNone = False"
| "truthy (VBool b) = b"
| "truthy (VInt n) = (n \<noteq> 0)"
| "truthy (VFloat x) = (\<not> feq x (Fin 0))"
| "truthy (VStr s) = (s \<noteq> [])"
| "truthy (VBytes s) = (s \<noteq> [])"
| "truthy (VList xs) = (xs \<noteq> [])"
| "truthy (VDict d) = (d \<noteq> [])"

text \<open>\<open>a or b\<close> for values.\<close>

definition py_or :: "pyval \<Rightarrow> pyval \<Rightarrow> pyval" where
  "py_or a b = (if truthy a then a else b)"

text \<open>
  Attribute access \<open>v.get(k, default)\<close>: only a dictionary has the method.
\<close>

fun vget :: "pyval \<Rightarrow> string \<Rightarrow> pyval \<Rightarrow> pyval res" where
  "vget (VDict d) k x = Inr (dget_or d k x)"
| "vget _ k x = Inl AttributeError"

text \<open>The subscription \<open>v[k]\<close> with a string key.\<close>

fun vitem :: "pyval \<Rightarrow> string \<Rightarrow> pyval res" where
  "vitem (VDict d) k = (case dget d k of None \<Rightarrow> Inl KeyError | Some v \<Rightarrow> Inr v)"
| "vitem _ k = Inl TypeError"

fun is_dict :: "pyval \<Rightarrow> bool" where
  "is_dict (VDict d) = True"
| "is_dict _ = False"

fun is_list :: "pyval \<Rightarrow> bool" where
  "is_list (VList xs) = True"
| "is_list _ = False"

text \<open>What a \<open>for\<close> loop over the value visits.\<close>

fun py_iter :: "pyval \<Rightarrow> pyval list res" where
  "py_iter (VList xs) = Inr xs"
| "py_iter (VStr s) = Inr (map (\<lambda>c. VStr [c]) s)"
| "py_iter (VBytes s) = Inr (map (\<lambda>c. VInt (of_char c)) s)"
| "py_iter (VDict d) = Inr (map (\<lambda>(k, _). VStr k) d)"
| "py_iter _ = Inl TypeError"

section \<open>The text of a value\<close>

definition ilog10 :: "rat \<Rightarrow> int" where
  "ilog10 x = (case quotient_of x of (p, q) \<Rightarrow>
     let k = int (length (nat_str (nat p))) - int (length (nat_str (nat q)))
     in if 10 powi k \<le> x then k else k - 1)"

text \<open>The shortest decimal that rounds to the double: mantissa and power of ten.\<close>

definition short_dec :: "rat \<Rightarrow> int \<times> int" where
  "short_dec x = (let e = ilog10 x;
       c = (\<lambda>n. (rne (x / 10 powi (e - int n + 1)), e - int n + 1))
     in case find (\<lambda>n. rnd64 (of_int (fst (c n)) * 10 powi snd (c n)) = x) [1..<17] of
          Some n \<Rightarrow> c n | None \<Rightarrow> c 17)"

definition rstrip0 :: "string \<Rightarrow> string" where
  "rstrip0 s = rev (dropWhile (\<lambda>c. c = CHR ''0'') (rev s))"

definition pos_float_repr :: "rat \<Rightarrow> string" where
  "pos_float_repr x = (case short_dec x of (m, k) \<Rightarrow>
     let all = nat_str (nat m); ds = rstrip0 all; n = int (length ds);
         pt = int (length all) + k
     in if - 4 < pt \<and> pt \<le> 16
        then (if pt \<le> 0 then ''0.'' @ replicate (nat (- pt)) (CHR ''0'') @ ds
              else if n \<le> pt then ds @ replicate (nat (pt - n)) (CHR ''0'') @ ''.0''
              else take (nat pt) ds @ ''.'' @ drop (nat pt) ds)
        else take 1 ds @ (if 1 < n then ''.'' @ drop 1 ds else []) @ ''e'' @
             (if pt - 1 < 0 then ''-'' else ''+'') @ pad_left 2 (CHR ''0'') (nat_str (nat \<bar>pt - 1\<bar>)))"

definition float_repr :: "pyfloat \<Rightarrow> string" where
  "float_repr x = (case x of NaN \<Rightarrow> ''nan'' | PInf \<Rightarrow> ''inf'' | NInf \<Rightarrow> ''-inf''
     | Fin a \<Rightarrow> if a = 0 then ''0.0'' else if a < 0 then CHR ''-'' # pos_float_repr (- a) else pos_float_repr a)"

definition repr_char :: "char \<Rightarrow> char \<Rightarrow> string" where
  "repr_char q c = (let n = (of_char c :: nat) in
     if c = q \<or> n = 92 then [char_of (92::nat), c]
     else if n = 9 then [char_of (92::nat), CHR ''t'']
     else if n = 10 then [char_of (92::nat), CHR ''n'']
     else if n = 13 then [char_of (92::nat), CHR ''r'']
     else if n < 32 \<or> (127 \<le> n \<and> n \<le> 160) \<or> n = 173
       then [char_of (92::nat), CHR ''x'', hex_digit (n div 16), hex_digit (n mod 16)]
     else [c])"

definition repr_str :: "string \<Rightarrow> string" where
  "repr_str s = (let sq = char_of (39::nat); dq = char_of (34::nat);
       q = (if sq \<in> set s \<and> dq \<notin> set s then dq else sq)
     in q # concat (map (repr_char q) s) @ [q])"

fun join :: "string \<Rightarrow> string list \<Rightarrow> string" where
  "join d [] = []"
| "join d [s] = s"
| "join d (s # t # ts) = s @ d @ join d (t # ts)"

fun py_repr :: "pyval \<Rightarrow> string" where
  "py_repr VNone = ''None''"
| "py_repr (VBool b) = (if b then ''True'' else ''False'')"
| "py_repr (VInt n) = int_str n"
| "py_repr (VFloat x) = float_repr x"
| "py_repr (VStr s) = repr_str s"
| "py_repr (VBytes s) = CHR ''b'' # repr_str s"
| "py_repr (VList xs) = ''['' @ join '', '' (map py_repr xs) @ '']''"
| "py_repr (VDict d) = ''{'' @ join '', '' (map (\<lambda>(k, v). repr_str k @ '': '' @ py_repr v) d) @ ''}''"

fun py_str :: "pyval \<Rightarrow> string" where
  "py_str (VStr s) = s"
| "py_str v = py_repr v"

section \<open>Facts\<close>

lemma split_on_absent: "d \<notin> set s \<Longrightarrow> split_on d s = [s]"
  by (induction s) auto

lemma split_on_at: "d \<notin> set s \<Longrightarrow> split_on d (s @ d # t) = s # split_on d t"
  by (induction s) auto

lemma coerce_finite_float_simps [simp]:
  "coerce_finite_float VNone = Inr None"
  "coerce_finite_float (VFloat x) = Inr (if isfinite x then Some x else None)"
  by (simp_all add: coerce_finite_float_def)

lemma coerce_finite_float_finite: "coerce_finite_float v = Inr (Some x) \<Longrightarrow> isfinite x"
  by (auto simp: coerce_finite_float_def bindR_eq_Inr split: option.splits if_splits)

lemma vget_eq_Inr [res_simps]: "vget v k x = Inr y \<longleftrightarrow> (\<exists>d. v = VDict d \<and> y = dget_or d k x)"
  by (cases v) auto

lemma vitem_eq_Inr [res_simps]: "vitem v k = Inr y \<longleftrightarrow> (\<exists>d. v = VDict d \<and> dget d k = Some y)"
  by (cases v) (auto split: option.splits)

lemma strip_Nil [simp]: "strip [] = []"
  by (simp add: strip_def lstrip_def)

lemma digs_all_digits:
  assumes "\<forall>c\<in>set d. is_digit c" "r = [] \<or> \<not> is_digit (hd r) \<and> hd r \<noteq> CHR ''_''"
  shows "digs (d @ r) = (d, r)"
  using assms by (induction d) (cases r; auto)+

lemma space_not_digit: "is_digit c \<Longrightarrow> \<not> is_space c"
  by (auto simp: is_space_def is_digit_def Let_def)

lemma lstrip_digits: "\<forall>c\<in>set d. is_digit c \<Longrightarrow> lstrip d = d"
  by (cases d) (auto simp: lstrip_def space_not_digit)

lemma strip_digits: "\<forall>c\<in>set d. is_digit c \<Longrightarrow> strip d = d"
  by (simp add: strip_def lstrip_digits)

text \<open>\<open>int(str(n)) == n\<close> for nonnegative integers.\<close>

lemma str_to_int_nat_str: "str_to_int (nat_str n) = Inr (int n)"
proof -
  have d: "\<forall>c\<in>set (nat_str n). is_digit c" using nat_str_digits by blast
  then obtain c s where cs: "nat_str n = c # s" "is_digit c"
    by (metis list.set_intros(1) nat_str_nonempty neq_Nil_conv)
  then have "c \<noteq> CHR ''-''" "c \<noteq> CHR ''+''"
    by (auto simp: is_digit_def)
  with cs have sign: "take_sign (nat_str n) = (False, nat_str n)" by (simp add: take_sign_def)
  have "digs0 (nat_str n) = (nat_str n, [])"
    using digs_all_digits [OF d, of "[]"] cs by (simp add: digs0_def)
  then show ?thesis by (simp add: str_to_int_def strip_digits [OF d] sign)
qed

lemma hex_digit_inject: "a < 16 \<Longrightarrow> b < 16 \<Longrightarrow> hex_digit a = hex_digit b \<Longrightarrow> a = b"
proof -
  assume a: "a < 16" and b: "b < 16" and e: "hex_digit a = hex_digit b"
  have v: "(of_char (hex_digit d) :: nat) = (if d < 10 then 48 + d else 87 + d)" if "d < 16" for d
    using that by (simp add: hex_digit_def of_char_of)
  have "(of_char (hex_digit a) :: nat) = of_char (hex_digit b)" using e by simp
  with v [OF a] v [OF b] a b show "a = b" by (auto split: if_splits)
qed

lemma bytes_hex_inject: "bytes_hex a = bytes_hex b \<Longrightarrow> a = b"
proof (induction a arbitrary: b)
  case Nil
  then show ?case by (cases b) (auto simp: bytes_hex_def)
next
  case (Cons c a)
  then obtain d b' where b: "b = d # b'" by (cases b) (auto simp: bytes_hex_def)
  have lt: "(of_char x :: nat) < 256" for x :: char
    by (rule of_char_mod_256 [THEN subst, of "\<lambda>n. n < 256"]) simp
  from Cons.prems b have "hex_digit (of_char c div 16) = hex_digit (of_char d div 16)"
    and "hex_digit (of_char c mod 16) = hex_digit (of_char d mod 16)" and rest: "bytes_hex a = bytes_hex b'"
    by (auto simp: bytes_hex_def)
  then have "(of_char c :: nat) div 16 = of_char d div 16" and "(of_char c :: nat) mod 16 = of_char d mod 16"
    using lt [of c] lt [of d] by (auto intro!: hex_digit_inject simp: less_mult_imp_div_less)
  then have "(of_char c :: nat) = of_char d" by (metis div_mult_mod_eq)
  then have "c = d" by simp
  with Cons.IH [OF rest] b show ?case by simp
qed

end
