(* ===== verification/KvEvents.thy ===== *)
theory KvEvents
  imports PyVal "HOL-Library.Word"
begin

text \<open>
  \<open>engine_events/vllm.py\<close>, first half: the adapter that turns vLLM KV-cache event batches into
  Kavora cache events.  The record \<open>adapter\<close> is the object's attributes; the checkpoint file, which
  outlives the process, is its last field.  \<open>prepare\<close> decodes and validates a batch without
  touching the state, \<open>commit\<close> advances it and writes the checkpoint.  The msgpack decoder is a
  third-party library and stays a parameter \<open>decode\<close>.
\<close>

section \<open>Data\<close>

text \<open>The file at \<open>checkpoint_path\<close>: absent, not JSON, or a JSON document.\<close>

datatype ckpt_file = NoFile | BadJson | JsonFile pyval

record adapter =
  ad_backend_id :: string
  configured_generation :: string
  ad_generation :: string
  last_sequence :: "int option"
  last_timestamp :: pyfloat
  checkpoint :: ckpt_file

record cache_event =
  ev_operation :: string
  ev_backend_id :: string
  ev_cache_key :: string
  ev_matched_tokens :: int
  ev_total_tokens :: int
  ev_sequence :: int
  ev_has_sequence :: bool
  ev_generation :: string
  ev_engine_event_id :: string
  ev_observed_at :: string
  ev_quality :: string

record prepared_batch =
  pb_sequence :: int
  pb_timestamp :: pyfloat
  pb_generation :: string
  pb_events :: "cache_event list"
  pb_duplicate :: bool

section \<open>Checkpoints\<close>

text \<open>The equality of a decoded value with a string attribute.\<close>

definition veq_str :: "pyval option \<Rightarrow> string \<Rightarrow> bool" where
  "veq_str v s = (v = Some (VStr s))"

definition load_checkpoint :: "adapter \<Rightarrow> adapter res" where
  "load_checkpoint a = (case checkpoint a of
     NoFile \<Rightarrow> Inr a
   | BadJson \<Rightarrow> Inl (ValueError ''json'')
   | JsonFile (VDict value) \<Rightarrow>
       if \<not> veq_str (dget value ''backend_id'') (ad_backend_id a) \<or>
          \<not> veq_str (case dget value ''configured_generation'' of
                       Some g \<Rightarrow> Some g | None \<Rightarrow> dget value ''generation'')
                    (configured_generation a)
       then Inr a
       else bindR (vitem (VDict value) ''last_sequence'') (\<lambda>ls.
            bindR (py_int ls) (\<lambda>n.
            bindR (py_float (dget_or value ''last_timestamp'' (VInt 0))) (\<lambda>ts.
            Inr (a\<lparr>ad_generation := py_str (dget_or value ''generation'' (VStr (configured_generation a))),
                   last_sequence := Some n, last_timestamp := ts\<rparr>))))
   | JsonFile _ \<Rightarrow> Inl AttributeError)"

definition new_adapter :: "string \<Rightarrow> string \<Rightarrow> ckpt_file \<Rightarrow> adapter res" where
  "new_adapter bid gen file =
     guardR (bid = [] \<or> gen = []) (ValueError ''backend_id and generation are required'')
       (load_checkpoint \<lparr>ad_backend_id = bid, configured_generation = gen, ad_generation = gen,
          last_sequence = None, last_timestamp = Fin 0, checkpoint = file\<rparr>)"

definition checkpoint_doc :: "adapter \<Rightarrow> pyval" where
  "checkpoint_doc a = VDict
     [(''backend_id'', VStr (ad_backend_id a)),
      (''configured_generation'', VStr (configured_generation a)),
      (''generation'', VStr (ad_generation a)),
      (''last_sequence'', case last_sequence a of None \<Rightarrow> VNone | Some n \<Rightarrow> VInt n),
      (''last_timestamp'', VFloat (last_timestamp a))]"

text \<open>
  The document is written to a temporary file that \<open>os.replace\<close> then moves over the checkpoint, so
  the file changes only when the whole write succeeded.
\<close>

definition save_checkpoint :: "bool \<Rightarrow> adapter \<Rightarrow> unit res \<times> adapter" where
  "save_checkpoint disk_ok a =
     (if disk_ok then (Inr (), a\<lparr>checkpoint := JsonFile (checkpoint_doc a)\<rparr>) else (Inl OSError, a))"

section \<open>Time stamps and keys\<close>

text \<open>
  \<open>time.gmtime\<close> on the whole seconds: year, month and day of a day number counted from 1970-01-01 in
  the proleptic Gregorian calendar.
\<close>

definition civil_from_days :: "int \<Rightarrow> int \<times> int \<times> int" where
  "civil_from_days days =
     (let z = days + 719468; era = z div 146097; doe = z mod 146097;
          yoe = (doe - doe div 1460 + doe div 36524 - doe div 146096) div 365;
          doy = doe - (365 * yoe + yoe div 4 - yoe div 100);
          mp = (5 * doy + 2) div 153;
          d = doy - (153 * mp + 2) div 5 + 1;
          m = (if mp < 10 then mp + 3 else mp - 9);
          y = yoe + era * 400
      in (if m \<le> 2 then y + 1 else y, m, d))"

definition pad2 :: "int \<Rightarrow> string" where
  "pad2 n = pad_left 2 (CHR ''0'') (int_str n)"

text \<open>
  \<open>gmtime\<close> rejects a value outside a 64-bit \<open>time_t\<close>, and one whose year does not fit the \<open>int\<close> that
  counts years from 1900.
\<close>

definition strftime_utc :: "int \<Rightarrow> string res" where
  "strftime_utc secs =
     (if secs < - (2 ^ 63) \<or> 2 ^ 63 \<le> secs then Inl OverflowError
      else (case civil_from_days (secs div 86400) of (y, m, d) \<Rightarrow>
        let s = secs mod 86400
        in if y - 1900 < - (2 ^ 31) \<or> 2 ^ 31 \<le> y - 1900 then Inl OSError
           else Inr (int_str y @ ''-'' @ pad2 m @ ''-'' @ pad2 d @ ''T'' @ pad2 (s div 3600) @ '':'' @
                     pad2 (s div 60 mod 60) @ '':'' @ pad2 (s mod 60))))"

fun gmtime_floor :: "pyfloat \<Rightarrow> int res" where
  "gmtime_floor (Fin x) = Inr \<lfloor>x\<rfloor>"
| "gmtime_floor NaN = Inl (ValueError ''Invalid value NaN (not a number)'')"
| "gmtime_floor _ = Inl OverflowError"

definition rfc3339 :: "pyfloat \<Rightarrow> string res" where
  "rfc3339 timestamp =
     bindR (gmtime_floor timestamp) (\<lambda>secs.
     bindR (strftime_utc secs) (\<lambda>seconds.
     bindR (int_of_float timestamp) (\<lambda>whole.
     bindR (float_of_int whole) (\<lambda>w.
     bindR (int_of_float (fmul (fsub timestamp w) (Fin 1000))) (\<lambda>milliseconds.
     Inr (seconds @ ''.'' @ pad_left 3 (CHR ''0'') (int_str milliseconds) @ ''Z''))))))"

text \<open>A Python \<open>bool\<close> is an \<open>int\<close>, so a boolean block hash is accepted and printed as a word.\<close>

fun cache_key :: "pyval \<Rightarrow> string res" where
  "cache_key (VBytes b) = Inr (''vllm:block:'' @ bytes_hex b)"
| "cache_key (VBool b) = Inr (''vllm:block:'' @ (if b then ''True'' else ''False''))"
| "cache_key (VInt n) =
     (if 0 \<le> n then Inr (''vllm:block:'' @ int_str n)
      else Inl (ValueError ''vLLM block hash must be bytes or a non-negative integer''))"
| "cache_key _ = Inl (ValueError ''vLLM block hash must be bytes or a non-negative integer'')"

section \<open>Decoding a batch\<close>

definition engine_event_id :: "string \<Rightarrow> int \<Rightarrow> int \<Rightarrow> string" where
  "engine_event_id generation sequence event_index =
     generation @ '':'' @ int_str sequence @ '':'' @ int_str event_index"

definition mk_event ::
  "adapter \<Rightarrow> string \<Rightarrow> int \<Rightarrow> string \<Rightarrow> int \<Rightarrow> pyfloat \<Rightarrow> string \<Rightarrow> int \<Rightarrow> int \<Rightarrow> cache_event res" where
  "mk_event a operation sequence generation event_index timestamp key matched_toks total_toks =
     bindR (rfc3339 timestamp) (\<lambda>observed. Inr
       \<lparr>ev_operation = operation, ev_backend_id = ad_backend_id a, ev_cache_key = key,
        ev_matched_tokens = matched_toks, ev_total_tokens = total_toks, ev_sequence = sequence,
        ev_has_sequence = True, ev_generation = generation,
        ev_engine_event_id = engine_event_id generation sequence event_index,
        ev_observed_at = observed, ev_quality = ''fresh''\<rparr>)"

text \<open>One event per block of a stored or removed batch entry.\<close>

definition block_events ::
  "adapter \<Rightarrow> string \<Rightarrow> int \<Rightarrow> string \<Rightarrow> nat \<Rightarrow> pyfloat \<Rightarrow> int \<Rightarrow> pyval list \<Rightarrow> cache_event list res" where
  "block_events a operation sequence generation event_index timestamp tokens blocks =
     mapR (\<lambda>(block_index, block_hash).
             bindR (cache_key block_hash) (\<lambda>key.
             mk_event a operation sequence generation
               (int event_index * 1000000 + int block_index) timestamp key tokens tokens))
          (List.enumerate 0 blocks)"

definition raw_events ::
  "adapter \<Rightarrow> int \<Rightarrow> string \<Rightarrow> pyfloat \<Rightarrow> nat \<Rightarrow> pyval \<Rightarrow> cache_event list res" where
  "raw_events a sequence generation timestamp event_index raw =
     (case raw of
        VList (event_type # rest) \<Rightarrow>
          if event_type = VStr ''BlockStored'' then
            (case rest of
               VList blocks # _ # _ # bsize # _ \<Rightarrow>
                 bindR (py_int bsize) (\<lambda>block_size.
                 guardR (block_size \<le> 0) (ValueError ''BlockStored block_size must be positive'')
                   (block_events a ''store'' sequence generation event_index timestamp block_size blocks))
             | _ \<Rightarrow> Inl (ValueError ''invalid BlockStored event''))
          else if event_type = VStr ''BlockRemoved'' then
            (case rest of
               VList blocks # _ \<Rightarrow>
                 block_events a ''remove'' sequence generation event_index timestamp 0 blocks
             | _ \<Rightarrow> Inl (ValueError ''invalid BlockRemoved event''))
          else if event_type = VStr ''AllBlocksCleared'' then
            bindR (mk_event a ''clear'' sequence generation (int event_index * 1000000) timestamp [] 0 0)
              (\<lambda>e. Inr [e])
          else Inl (ValueError (''unsupported vLLM KV event type '' @ py_repr event_type))
      | _ \<Rightarrow> Inl (ValueError ''invalid vLLM KV event''))"

definition is_restart :: "adapter \<Rightarrow> int \<Rightarrow> pyfloat \<Rightarrow> bool" where
  "is_restart a sequence timestamp =
     (last_sequence a \<noteq> None \<and> sequence = 0 \<and> flt (last_timestamp a) timestamp)"

definition collect_events ::
  "adapter \<Rightarrow> int \<Rightarrow> string \<Rightarrow> pyfloat \<Rightarrow> bool \<Rightarrow> pyval list \<Rightarrow> cache_event list res" where
  "collect_events a sequence generation timestamp restart raws =
     bindR (if restart then bindR (mk_event a ''clear'' sequence generation 0 timestamp [] 0 0) (\<lambda>e. Inr [e])
            else Inr []) (\<lambda>first.
     bindR (mapR (\<lambda>(event_index, raw). raw_events a sequence generation timestamp event_index raw)
                 (List.enumerate 1 raws)) (\<lambda>rest.
     Inr (first @ concat rest)))"

definition fresh_batch ::
  "adapter \<Rightarrow> int \<Rightarrow> pyfloat \<Rightarrow> string \<Rightarrow> bool \<Rightarrow> pyval list \<Rightarrow> prepared_batch res" where
  "fresh_batch a sequence timestamp generation restart raws =
     bindR (collect_events a sequence generation timestamp restart raws) (\<lambda>events.
     Inr \<lparr>pb_sequence = sequence, pb_timestamp = timestamp, pb_generation = generation,
          pb_events = events, pb_duplicate = False\<rparr>)"

definition prepare_batch :: "adapter \<Rightarrow> int \<Rightarrow> pyval \<Rightarrow> prepared_batch res" where
  "prepare_batch a sequence batch =
     (case batch of
        VList (t # VList raws # _) \<Rightarrow>
          bindR (py_float t) (\<lambda>timestamp.
          guardR (\<not> (0 \<le> sequence \<and> sequence < 2 ^ 64) \<or> \<not> fle (Fin 0) timestamp)
                 (ValueError ''invalid vLLM sequence or timestamp'')
          (if is_restart a sequence timestamp
           then bindR (int_of_float (fmul timestamp (Fin 1000))) (\<lambda>ms.
                  fresh_batch a sequence timestamp (''auto-'' @ int_str ms) True raws)
           else (case last_sequence a of
                   None \<Rightarrow> fresh_batch a sequence timestamp (ad_generation a) False raws
                 | Some n \<Rightarrow>
                     if sequence \<le> n
                     then Inr \<lparr>pb_sequence = sequence, pb_timestamp = timestamp,
                               pb_generation = ad_generation a, pb_events = [], pb_duplicate = True\<rparr>
                     else if sequence \<noteq> n + 1 then Inl (SequenceGap (n + 1) sequence)
                     else fresh_batch a sequence timestamp (ad_generation a) False raws)))
      | _ \<Rightarrow> Inl (ValueError ''invalid vLLM KV EventBatch payload''))"

definition prepare :: "(string \<Rightarrow> pyval res) \<Rightarrow> adapter \<Rightarrow> int \<Rightarrow> string \<Rightarrow> prepared_batch res" where
  "prepare decode a sequence payload = bindR (decode payload) (prepare_batch a sequence)"

definition commit :: "bool \<Rightarrow> adapter \<Rightarrow> prepared_batch \<Rightarrow> unit res \<times> adapter" where
  "commit disk_ok a prepared =
     (if pb_duplicate prepared then (Inr (), a)
      else save_checkpoint disk_ok
             (a\<lparr>ad_generation := pb_generation prepared,
                last_sequence := Some (pb_sequence prepared),
                last_timestamp := pb_timestamp prepared\<rparr>))"

text \<open>\<open>process\<close>: prepare, commit, and hand out the events.\<close>

definition process ::
  "(string \<Rightarrow> pyval res) \<Rightarrow> bool \<Rightarrow> adapter \<Rightarrow> int \<Rightarrow> string \<Rightarrow> cache_event list res \<times> adapter" where
  "process decode disk_ok a sequence payload =
     (case prepare decode a sequence payload of
        Inl e \<Rightarrow> (Inl e, a)
      | Inr prepared \<Rightarrow>
          (case commit disk_ok a prepared of
             (Inl e, a') \<Rightarrow> (Inl e, a')
           | (Inr _, a') \<Rightarrow> (Inr (pb_events prepared), a')))"

section \<open>Events of a batch\<close>

text \<open>The fields every event of a batch shares.\<close>

definition stamped :: "adapter \<Rightarrow> int \<Rightarrow> string \<Rightarrow> cache_event \<Rightarrow> bool" where
  "stamped a sequence generation e \<longleftrightarrow>
     ev_backend_id e = ad_backend_id a \<and> ev_sequence e = sequence \<and> ev_has_sequence e \<and>
     ev_generation e = generation \<and> ev_quality e = ''fresh'' \<and>
     (\<exists>i \<ge> 0. ev_engine_event_id e = engine_event_id generation sequence i)"

lemma mk_event_id:
  "mk_event a opn sq gen i ts key m t = Inr e \<Longrightarrow> ev_engine_event_id e = engine_event_id gen sq i"
  by (auto simp: mk_event_def bindR_eq_Inr)

lemma mk_event_stamped:
  "mk_event a opn sq gen i ts key m t = Inr e \<Longrightarrow> 0 \<le> i \<Longrightarrow> stamped a sq gen e"
  by (auto simp: mk_event_def bindR_eq_Inr stamped_def)

lemma block_events_ids:
  assumes "block_events a opn sq gen ei ts toks blocks = Inr es"
  shows "map ev_engine_event_id es =
           map (\<lambda>b. engine_event_id gen sq (int ei * 1000000 + int b)) [0..<length blocks]"
proof (rule nth_equalityI)
  note as = assms [unfolded block_events_def]
  have len: "length es = length blocks" using mapR_Inr_length [OF as] by simp
  then show "length (map ev_engine_event_id es) =
      length (map (\<lambda>b. engine_event_id gen sq (int ei * 1000000 + int b)) [0..<length blocks])" by simp
  fix i assume "i < length (map ev_engine_event_id es)"
  with len mapR_Inr_nth [OF as, of i]
  show "map ev_engine_event_id es ! i =
      map (\<lambda>b. engine_event_id gen sq (int ei * 1000000 + int b)) [0..<length blocks] ! i"
    by (auto simp: nth_enumerate_eq bindR_eq_Inr dest: mk_event_id)
qed

lemma block_events_stamped:
  assumes "block_events a opn sq gen ei ts toks blocks = Inr es" "e \<in> set es"
  shows "stamped a sq gen e"
  using mapR_Inr_set [OF assms(1) [unfolded block_events_def] assms(2)]
  by (auto simp: bindR_eq_Inr elim!: mk_event_stamped)

text \<open>The block list of a raw event, empty for an event without one.\<close>

definition raw_blocks :: "pyval \<Rightarrow> pyval list" where
  "raw_blocks raw = (case raw of VList (_ # VList blocks # _) \<Rightarrow> blocks | _ \<Rightarrow> [])"

lemma raw_events_cases:
  assumes "raw_events a sq gen ts ei raw = Inr es"
  obtains (blocks) opn toks where "block_events a opn sq gen ei ts toks (raw_blocks raw) = Inr es"
  | (clear) e where "mk_event a ''clear'' sq gen (int ei * 1000000) ts [] 0 0 = Inr e" "es = [e]"
  using assms
  by (auto simp: raw_events_def raw_blocks_def bindR_eq_Inr guardR_def
      split: pyval.splits list.splits if_splits)

lemma raw_events_stamped:
  "raw_events a sq gen ts ei raw = Inr es \<Longrightarrow> e \<in> set es \<Longrightarrow> stamped a sq gen e"
  by (erule raw_events_cases) (auto dest: block_events_stamped mk_event_stamped)

text \<open>The index inside the identifier stays in the window of its raw event.\<close>

lemma raw_events_ids:
  assumes "raw_events a sq gen ts ei raw = Inr es" "length (raw_blocks raw) \<le> 1000000"
  shows "\<exists>is. map ev_engine_event_id es = map (engine_event_id gen sq) is \<and> distinct is \<and>
              (\<forall>i\<in>set is. int ei * 1000000 \<le> i \<and> i < (int ei + 1) * 1000000)"
  using assms(1)
proof (cases rule: raw_events_cases)
  case (blocks opn toks)
  let ?is = "map (\<lambda>b. int ei * 1000000 + int b) [0..<length (raw_blocks raw)]"
  have "map ev_engine_event_id es = map (engine_event_id gen sq) ?is"
    using block_events_ids [OF blocks] by simp
  moreover have "distinct ?is" by (simp add: distinct_map inj_on_def)
  moreover have "\<forall>i\<in>set ?is. int ei * 1000000 \<le> i \<and> i < (int ei + 1) * 1000000"
    using assms(2) by auto
  ultimately show ?thesis by blast
next
  case (clear e)
  then show ?thesis by (intro exI [of _ "[int ei * 1000000]"]) (auto dest: mk_event_id)
qed

lemma raws_ids:
  assumes "mapR (\<lambda>(ei, raw). raw_events a sq gen ts ei raw) (List.enumerate n raws) = Inr ess"
    and "\<forall>raw\<in>set raws. length (raw_blocks raw) \<le> 1000000"
  shows "\<exists>is. map ev_engine_event_id (concat ess) = map (engine_event_id gen sq) is \<and> distinct is \<and>
              (\<forall>i\<in>set is. int n * 1000000 \<le> i)"
  using assms
proof (induction raws arbitrary: n ess)
  case Nil
  then show ?case by simp
next
  case (Cons raw raws)
  from Cons.prems(1) obtain es ess' where e: "raw_events a sq gen ts n raw = Inr es"
    and r: "mapR (\<lambda>(ei, raw). raw_events a sq gen ts ei raw) (List.enumerate (Suc n) raws) = Inr ess'"
    and ess: "ess = es # ess'" by (auto simp: bindR_eq_Inr)
  from raw_events_ids [OF e] Cons.prems(2) obtain js where
    js: "map ev_engine_event_id es = map (engine_event_id gen sq) js" "distinct js"
      "\<forall>i\<in>set js. int n * 1000000 \<le> i \<and> i < (int n + 1) * 1000000" by auto
  from Cons.IH [OF r] Cons.prems(2) obtain ks where
    ks: "map ev_engine_event_id (concat ess') = map (engine_event_id gen sq) ks" "distinct ks"
      "\<forall>i\<in>set ks. int (Suc n) * 1000000 \<le> i" by auto
  have "set js \<inter> set ks = {}" using js(3) ks(3) by fastforce
  with js ks ess show ?case by (intro exI [of _ "js @ ks"]) fastforce
qed

lemma colon_split:
  assumes "CHR '':'' \<notin> set s" "CHR '':'' \<notin> set t" "g @ '':'' @ s = h @ '':'' @ t"
  shows "g = h \<and> s = t"
  using assms by (auto simp: append_eq_append_conv2 append_eq_Cons_conv Cons_eq_append_conv)

lemma engine_event_id_inject:
  "engine_event_id g s i = engine_event_id h t j \<longleftrightarrow> g = h \<and> s = t \<and> i = j"
proof
  assume "engine_event_id g s i = engine_event_id h t j"
  then have "(g @ '':'' @ int_str s) @ '':'' @ int_str i = (h @ '':'' @ int_str t) @ '':'' @ int_str j"
    by (simp add: engine_event_id_def)
  from colon_split [OF int_str_no_colon int_str_no_colon this]
  have "g @ '':'' @ int_str s = h @ '':'' @ int_str t" and "i = j" by simp_all
  with colon_split [OF int_str_no_colon int_str_no_colon this(1)] show "g = h \<and> s = t \<and> i = j" by simp
qed simp

lemma collect_events_stamped:
  assumes "collect_events a sq gen ts r raws = Inr es" "e \<in> set es"
  shows "stamped a sq gen e"
proof -
  from assms(1) obtain f rest where f: "(if r then bindR (mk_event a ''clear'' sq gen 0 ts [] 0 0) (\<lambda>e. Inr [e])
            else Inr []) = Inr f"
    and rest: "mapR (\<lambda>(ei, raw). raw_events a sq gen ts ei raw) (List.enumerate 1 raws) = Inr rest"
    and es: "es = f @ concat rest" by (auto simp: collect_events_def bindR_eq_Inr)
  show ?thesis
  proof (cases "e \<in> set f")
    case True
    with f show ?thesis by (auto simp: bindR_eq_Inr split: if_splits dest: mk_event_stamped)
  next
    case False
    with es assms(2) obtain es' where "es' \<in> set rest" "e \<in> set es'" by auto
    with mapR_Inr_set [OF rest] show ?thesis by (fastforce dest: raw_events_stamped)
  qed
qed

lemma collect_events_distinct:
  assumes "collect_events a sq gen ts r raws = Inr es"
    and "\<forall>raw\<in>set raws. length (raw_blocks raw) \<le> 1000000"
  shows "distinct (map ev_engine_event_id es)"
proof -
  from assms(1) obtain f rest where f: "(if r then bindR (mk_event a ''clear'' sq gen 0 ts [] 0 0) (\<lambda>e. Inr [e])
            else Inr []) = Inr f"
    and rest: "mapR (\<lambda>(ei, raw). raw_events a sq gen ts ei raw) (List.enumerate 1 raws) = Inr rest"
    and es: "es = f @ concat rest" by (auto simp: collect_events_def bindR_eq_Inr)
  from raws_ids [OF rest assms(2)] obtain ks where
    ks: "map ev_engine_event_id (concat rest) = map (engine_event_id gen sq) ks" "distinct ks"
      "\<forall>i\<in>set ks. int 1 * 1000000 \<le> i" by blast
  have inj: "distinct (map (engine_event_id gen sq) js) \<longleftrightarrow> distinct js" for js
    by (simp add: distinct_map inj_on_def engine_event_id_inject)
  have "map ev_engine_event_id f = map (engine_event_id gen sq) (if r then [0] else [])"
    using f by (auto simp: bindR_eq_Inr split: if_splits dest: mk_event_id)
  then have "map ev_engine_event_id es = map (engine_event_id gen sq) ((if r then [0] else []) @ ks)"
    using ks(1) es by simp
  moreover have "distinct ((if r then [0] else []) @ ks)" using ks by auto
  ultimately show ?thesis using inj by metis
qed

section \<open>What a prepared batch is\<close>

text \<open>
  A successful preparation is one of four things: a duplicate, the first batch ever, the successor
  of the last committed batch, or the first batch after a restart of the engine.
\<close>

lemma fresh_batchD:
  assumes "fresh_batch a sq ts gen r raws = Inr p"
  shows "pb_sequence p = sq \<and> pb_timestamp p = ts \<and> pb_generation p = gen \<and> \<not> pb_duplicate p \<and>
         collect_events a sq gen ts r raws = Inr (pb_events p)"
  using assms by (auto simp: fresh_batch_def bindR_eq_Inr)

lemma prepare_batch_cases:
  assumes "prepare_batch a sq batch = Inr p"
  obtains (dup) n where "last_sequence a = Some n" "sq \<le> n" "pb_duplicate p" "pb_events p = []"
      "pb_sequence p = sq"
  | (first) ts raws where "last_sequence a = None" "\<not> pb_duplicate p" "pb_sequence p = sq" "0 \<le> sq"
      "pb_generation p = ad_generation a" "fle (Fin 0) (pb_timestamp p)"
      "collect_events a sq (ad_generation a) ts False raws = Inr (pb_events p)"
  | (succ) n ts raws where "last_sequence a = Some n" "sq = n + 1" "\<not> pb_duplicate p" "pb_sequence p = sq"
      "pb_generation p = ad_generation a" "0 \<le> sq" "fle (Fin 0) (pb_timestamp p)"
      "collect_events a sq (ad_generation a) ts False raws = Inr (pb_events p)"
  | (restart) n ts raws where "last_sequence a = Some n" "sq = 0" "\<not> pb_duplicate p" "pb_sequence p = sq"
      "flt (last_timestamp a) (pb_timestamp p)" "fle (Fin 0) (pb_timestamp p)"
      "collect_events a sq (pb_generation p) ts True raws = Inr (pb_events p)"
  using assms
  by (fastforce simp: prepare_batch_def bindR_eq_Inr guardR_eq_Inr is_restart_def
      split: pyval.splits list.splits if_splits option.splits dest!: fresh_batchD)

lemma prepare_InrE:
  assumes "prepare decode a sq payload = Inr p"
  obtains batch where "decode payload = Inr batch" "prepare_batch a sq batch = Inr p"
  using assms by (auto simp: prepare_def bindR_eq_Inr)

lemma commit_Inr_iff:
  "commit d a p = (Inr (), a') \<longleftrightarrow>
     (if pb_duplicate p then a' = a
      else d \<and> a' = (let b = a\<lparr>ad_generation := pb_generation p, last_sequence := Some (pb_sequence p),
                               last_timestamp := pb_timestamp p\<rparr>
                     in b\<lparr>checkpoint := JsonFile (checkpoint_doc b)\<rparr>))"
  by (auto simp: commit_def save_checkpoint_def Let_def)

lemma load_saved:
  assumes "last_sequence b = Some n"
  shows "load_checkpoint (a\<lparr>ad_backend_id := ad_backend_id b, configured_generation := configured_generation b,
            checkpoint := JsonFile (checkpoint_doc b)\<rparr>) =
         Inr (b\<lparr>checkpoint := JsonFile (checkpoint_doc b)\<rparr>)"
  using assms
  by (simp add: load_checkpoint_def checkpoint_doc_def veq_str_def dget_def dget_or_def)

lemma new_adapter_ids:
  "new_adapter bid gen file = Inr a \<Longrightarrow>
   ad_backend_id a = bid \<and> configured_generation a = gen \<and> checkpoint a = file"
  by (auto simp: new_adapter_def load_checkpoint_def guardR_eq_Inr bindR_eq_Inr
      split: ckpt_file.splits pyval.splits if_splits)

text \<open>An accepted batch holds the content of its message, at the position the adapter expects.\<close>

definition auto_generation :: "pyfloat \<Rightarrow> string \<Rightarrow> bool" where
  "auto_generation ts gen \<longleftrightarrow> (\<exists>ms. int_of_float (fmul ts (Fin 1000)) = Inr ms \<and> gen = ''auto-'' @ int_str ms)"

lemma prepare_accepted:
  assumes "prepare decode a sq payload = Inr p" "\<not> pb_duplicate p"
  shows "\<exists>t raws rest. decode payload = Inr (VList (t # VList raws # rest)) \<and> py_float t = Inr (pb_timestamp p) \<and>
    pb_sequence p = sq \<and> 0 \<le> sq \<and> sq < 2 ^ 64 \<and> fle (Fin 0) (pb_timestamp p) \<and>
    collect_events a sq (pb_generation p) (pb_timestamp p) (is_restart a sq (pb_timestamp p)) raws = Inr (pb_events p) \<and>
    (if is_restart a sq (pb_timestamp p) then auto_generation (pb_timestamp p) (pb_generation p)
     else pb_generation p = ad_generation a \<and> (last_sequence a = None \<or> last_sequence a = Some (sq - 1)))"
proof -
  from assms(1) obtain batch where b: "decode payload = Inr batch" "prepare_batch a sq batch = Inr p"
    by (rule prepare_InrE)
  from b(2) obtain t raws rest ts where f: "batch = VList (t # VList raws # rest)" "py_float t = Inr ts" "0 \<le> sq" "sq < 2 ^ 64"
    "fle (Fin 0) ts"
    and p: "(if is_restart a sq ts
           then bindR (int_of_float (fmul ts (Fin 1000))) (\<lambda>ms. fresh_batch a sq ts (''auto-'' @ int_str ms) True raws)
           else (case last_sequence a of
                   None \<Rightarrow> fresh_batch a sq ts (ad_generation a) False raws
                 | Some n \<Rightarrow>
                     if sq \<le> n
                     then Inr \<lparr>pb_sequence = sq, pb_timestamp = ts, pb_generation = ad_generation a, pb_events = [], pb_duplicate = True\<rparr>
                     else if sq \<noteq> n + 1 then Inl (SequenceGap (n + 1) sq)
                     else fresh_batch a sq ts (ad_generation a) False raws)) = Inr p"
    by (auto simp: prepare_batch_def bindR_eq_Inr guardR_eq_Inr split: pyval.splits list.splits)
  have "pb_timestamp p = ts \<and> pb_sequence p = sq \<and>
      collect_events a sq (pb_generation p) ts (is_restart a sq ts) raws = Inr (pb_events p) \<and>
      (if is_restart a sq ts then auto_generation ts (pb_generation p)
       else pb_generation p = ad_generation a \<and> (last_sequence a = None \<or> last_sequence a = Some (sq - 1)))"
    using p assms(2)
    by (auto simp: auto_generation_def bindR_eq_Inr split: if_splits option.splits dest!: fresh_batchD)
  with b(1) f show ?thesis by auto
qed

lemma prepare_duplicate: "prepare decode a sq payload = Inr p \<Longrightarrow> pb_duplicate p \<Longrightarrow> pb_events p = []"
  by (erule prepare_InrE, erule prepare_batch_cases) auto

text \<open>What a commit wrote reads back as the adapter that wrote it.\<close>

lemma committed_restart:
  assumes "commit disk_ok a p = (Inr (), a')" and "\<not> pb_duplicate p"
    and "ad_backend_id a \<noteq> []" and "configured_generation a \<noteq> []"
  shows "new_adapter (ad_backend_id a) (configured_generation a) (checkpoint a') = Inr a'"
proof -
  define b where "b = a\<lparr>ad_generation := pb_generation p, last_sequence := Some (pb_sequence p),
    last_timestamp := pb_timestamp p\<rparr>"
  have a': "a' = b\<lparr>checkpoint := JsonFile (checkpoint_doc b)\<rparr>"
    using assms(1,2) by (simp add: commit_Inr_iff b_def Let_def)
  have "load_checkpoint \<lparr>ad_backend_id = ad_backend_id b, configured_generation = configured_generation b,
      ad_generation = configured_generation b, last_sequence = None, last_timestamp = Fin 0,
      checkpoint = JsonFile (checkpoint_doc b)\<rparr> = Inr a'"
    using load_saved [of b "pb_sequence p" "\<lparr>ad_backend_id = [], configured_generation = [],
      ad_generation = configured_generation b, last_sequence = None, last_timestamp = Fin 0,
      checkpoint = NoFile\<rparr>"] by (simp add: a' b_def)
  with assms(3,4) show ?thesis by (simp add: new_adapter_def a' b_def)
qed

lemma collect_events_restart:
  "collect_events a sq gen ts True raws = Inr es \<Longrightarrow>
   \<exists>e es'. es = e # es' \<and> ev_operation e = ''clear'' \<and> ev_sequence e = sq"
  by (fastforce simp: collect_events_def mk_event_def bindR_eq_Inr)

section \<open>No gap is reported from inside a batch\<close>

text \<open>The exceptions of the decoding itself are never \<open>SequenceGap\<close>.\<close>

definition no_gap :: "'a res \<Rightarrow> bool" where
  "no_gap r \<longleftrightarrow> (\<forall>i j. r \<noteq> Inl (SequenceGap i j))"

lemma no_gap_bindR: "no_gap m \<Longrightarrow> (\<And>x. no_gap (f x)) \<Longrightarrow> no_gap (bindR m f)"
  by (auto simp: no_gap_def bindR_eq_Inl)

lemma no_gap_Inr [simp]: "no_gap (Inr x)"
  by (simp add: no_gap_def)

lemma no_gap_Inl [simp]: "no_gap (Inl e) \<longleftrightarrow> (\<forall>i j. e \<noteq> SequenceGap i j)"
  by (auto simp: no_gap_def)

lemma no_gap_guardR: "no_gap (Inl e) \<Longrightarrow> no_gap k \<Longrightarrow> no_gap (guardR c e k)"
  by (simp add: guardR_def)

lemma no_gap_mapR: "(\<And>x. no_gap (f x)) \<Longrightarrow> no_gap (mapR f xs)"
  by (induction xs) (simp_all add: no_gap_bindR)

lemma int_of_float_no_gap: "no_gap (int_of_float x)"
  by (cases x) (auto simp: no_gap_def)

lemma rfc3339_no_gap: "no_gap (rfc3339 x)"
proof -
  have "no_gap (gmtime_floor x)" by (cases x) (auto simp: no_gap_def)
  moreover have "no_gap (strftime_utc y)" for y
    by (auto simp: no_gap_def strftime_utc_def Let_def split: prod.splits)
  moreover have "no_gap (float_of_int y)" for y
    by (auto simp: no_gap_def float_of_int_def split: pyfloat.splits)
  ultimately show ?thesis
    unfolding rfc3339_def by (intro no_gap_bindR) (auto intro: int_of_float_no_gap)
qed

lemma mk_event_no_gap: "no_gap (mk_event a opn sq gen i ts key m t)"
  unfolding mk_event_def by (intro no_gap_bindR rfc3339_no_gap) simp

lemma block_events_no_gap: "no_gap (block_events a opn sq gen ei ts toks blocks)"
proof -
  have "no_gap (cache_key v)" for v by (cases v rule: cache_key.cases) (auto simp: no_gap_def)
  then show ?thesis unfolding block_events_def
    by (intro no_gap_mapR) (auto intro!: no_gap_bindR mk_event_no_gap split: prod.splits)
qed

lemma raw_events_no_gap: "no_gap (raw_events a sq gen ts ei raw)"
proof -
  have "no_gap (py_int v)" for v
    by (cases v rule: py_int.cases)
       (use int_of_float_no_gap in \<open>auto simp: no_gap_def str_to_int_def split: prod.splits\<close>)
  moreover have "no_gap (guardR (b \<le> 0) (ValueError m) (block_events a opn sq gen ei ts toks blocks))"
    for b :: int and m opn toks blocks
    by (intro no_gap_guardR block_events_no_gap) simp
  moreover have "no_gap (bindR (mk_event a opn sq gen i ts key m t) (\<lambda>e. Inr [e]))" for opn i key m t
    by (intro no_gap_bindR mk_event_no_gap) simp
  ultimately show ?thesis unfolding raw_events_def
    by (simp add: block_events_no_gap no_gap_bindR split: pyval.split list.split)
qed

lemma collect_events_no_gap: "no_gap (collect_events a sq gen ts r raws)"
  unfolding collect_events_def
  by (intro no_gap_bindR no_gap_mapR)
     (auto intro!: no_gap_bindR mk_event_no_gap raw_events_no_gap split: prod.splits)

section \<open>Properties\<close>

text \<open>
  The identifiers of the events of one batch are pairwise distinct as long as no raw
  event lists more than a million blocks, which is the width of the index window
  \<open>event_index * 1_000_000 + block_index\<close>; and every event of the batch carries the batch's
  sequence number, the batch's generation and the adapter's backend id.
\<close>

theorem prepared_events_identified:
  assumes "decode payload = Inr (VList (t # VList raws # rest))"
    and "prepare decode a sq payload = Inr p"
    and "\<forall>raw\<in>set raws. length (raw_blocks raw) \<le> 1000000"
  shows "distinct (map ev_engine_event_id (pb_events p)) \<and>
         (\<forall>e\<in>set (pb_events p). stamped a (pb_sequence p) (pb_generation p) e)"
proof -
  have "pb_events p = [] \<or>
      (\<exists>ts r. collect_events a (pb_sequence p) (pb_generation p) ts r raws = Inr (pb_events p))"
    using assms(1,2)
    by (fastforce simp: prepare_def prepare_batch_def bindR_eq_Inr guardR_eq_Inr
        split: if_splits option.splits dest!: fresh_batchD)
  then show ?thesis
    using collect_events_distinct [OF _ assms(3)] collect_events_stamped by fastforce
qed

text \<open>
  Property C7.  Restarting from the checkpoint a commit wrote restores the adapter exactly: same
  generation (also an automatic one), same last sequence number, same last timestamp.
\<close>

theorem checkpoint_roundtrip:
  assumes "commit disk_ok a p = (Inr (), a')" and "\<not> pb_duplicate p"
    and "ad_backend_id a \<noteq> []" and "configured_generation a \<noteq> []"
  shows "new_adapter (ad_backend_id a) (configured_generation a) (checkpoint a') = Inr a' \<and>
         last_sequence a' = Some (pb_sequence p) \<and> ad_generation a' = pb_generation p \<and>
         last_timestamp a' = pb_timestamp p"
  using committed_restart [OF assms] assms(1,2) by (simp add: commit_Inr_iff Let_def)


text \<open>
  Property C6.  A gap is reported exactly for the well-formed batches that lie beyond the
  successor of the last committed one, and it names the first missing sequence number.
\<close>

theorem prepare_gap_iff:
  assumes "decode payload = Inr (VList (t # VList raws # rest))" and "py_float t = Inr ts"
    and "fle (Fin 0) ts" and "0 \<le> sq" and "sq < 2 ^ 64" and "last_sequence a = Some n" and "0 \<le> n"
  shows "prepare decode a sq payload = Inl (SequenceGap (n + 1) sq) \<longleftrightarrow> n + 1 < sq"
proof (cases "n + 1 < sq")
  case True
  with assms show ?thesis by (simp add: prepare_def prepare_batch_def is_restart_def)
next
  case False
  with assms show ?thesis
    using collect_events_no_gap int_of_float_no_gap
    by (auto simp: prepare_def prepare_batch_def fresh_batch_def bindR_eq_Inl no_gap_def)
qed

section \<open>Instances\<close>

text \<open>A decoder with two messages, and an adapter that committed the batch \<open>n\<close>.\<close>

definition demo_decode :: "string \<Rightarrow> pyval res" where
  "demo_decode payload =
     (if payload = ''store'' then Inr (VList [VFloat (Fin 5), VList [VList [VStr ''BlockStored'', VList [VBytes ''A'', VInt 7],
         VNone, VNone, VInt 16]]])
      else if payload = ''clear'' then Inr (VList [VFloat (Fin 9), VList [VList [VStr ''AllBlocksCleared'']]])
      else Inl (ValueError ''msgpack''))"

definition demo_adapter :: "int \<Rightarrow> adapter" where
  "demo_adapter n = (let a = \<lparr>ad_backend_id = ''b1'', configured_generation = ''g1'', ad_generation = ''g1'',
       last_sequence = Some n, last_timestamp = Fin 1, checkpoint = NoFile\<rparr>
     in a\<lparr>checkpoint := JsonFile (checkpoint_doc a)\<rparr>)"

lemma demo_time: "rfc3339 (Fin 5) = Inr ''1970-01-01T00:00:05.000Z''"
proof -
  have c: "civil_from_days 0 = (1970, 1, 1)" by code_simp
  have p: "pad2 0 = ''00''" "pad2 1 = ''01''" "pad2 5 = ''05''" "pad_left 3 (CHR ''0'') (int_str 0) = ''000''"
    by code_simp+
  have "int_str 1970 = ''1970''" by (simp add: int_str_def nat_str_eval)
  note p = p this
  have "strftime_utc 5 = Inr ''1970-01-01T00:00:05''"
    by (simp add: strftime_utc_def c p)
  with p show ?thesis by (simp add: rfc3339_def float_of_int_def fsub_def float_simps)
qed

lemma demo_prepare:
  obtains p where "prepare demo_decode (demo_adapter 1) 2 ''store'' = Inr p" "\<not> pb_duplicate p"
    "map ev_engine_event_id (pb_events p) = [''g1:2:1000000'', ''g1:2:1000001'']"
  by (simp add: demo_decode_def demo_adapter_def prepare_def prepare_batch_def is_restart_def fresh_batch_def
      collect_events_def raw_events_def block_events_def mk_event_def demo_time engine_event_id_def
      int_str_def nat_str_eval Let_def)

theorem prepared_events_identified_witness:
  "\<exists>p. prepare demo_decode (demo_adapter 1) 2 ''store'' = Inr p \<and> length (pb_events p) = 2 \<and>
       distinct (map ev_engine_event_id (pb_events p))"
proof (rule demo_prepare)
  fix p assume p: "prepare demo_decode (demo_adapter 1) 2 ''store'' = Inr p"
    and ids: "map ev_engine_event_id (pb_events p) = [''g1:2:1000000'', ''g1:2:1000001'']"
  have "demo_decode ''store'' = Inr (VList (VFloat (Fin 5) # VList [VList [VStr ''BlockStored'',
      VList [VBytes ''A'', VInt 7], VNone, VNone, VInt 16]] # []))" by (simp add: demo_decode_def)
  from prepared_events_identified [OF this p] have "distinct (map ev_engine_event_id (pb_events p))"
    by (simp add: raw_blocks_def)
  with p ids show ?thesis by (metis length_map length_Cons list.size(3) numeral_2_eq_2)
qed

theorem checkpoint_roundtrip_witness:
  "let p = \<lparr>pb_sequence = 0, pb_timestamp = Fin 7, pb_generation = ''auto-7000'', pb_events = [], pb_duplicate = False\<rparr>;
       a' = snd (commit True (demo_adapter 1) p)
   in new_adapter ''b1'' ''g1'' (checkpoint a') = Inr a' \<and> ad_generation a' = ''auto-7000''"
proof -
  define p :: prepared_batch where "p = \<lparr>pb_sequence = 0, pb_timestamp = Fin 7, pb_generation = ''auto-7000'',
    pb_events = [], pb_duplicate = False\<rparr>"
  have "commit True (demo_adapter 1) p = (Inr (), snd (commit True (demo_adapter 1) p))"
    by (simp add: commit_def save_checkpoint_def p_def)
  from checkpoint_roundtrip [OF this] show ?thesis
    by (simp add: p_def [symmetric] Let_def) (simp add: p_def demo_adapter_def Let_def)
qed


theorem prepare_gap_iff_witness:
  "prepare demo_decode (demo_adapter 1) 9 ''store'' = Inl (SequenceGap 2 9)"
proof -
  have "demo_decode ''store'' = Inr (VList (VFloat (Fin 5) # VList [VList [VStr ''BlockStored'',
      VList [VBytes ''A'', VInt 7], VNone, VNone, VInt 16]] # []))" by (simp add: demo_decode_def)
  from prepare_gap_iff [of demo_decode, OF this, of "Fin 5" 9 "demo_adapter 1" 1] show ?thesis
    by (simp add: demo_adapter_def Let_def)
qed

end
