(* ===== verification/KvContract.thy ===== *)
theory KvContract
  imports KvEvents
begin

text \<open>
  The contract between the adapter of KvEvents and its client, the subscriber: a batch the adapter accepts
  continues the position it stands at, an old batch has no events, every event carries the position
  of its batch, and an accepted batch moves the adapter to its position.  What follows from these laws for a whole
  sequence of messages is proved from them alone.
\<close>

section \<open>Positions\<close>

type_synonym position = "string \<times> int"
type_synonym history = "position list"

definition succ_pos :: "position \<Rightarrow> position \<Rightarrow> bool" where
  "succ_pos p q \<longleftrightarrow> q = (fst p, snd p + 1) \<or> snd q = 0"

definition contiguous :: "history \<Rightarrow> bool" where
  "contiguous h = successively succ_pos h"

definition stamped_at :: "position \<Rightarrow> cache_event list \<Rightarrow> bool" where
  "stamped_at q es \<longleftrightarrow> list_all (\<lambda>e. (ev_generation e, ev_sequence e) = q) es"

section \<open>Messages one after the other\<close>

text \<open>
  The batches a sequence of messages amounts to, each prepared where the one before left off, with the state at the end;
  the first exception ends it.
\<close>

fun feed ::
  "('a \<Rightarrow> int \<Rightarrow> 'b \<Rightarrow> 'p res) \<Rightarrow> ('a \<Rightarrow> 'p \<Rightarrow> 'a) \<Rightarrow> ('p \<Rightarrow> bool) \<Rightarrow> 'a \<Rightarrow> (int \<times> 'b) list \<Rightarrow> ('p list \<times> 'a) res"
where
  "feed prepare_at advance accepts a [] = Inr ([], a)"
| "feed prepare_at advance accepts a ((sq, m) # ms) =
     bindR (prepare_at a sq m) (\<lambda>p.
     bindR (feed prepare_at advance accepts (advance a p) ms) (\<lambda>(bs, b).
     Inr (if accepts p then p # bs else bs, b)))"

lemma feed_append:
  "feed f g h a (ms @ ns) =
   bindR (feed f g h a ms) (\<lambda>(bs, b). bindR (feed f g h b ns) (\<lambda>(cs, c). Inr (bs @ cs, c)))"
proof (induction ms arbitrary: a)
  case Nil
  then show ?case by (cases "feed f g h a ns") auto
next
  case (Cons m ms)
  obtain sq x where m: "m = (sq, x)" by force
  show ?case
  proof (cases "f a sq x")
    case (Inr p)
    then show ?thesis using Cons.IH [of "g a p"]
      by (cases "feed f g h (g a p) ms"; cases "feed f g h (snd (projr (feed f g h (g a p) ms))) ns") (auto simp: m)
  qed (simp add: m)
qed

text \<open>The position a state stands at, as a history.\<close>

definition start_at :: "('a \<Rightarrow> position option) \<Rightarrow> 'a \<Rightarrow> history" where
  "start_at cursor a = (case cursor a of None \<Rightarrow> [] | Some q \<Rightarrow> [q])"

section \<open>The contract\<close>

locale event_source =
  fixes prepare_at :: "'a \<Rightarrow> int \<Rightarrow> 'b \<Rightarrow> 'p res"
    and advance :: "'a \<Rightarrow> 'p \<Rightarrow> 'a"
    and cursor :: "'a \<Rightarrow> position option"
    and accepts :: "'p \<Rightarrow> bool"
    and pos_of :: "'p \<Rightarrow> position"
    and events_of :: "'p \<Rightarrow> cache_event list"
  assumes next_pos: "prepare_at a sq m = Inr p \<Longrightarrow> cursor a = Some q \<Longrightarrow> accepts p \<Longrightarrow> succ_pos q (pos_of p)"
    and old_empty: "prepare_at a sq m = Inr p \<Longrightarrow> \<not> accepts p \<Longrightarrow> events_of p = []"
    and stamped: "prepare_at a sq m = Inr p \<Longrightarrow> stamped_at (pos_of p) (events_of p)"
    and advanced: "cursor (advance a p) = (if accepts p then Some (pos_of p) else cursor a)"
begin

text \<open>The batches of a sequence of messages continue the position without a gap.\<close>

lemma feed_contiguous:
  "feed prepare_at advance accepts a ms = Inr (bs, b) \<Longrightarrow>
   contiguous (start_at cursor a @ map pos_of bs) \<and> start_at cursor b = (if bs = [] then start_at cursor a else [pos_of (last bs)])"
proof (induction ms arbitrary: a bs)
  case Nil
  then show ?case by (simp add: contiguous_def start_at_def split: option.split)
next
  case (Cons m ms)
  obtain sq x where m: "m = (sq, x)" by force
  obtain p cs where p: "prepare_at a sq x = Inr p" "feed prepare_at advance accepts (advance a p) ms = Inr (cs, b)"
    "bs = (if accepts p then p # cs else cs)"
    using Cons.prems by (auto simp: m bindR_eq_Inr)
  note ih = Cons.IH [OF p(2)]
  show ?case
  proof (cases "accepts p")
    case True
    then have "start_at cursor (advance a p) = [pos_of p]" by (simp add: start_at_def advanced)
    with ih True p(3) next_pos [OF p(1) _ True] show ?thesis
      by (auto simp: start_at_def contiguous_def split: option.splits)
  next
    case False
    then have "start_at cursor (advance a p) = start_at cursor a" by (simp add: start_at_def advanced)
    with ih False p(3) show ?thesis by simp
  qed
qed

text \<open>Every event of these batches carries the position of its batch.\<close>

lemma feed_stamped:
  "feed prepare_at advance accepts a ms = Inr (bs, b) \<Longrightarrow> p \<in> set bs \<Longrightarrow> stamped_at (pos_of p) (events_of p)"
proof (induction ms arbitrary: a bs)
  case (Cons m ms)
  obtain sq x where m: "m = (sq, x)" by force
  from Cons show ?case by (auto simp: m bindR_eq_Inr split: if_splits dest: stamped)
qed simp

end

section \<open>The adapter keeps it\<close>

definition cursor_of :: "adapter \<Rightarrow> position option" where
  "cursor_of a = map_option (\<lambda>n. (ad_generation a, n)) (last_sequence a)"

definition batch_pos :: "prepared_batch \<Rightarrow> position" where
  "batch_pos p = (pb_generation p, pb_sequence p)"

text \<open>The adapter after a commit whose write succeeds.\<close>

definition advance_adapter :: "adapter \<Rightarrow> prepared_batch \<Rightarrow> adapter" where
  "advance_adapter a p = snd (commit True a p)"

definition intake :: "(string \<Rightarrow> pyval res) \<Rightarrow> adapter \<Rightarrow> (int \<times> string) list \<Rightarrow> (prepared_batch list \<times> adapter) res" where
  "intake decode a ms = feed (prepare decode) advance_adapter (\<lambda>p. \<not> pb_duplicate p) a ms"

definition positions :: "adapter \<Rightarrow> history" where
  "positions a = (case last_sequence a of None \<Rightarrow> [] | Some n \<Rightarrow> [(ad_generation a, n)])"

lemma commit_advances: "commit True a p = (Inr (), advance_adapter a p)"
  by (simp add: advance_adapter_def commit_def save_checkpoint_def)

lemma advance_duplicate: "pb_duplicate p \<Longrightarrow> advance_adapter a p = a"
  by (simp add: advance_adapter_def commit_def)

lemma advance_frame [simp]:
  "ad_backend_id (advance_adapter a p) = ad_backend_id a"
  "configured_generation (advance_adapter a p) = configured_generation a"
  by (simp_all add: advance_adapter_def commit_def save_checkpoint_def)

lemma prepare_stamped:
  assumes "prepare decode a sq payload = Inr p" "e \<in> set (pb_events p)"
  shows "ev_sequence e = pb_sequence p \<and> ev_generation e = pb_generation p"
  using assms(1)
proof (rule prepare_InrE)
  fix batch assume "prepare_batch a sq batch = Inr p"
  then show ?thesis
    by (cases rule: prepare_batch_cases)
       (use assms(2) in \<open>auto dest!: collect_events_stamped simp: stamped_def\<close>)
qed

interpretation source: event_source "prepare decode" advance_adapter cursor_of "\<lambda>p. \<not> pb_duplicate p" batch_pos pb_events
  for decode
proof
  fix a sq m p q
  assume p: "prepare decode a sq m = Inr p"
  then obtain batch where "prepare_batch a sq batch = Inr p" by (rule prepare_InrE)
  then show "cursor_of a = Some q \<Longrightarrow> \<not> pb_duplicate p \<Longrightarrow> succ_pos q (batch_pos p)" "\<not> \<not> pb_duplicate p \<Longrightarrow> pb_events p = []"
    by (cases rule: prepare_batch_cases; auto simp: cursor_of_def succ_pos_def batch_pos_def)+
  show "stamped_at (batch_pos p) (pb_events p)"
    using prepare_stamped [OF p] by (auto simp: stamped_at_def batch_pos_def list_all_iff)
next
  fix a p
  show "cursor_of (advance_adapter a p) = (if \<not> pb_duplicate p then Some (batch_pos p) else cursor_of a)"
    by (simp add: advance_adapter_def commit_def save_checkpoint_def cursor_of_def batch_pos_def)
qed

lemma positions_start: "start_at cursor_of a = positions a"
  by (simp add: start_at_def positions_def cursor_of_def split: option.split)

lemma intake_contiguous:
  "intake decode a ms = Inr (bs, b) \<Longrightarrow>
   contiguous (positions a @ map batch_pos bs) \<and> positions b = (if bs = [] then positions a else [batch_pos (last bs)])"
  unfolding intake_def positions_start [symmetric] by (rule source.feed_contiguous)

lemma intake_frame:
  "intake decode a ms = Inr (bs, b) \<Longrightarrow> ad_backend_id b = ad_backend_id a \<and> configured_generation b = configured_generation a"
proof (induction ms arbitrary: a bs)
  case (Cons m ms)
  then show ?case by (cases m) (fastforce simp: intake_def bindR_eq_Inr)
qed (simp add: intake_def)

text \<open>A process can be started again from the checkpoint of every state the intake goes through.\<close>

lemma intake_restart:
  assumes "ad_backend_id a \<noteq> []" "configured_generation a \<noteq> []"
    "new_adapter (ad_backend_id a) (configured_generation a) (checkpoint a) = Inr a"
  shows "intake decode a ms = Inr (bs, b) \<Longrightarrow>
    new_adapter (ad_backend_id a) (configured_generation a) (checkpoint b) = Inr b"
  using assms
proof (induction ms arbitrary: a bs)
  case (Cons m ms)
  obtain sq x where m: "m = (sq, x)" by force
  obtain p cs where p: "intake decode (advance_adapter a p) ms = Inr (cs, b)"
    using Cons.prems(1) by (auto simp: intake_def m bindR_eq_Inr)
  have "new_adapter (ad_backend_id a) (configured_generation a) (checkpoint (advance_adapter a p)) = Inr (advance_adapter a p)"
    using committed_restart [OF commit_advances] Cons.prems(2-4) advance_duplicate by (cases "pb_duplicate p") auto
  then show ?case using Cons.IH [OF p] Cons.prems(2-4) by simp
qed (simp add: intake_def)

lemma started_restarts:
  assumes "new_adapter bid gen file = Inr a" "intake decode a ms = Inr (bs, b)"
  shows "new_adapter bid gen (checkpoint b) = Inr b"
proof -
  have "ad_backend_id a = bid" "configured_generation a = gen" "checkpoint a = file" "bid \<noteq> []" "gen \<noteq> []"
    using assms(1) new_adapter_ids by (auto simp: new_adapter_def guardR_eq_Inr)
  then show ?thesis using intake_restart [of a decode ms bs b] assms by simp
qed

end
