(* ===== verification/KvSubscriber.thy ===== *)
theory KvSubscriber
  imports KvContract "HOL-Library.Sublist"
begin

text \<open>
  \<open>engine_events/vllm.py\<close>, second half: the subscriber that feeds the adapter from a live socket
  and from a replay socket and posts the resulting events to the gateway.  The environment is a
  parameter: \<open>net n\<close> says whether the n-th HTTP exchange of the process succeeds, \<open>disk n\<close> whether
  its n-th checkpoint write does, and the messages a socket delivers are lists of frames.  The
  events whose post succeeded are recorded in \<open>delivered\<close>.
\<close>

section \<open>The subscriber\<close>

type_synonym bytes = string
type_synonym message = "bytes list"

record subscriber =
  sub_adapter :: adapter
  attempts :: nat
  saves :: nat
  delivered :: "cache_event list"

definition post :: "(nat \<Rightarrow> bool) \<Rightarrow> cache_event \<Rightarrow> subscriber \<Rightarrow> unit res \<times> subscriber" where
  "post net e s =
     (let s' = s\<lparr>attempts := Suc (attempts s)\<rparr>
      in if net (attempts s) then (Inr (), s'\<lparr>delivered := delivered s @ [e]\<rparr>) else (Inl HTTPError, s'))"

fun post_all :: "(nat \<Rightarrow> bool) \<Rightarrow> cache_event list \<Rightarrow> subscriber \<Rightarrow> unit res \<times> subscriber" where
  "post_all net [] s = (Inr (), s)"
| "post_all net (e # es) s =
     (case post net e s of (Inl x, s') \<Rightarrow> (Inl x, s') | (Inr _, s') \<Rightarrow> post_all net es s')"

definition deliver ::
  "(nat \<Rightarrow> bool) \<Rightarrow> (nat \<Rightarrow> bool) \<Rightarrow> (bytes \<Rightarrow> pyval res) \<Rightarrow> int \<Rightarrow> bytes \<Rightarrow> subscriber \<Rightarrow> unit res \<times> subscriber"
where
  "deliver net disk decode sequence payload s =
     (case prepare decode (sub_adapter s) sequence payload of
        Inl e \<Rightarrow> (Inl e, s)
      | Inr prepared \<Rightarrow>
          (case post_all net (pb_events prepared) s of
             (Inl e, s') \<Rightarrow> (Inl e, s')
           | (Inr _, s') \<Rightarrow>
               (case commit (disk (saves s')) (sub_adapter s') prepared of
                  (r, a') \<Rightarrow> (r, s'\<lparr>sub_adapter := a', saves := Suc (saves s')\<rparr>))))"

text \<open>\<open>int.from_bytes(b, "big")\<close> for eight bytes, unsigned and signed.\<close>

definition be64 :: "bytes \<Rightarrow> 64 word" where
  "be64 b = of_nat (foldl (\<lambda>acc c. 256 * acc + of_char c) 0 b)"

fun replay_loop ::
  "(nat \<Rightarrow> bool) \<Rightarrow> (nat \<Rightarrow> bool) \<Rightarrow> (bytes \<Rightarrow> pyval res) \<Rightarrow> int \<Rightarrow> int option \<Rightarrow> message list \<Rightarrow> subscriber \<Rightarrow>
   unit res \<times> subscriber"
where
  "replay_loop net disk decode start first_sequence [] s = (Inl ZMQError, s)"
| "replay_loop net disk decode start first_sequence (frames # others) s =
     (if length frames \<noteq> 3 \<or> frames ! 0 \<noteq> [] \<or> length (frames ! 1) \<noteq> 8
      then (Inl (RuntimeError ''invalid vLLM replay response''), s)
      else let sequence = sint (be64 (frames ! 1))
           in if sequence = - 1 then (Inr (), s)
              else if first_sequence = None \<and> start < sequence
              then (Inl (RuntimeError (''vLLM replay buffer starts at '' @ int_str sequence @
                      '', before requested sequence '' @ int_str start @ '' could be recovered'')), s)
              else (case deliver net disk decode sequence (frames ! 2) s of
                      (Inl e, s') \<Rightarrow> (Inl e, s')
                    | (Inr _, s') \<Rightarrow>
                        replay_loop net disk decode start
                          (case first_sequence of None \<Rightarrow> Some sequence | Some f \<Rightarrow> Some f) others s'))"

text \<open>
  \<open>replay_endpoint\<close> may be \<open>None\<close> or empty.  The request carries the start in eight bytes.  A message
  list that ends stands for the expiry of the receive timeout.
\<close>

definition replay ::
  "(nat \<Rightarrow> bool) \<Rightarrow> (nat \<Rightarrow> bool) \<Rightarrow> (bytes \<Rightarrow> pyval res) \<Rightarrow> string option \<Rightarrow> int \<Rightarrow> message list \<Rightarrow> subscriber \<Rightarrow>
   unit res \<times> subscriber"
where
  "replay net disk decode endpoint start msgs s =
     (if endpoint = None \<or> endpoint = Some []
      then (Inl (RuntimeError ''sequence gap detected but replay_endpoint is not configured''), s)
      else if start < 0 \<or> 2 ^ 64 \<le> start then (Inl OverflowError, s)
      else replay_loop net disk decode start None msgs s)"

text \<open>
  One turn of the live loop: the message, and what the replay socket would send should the message
  reveal a gap.
\<close>

definition handle_live ::
  "(nat \<Rightarrow> bool) \<Rightarrow> (nat \<Rightarrow> bool) \<Rightarrow> (bytes \<Rightarrow> pyval res) \<Rightarrow> string option \<Rightarrow> bytes \<Rightarrow> message \<Rightarrow> message list \<Rightarrow>
   subscriber \<Rightarrow> unit res \<times> subscriber"
where
  "handle_live net disk decode endpoint topic frames resp s =
     (if length frames \<noteq> 3 \<or> frames ! 0 \<noteq> topic \<or> length (frames ! 1) \<noteq> 8 then (Inr (), s)
      else let sequence = uint (be64 (frames ! 1))
           in (case deliver net disk decode sequence (frames ! 2) s of
                 (Inl (SequenceGap expected received), s') \<Rightarrow>
                   (case replay net disk decode endpoint expected resp s' of
                      (Inl e, s'') \<Rightarrow> (Inl e, s'')
                    | (Inr _, s'') \<Rightarrow> deliver net disk decode sequence (frames ! 2) s'')
               | r \<Rightarrow> r))"

fun live_loop ::
  "(nat \<Rightarrow> bool) \<Rightarrow> (nat \<Rightarrow> bool) \<Rightarrow> (bytes \<Rightarrow> pyval res) \<Rightarrow> string option \<Rightarrow> bytes \<Rightarrow>
   (message \<times> message list) list \<Rightarrow> subscriber \<Rightarrow> unit res \<times> subscriber"
where
  "live_loop net disk decode endpoint topic [] s = (Inr (), s)"
| "live_loop net disk decode endpoint topic ((frames, resp) # others) s =
     (case handle_live net disk decode endpoint topic frames resp s of
        (Inl e, s') \<Rightarrow> (Inl e, s')
      | (Inr _, s') \<Rightarrow> live_loop net disk decode endpoint topic others s')"

text \<open>
  \<open>run\<close>: the initial replay, then the live loop over the messages received so far; a result without
  an exception is the loop waiting for the next message.
\<close>

definition run ::
  "(nat \<Rightarrow> bool) \<Rightarrow> (nat \<Rightarrow> bool) \<Rightarrow> (bytes \<Rightarrow> pyval res) \<Rightarrow> string option \<Rightarrow> bytes \<Rightarrow> message list \<Rightarrow>
   (message \<times> message list) list \<Rightarrow> subscriber \<Rightarrow> unit res \<times> subscriber"
where
  "run net disk decode endpoint topic initial live s =
     (if endpoint = None \<or> endpoint = Some []
      then (Inl (RuntimeError ''replay_endpoint is required for strict native KV evidence''), s)
      else (case replay net disk decode endpoint
                   (case last_sequence (sub_adapter s) of None \<Rightarrow> 0 | Some n \<Rightarrow> n + 1) initial s of
              (Inl e, s') \<Rightarrow> (Inl e, s')
            | (Inr _, s') \<Rightarrow> live_loop net disk decode endpoint topic live s'))"

section \<open>Delivery\<close>

lemma post_adapter:
  "post net e s = (r, s') \<Longrightarrow> sub_adapter s' = sub_adapter s \<and> saves s' = saves s"
  by (auto simp: post_def Let_def split: if_splits)

lemma post_all_frame:
  "post_all net es s = (r, s') \<Longrightarrow> sub_adapter s' = sub_adapter s \<and> saves s' = saves s"
proof (induction es arbitrary: s)
  case (Cons e es)
  then show ?case by (auto split: prod.splits sum.splits dest: post_adapter)
qed simp

lemma post_all_delivered:
  "post_all net es s = (r, s') \<Longrightarrow>
   \<exists>k \<le> length es. delivered s' = delivered s @ take k es \<and> (r = Inr () \<longleftrightarrow> k = length es) \<and>
     (r = Inr () \<or> r = Inl HTTPError)"
proof (induction es arbitrary: s)
  case Nil
  then show ?case by auto
next
  case (Cons e es)
  show ?case
  proof (cases "net (attempts s)")
    case False
    with Cons.prems have "r = Inl HTTPError" "delivered s' = delivered s"
      by (auto simp: post_def Let_def)
    then show ?thesis by (intro exI [of _ 0]) simp
  next
    case True
    let ?s = "s\<lparr>attempts := Suc (attempts s), delivered := delivered s @ [e]\<rparr>"
    from True Cons.prems have "post_all net es ?s = (r, s')" by (simp add: post_def Let_def)
    from Cons.IH [OF this] obtain k where "k \<le> length es" "delivered s' = delivered ?s @ take k es"
      "(r = Inr ()) = (k = length es)" "r = Inr () \<or> r = Inl HTTPError" by blast
    then show ?thesis by (intro exI [of _ "Suc k"]) auto
  qed
qed

lemma commit_failed:
  "commit d a p = (r, a') \<Longrightarrow> \<not> (pb_duplicate p \<or> d) \<Longrightarrow> r = Inl OSError \<and> checkpoint a' = checkpoint a"
  by (auto simp: commit_def save_checkpoint_def)

text \<open>The outcomes of a delivery.\<close>

lemma deliver_cases:
  assumes "deliver net disk decode sq payload s = (r, s')"
  obtains (rejected) e where "prepare decode (sub_adapter s) sq payload = Inl e" "r = Inl e" "s' = s"
  | (post_failed) p k where "prepare decode (sub_adapter s) sq payload = Inr p" "r = Inl HTTPError"
      "sub_adapter s' = sub_adapter s" "k < length (pb_events p)"
      "delivered s' = delivered s @ take k (pb_events p)"
  | (save_failed) p where "prepare decode (sub_adapter s) sq payload = Inr p" "r = Inl OSError"
      "checkpoint (sub_adapter s') = checkpoint (sub_adapter s)" "\<not> pb_duplicate p"
      "delivered s' = delivered s @ pb_events p"
  | (completed) p where "prepare decode (sub_adapter s) sq payload = Inr p" "r = Inr ()"
      "commit True (sub_adapter s) p = (Inr (), sub_adapter s')"
      "delivered s' = delivered s @ pb_events p"
proof (cases "prepare decode (sub_adapter s) sq payload")
  case (Inl e)
  with assms have "r = Inl e" "s' = s" by (simp_all add: deliver_def)
  with Inl show thesis by (rule rejected)
next
  case (Inr p)
  obtain r1 s1 where p1: "post_all net (pb_events p) s = (r1, s1)" by force
  note frame = post_all_frame [OF p1]
  obtain k where k: "k \<le> length (pb_events p)" "delivered s1 = delivered s @ take k (pb_events p)"
    "(r1 = Inr ()) = (k = length (pb_events p))" "r1 = Inr () \<or> r1 = Inl HTTPError"
    using post_all_delivered [OF p1] by blast
  show thesis
  proof (cases r1)
    case (Inl e)
    with k have "r1 = Inl HTTPError" "k < length (pb_events p)" by auto
    with assms Inr p1 have "r = Inl HTTPError" "s' = s1" by (simp_all add: deliver_def)
    with post_failed [OF Inr, of k] k frame \<open>k < length (pb_events p)\<close> show thesis by simp
  next
    case r1: (Inr u)
    with assms Inr p1 frame have
      "commit (disk (saves s)) (sub_adapter s) p = (r, sub_adapter s')" "delivered s' = delivered s1"
      by (auto simp: deliver_def split: prod.splits)
    moreover have "delivered s1 = delivered s @ pb_events p" using r1 k by auto
    ultimately have del: "delivered s' = delivered s @ pb_events p"
      and com: "commit (disk (saves s)) (sub_adapter s) p = (r, sub_adapter s')" by simp_all
    show thesis
    proof (cases "pb_duplicate p \<or> disk (saves s)")
      case True
      with com have "r = Inr ()" "commit True (sub_adapter s) p = (Inr (), sub_adapter s')"
        by (auto simp: commit_def save_checkpoint_def split: if_splits)
      then show thesis using completed [OF Inr] del by simp
    next
      case False
      with commit_failed com have "r = Inl OSError" "checkpoint (sub_adapter s') = checkpoint (sub_adapter s)"
        by blast+
      then show thesis using save_failed [OF Inr] del False by simp
    qed
  qed
qed

section \<open>What a run takes in\<close>

text \<open>
  The messages a replay answer holds, up to the end marker or the first frame list that is not a reply: sequence
  number and payload.
\<close>

definition is_reply :: "message \<Rightarrow> bool" where
  "is_reply f \<longleftrightarrow> length f = 3 \<and> f ! 0 = [] \<and> length (f ! 1) = 8 \<and> sint (be64 (f ! 1)) \<noteq> - 1"

definition reply_messages :: "message list \<Rightarrow> (int \<times> bytes) list" where
  "reply_messages msgs = map (\<lambda>f. (sint (be64 (f ! 1)), f ! 2)) (takeWhile is_reply msgs)"

text \<open>
  What one turn of the live loop reads: nothing for a message of another shape or topic, else the message, after the
  replay answer when it asks for one.
\<close>

definition live_reads :: "bytes \<Rightarrow> message \<times> message list \<Rightarrow> (int \<times> bytes) list \<Rightarrow> bool" where
  "live_reads topic turn ms \<longleftrightarrow>
     (case turn of (frames, resp) \<Rightarrow>
        if length frames \<noteq> 3 \<or> frames ! 0 \<noteq> topic \<or> length (frames ! 1) \<noteq> 8 then ms = []
        else let m = (uint (be64 (frames ! 1)), frames ! 2) in ms = [m] \<or> ms = reply_messages resp @ [m])"

definition run_reads :: "bytes \<Rightarrow> message list \<Rightarrow> (message \<times> message list) list \<Rightarrow> (int \<times> bytes) list \<Rightarrow> bool" where
  "run_reads topic initial live ms \<longleftrightarrow>
     (\<exists>turns. list_all2 (live_reads topic) live turns \<and> ms = reply_messages initial @ concat turns)"

text \<open>
  A part of a run that reads \<open>full\<close>: it takes in a prefix of these messages, each prepared where the one before left off.
  What it posts are the events of their batches, in order, and when it ends with an exception perhaps the beginning of
  the batch of the message after them; the checkpoint file stands at the last batch taken in.
\<close>

definition took :: "(bytes \<Rightarrow> pyval res) \<Rightarrow> subscriber \<Rightarrow> (int \<times> bytes) list \<Rightarrow> unit res \<Rightarrow> subscriber \<Rightarrow> bool" where
  "took decode s full r s' \<longleftrightarrow>
     (\<exists>ms bs b unfinished. prefix ms full \<and> intake decode (sub_adapter s) ms = Inr (bs, b) \<and>
        delivered s' = delivered s @ concat (map pb_events bs) @ unfinished \<and>
        checkpoint (sub_adapter s') = checkpoint b \<and>
        (r = Inr () \<longrightarrow> ms = full \<and> unfinished = [] \<and> sub_adapter s' = b) \<and>
        (unfinished \<noteq> [] \<longrightarrow> (\<exists>m p. prefix (ms @ [m]) full \<and> prepare decode b (fst m) (snd m) = Inr p \<and>
           \<not> pb_duplicate p \<and> prefix unfinished (pb_events p))))"

lemma took_nothing: "took decode s [] (Inr ()) s"
  unfolding took_def by (intro exI [of _ "[]"] exI [of _ "sub_adapter s"]) (simp add: intake_def)

lemma took_stopped: "took decode s full (Inl e) s"
  unfolding took_def by (rule exI [of _ "[]"], rule exI [of _ "[]"], rule exI [of _ "sub_adapter s"], rule exI [of _ "[]"])
    (simp add: intake_def)

lemma took_failed:
  assumes "took decode s full (Inl e) s'"
  shows "took decode s (full @ others) (Inl e) s'"
proof -
  obtain ms bs b un where "prefix ms full" "intake decode (sub_adapter s) ms = Inr (bs, b)"
    "delivered s' = delivered s @ concat (map pb_events bs) @ un" "checkpoint (sub_adapter s') = checkpoint b"
    "un \<noteq> [] \<longrightarrow> (\<exists>m p. prefix (ms @ [m]) full \<and> prepare decode b (fst m) (snd m) = Inr p \<and>
           \<not> pb_duplicate p \<and> prefix un (pb_events p))"
    using assms unfolding took_def by blast
  then show ?thesis unfolding took_def
    by (intro exI [of _ ms] exI [of _ bs] exI [of _ b] exI [of _ un]) (auto intro: prefix_prefix)
qed

lemma took_then:
  assumes "took decode s full (Inr ()) t" "took decode t others r s'"
  shows "took decode s (full @ others) r s'"
proof -
  obtain bs where bs: "intake decode (sub_adapter s) full = Inr (bs, sub_adapter t)"
    "delivered t = delivered s @ concat (map pb_events bs)"
    using assms(1) by (auto simp: took_def)
  obtain ms cs b un where m: "prefix ms others" "intake decode (sub_adapter t) ms = Inr (cs, b)"
    "delivered s' = delivered t @ concat (map pb_events cs) @ un" "checkpoint (sub_adapter s') = checkpoint b"
    "r = Inr () \<longrightarrow> ms = others \<and> un = [] \<and> sub_adapter s' = b"
    "un \<noteq> [] \<longrightarrow> (\<exists>m p. prefix (ms @ [m]) others \<and> prepare decode b (fst m) (snd m) = Inr p \<and>
           \<not> pb_duplicate p \<and> prefix un (pb_events p))"
    using assms(2) unfolding took_def by blast
  have "intake decode (sub_adapter s) (full @ ms) = Inr (bs @ cs, b)"
    using bs(1) m(2) by (simp add: intake_def feed_append)
  with bs(2) m show ?thesis unfolding took_def
    by (intro exI [of _ "full @ ms"] exI [of _ "bs @ cs"] exI [of _ b] exI [of _ un]) auto
qed

lemma took_delivery:
  assumes "deliver net disk decode sq payload s = (r, s')"
  shows "took decode s [(sq, payload)] r s'"
  using assms
proof (cases rule: deliver_cases)
  case (rejected e)
  then show ?thesis using took_stopped by simp
next
  case (post_failed p k)
  have "\<not> pb_duplicate p" using post_failed(1,4) prepare_duplicate by fastforce
  with post_failed show ?thesis unfolding took_def
    by (intro exI [of _ "[]"] exI [of _ "sub_adapter s"] exI [of _ "take k (pb_events p)"]) (auto simp: intake_def take_is_prefix)
next
  case (save_failed p)
  then show ?thesis unfolding took_def
    by (intro exI [of _ "[]"] exI [of _ "sub_adapter s"] exI [of _ "pb_events p"]) (auto simp: intake_def)
next
  case (completed p)
  then have "sub_adapter s' = advance_adapter (sub_adapter s) p" by (simp add: advance_adapter_def)
  moreover have "concat (map pb_events (if pb_duplicate p then [] else [p])) = pb_events p"
    using completed(1) prepare_duplicate by auto
  ultimately show ?thesis using completed unfolding took_def
    by (intro exI [of _ "[(sq, payload)]"] exI [of _ "if pb_duplicate p then [] else [p]"] exI [of _ "sub_adapter s'"]
        exI [of _ "[]"]) (simp add: intake_def)
qed

lemma replay_loop_took:
  "replay_loop net disk decode start first_sequence msgs s = (r, s') \<Longrightarrow> took decode s (reply_messages msgs) r s'"
proof (induction msgs arbitrary: first_sequence s)
  case Nil
  then show ?case using took_stopped by auto
next
  case (Cons f msgs)
  let ?sq = "sint (be64 (f ! 1))"
  show ?case
  proof (cases "is_reply f")
    case False
    with Cons.prems show ?thesis
      by (auto simp: is_reply_def reply_messages_def Let_def split: if_splits intro: took_nothing took_stopped)
  next
    case True
    then have reads: "reply_messages (f # msgs) = [(?sq, f ! 2)] @ reply_messages msgs"
      by (simp add: reply_messages_def)
    obtain r1 s1 where d: "deliver net disk decode ?sq (f ! 2) s = (r1, s1)" by force
    note t = took_delivery [OF d]
    consider (late) e where "r = Inl e" "s' = s" | (failed) e where "r1 = Inl e" "r = Inl e" "s' = s1"
      | (on) g where "r1 = Inr ()" "replay_loop net disk decode start g msgs s1 = (r, s')"
      using Cons.prems True d by (auto simp: is_reply_def Let_def split: if_splits sum.splits)
    then show ?thesis
    proof cases
      case late
      then show ?thesis using took_stopped by simp
    next
      case failed
      then show ?thesis unfolding reads using t took_failed by blast
    next
      case on
      then show ?thesis unfolding reads using t took_then Cons.IH by blast
    qed
  qed
qed

lemma replay_took:
  "replay net disk decode endpoint start msgs s = (r, s') \<Longrightarrow> took decode s (reply_messages msgs) r s'"
  by (auto simp: replay_def split: if_splits intro: took_stopped replay_loop_took)

lemma handle_live_took:
  assumes "handle_live net disk decode endpoint topic frames resp s = (r, s')"
  shows "\<exists>ms. live_reads topic (frames, resp) ms \<and> took decode s ms r s'"
proof (cases "length frames \<noteq> 3 \<or> frames ! 0 \<noteq> topic \<or> length (frames ! 1) \<noteq> 8")
  case True
  with assms have "r = Inr ()" "s' = s" by (auto simp: handle_live_def)
  with True took_nothing show ?thesis by (auto simp: live_reads_def)
next
  case False
  let ?m = "(uint (be64 (frames ! 1)), frames ! 2)"
  obtain r1 s1 where d: "deliver net disk decode (fst ?m) (snd ?m) s = (r1, s1)" by force
  show ?thesis
  proof (cases "\<exists>i j. r1 = Inl (SequenceGap i j)")
    case True
    then obtain i j where gap: "r1 = Inl (SequenceGap i j)" by blast
    with d have s1: "s1 = s" by (auto elim: deliver_cases)
    obtain r2 s2 where rp: "replay net disk decode endpoint i resp s = (r2, s2)" by force
    have "took decode s (reply_messages resp @ [?m]) r s'"
    proof (cases r2)
      case (Inl e)
      with False assms d gap s1 rp have "r = Inl e" "s' = s2" by (auto simp: handle_live_def)
      with replay_took [OF rp] Inl took_failed show ?thesis by blast
    next
      case (Inr u)
      then have "deliver net disk decode (fst ?m) (snd ?m) s2 = (r, s')" "r2 = Inr ()"
        using False assms d gap s1 rp by (auto simp: handle_live_def)
      with replay_took [OF rp] took_delivery took_then show ?thesis by (metis prod.collapse)
    qed
    with False show ?thesis by (auto simp: live_reads_def Let_def)
  next
    case no_gap: False
    with False assms d have "(r, s') = (r1, s1)"
      by (auto simp: handle_live_def split: sum.splits pyerr.splits)
    with took_delivery [OF d] False show ?thesis by (auto simp: live_reads_def Let_def)
  qed
qed

lemma live_reads_exist: "\<exists>turns. list_all2 (live_reads topic) live turns"
proof (induction live)
  case (Cons t live)
  obtain frames resp where "t = (frames, resp)" by force
  then have "\<exists>ms. live_reads topic t ms" by (auto simp: live_reads_def Let_def)
  with Cons show ?case by (meson list_all2_Cons1 list.rel_intros(2))
qed simp

lemma live_loop_took:
  "live_loop net disk decode endpoint topic live s = (r, s') \<Longrightarrow>
   \<exists>turns. list_all2 (live_reads topic) live turns \<and> took decode s (concat turns) r s'"
proof (induction live arbitrary: s)
  case Nil
  then show ?case using took_nothing by auto
next
  case (Cons t live)
  obtain frames resp where t: "t = (frames, resp)" by force
  obtain r1 s1 where h: "handle_live net disk decode endpoint topic frames resp s = (r1, s1)" by force
  then obtain ms where ms: "live_reads topic t ms" "took decode s ms r1 s1" using handle_live_took t by blast
  show ?case
  proof (cases r1)
    case (Inl e)
    with Cons.prems t h have "r = Inl e" "s' = s1" by auto
    moreover obtain turns where "list_all2 (live_reads topic) live turns" using live_reads_exist by blast
    ultimately show ?thesis using ms Inl took_failed by (intro exI [of _ "ms # turns"]) auto
  next
    case (Inr u)
    with Cons t h obtain turns where "list_all2 (live_reads topic) live turns" "took decode s1 (concat turns) r s'" by auto
    with ms Inr show ?thesis by (intro exI [of _ "ms # turns"]) (auto intro: took_then)
  qed
qed

lemma run_took:
  assumes "run net disk decode endpoint topic initial live s = (r, s')"
  shows "\<exists>ms. run_reads topic initial live ms \<and> took decode s ms r s'"
proof (cases "endpoint = None \<or> endpoint = Some []")
  case True
  with assms have "\<exists>e. r = Inl e \<and> s' = s" by (auto simp: run_def)
  then show ?thesis using live_reads_exist took_stopped unfolding run_reads_def by metis
next
  case False
  let ?start = "case last_sequence (sub_adapter s) of None \<Rightarrow> 0 | Some n \<Rightarrow> n + 1"
  obtain r1 s1 where rp: "replay net disk decode endpoint ?start initial s = (r1, s1)" by force
  note t = replay_took [OF rp]
  show ?thesis
  proof (cases r1)
    case (Inl e)
    with False assms rp have "r = Inl e" "s' = s1" by (auto simp: run_def)
    with t Inl show ?thesis using live_reads_exist took_failed unfolding run_reads_def by metis
  next
    case (Inr u)
    then have "live_loop net disk decode endpoint topic live s1 = (r, s')" "r1 = Inr ()"
      using False assms rp by (auto simp: run_def)
    then show ?thesis using t live_loop_took took_then unfolding run_reads_def by metis
  qed
qed

section \<open>Recovery from a gap\<close>

text \<open>A payload every adapter can decode, and a frame triple of a replay answer.\<close>

definition sound_payload :: "(bytes \<Rightarrow> pyval res) \<Rightarrow> bytes \<Rightarrow> bool" where
  "sound_payload decode payload \<longleftrightarrow>
     (\<exists>t raws rest ts. decode payload = Inr (VList (t # VList raws # rest)) \<and> py_float t = Inr ts \<and>
        fle (Fin 0) ts \<and> (\<forall>a sq gen. \<exists>es. collect_events a sq gen ts False raws = Inr es))"

definition reply_ok :: "(bytes \<Rightarrow> pyval res) \<Rightarrow> message \<Rightarrow> bool" where
  "reply_ok decode f \<longleftrightarrow> length f = 3 \<and> f ! 0 = [] \<and> length (f ! 1) = 8 \<and> sound_payload decode (f ! 2)"

definition reply_end :: "message \<Rightarrow> bool" where
  "reply_end f \<longleftrightarrow> length f = 3 \<and> f ! 0 = [] \<and> length (f ! 1) = 8 \<and> sint (be64 (f ! 1)) = - 1"

definition reply_seq :: "message \<Rightarrow> int" where
  "reply_seq f = sint (be64 (f ! 1))"

lemma post_all_ok: "(\<forall>i. net i) \<Longrightarrow> \<exists>s'. post_all net es s = (Inr (), s')"
  by (induction es arbitrary: s) (simp_all add: post_def Let_def)

text \<open>
  How a turn may end: at sequence number \<open>k\<close>, or with the exception of a post or of a checkpoint write that failed.
\<close>

definition turn_ends :: "(nat \<Rightarrow> bool) \<Rightarrow> (nat \<Rightarrow> bool) \<Rightarrow> int \<Rightarrow> unit res \<Rightarrow> subscriber \<Rightarrow> bool" where
  "turn_ends net disk k r s' \<longleftrightarrow>
     r = Inr () \<and> last_sequence (sub_adapter s') = Some k \<or> r = Inl HTTPError \<and> (\<exists>i. \<not> net i) \<or>
     r = Inl OSError \<and> (\<exists>i. \<not> disk i)"

lemma deliver_succ:
  assumes "sound_payload decode payload"
    and n: "last_sequence (sub_adapter s) = Some n" "0 \<le> n" "n + 1 < 2 ^ 64"
    and d: "deliver net disk decode (n + 1) payload s = (r, s')"
  shows "turn_ends net disk (n + 1) r s'"
proof -
  obtain t raws rest ts where dec: "decode payload = Inr (VList (t # VList raws # rest))" "py_float t = Inr ts"
    "fle (Fin 0) ts" "\<forall>a sq gen. \<exists>es. collect_events a sq gen ts False raws = Inr es"
    using assms(1) unfolding sound_payload_def by blast
  then obtain es where "collect_events (sub_adapter s) (n + 1) (ad_generation (sub_adapter s)) ts False raws = Inr es"
    by blast
  with dec n have p: "prepare decode (sub_adapter s) (n + 1) payload =
      Inr \<lparr>pb_sequence = n + 1, pb_timestamp = ts, pb_generation = ad_generation (sub_adapter s),
           pb_events = es, pb_duplicate = False\<rparr>"
    by (simp add: prepare_def prepare_batch_def is_restart_def fresh_batch_def)
  show ?thesis
  proof (cases "(\<forall>i. net i) \<and> (\<forall>i. disk i)")
    case True
    then obtain s1 where "post_all net es s = (Inr (), s1)" using post_all_ok by blast
    with p d True show ?thesis by (auto simp: turn_ends_def deliver_def commit_def save_checkpoint_def)
  next
    case False
    obtain r1 s1 where po: "post_all net es s = (r1, s1)" by force
    show ?thesis
    proof (cases r1)
      case (Inl e)
      then have "e = HTTPError" "\<exists>i. \<not> net i" using post_all_delivered [OF po] post_all_ok [of net es s] po by auto
      with p d po Inl show ?thesis by (simp add: turn_ends_def deliver_def)
    next
      case (Inr u)
      with p d po show ?thesis
        by (auto simp: turn_ends_def deliver_def commit_def save_checkpoint_def split: if_splits)
    qed
  qed
qed

lemma deliver_old:
  assumes "sound_payload decode payload" "last_sequence (sub_adapter s) = Some n" "0 < sq" "sq \<le> n" "sq < 2 ^ 64"
  shows "deliver net disk decode sq payload s = (Inr (), s\<lparr>saves := Suc (saves s)\<rparr>)"
  using assms
  by (auto simp: sound_payload_def deliver_def prepare_def prepare_batch_def is_restart_def commit_def)

lemma replay_loop_recovers:
  assumes "reply_end fin"
  shows "list_all (reply_ok decode) fs \<Longrightarrow> map reply_seq fs = [n + 1..k] \<Longrightarrow> n \<le> k \<Longrightarrow>
    last_sequence (sub_adapter s) = Some n \<Longrightarrow> 0 \<le> n \<Longrightarrow> first = None \<longrightarrow> n + 1 \<le> start \<Longrightarrow>
    replay_loop net disk decode start first (fs @ [fin]) s = (r, s') \<Longrightarrow> turn_ends net disk k r s'"
proof (induction fs arbitrary: n s first)
  case Nil
  then have "k = n" by (metis list.simps(8) upto_Nil2 order.antisym zle_add1_eq_le)
  with Nil assms show ?case by (simp add: reply_end_def turn_ends_def Let_def)
next
  case (Cons f fs)
  from Cons.prems(2) have "n + 1 \<le> k" by (metis list.distinct(1) list.simps(9) upto_empty not_le)
  with Cons.prems(2) have sq: "reply_seq f = n + 1" and rest: "map reply_seq fs = [n + 1 + 1..k]"
    by (simp_all add: upto_rec1)
  have "n + 1 < 2 ^ 64" using sq sint_less [of "be64 (f ! 1)"] by (simp add: reply_seq_def)
  obtain r1 s1 where d: "deliver net disk decode (n + 1) (f ! 2) s = (r1, s1)" by force
  have e: "turn_ends net disk (n + 1) r1 s1"
    using deliver_succ [OF _ Cons.prems(4,5) \<open>n + 1 < 2 ^ 64\<close> d] Cons.prems(1) by (simp add: reply_ok_def)
  define first' where "first' = (case first of None \<Rightarrow> Some (n + 1) | Some g \<Rightarrow> Some g)"
  have f': "first' \<noteq> None" by (simp add: first'_def split: option.split)
  have f: "sint (be64 (f ! 1)) = n + 1" "length f = 3" "f ! 0 = []" "length (f ! 1) = 8" "n + 1 \<noteq> - 1"
    "\<not> (first = None \<and> start < n + 1)"
    using Cons.prems(1,5,6) sq by (auto simp: reply_ok_def reply_seq_def)
  have loop: "(case r1 of Inl x \<Rightarrow> (Inl x, s1) | Inr _ \<Rightarrow> replay_loop net disk decode start first' (fs @ [fin]) s1) = (r, s')"
    using Cons.prems(7) unfolding append_Cons replay_loop.simps f Let_def d first'_def by (simp only: f if_False prod.case) simp
  show ?case
  proof (cases r1)
    case (Inl x)
    with e loop show ?thesis by (auto simp: turn_ends_def)
  next
    case (Inr u)
    with e have "last_sequence (sub_adapter s1) = Some (n + 1)" by (simp add: turn_ends_def)
    then show ?thesis
      using Cons.IH [OF _ rest \<open>n + 1 \<le> k\<close>, of s1 first'] Cons.prems(1,5) loop Inr f' by simp
  qed
qed

section \<open>Properties\<close>

text \<open>
  Property C3.  A gap heals unless the outside fails.  When a live message lies beyond the next sequence number and the
  replay answer holds the missing batches (and possibly later ones) up to the end marker, all of them with payloads that
  decode, then the turn succeeds with the adapter at the later of the live message and the end of the replay; the only
  other outcomes are the exception of a post that failed and the exception of a checkpoint write that failed.
\<close>

theorem gap_recovered:
  assumes "endpoint = Some e" and "e \<noteq> []"
    and "last_sequence (sub_adapter s) = Some n" and "0 \<le> n"
    and "length frames = 3" and "frames ! 0 = topic" and "length (frames ! 1) = 8"
    and "sound_payload decode (frames ! 2)" and "n + 1 < uint (be64 (frames ! 1))"
    and "list_all (reply_ok decode) fs" and "reply_end fin" and "map reply_seq fs = [n + 1..k]"
    and "uint (be64 (frames ! 1)) - 1 \<le> k"
  shows "case handle_live net disk decode endpoint topic frames (fs @ [fin]) s of (r, s') \<Rightarrow>
           (r = Inr () \<and> last_sequence (sub_adapter s') = Some (max (uint (be64 (frames ! 1))) k)) \<or>
           (r = Inl HTTPError \<and> (\<exists>i. \<not> net i)) \<or> (r = Inl OSError \<and> (\<exists>i. \<not> disk i))"
proof -
  define m where "m = uint (be64 (frames ! 1))"
  have m: "n + 1 < m" "m < 2 ^ 64" "m - 1 \<le> k" using assms(9,13) uint_lt2p [of "be64 (frames ! 1)"]
    by (simp_all add: m_def)
  have gap: "deliver net disk decode m (frames ! 2) s = (Inl (SequenceGap (n + 1) m), s)"
    using assms(3,4,8) m
    by (auto simp: sound_payload_def deliver_def prepare_def prepare_batch_def is_restart_def)
  obtain r1 s1 where rp: "replay net disk decode endpoint (n + 1) (fs @ [fin]) s = (r1, s1)" by force
  then have e1: "turn_ends net disk k r1 s1"
    using replay_loop_recovers [OF assms(11,10,12), of s None "n + 1" net disk r1 s1] assms(1-4) m
    by (auto simp: replay_def)
  obtain r2 s2 where d: "deliver net disk decode m (frames ! 2) s1 = (r2, s2)" by force
  have e2: "turn_ends net disk (max m k) r2 s2" if "last_sequence (sub_adapter s1) = Some k"
  proof (cases "m \<le> k")
    case True
    with deliver_old [OF assms(8) that] m assms(4) d that show ?thesis by (auto simp: turn_ends_def)
  next
    case False
    with m have "m = k + 1" by simp
    with deliver_succ [OF assms(8) that] m assms(4) d show ?thesis by simp
  qed
  have "handle_live net disk decode endpoint topic frames (fs @ [fin]) s =
      (case r1 of Inl x \<Rightarrow> (Inl x, s1) | Inr _ \<Rightarrow> (r2, s2))"
    using gap rp d assms(5-7) by (cases r1) (simp_all add: handle_live_def m_def)
  then show ?thesis using e1 e2 by (cases r1) (auto simp: turn_ends_def m_def)
qed

text \<open>
  Property C1.  Nothing is lost, under any behaviour of the sockets, the gateway and the disk.  A run reads a sequence of
  messages and takes in a prefix of it, all of it as long as no exception ends the run; the batches of that prefix, each
  prepared where the one before left off, continue the adapter's position without a gap.  What reached the gateway are
  exactly the events of these batches in order, followed, only after an exception, by the beginning of the
  next message's batch; and the checkpoint file starts a new process at the last batch taken in, so what was not finished
  will be delivered again.
\<close>

theorem run_no_loss:
  assumes "new_adapter bid gen file = Inr a"
    and "run net disk decode endpoint topic initial live
           \<lparr>sub_adapter = a, attempts = 0, saves = 0, delivered = []\<rparr> = (r, s')"
  shows "\<exists>reads ms bs b unfinished.
     run_reads topic initial live reads \<and> prefix ms reads \<and>
     intake decode a ms = Inr (bs, b) \<and> contiguous (positions a @ map batch_pos bs) \<and>
     delivered s' = concat (map pb_events bs) @ unfinished \<and>
     (unfinished \<noteq> [] \<longrightarrow> (\<exists>m p. prefix (ms @ [m]) reads \<and> prepare decode b (fst m) (snd m) = Inr p \<and>
        \<not> pb_duplicate p \<and> prefix unfinished (pb_events p))) \<and>
     new_adapter bid gen (checkpoint (sub_adapter s')) = Inr b \<and>
     (r = Inr () \<longrightarrow> ms = reads \<and> unfinished = [] \<and> sub_adapter s' = b)"
proof -
  obtain reads where reads: "run_reads topic initial live reads"
    "took decode \<lparr>sub_adapter = a, attempts = 0, saves = 0, delivered = []\<rparr> reads r s'"
    using run_took [OF assms(2)] by blast
  obtain ms bs b un where t: "prefix ms reads" "intake decode a ms = Inr (bs, b)"
    "delivered s' = concat (map pb_events bs) @ un" "checkpoint (sub_adapter s') = checkpoint b"
    "r = Inr () \<longrightarrow> ms = reads \<and> un = [] \<and> sub_adapter s' = b"
    "un \<noteq> [] \<longrightarrow> (\<exists>m p. prefix (ms @ [m]) reads \<and> prepare decode b (fst m) (snd m) = Inr p \<and>
           \<not> pb_duplicate p \<and> prefix un (pb_events p))"
    using reads(2) unfolding took_def by (simp only: subscriber.simps append_Nil) blast
  have "new_adapter bid gen (checkpoint b) = Inr b"
    using started_restarts [OF assms(1) t(2)] .
  with reads(1) t intake_contiguous [OF t(2)] show ?thesis
    by (intro exI [of _ reads] exI [of _ ms] exI [of _ bs] exI [of _ b] exI [of _ un]) simp
qed

text \<open>
  Property C4.  Delivery is all or nothing for the adapter: when a post fails the adapter is as
  before and exactly a proper prefix of the batch's events went out, when it succeeds all of them
  went out and the adapter is the committed one, and a failed checkpoint write leaves the file as
  it was.
\<close>

theorem deliver_atomic:
  assumes "deliver net disk decode sq payload s = (r, s')"
    and "prepare decode (sub_adapter s) sq payload = Inr p"
  shows "(\<exists>k \<le> length (pb_events p). delivered s' = delivered s @ take k (pb_events p) \<and>
            (r = Inl HTTPError \<longrightarrow> k < length (pb_events p) \<and> sub_adapter s' = sub_adapter s)) \<and>
         (r = Inr () \<longrightarrow> commit True (sub_adapter s) p = (Inr (), sub_adapter s') \<and>
            delivered s' = delivered s @ pb_events p) \<and>
         (r \<noteq> Inr () \<longrightarrow> checkpoint (sub_adapter s') = checkpoint (sub_adapter s))"
  using assms(1)
proof (cases rule: deliver_cases)
  case (post_failed q k)
  with assms(2) show ?thesis by (auto intro!: exI [of _ k])
next
  case (save_failed q)
  with assms(2) show ?thesis by (auto intro!: exI [of _ "length (pb_events q)"])
next
  case (completed q)
  with assms(2) show ?thesis by (auto intro!: exI [of _ "length (pb_events q)"])
qed (use assms(2) in simp)

section \<open>Instances\<close>

definition demo_sub :: "int \<Rightarrow> subscriber" where
  "demo_sub n = \<lparr>sub_adapter = demo_adapter n, attempts = 0, saves = 0, delivered = []\<rparr>"

definition demo_seq :: "char \<Rightarrow> bytes" where
  "demo_seq c = [CHR 0x00, CHR 0x00, CHR 0x00, CHR 0x00, CHR 0x00, CHR 0x00, CHR 0x00, c]"

definition demo_end :: message where
  "demo_end = [[], [CHR 0xFF, CHR 0xFF, CHR 0xFF, CHR 0xFF, CHR 0xFF, CHR 0xFF, CHR 0xFF, CHR 0xFF], []]"

lemma demo_seq_values:
  "be64 (demo_seq (CHR 0x02)) = 2" "be64 (demo_seq (CHR 0x03)) = 3" "be64 (demo_seq (CHR 0x04)) = 4"
  by (simp_all add: be64_def demo_seq_def)

lemma demo_seq_length: "length (demo_seq c) = 8"
  by (simp add: demo_seq_def)

lemma demo_sub_last: "last_sequence (sub_adapter (demo_sub n)) = Some n"
  by (simp add: demo_sub_def demo_adapter_def Let_def)

lemma demo_end_reply: "reply_end demo_end"
  by (simp add: reply_end_def demo_end_def be64_def)

lemma demo_sound: "sound_payload demo_decode ''store''"
  unfolding sound_payload_def
  by (rule exI [of _ "VFloat (Fin 5)"], rule exI [of _ "[VList [VStr ''BlockStored'', VList [VBytes ''A'', VInt 7],
         VNone, VNone, VInt 16]]"], intro exI)
     (auto simp: demo_decode_def collect_events_def raw_events_def block_events_def mk_event_def demo_time)

theorem gap_recovered_witness:
  "\<exists>s'. handle_live (\<lambda>_. True) (\<lambda>_. True) demo_decode (Some ''tcp'') [] [[], demo_seq (CHR 0x04), ''store'']
          ([[[], demo_seq (CHR 0x02), ''store''], [[], demo_seq (CHR 0x03), ''store'']] @ [demo_end]) (demo_sub 1) =
        (Inr (), s') \<and> last_sequence (sub_adapter s') = Some 4"
  using gap_recovered [of "Some ''tcp''" "''tcp''" "demo_sub 1" 1 "[[], demo_seq (CHR 0x04), ''store'']"
     "[]" demo_decode "[[[], demo_seq (CHR 0x02), ''store''], [[], demo_seq (CHR 0x03), ''store'']]" demo_end 3
     "\<lambda>_. True" "\<lambda>_. True"]
  by (simp add: demo_seq_values demo_end_reply demo_sound reply_ok_def reply_seq_def demo_sub_last demo_seq_length
      split: prod.splits)

theorem deliver_atomic_witness:
  "(deliver (\<lambda>i. i < 1) (\<lambda>_. True) demo_decode 2 ''store'' (demo_sub 1) =
     (Inl HTTPError, snd (deliver (\<lambda>i. i < 1) (\<lambda>_. True) demo_decode 2 ''store'' (demo_sub 1)))) \<and>
   checkpoint (sub_adapter (snd (deliver (\<lambda>i. i < 1) (\<lambda>_. True) demo_decode 2 ''store'' (demo_sub 1)))) =
     checkpoint (demo_adapter 1)"
proof -
  let ?d = "deliver (\<lambda>i. i < 1) (\<lambda>_. True) demo_decode 2 ''store'' (demo_sub 1)"
  obtain p where p0: "prepare demo_decode (demo_adapter 1) 2 ''store'' = Inr p"
    and ids: "map ev_engine_event_id (pb_events p) = [''g1:2:1000000'', ''g1:2:1000001'']"
    by (rule demo_prepare)
  have p: "prepare demo_decode (sub_adapter (demo_sub 1)) 2 ''store'' = Inr p"
    using p0 by (simp add: demo_sub_def)
  have "length (pb_events p) = 2" using ids by (metis length_map length_Cons list.size(3) numeral_2_eq_2)
  then obtain e f where "pb_events p = [e, f]" by (auto simp: numeral_2_eq_2 length_Suc_conv)
  with p have "fst ?d = Inl HTTPError" by (simp add: deliver_def post_def demo_sub_def Let_def)
  then have d: "?d = (Inl HTTPError, snd ?d)" by (metis prod.collapse)
  from deliver_atomic [OF d p] have "checkpoint (sub_adapter (snd ?d)) = checkpoint (sub_adapter (demo_sub 1))"
    by blast
  with d show ?thesis by (simp add: demo_sub_def)
qed

theorem run_no_loss_witness:
  "\<exists>reads ms bs b rest. prefix ms reads \<and> intake demo_decode (demo_adapter 1) ms = Inr (bs, b) \<and>
     contiguous (positions (demo_adapter 1) @ map batch_pos bs) \<and>
     delivered (snd (run (\<lambda>i. i < 3) (\<lambda>_. True) demo_decode (Some ''tcp'') []
        [[[], demo_seq (CHR 0x02), ''store''], demo_end] [([[], demo_seq (CHR 0x03), ''store''], [])] (demo_sub 1))) =
       concat (map pb_events bs) @ rest"
proof -
  let ?r = "run (\<lambda>i. i < 3) (\<lambda>_. True) demo_decode (Some ''tcp'') []
     [[[], demo_seq (CHR 0x02), ''store''], demo_end] [([[], demo_seq (CHR 0x03), ''store''], [])]
     \<lparr>sub_adapter = demo_adapter 1, attempts = 0, saves = 0, delivered = []\<rparr>"
  have new: "new_adapter ''b1'' ''g1'' (JsonFile (checkpoint_doc (demo_adapter 1))) = Inr (demo_adapter 1)"
    by (simp add: new_adapter_def load_checkpoint_def checkpoint_doc_def demo_adapter_def veq_str_def
        dget_def dget_or_def Let_def)
  have "?r = (fst ?r, snd ?r)" by simp
  from run_no_loss [OF new this] show ?thesis unfolding demo_sub_def by blast
qed

end
