(* ===== verification/KvLog.thy ===== *)
theory KvLog
  imports KvSubscriber
begin

text \<open>
  The contract of the event service over many lives of its process, as a log.  The log is at a position, that of the last
  durable batch, and holds what was sent to the gateway.  It moves on only over a message that was heard: the next one in
  the same generation or the first of a restarted engine, and everything it sends is the content of such a message.  A
  life of the process is a start from the checkpoint file and a \<open>run\<close>, with sockets, gateway and disk behaving in any way;
  a process that is killed leaves what a run leaves whose next post or write fails.
\<close>

section \<open>The log\<close>

record klog =
  lg_generation :: string
  lg_sequence :: "int option"
  lg_time :: pyfloat
  lg_sent :: "cache_event list"

text \<open>The cache events a message's raw events stand for, at a position and time.\<close>

definition content :: "string \<Rightarrow> prepared_batch \<Rightarrow> bool \<Rightarrow> pyval list \<Rightarrow> cache_event list res" where
  "content bid p restart raws =
     collect_events \<lparr>ad_backend_id = bid, configured_generation = [], ad_generation = [], last_sequence = None,
       last_timestamp = Fin 0, checkpoint = NoFile\<rparr> (pb_sequence p) (pb_generation p) (pb_timestamp p) restart raws"

text \<open>The batch \<open>p\<close> is what a message heard holds, at the position after the log's.\<close>

definition log_next ::
  "(bytes \<Rightarrow> pyval res) \<Rightarrow> (int \<times> bytes) set \<Rightarrow> string \<Rightarrow> klog \<Rightarrow> prepared_batch \<Rightarrow> bool" where
  "log_next decode heard bid l p \<longleftrightarrow>
     (\<exists>payload t raws rest. (pb_sequence p, payload) \<in> heard \<and> decode payload = Inr (VList (t # VList raws # rest)) \<and>
        py_float t = Inr (pb_timestamp p) \<and>
        (if lg_sequence l \<noteq> None \<and> pb_sequence p = 0 \<and> flt (lg_time l) (pb_timestamp p)
         then auto_generation (pb_timestamp p) (pb_generation p) \<and> content bid p True raws = Inr (pb_events p)
         else (lg_sequence l = None \<or> lg_sequence l = Some (pb_sequence p - 1)) \<and> pb_generation p = lg_generation l \<and>
              content bid p False raws = Inr (pb_events p)))"

text \<open>
  An attempt sends the beginning of the next batch and leaves the position as it is, so the batch will be sent again; a
  durable step sends all of it and moves the position.
\<close>

inductive log_step :: "(bytes \<Rightarrow> pyval res) \<Rightarrow> (int \<times> bytes) set \<Rightarrow> string \<Rightarrow> klog \<Rightarrow> klog \<Rightarrow> bool"
  for decode heard bid where
  log_attempt: "log_next decode heard bid l p \<Longrightarrow> prefix es (pb_events p) \<Longrightarrow>
     log_step decode heard bid l (l\<lparr>lg_sent := lg_sent l @ es\<rparr>)"
| log_durable: "log_next decode heard bid l p \<Longrightarrow>
     log_step decode heard bid l \<lparr>lg_generation = pb_generation p, lg_sequence = Some (pb_sequence p),
       lg_time = pb_timestamp p, lg_sent = lg_sent l @ pb_events p\<rparr>"

definition log_position :: "klog \<Rightarrow> history" where
  "log_position l = (case lg_sequence l of None \<Rightarrow> [] | Some n \<Rightarrow> [(lg_generation l, n)])"

text \<open>
  What the log promises: the batches it makes durable continue its position without a gap, and all their events are sent,
  in order.
\<close>

lemma log_next_succ: "log_next decode heard bid l p \<Longrightarrow> contiguous (log_position l @ [batch_pos p])"
  by (auto simp: log_next_def log_position_def contiguous_def succ_pos_def batch_pos_def split: if_splits option.split)

lemma log_promise:
  "(log_step decode heard bid)\<^sup>*\<^sup>* l l' \<Longrightarrow>
   \<exists>bs sent. contiguous (log_position l @ map batch_pos bs) \<and> lg_sent l' = lg_sent l @ sent \<and>
     subseq (concat (map pb_events bs)) sent \<and>
     log_position l' = (if bs = [] then log_position l else [batch_pos (last bs)])"
proof (induction rule: rtranclp_induct)
  case base
  show ?case
    by (intro exI [of _ "[]"]) (simp add: contiguous_def log_position_def split: option.split)
next
  case (step l1 l2)
  then obtain bs sent where i: "contiguous (log_position l @ map batch_pos bs)" "lg_sent l1 = lg_sent l @ sent"
    "subseq (concat (map pb_events bs)) sent"
    "log_position l1 = (if bs = [] then log_position l else [batch_pos (last bs)])" by blast
  from step.hyps(2) show ?case
  proof (cases rule: log_step.cases)
    case (log_attempt p es)
    have "log_position l2 = log_position l1" unfolding log_attempt by (simp add: log_position_def cong: option.case_cong)
    with i log_attempt show ?thesis
      by (intro exI [of _ bs] exI [of _ "sent @ es"]) (auto intro: list_emb_prefix)
  next
    case (log_durable p)
    have "contiguous (log_position l @ map batch_pos (bs @ [p]))"
    proof (cases "bs = []")
      case True
      with log_next_succ [OF log_durable(2)] i(4) show ?thesis by simp
    next
      case False
      with log_next_succ [OF log_durable(2)] i(1,4) show ?thesis
        using successively_append_iff [of succ_pos "log_position l @ map batch_pos bs" "[batch_pos p]"]
        by (simp add: contiguous_def last_map)
    qed
    moreover have "log_position l2 = [batch_pos p]" using log_durable by (simp add: log_position_def batch_pos_def)
    ultimately show ?thesis using i log_durable
      by (intro exI [of _ "bs @ [p]"] exI [of _ "sent @ pb_events p"]) (auto intro: list_emb_append_mono)
  qed
qed

section \<open>The service\<close>

text \<open>What outlives a process: the checkpoint file, and what the gateway has received.\<close>

record service =
  sv_file :: ckpt_file
  sv_sent :: "cache_event list"

text \<open>One life of the process, in which no message was read that is not in \<open>heard\<close>.\<close>

inductive life ::
  "(bytes \<Rightarrow> pyval res) \<Rightarrow> (int \<times> bytes) set \<Rightarrow> string \<Rightarrow> string \<Rightarrow> service \<Rightarrow> service \<Rightarrow> bool"
  for decode heard bid gen where
  lived: "new_adapter bid gen (sv_file v) = Inr a \<Longrightarrow>
    run net disk decode endpoint topic initial live \<lparr>sub_adapter = a, attempts = 0, saves = 0, delivered = []\<rparr> = (r, s') \<Longrightarrow>
    (\<forall>ms. run_reads topic initial live ms \<longrightarrow> set ms \<subseteq> heard) \<Longrightarrow>
    life decode heard bid gen v \<lparr>sv_file = checkpoint (sub_adapter s'), sv_sent = sv_sent v @ delivered s'\<rparr>"

inductive_cases lifeE: "life decode heard bid gen v v'"

definition log_at :: "adapter \<Rightarrow> cache_event list \<Rightarrow> klog" where
  "log_at a sent = \<lparr>lg_generation = ad_generation a, lg_sequence = last_sequence a, lg_time = last_timestamp a, lg_sent = sent\<rparr>"

definition startable :: "string \<Rightarrow> string \<Rightarrow> service \<Rightarrow> bool" where
  "startable bid gen v \<longleftrightarrow> (\<exists>a. new_adapter bid gen (sv_file v) = Inr a)"

definition log_of :: "string \<Rightarrow> string \<Rightarrow> service \<Rightarrow> klog" where
  "log_of bid gen v = log_at (projr (new_adapter bid gen (sv_file v))) (sv_sent v)"

section \<open>The simulation\<close>

lemma collect_events_backend:
  "ad_backend_id a = ad_backend_id b \<Longrightarrow> collect_events a sq gen ts r raws = collect_events b sq gen ts r raws"
proof -
  assume b: "ad_backend_id a = ad_backend_id b"
  then have e: "mk_event a = mk_event b" by (intro ext) (simp add: mk_event_def)
  then have be: "block_events a = block_events b" by (intro ext) (simp add: block_events_def)
  have "raw_events a = raw_events b" by (intro ext) (simp only: raw_events_def e be)
  with e show ?thesis by (simp add: collect_events_def)
qed

lemma prepared_next:
  assumes "prepare decode a sq payload = Inr p" "\<not> pb_duplicate p" "(sq, payload) \<in> heard" "ad_backend_id a = bid"
  shows "log_next decode heard bid (log_at a sent) p"
proof -
  obtain t raws rest where m: "decode payload = Inr (VList (t # VList raws # rest))" "py_float t = Inr (pb_timestamp p)"
    "pb_sequence p = sq"
    "collect_events a sq (pb_generation p) (pb_timestamp p) (is_restart a sq (pb_timestamp p)) raws = Inr (pb_events p)"
    "if is_restart a sq (pb_timestamp p) then auto_generation (pb_timestamp p) (pb_generation p)
     else pb_generation p = ad_generation a \<and> (last_sequence a = None \<or> last_sequence a = Some (sq - 1))"
    using prepare_accepted [OF assms(1,2)] by blast
  have "content bid p (is_restart a sq (pb_timestamp p)) raws = Inr (pb_events p)"
    using m(3,4) assms(4) unfolding content_def by (subst collect_events_backend [of _ a]) simp_all
  with m assms(3) show ?thesis unfolding log_next_def
    by (intro exI [of _ payload] exI [of _ t] exI [of _ raws] exI [of _ rest]) (auto simp: log_at_def is_restart_def split: if_splits)
qed

lemma intake_logged:
  "intake decode a ms = Inr (bs, b) \<Longrightarrow> set ms \<subseteq> heard \<Longrightarrow> ad_backend_id a = bid \<Longrightarrow>
   (log_step decode heard bid)\<^sup>*\<^sup>* (log_at a sent) (log_at b (sent @ concat (map pb_events bs)))"
proof (induction ms arbitrary: a bs sent)
  case Nil
  then show ?case by (simp add: intake_def)
next
  case (Cons m ms)
  obtain sq payload where m: "m = (sq, payload)" by force
  obtain p cs where p: "prepare decode a sq payload = Inr p" "intake decode (advance_adapter a p) ms = Inr (cs, b)"
    "bs = (if pb_duplicate p then cs else p # cs)"
    using Cons.prems(1) by (auto simp: intake_def m bindR_eq_Inr split: if_splits)
  note ih = Cons.IH [OF p(2)]
  show ?case
  proof (cases "pb_duplicate p")
    case True
    with ih [of sent] p(3) Cons.prems advance_duplicate show ?thesis by simp
  next
    case False
    then have "log_at (advance_adapter a p) (sent @ pb_events p) =
        \<lparr>lg_generation = pb_generation p, lg_sequence = Some (pb_sequence p), lg_time = pb_timestamp p,
         lg_sent = lg_sent (log_at a sent) @ pb_events p\<rparr>"
      by (simp add: log_at_def advance_adapter_def commit_def save_checkpoint_def)
    then have "log_step decode heard bid (log_at a sent) (log_at (advance_adapter a p) (sent @ pb_events p))"
      using log_durable [OF prepared_next [OF p(1) False, of heard bid sent]] Cons.prems(2,3) m by simp
    with ih [of "sent @ pb_events p"] p(3) False Cons.prems show ?thesis
      by (auto intro: converse_rtranclp_into_rtranclp)
  qed
qed

lemma life_simulated:
  assumes "life decode heard bid gen v v'" "startable bid gen v"
  shows "startable bid gen v' \<and> (log_step decode heard bid)\<^sup>*\<^sup>* (log_of bid gen v) (log_of bid gen v')"
proof -
  obtain a net disk endpoint topic initial live r s' where 1:
    "v' = \<lparr>sv_file = checkpoint (sub_adapter s'), sv_sent = sv_sent v @ delivered s'\<rparr>"
    "new_adapter bid gen (sv_file v) = Inr a"
    "run net disk decode endpoint topic initial live \<lparr>sub_adapter = a, attempts = 0, saves = 0, delivered = []\<rparr> = (r, s')"
    "\<forall>ms. run_reads topic initial live ms \<longrightarrow> set ms \<subseteq> heard"
    using assms(1) by (rule lifeE) blast
  let ?s = "\<lparr>sub_adapter = a, attempts = 0, saves = 0, delivered = []\<rparr>"
  obtain reads where reads: "run_reads topic initial live reads" "took decode ?s reads r s'"
    using run_took [OF 1(3)] by blast
  have heard: "set reads \<subseteq> heard" using 1(4) reads(1) by blast
  obtain ms bs b un where t: "prefix ms reads" "intake decode a ms = Inr (bs, b)"
    "delivered s' = concat (map pb_events bs) @ un" "checkpoint (sub_adapter s') = checkpoint b"
    "un \<noteq> [] \<longrightarrow> (\<exists>m p. prefix (ms @ [m]) reads \<and> prepare decode b (fst m) (snd m) = Inr p \<and>
           \<not> pb_duplicate p \<and> prefix un (pb_events p))"
    using reads(2) unfolding took_def by (simp only: subscriber.simps append_Nil) blast
  have ids: "ad_backend_id a = bid" "ad_backend_id b = bid"
    using new_adapter_ids [OF 1(2)] intake_frame [OF t(2)] by auto
  have new: "new_adapter bid gen (checkpoint b) = Inr b" by (rule started_restarts [OF 1(2) t(2)])
  let ?l = "log_at b (sv_sent v @ concat (map pb_events bs))"
  have "(log_step decode heard bid)\<^sup>*\<^sup>* (log_at a (sv_sent v)) ?l"
    using intake_logged [OF t(2) _ ids(1)] t(1) heard by (meson order_trans set_mono_prefix)
  moreover have "(log_step decode heard bid)\<^sup>*\<^sup>* ?l (log_at b (sv_sent v @ delivered s'))"
  proof (cases "un = []")
    case False
    then obtain m p where p: "prefix (ms @ [m]) reads" "prepare decode b (fst m) (snd m) = Inr p" "\<not> pb_duplicate p"
      "prefix un (pb_events p)" using t(5) by blast
    then have "m \<in> heard" using heard set_mono_prefix [OF p(1)] by auto
    then have "log_next decode heard bid ?l p" using prepared_next [OF p(2,3) _ ids(2)] by simp
    from log_attempt [OF this p(4)] show ?thesis using t(3) by (auto simp: log_at_def)
  qed (use t(3) in simp)
  ultimately show ?thesis using 1(1,2) new t(4) by (simp add: startable_def log_of_def)
qed

interpretation service: forward_simulation "life decode heard bid gen" "startable bid gen" "log_step decode heard bid"
  "log_of bid gen" for decode heard bid gen
  by unfold_locales (use life_simulated in blast)+

section \<open>Property\<close>

text \<open>
  Property C2.  Over any number of lives the service refines the log: from a checkpoint file a process can start with, the
  file it leaves can be started with again, and what it sent in all its lives together with the position of that file is
  what a run of the log over the messages heard yields.  In particular the batches that became durable continue the first
  position without a gap up to the last, and all their events were sent, in order.
\<close>

theorem run_refines_log:
  assumes "new_adapter bid gen (sv_file v) = Inr a" and "(life decode heard bid gen)\<^sup>*\<^sup>* v v'"
  shows "\<exists>b sent bs. new_adapter bid gen (sv_file v') = Inr b \<and> sv_sent v' = sv_sent v @ sent \<and>
     (log_step decode heard bid)\<^sup>*\<^sup>* (log_at a (sv_sent v)) (log_at b (sv_sent v')) \<and>
     contiguous (positions a @ map batch_pos bs) \<and> subseq (concat (map pb_events bs)) sent \<and>
     positions b = (if bs = [] then positions a else [batch_pos (last bs)])"
proof -
  have v: "startable bid gen v" using assms(1) by (auto simp: startable_def)
  obtain b where b: "new_adapter bid gen (sv_file v') = Inr b"
    using service.keeps_runs [OF assms(2) v] by (auto simp: startable_def)
  have steps: "(log_step decode heard bid)\<^sup>*\<^sup>* (log_at a (sv_sent v)) (log_at b (sv_sent v'))"
    using service.simulated_runs [OF assms(2) v] assms(1) b by (simp add: log_of_def)
  have pos: "log_position (log_at c sent) = positions c" "lg_sent (log_at c sent) = sent" for c sent
    by (simp_all add: log_position_def log_at_def positions_def split: option.split)
  from log_promise [OF steps] b steps show ?thesis unfolding pos by blast
qed

section \<open>Instance\<close>

definition demo_service :: service where
  "demo_service = \<lparr>sv_file = JsonFile (checkpoint_doc (demo_adapter 1)), sv_sent = []\<rparr>"

text \<open>A life whose second post fails.\<close>

definition demo_end_of_life :: subscriber where
  "demo_end_of_life = snd (run (\<lambda>i. i < 1) (\<lambda>_. True) demo_decode (Some ''tcp'') []
     [[[], demo_seq (CHR 0x02), ''store''], demo_end] [] (demo_sub 1))"

theorem run_refines_log_witness:
  "\<exists>b. new_adapter ''b1'' ''g1'' (checkpoint (sub_adapter demo_end_of_life)) = Inr b \<and>
     (log_step demo_decode UNIV ''b1'')\<^sup>*\<^sup>* (log_at (demo_adapter 1) []) (log_at b (delivered demo_end_of_life))"
proof -
  let ?r = "run (\<lambda>i. i < 1) (\<lambda>_. True) demo_decode (Some ''tcp'') []
     [[[], demo_seq (CHR 0x02), ''store''], demo_end] [] \<lparr>sub_adapter = demo_adapter 1, attempts = 0, saves = 0, delivered = []\<rparr>"
  have new: "new_adapter ''b1'' ''g1'' (sv_file demo_service) = Inr (demo_adapter 1)"
    by (simp add: demo_service_def new_adapter_def load_checkpoint_def checkpoint_doc_def demo_adapter_def veq_str_def
        dget_def dget_or_def Let_def)
  have "?r = (fst ?r, demo_end_of_life)" by (simp add: demo_end_of_life_def demo_sub_def)
  from lived [OF new this, of UNIV] have "(life demo_decode UNIV ''b1'' ''g1'')\<^sup>*\<^sup>* demo_service
      \<lparr>sv_file = checkpoint (sub_adapter demo_end_of_life), sv_sent = [] @ delivered demo_end_of_life\<rparr>"
    by (auto simp: demo_service_def)
  from run_refines_log [OF new this] show ?thesis by (auto simp: demo_service_def)
qed

end
