(* ===== verification/BlockHash.thy ===== *)
theory BlockHash
  imports KvEvents "HOL-Library.Countable"
begin

text \<open>
  \<open>engine_events/vllm_hash.py\<close>: the service that turns a request into the chain of cache keys of its
  full token blocks.  vLLM's own functions are parameters: \<open>lookup\<close> is \<open>get_hash_fn_by_name\<close>,
  \<open>init_none\<close> is \<open>init_none_hash\<close>, \<open>hash_block\<close> is \<open>hash_block_tokens\<close> and \<open>convert\<close> is
  \<open>maybe_convert_block_hash\<close>; \<open>tokenize\<close> is the HTTP exchange with \<open>/tokenize\<close>.
\<close>

section \<open>The hasher\<close>

record hash_result =
  hr_cache_keys :: "string list"
  hr_token_count :: int
  hr_full_blocks :: int

record 'h block_hasher =
  bh_block_size :: int
  bh_function :: 'h

text \<open>
  The constructor reads and writes the environment variable \<open>PYTHONHASHSEED\<close>, and the variable stays
  set when a later step fails.
\<close>

definition new_block_hasher ::
  "bool \<Rightarrow> (string \<Rightarrow> 'h res) \<Rightarrow> ('h \<Rightarrow> unit res) \<Rightarrow> string option \<Rightarrow> int \<Rightarrow> string \<Rightarrow> string \<Rightarrow>
   'h block_hasher res \<times> string option"
where
  "new_block_hasher vllm_installed lookup init_none env block_size hash_algo seed =
     (if block_size \<le> 0 then (Inl (ValueError ''block_size must be positive''), env)
      else if seed = [] then (Inl (ValueError ''python_hash_seed is required''), env)
      else if env \<noteq> None \<and> env \<noteq> Some seed
      then (Inl (ValueError ''PYTHONHASHSEED must match python_hash_seed''), env)
      else (guardR (\<not> vllm_installed) (RuntimeError ''vLLM is required for request hash alignment'')
              (bindR (lookup hash_algo) (\<lambda>f. bindR (init_none f) (\<lambda>_.
               Inr \<lparr>bh_block_size = block_size, bh_function = f\<rparr>))), Some seed))"

definition external_key :: "pyval \<Rightarrow> string" where
  "external_key external = ''vllm:block:'' @ (case external of VBytes b \<Rightarrow> bytes_hex b | v \<Rightarrow> py_str v)"

fun hash_loop ::
  "('a option \<Rightarrow> 't list \<Rightarrow> 'a) \<Rightarrow> ('a \<Rightarrow> pyval) \<Rightarrow> nat \<Rightarrow> 't list \<Rightarrow> nat list \<Rightarrow> 'a option \<Rightarrow> string list"
where
  "hash_loop hash_block convert b token_ids [] parent = []"
| "hash_loop hash_block convert b token_ids (block_index # others) parent =
     (let block = take b (drop (block_index * b) token_ids); h = hash_block parent block
      in external_key (convert h) # hash_loop hash_block convert b token_ids others (Some h))"

definition hash_tokens ::
  "('h \<Rightarrow> 'a option \<Rightarrow> 't list \<Rightarrow> 'a) \<Rightarrow> ('a \<Rightarrow> pyval) \<Rightarrow> 'h block_hasher \<Rightarrow> 't list \<Rightarrow> hash_result"
where
  "hash_tokens hash_block convert hasher token_ids =
     (let b = nat (bh_block_size hasher); full_blocks = length token_ids div b
      in \<lparr>hr_cache_keys = hash_loop (hash_block (bh_function hasher)) convert b token_ids [0..<full_blocks] None,
          hr_token_count = int (length token_ids), hr_full_blocks = int full_blocks\<rparr>)"

section \<open>The service\<close>

definition unsupported_fields :: "string list" where
  "unsupported_fields = [''cache_salt'', ''prompt_embeds'', ''lora_request'']"

definition text_part :: "pyval \<Rightarrow> bool" where
  "text_part part = (case part of VDict d \<Rightarrow> dget d ''type'' = Some (VStr ''text'') | _ \<Rightarrow> False)"

definition message_ok :: "pyval \<Rightarrow> bool" where
  "message_ok message =
     (case message of
        VDict d \<Rightarrow> (case dget d ''content'' of Some (VList parts) \<Rightarrow> list_all text_part parts | _ \<Rightarrow> True)
      | _ \<Rightarrow> True)"

definition validate_supported_request :: "(string \<times> pyval) list \<Rightarrow> unit res" where
  "validate_supported_request request =
     (case find (\<lambda>k. dget_or request k VNone \<noteq> VNone) unsupported_fields of
        Some k \<Rightarrow> Inl (ValueError (k @ '' is not supported by exact hash alignment''))
      | None \<Rightarrow>
          bindR (py_iter (dget_or request ''messages'' (VList []))) (\<lambda>messages.
          guardR (\<not> list_all message_ok messages)
            (ValueError ''multimodal message content is not supported by exact hash alignment'')
            (Inr ())))"

text \<open>\<open>isinstance(token, int) and token >= 0\<close>, which holds of a boolean.\<close>

definition token_ok :: "pyval \<Rightarrow> bool" where
  "token_ok t = (case t of VInt n \<Rightarrow> 0 \<le> n | VBool b \<Rightarrow> True | _ \<Rightarrow> False)"

definition tokenize_payload :: "(string \<times> pyval) list \<Rightarrow> (string \<times> pyval) list" where
  "tokenize_payload request =
     List.map_filter (\<lambda>k. map_option (\<lambda>v. (k, v)) (dget request k)) [''model'', ''messages'', ''tools'']"

definition resolve ::
  "('h \<Rightarrow> 'a option \<Rightarrow> pyval list \<Rightarrow> 'a) \<Rightarrow> ('a \<Rightarrow> pyval) \<Rightarrow> (pyval \<Rightarrow> pyval res) \<Rightarrow> 'h block_hasher \<Rightarrow>
   (string \<times> pyval) list \<Rightarrow> hash_result res"
where
  "resolve hash_block convert tokenize hasher request =
     bindR (validate_supported_request request) (\<lambda>_.
     bindR (tokenize (VDict (tokenize_payload request))) (\<lambda>body.
     bindR (vget body ''tokens'' VNone) (\<lambda>tokens.
     (case tokens of
        VList ts \<Rightarrow> guardR (\<not> list_all token_ok ts) (ValueError ''vLLM /tokenize returned invalid token IDs'')
                     (Inr (hash_tokens hash_block convert hasher ts))
      | _ \<Rightarrow> Inl (ValueError ''vLLM /tokenize returned invalid token IDs'')))))"

text \<open>
  The exceptions the endpoint turns into a 502; the others propagate.  The wording of an HTTP
  client error is not part of the model.
\<close>

fun caught_detail :: "pyerr \<Rightarrow> string option" where
  "caught_detail (ValueError m) = Some m"
| "caught_detail (RuntimeError m) = Some m"
| "caught_detail HTTPError = Some ''HTTP error''"
| "caught_detail _ = None"

definition cache_keys_endpoint ::
  "('h \<Rightarrow> 'a option \<Rightarrow> pyval list \<Rightarrow> 'a) \<Rightarrow> ('a \<Rightarrow> pyval) \<Rightarrow> (pyval \<Rightarrow> pyval res) \<Rightarrow> 'h block_hasher \<Rightarrow>
   (string \<times> pyval) list \<Rightarrow> (int \<times> pyval) res"
where
  "cache_keys_endpoint hash_block convert tokenize hasher request =
     (case resolve hash_block convert tokenize hasher request of
        Inl e \<Rightarrow> (case caught_detail e of
                   Some detail \<Rightarrow> Inr (502, VDict [(''detail'', VStr detail)])
                 | None \<Rightarrow> Inl e)
      | Inr r \<Rightarrow> Inr (200, VDict [(''cache_keys'', VList (map VStr (hr_cache_keys r))),
                               (''token_count'', VInt (hr_token_count r)),
                               (''full_blocks'', VInt (hr_full_blocks r))]))"

section \<open>The chain of blocks\<close>

text \<open>
  The calls of the block hash a token list amounts to, written down independently of the loop: the parent of the first
  block is \<open>None\<close>, the parent of each later block is the hash of the block before it.
\<close>

definition token_block :: "nat \<Rightarrow> 't list \<Rightarrow> nat \<Rightarrow> 't list" where
  "token_block b ts i = take b (drop (i * b) ts)"

fun parent_hash :: "('a option \<Rightarrow> 't list \<Rightarrow> 'a) \<Rightarrow> nat \<Rightarrow> 't list \<Rightarrow> nat \<Rightarrow> 'a option" where
  "parent_hash hash_block b ts 0 = None"
| "parent_hash hash_block b ts (Suc i) = Some (hash_block (parent_hash hash_block b ts i) (token_block b ts i))"

definition hash_call :: "('a option \<Rightarrow> 't list \<Rightarrow> 'a) \<Rightarrow> nat \<Rightarrow> 't list \<Rightarrow> nat \<Rightarrow> 'a option \<times> 't list" where
  "hash_call hash_block b ts i = (parent_hash hash_block b ts i, token_block b ts i)"

definition call_key :: "('a option \<Rightarrow> 't list \<Rightarrow> 'a) \<Rightarrow> ('a \<Rightarrow> pyval) \<Rightarrow> 'a option \<times> 't list \<Rightarrow> string" where
  "call_key hash_block convert call = external_key (convert (hash_block (fst call) (snd call)))"

text \<open>Two different calls at the same place of two token lists that are given the same key.\<close>

definition collides :: "('a option \<Rightarrow> 't list \<Rightarrow> 'a) \<Rightarrow> ('a \<Rightarrow> pyval) \<Rightarrow> nat \<Rightarrow> 't list \<Rightarrow> 't list \<Rightarrow> nat \<Rightarrow> bool" where
  "collides hash_block convert b s t i \<longleftrightarrow>
     hash_call hash_block b s i \<noteq> hash_call hash_block b t i \<and>
     call_key hash_block convert (hash_call hash_block b s i) = call_key hash_block convert (hash_call hash_block b t i)"

lemma hash_loop_calls:
  "hash_loop f g b ts [i..<n] (parent_hash f b ts i) = map (\<lambda>j. call_key f g (hash_call f b ts j)) [i..<n]"
proof (induction "n - i" arbitrary: i)
  case (Suc m)
  then have "[i..<n] = i # [Suc i..<n]" by (simp add: upt_conv_Cons)
  moreover have "hash_loop f g b ts [Suc i..<n] (Some (f (parent_hash f b ts i) (token_block b ts i))) =
      map (\<lambda>j. call_key f g (hash_call f b ts j)) [Suc i..<n]"
    using Suc(1) [of "Suc i"] Suc(2) by simp
  ultimately show ?case by (simp add: Let_def call_key_def hash_call_def token_block_def)
qed simp

text \<open>Without a collision, one key determines all blocks up to its own.\<close>

lemma key_determines_blocks:
  assumes "\<forall>i<Suc n. \<not> collides f g b s t i"
    and "call_key f g (hash_call f b s n) = call_key f g (hash_call f b t n)"
  shows "\<forall>i<Suc n. token_block b s i = token_block b t i"
  using assms
proof (induction n)
  case 0
  then show ?case by (simp add: collides_def hash_call_def)
next
  case (Suc n)
  have c: "hash_call f b s (Suc n) = hash_call f b t (Suc n)" using Suc.prems by (auto simp: collides_def)
  then have "call_key f g (hash_call f b s n) = call_key f g (hash_call f b t n)"
    by (simp add: hash_call_def call_key_def)
  with Suc have "\<forall>i<Suc n. token_block b s i = token_block b t i" by auto
  with c show ?case by (auto simp: hash_call_def less_Suc_eq)
qed

lemma parent_hash_cong:
  "\<forall>i<n. token_block b s i = token_block b t i \<Longrightarrow> parent_hash f b s n = parent_hash f b t n"
  by (induction n) auto

text \<open>Agreement on the first \<open>k\<close> blocks is agreement on the first \<open>k * b\<close> tokens.\<close>

lemma blocks_eq_iff:
  assumes "k * b \<le> length s" "k * b \<le> length t"
  shows "(\<forall>i<k. token_block b s i = token_block b t i) \<longleftrightarrow> take (k * b) s = take (k * b) t"
  using assms unfolding token_block_def
proof (induction k)
  case (Suc k)
  have split: "take (Suc k * b) u = take (k * b) u @ take b (drop (k * b) u)" for u :: "'a list"
    using take_add [of "k * b" b u] by (simp add: add.commute)
  have len: "length (take (k * b) s) = length (take (k * b) t)" using Suc.prems by simp
  from Suc show ?case unfolding split by (auto simp: less_Suc_eq append_eq_append_conv [OF disjI1 [OF len]])
qed simp

lemma full_blocks_bound: "k \<le> length s div b \<Longrightarrow> k * b \<le> length (s :: 'a list)"
  by (metis div_times_less_eq_dividend le_trans mult_le_mono1)

section \<open>Properties\<close>

text \<open>
  Property C8.  A cache key names the whole token prefix up to the end of its block.  For any block hash, the \<open>k\<close>-th keys
  of two token lists are equal exactly when the lists agree on their first \<open>k\<close> full blocks, or else there is an explicit
  collision: a block whose hash is called on two different pairs of parent hash and tokens in the two lists and gives them the
  same key.  Lists that agree on these blocks have the same first \<open>k\<close> keys, and there is one key per full block and none
  for the rest.
\<close>

theorem cache_keys_identify_prefix:
  assumes "k \<le> length s div nat (bh_block_size hasher)" and "k \<le> length t div nat (bh_block_size hasher)" and "0 < k"
  shows "length (hr_cache_keys (hash_tokens hash_block convert hasher s)) = length s div nat (bh_block_size hasher) \<and>
    (take (k * nat (bh_block_size hasher)) s = take (k * nat (bh_block_size hasher)) t \<longrightarrow>
       take k (hr_cache_keys (hash_tokens hash_block convert hasher s)) =
       take k (hr_cache_keys (hash_tokens hash_block convert hasher t))) \<and>
    ((hr_cache_keys (hash_tokens hash_block convert hasher s) ! (k - 1) =
      hr_cache_keys (hash_tokens hash_block convert hasher t) ! (k - 1) \<longleftrightarrow>
      take (k * nat (bh_block_size hasher)) s = take (k * nat (bh_block_size hasher)) t) \<or>
     (\<exists>i<k. collides (hash_block (bh_function hasher)) convert (nat (bh_block_size hasher)) s t i))"
proof -
  let ?b = "nat (bh_block_size hasher)" and ?f = "hash_block (bh_function hasher)"
  let ?key = "\<lambda>u i. call_key ?f convert (hash_call ?f ?b u i)"
  have keys: "hr_cache_keys (hash_tokens hash_block convert hasher u) = map (?key u) [0..<length u div ?b]" for u
    using hash_loop_calls [of ?f convert ?b u 0] by (simp add: hash_tokens_def Let_def)
  have blocks: "(\<forall>i<k. token_block ?b s i = token_block ?b t i) \<longleftrightarrow> take (k * ?b) s = take (k * ?b) t"
    by (rule blocks_eq_iff [OF full_blocks_bound [OF assms(1)] full_blocks_bound [OF assms(2)]])
  have same: "?key s i = ?key t i" if "i < k" "\<forall>i<k. token_block ?b s i = token_block ?b t i" for i
    using parent_hash_cong [of i ?b s t ?f] that by (simp add: hash_call_def)
  obtain n where n: "k = Suc n" using assms(3) by (cases k) auto
  have det: "\<forall>i<k. token_block ?b s i = token_block ?b t i"
    if "?key s n = ?key t n" "\<not> (\<exists>i<k. collides ?f convert ?b s t i)"
    using key_determines_blocks [of n ?f convert ?b s t] that unfolding n by blast
  have nth: "hr_cache_keys (hash_tokens hash_block convert hasher s) ! (k - 1) = ?key s n"
    "hr_cache_keys (hash_tokens hash_block convert hasher t) ! (k - 1) = ?key t n"
    unfolding keys using assms n by simp_all
  have "take k (map (?key s) [0..<length s div ?b]) = take k (map (?key t) [0..<length t div ?b])"
    if "\<forall>i<k. token_block ?b s i = token_block ?b t i"
    using same [OF _ that] assms(1,2) by (simp add: take_map take_upt)
  then show ?thesis unfolding nth blocks [symmetric] using det same [of n] n by (auto simp: keys)
qed

text \<open>
  Requests and engine events are named alike: whenever the event adapter accepts an
  external block hash, the key it gives the block is the key the hash service gives it.
\<close>

theorem request_and_event_keys_agree:
  assumes "cache_key external = Inr key"
  shows "external_key external = key"
  using assms by (cases external rule: cache_key.cases) (auto simp: external_key_def split: if_splits)

text \<open>
  The endpoint answers 200 only for a request without the unsupported fields and
  without multimodal content, whose tokenisation is a list of token ids, and then the answer holds
  the keys of exactly those tokens.
\<close>

theorem endpoint_ok_only_supported:
  assumes "cache_keys_endpoint hash_block convert tokenize hasher request = Inr (200, body)"
  shows "(\<forall>k\<in>set unsupported_fields. dget_or request k VNone = VNone) \<and>
     (\<exists>messages. py_iter (dget_or request ''messages'' (VList [])) = Inr messages \<and> list_all message_ok messages) \<and>
     (\<exists>d ts. tokenize (VDict (tokenize_payload request)) = Inr (VDict d) \<and> dget d ''tokens'' = Some (VList ts) \<and>
        list_all token_ok ts \<and>
        body = VDict [(''cache_keys'', VList (map VStr (hr_cache_keys (hash_tokens hash_block convert hasher ts)))),
                      (''token_count'', VInt (int (length ts))),
                      (''full_blocks'', VInt (int (length ts div nat (bh_block_size hasher))))])"
proof -
  from assms obtain r where r: "resolve hash_block convert tokenize hasher request = Inr r"
    and body: "body = VDict [(''cache_keys'', VList (map VStr (hr_cache_keys r))),
      (''token_count'', VInt (hr_token_count r)), (''full_blocks'', VInt (hr_full_blocks r))]"
    by (auto simp: cache_keys_endpoint_def split: sum.splits option.splits)
  from r have v: "validate_supported_request request = Inr ()" by (auto simp: resolve_def bindR_eq_Inr)
  from r obtain d ts where t: "tokenize (VDict (tokenize_payload request)) = Inr (VDict d)"
    "dget_or d ''tokens'' VNone = VList ts" "list_all token_ok ts" "r = hash_tokens hash_block convert hasher ts"
    unfolding resolve_def bindR_eq_Inr
    by (elim exE conjE) (auto simp: guardR_eq_Inr vget_eq_Inr split: pyval.splits)
  have "dget d ''tokens'' = Some (VList ts)" using t(2) by (auto simp: dget_or_def split: option.splits)
  with t v body show ?thesis
    by (auto simp: validate_supported_request_def bindR_eq_Inr guardR_eq_Inr hash_tokens_def find_None_iff Let_def
        split: option.splits)
qed

section \<open>Instances\<close>

text \<open>A block hash without collisions: the chain itself, numbered by \<open>list_encode\<close>.\<close>

definition chain_hash :: "unit \<Rightarrow> nat list list option \<Rightarrow> nat list \<Rightarrow> nat list list" where
  "chain_hash u parent block = block # (case parent of None \<Rightarrow> [] | Some q \<Rightarrow> [] # q)"

definition chain_number :: "nat list list \<Rightarrow> pyval" where
  "chain_number h = VInt (int (list_encode (map list_encode h)))"

lemma chain_never_collides: "\<not> collides (chain_hash ()) chain_number b s t i"
proof -
  have "external_key (chain_number g) = external_key (chain_number h) \<longleftrightarrow> g = h" for g h
    by (simp add: external_key_def chain_number_def list_encode_eq inj_map_eq_map [OF inj_list_encode])
  then show ?thesis
    by (auto simp: collides_def call_key_def hash_call_def chain_hash_def split: option.splits)
qed

theorem cache_keys_identify_prefix_witness:
  "hr_cache_keys (hash_tokens chain_hash chain_number \<lparr>bh_block_size = 2, bh_function = ()\<rparr> [3, 4, 5, 6]) ! 1 \<noteq>
   hr_cache_keys (hash_tokens chain_hash chain_number \<lparr>bh_block_size = 2, bh_function = ()\<rparr> [3, 9, 5, 6, 7]) ! 1"
  using cache_keys_identify_prefix [of 2 "[3, 4, 5, 6]" "\<lparr>bh_block_size = 2, bh_function = ()\<rparr>" "[3, 9, 5, 6, 7]" chain_hash chain_number]
  by (simp add: chain_never_collides)

theorem request_and_event_keys_agree_witness:
  "external_key (VBytes ''A'') = ''vllm:block:41''"
proof -
  have "cache_key (VBytes ''A'') = Inr ''vllm:block:41''" by code_simp
  then show ?thesis by (rule request_and_event_keys_agree)
qed

definition demo_tokenize :: "pyval \<Rightarrow> pyval res" where
  "demo_tokenize payload = Inr (VDict [(''tokens'', VList [VInt 1, VInt 2, VInt 3])])"

definition demo_request :: "(string \<times> pyval) list" where
  "demo_request = [(''model'', VStr ''m''), (''messages'', VList [VDict [(''role'', VStr ''user''), (''content'', VStr ''hi'')]])]"

theorem endpoint_ok_only_supported_witness:
  "list_all (\<lambda>k. dget_or demo_request k VNone = VNone) unsupported_fields"
proof -
  let ?e = "cache_keys_endpoint (\<lambda>u p c. length c) (\<lambda>n. VInt (int n)) demo_tokenize
    \<lparr>bh_block_size = 2, bh_function = ()\<rparr> demo_request"
  have "?e = Inr (200, VDict [(''cache_keys'', VList [VStr ''vllm:block:2'']), (''token_count'', VInt 3), (''full_blocks'', VInt 1)])"
    by code_simp
  from endpoint_ok_only_supported [OF this] show ?thesis by (simp add: list_all_iff)
qed

end
