(* ===== verification/PromParse.thy ===== *)
theory PromParse
  imports PyVal
begin

text \<open>
  \<open>exporter/prometheus_parse.py\<close>: metrics text to a flat dictionary of sums.  The parser of
  \<open>prometheus_client\<close> is a parameter \<open>families\<close> that returns the metric families of a text or raises;
  the relaxed line parser, the fallback, is transcribed with its two regular expressions as
  scanners.  Both expressions are deterministic: each repeated character class is disjoint from what
  may follow it, so the greedy match is the only one.
\<close>

type_synonym labels = "(string \<times> string) list"
type_synonym metrics = "(string \<times> pyfloat) list"

record sample =
  sm_name :: string
  sm_labels :: labels
  sm_value :: pyfloat

record metric_family =
  mf_type :: string
  mf_samples :: "sample list"

section \<open>The label filter\<close>

definition filter_part :: "string \<Rightarrow> labels \<Rightarrow> labels" where
  "filter_part part0 out =
     (let part = strip part0
      in if part = [] \<or> CHR ''='' \<notin> set part then out
         else (case partition_at (CHR ''='') part of (k, _, v) \<Rightarrow>
                 if strip k = [] then out else dset out (strip k) (strip v)))"

definition parse_label_filter_from_env :: "string option \<Rightarrow> labels option" where
  "parse_label_filter_from_env env =
     (let raw = strip (case env of None \<Rightarrow> [] | Some v \<Rightarrow> v)
      in if raw = [] then None
         else let out = fold filter_part (split_on (CHR '','') raw) []
              in if out = [] then None else Some out)"

definition labels_match :: "labels \<Rightarrow> labels \<Rightarrow> bool" where
  "labels_match sample_labels filt = list_all (\<lambda>(k, want). dget sample_labels k = Some want) filt"

definition passes :: "labels option \<Rightarrow> labels \<Rightarrow> bool" where
  "passes filt ls = (case filt of None \<Rightarrow> True | Some f \<Rightarrow> labels_match ls f)"

section \<open>The relaxed line parser\<close>

definition is_alpha :: "char \<Rightarrow> bool" where
  "is_alpha c = (let n = (of_char c :: nat) in (65 \<le> n \<and> n \<le> 90) \<or> (97 \<le> n \<and> n \<le> 122))"

definition name_start :: "char \<Rightarrow> bool" where
  "name_start c = (is_alpha c \<or> c = CHR ''_'' \<or> c = CHR '':'')"

definition name_char :: "char \<Rightarrow> bool" where
  "name_char c = (name_start c \<or> is_digit c)"

definition label_start :: "char \<Rightarrow> bool" where
  "label_start c = (is_alpha c \<or> c = CHR ''_'')"

definition label_char :: "char \<Rightarrow> bool" where
  "label_char c = (label_start c \<or> is_digit c)"

definition value_char :: "char \<Rightarrow> bool" where
  "value_char c = (is_digit c \<or> c \<in> {CHR ''-'', CHR ''+'', CHR ''.'', CHR ''e'', CHR ''E''})"

text \<open>A name: one start character and then as many continuation characters as there are.\<close>

definition scan_name :: "(char \<Rightarrow> bool) \<Rightarrow> (char \<Rightarrow> bool) \<Rightarrow> string \<Rightarrow> (string \<times> string) option" where
  "scan_name start cont s =
     (case s of
        [] \<Rightarrow> None
      | c # r \<Rightarrow> if start c then Some (c # takeWhile cont r, dropWhile cont r) else None)"

definition scan_value :: "string \<Rightarrow> (string \<times> string) option" where
  "scan_value s =
     (let run = takeWhile value_char s
      in if run \<noteq> [] then Some (run, dropWhile value_char s)
         else if take 3 s \<in> {''NaN'', ''nan'', ''Inf'', ''inf''} then Some (take 3 s, drop 3 s)
         else None)"

text \<open>\<open>_LINE_RE.match(line)\<close>: the three groups, the second one \<open>None\<close> when there are no braces.\<close>

definition match_line :: "string \<Rightarrow> (string \<times> string option \<times> string) option" where
  "match_line line =
     (case scan_name name_start name_char line of
        None \<Rightarrow> None
      | Some (name, r) \<Rightarrow>
          (case (case r of
                   c # r1 \<Rightarrow> if c = CHR ''{''
                             then (let body = takeWhile (\<lambda>c. c \<noteq> CHR ''}'') r1; r2 = dropWhile (\<lambda>c. c \<noteq> CHR ''}'') r1
                                   in if r2 = [] then None else Some (Some body, tl r2))
                             else Some (None, r)
                 | [] \<Rightarrow> Some (None, [])) of
             None \<Rightarrow> None
           | Some (group2, r3) \<Rightarrow>
               if lstrip r3 = r3 then None
               else (case scan_value (lstrip r3) of
                       None \<Rightarrow> None
                     | Some (v, r4) \<Rightarrow> if lstrip r4 = [] then Some (name, group2, v) else None)))"

text \<open>The quoted text of a label: escape pairs and plain characters up to the closing quote.\<close>

fun scan_quoted :: "string \<Rightarrow> (string \<times> string) option" where
  "scan_quoted [] = None"
| "scan_quoted (c # r) =
     (if c = CHR 0x22 then Some ([], r)
      else if c = CHR 0x5C then
        (case r of
           [] \<Rightarrow> None
         | d # r' \<Rightarrow> if d = CHR 0x0A then None
                     else map_option (\<lambda>(b, t). (c # d # b, t)) (scan_quoted r'))
      else map_option (\<lambda>(b, t). (c # b, t)) (scan_quoted r))"

text \<open>\<open>_LABEL_RE.match(text, pos)\<close>: name, raw value and the text after the match.\<close>

definition match_label :: "string \<Rightarrow> (string \<times> string \<times> string) option" where
  "match_label text =
     (case scan_name label_start label_char (lstrip text) of
        None \<Rightarrow> None
      | Some (name, r) \<Rightarrow>
          (case lstrip r of
             [] \<Rightarrow> None
           | c # r1 \<Rightarrow>
               if c \<noteq> CHR ''='' then None
               else (case lstrip r1 of
                       [] \<Rightarrow> None
                     | q # r2 \<Rightarrow>
                         if q \<noteq> CHR 0x22 then None
                         else map_option (\<lambda>(b, t). (name, b, lstrip t)) (scan_quoted r2))))"

fun unescape_label_value :: "string \<Rightarrow> string" where
  "unescape_label_value [] = []"
| "unescape_label_value [c] = [c]"
| "unescape_label_value (c # d # r) =
     (if c = CHR 0x5C then (if d = CHR ''n'' then CHR 0x0A else d) # unescape_label_value r
      else c # unescape_label_value (d # r))"

definition is_sep :: "char \<Rightarrow> bool" where
  "is_sep c = (c = CHR '' '' \<or> c = CHR '','')"

lemma dropWhile_length_le: "length (dropWhile P xs) \<le> length xs"
  by (induction xs) auto

lemma lstrip_length: "length (lstrip s) \<le> length s"
  by (simp add: lstrip_def dropWhile_length_le)

lemma scan_quoted_length: "scan_quoted s = Some (b, t) \<Longrightarrow> length t < length s"
  by (induction s arbitrary: b t rule: scan_quoted.induct) (fastforce split: if_splits list.splits)+

lemma scan_name_length: "scan_name p q s = Some (n, r) \<Longrightarrow> length r < length s"
  using dropWhile_length_le [of q] by (auto simp: scan_name_def le_imp_less_Suc split: list.splits if_splits)

lemma match_label_length:
  assumes "match_label text = Some (n, b, r)" shows "length r < length text"
proof -
  from assms obtain r0 c r1 q r2 t where s: "scan_name label_start label_char (lstrip text) = Some (n, r0)"
    "lstrip r0 = c # r1" "lstrip r1 = q # r2" "scan_quoted r2 = Some (b, t)" "r = lstrip t"
    by (auto simp: match_label_def split: option.splits prod.splits list.splits if_splits)
  have "length r \<le> length t" "length t < length r2" "length (q # r2) \<le> length r1"
    "length (c # r1) \<le> length r0" "length r0 < length (lstrip text)" "length (lstrip text) \<le> length text"
    using s lstrip_length scan_quoted_length scan_name_length by (metis)+
  then show ?thesis by simp
qed

function parse_labels_loop :: "string \<Rightarrow> labels \<Rightarrow> labels" where
  "parse_labels_loop text ls =
     (if text = [] then ls
      else (case match_label text of
              None \<Rightarrow> ls
            | Some (name, raw, rest) \<Rightarrow>
                parse_labels_loop (dropWhile is_sep rest) (dset ls name (unescape_label_value raw))))"
  by pat_completeness auto

termination
proof (relation "measure (length \<circ> fst)")
  fix s :: string and ls :: labels and x y n b r
  assume "match_label s = Some x" "(n, y) = x" "(b, r) = y"
  then have "length r < length s" using match_label_length [of s n b r] by simp
  then show "((dropWhile is_sep r, dset ls n (unescape_label_value b)), s, ls) \<in> measure (length \<circ> fst)"
    using dropWhile_length_le [of is_sep r] by simp
qed simp

declare parse_labels_loop.simps [simp del]

definition parse_labels_relaxed :: "string \<Rightarrow> labels" where
  "parse_labels_relaxed raw = parse_labels_loop (strip raw) []"

text \<open>\<open>str.splitlines()\<close>: a carriage return and a following line feed are one separator.\<close>

definition is_line_sep :: "char \<Rightarrow> bool" where
  "is_line_sep c = (let n = (of_char c :: nat) in (10 \<le> n \<and> n \<le> 13) \<or> (28 \<le> n \<and> n \<le> 30) \<or> n = 133)"

fun splitlines_acc :: "string \<Rightarrow> string \<Rightarrow> string list" where
  "splitlines_acc acc [] = (if acc = [] then [] else [rev acc])"
| "splitlines_acc acc [c] = (if is_line_sep c then [rev acc] else [rev (c # acc)])"
| "splitlines_acc acc (c # d # r) =
     (if c = CHR 0x0D \<and> d = CHR 0x0A then rev acc # splitlines_acc [] r
      else if is_line_sep c then rev acc # splitlines_acc [] (d # r)
      else splitlines_acc (c # acc) (d # r))"

definition splitlines :: "string \<Rightarrow> string list" where
  "splitlines s = splitlines_acc [] s"

definition add_metric :: "string \<Rightarrow> pyfloat \<Rightarrow> metrics \<Rightarrow> metrics" where
  "add_metric name v out = dset out name (fadd (dget_or out name (Fin 0)) v)"

definition relaxed_line :: "labels option \<Rightarrow> string \<Rightarrow> metrics \<Rightarrow> metrics" where
  "relaxed_line filt raw out =
     (let line = strip raw
      in if line = [] \<or> startswith line ''#'' then out
         else (case match_line line of
                 None \<Rightarrow> out
               | Some (name, group2, v) \<Rightarrow>
                   let ls = parse_labels_relaxed (case group2 of None \<Rightarrow> [] | Some b \<Rightarrow> b)
                   in if \<not> passes filt ls then out
                      else (case str_to_float v of Inl _ \<Rightarrow> out | Inr x \<Rightarrow> add_metric name x out)))"

definition parse_prometheus_text_relaxed_lines :: "string \<Rightarrow> labels option \<Rightarrow> metrics" where
  "parse_prometheus_text_relaxed_lines text filt = fold (relaxed_line filt) (splitlines text) []"

section \<open>Aggregation\<close>

definition aggregatable :: "string list" where
  "aggregatable = [''counter'', ''gauge'', ''unknown'']"

definition add_sample :: "labels option \<Rightarrow> sample \<Rightarrow> metrics \<Rightarrow> metrics" where
  "add_sample filt s out = (if passes filt (sm_labels s) then add_metric (sm_name s) (sm_value s) out else out)"

definition add_family :: "labels option \<Rightarrow> metric_family \<Rightarrow> metrics \<Rightarrow> metrics" where
  "add_family filt f out =
     (if mf_type f \<notin> set aggregatable then out else fold (add_sample filt) (mf_samples f) out)"

definition aggregate_prometheus_text ::
  "(string \<Rightarrow> metric_family list res) \<Rightarrow> string option \<Rightarrow> string \<Rightarrow> labels option \<Rightarrow> metrics" where
  "aggregate_prometheus_text families env text label_filter =
     (let filt = (case label_filter of Some f \<Rightarrow> Some f | None \<Rightarrow> parse_label_filter_from_env env)
      in case families text of
           Inr fs \<Rightarrow> fold (add_family filt) fs []
         | Inl _ \<Rightarrow> parse_prometheus_text_relaxed_lines text filt)"

section \<open>Sums by name\<close>

text \<open>The name and value pairs that reach the dictionary, in order, for either parser.\<close>

definition family_pairs :: "labels option \<Rightarrow> metric_family list \<Rightarrow> (string \<times> pyfloat) list" where
  "family_pairs filt fs =
     concat (map (\<lambda>f. map (\<lambda>s. (sm_name s, sm_value s)) (filter (\<lambda>s. passes filt (sm_labels s)) (mf_samples f)))
                 (filter (\<lambda>f. mf_type f \<in> set aggregatable) fs))"

definition line_pairs :: "labels option \<Rightarrow> string \<Rightarrow> (string \<times> pyfloat) list" where
  "line_pairs filt raw =
     (case match_line (strip raw) of
        None \<Rightarrow> []
      | Some (name, group2, v) \<Rightarrow>
          if passes filt (parse_labels_relaxed (case group2 of None \<Rightarrow> [] | Some b \<Rightarrow> b))
          then (case str_to_float v of Inl _ \<Rightarrow> [] | Inr x \<Rightarrow> [(name, x)]) else [])"

definition add_pairs :: "(string \<times> pyfloat) list \<Rightarrow> metrics \<Rightarrow> metrics" where
  "add_pairs ps out = fold (\<lambda>(n, v). add_metric n v) ps out"

definition values_of :: "string \<Rightarrow> (string \<times> pyfloat) list \<Rightarrow> pyfloat list" where
  "values_of name ps = map snd (filter (\<lambda>p. fst p = name) ps)"

lemma add_pairs_append: "add_pairs (ps @ qs) out = add_pairs qs (add_pairs ps out)"
  by (simp add: add_pairs_def)

lemma dget_add_pairs:
  "dget (add_pairs ps out) name =
     (if values_of name ps = [] then dget out name
      else Some (foldl fadd (dget_or out name (Fin 0)) (values_of name ps)))"
proof (induction ps arbitrary: out)
  case Nil
  then show ?case by (simp add: add_pairs_def values_of_def)
next
  case (Cons p ps)
  obtain n v where p: "p = (n, v)" by force
  have "add_pairs (p # ps) out = add_pairs ps (add_metric n v out)" by (simp add: add_pairs_def p)
  with Cons show ?case
    by (auto simp: values_of_def add_metric_def dget_dset dget_or_def p)
qed

lemma add_samples_pairs:
  "fold (add_sample filt) ss out =
   add_pairs (map (\<lambda>s. (sm_name s, sm_value s)) (filter (\<lambda>s. passes filt (sm_labels s)) ss)) out"
  by (induction ss arbitrary: out) (simp_all add: add_pairs_def add_sample_def)

lemma add_families_pairs: "fold (add_family filt) fs out = add_pairs (family_pairs filt fs) out"
proof (induction fs arbitrary: out)
  case Nil
  then show ?case by (simp add: add_pairs_def family_pairs_def)
next
  case (Cons f fs)
  then show ?case
    by (simp add: add_family_def add_samples_pairs family_pairs_def add_pairs_append)
qed

lemma match_line_comment: "startswith line ''#'' \<or> line = [] \<Longrightarrow> match_line line = None"
  by (cases line) (auto simp: match_line_def scan_name_def name_start_def is_alpha_def)

lemma relaxed_line_pairs: "relaxed_line filt raw out = add_pairs (line_pairs filt raw) out"
  using match_line_comment [of "strip raw"]
  by (auto simp: relaxed_line_def line_pairs_def add_pairs_def Let_def split: option.splits sum.splits)

lemma relaxed_lines_pairs:
  "fold (relaxed_line filt) ls out = add_pairs (concat (map (line_pairs filt) ls)) out"
  by (induction ls arbitrary: out) (simp_all add: relaxed_line_pairs add_pairs_append add_pairs_def)

section \<open>Rendered lines\<close>

text \<open>The text format: label values escape the backslash, the quote and the line feed.\<close>

definition escape_char :: "char \<Rightarrow> string" where
  "escape_char c = (if c = CHR 0x5C then [CHR 0x5C, CHR 0x5C] else if c = CHR 0x22 then [CHR 0x5C, CHR 0x22]
                    else if c = CHR 0x0A then [CHR 0x5C, CHR ''n''] else [c])"

definition escape :: "string \<Rightarrow> string" where
  "escape v = concat (map escape_char v)"

definition render_label :: "string \<times> string \<Rightarrow> string" where
  "render_label l = fst l @ [CHR ''='', CHR 0x22] @ escape (snd l) @ [CHR 0x22]"

definition render_labels :: "labels \<Rightarrow> string" where
  "render_labels ls = join '','' (map render_label ls)"

definition good_name :: "(char \<Rightarrow> bool) \<Rightarrow> (char \<Rightarrow> bool) \<Rightarrow> string \<Rightarrow> bool" where
  "good_name start cont n \<longleftrightarrow> n \<noteq> [] \<and> start (hd n) \<and> list_all cont (tl n)"

lemma unescape_escape: "unescape_label_value (escape v) = v"
proof (induction v)
  case (Cons c v)
  have e: "escape (c # v) = escape_char c @ escape v" by (simp add: escape_def)
  show ?case
  proof (cases "c = CHR 0x5C \<or> c = CHR 0x22 \<or> c = CHR 0x0A")
    case True
    with Cons show ?thesis by (auto simp: e escape_char_def)
  next
    case False
    then have "escape_char c = [c]" by (simp add: escape_char_def)
    with Cons False show ?thesis unfolding e by (cases "escape v") simp_all
  qed
qed (simp add: escape_def)

lemma scan_quoted_escape: "scan_quoted (escape v @ CHR 0x22 # r) = Some (escape v, r)"
proof (induction v)
  case (Cons c v)
  have "escape (c # v) = escape_char c @ escape v" by (simp add: escape_def)
  with Cons show ?case by (auto simp: escape_char_def)
qed (simp add: escape_def)

lemma scan_name_good:
  assumes "good_name start cont n" "r = [] \<or> \<not> cont (hd r)"
  shows "scan_name start cont (n @ r) = Some (n, r)"
proof -
  obtain c m where n: "n = c # m" "start c" "list_all cont m" using assms(1) by (cases n) (auto simp: good_name_def)
  have "takeWhile cont (m @ r) = m \<and> dropWhile cont (m @ r) = r"
    using n(3) assms(2) by (induction m) (cases r; auto)+
  with n show ?thesis by (simp add: scan_name_def)
qed

lemma char_classes:
  "name_start c \<or> name_char c \<or> label_start c \<or> label_char c \<or> value_char c \<Longrightarrow> \<not> is_space c"
  by (auto simp: name_char_def name_start_def label_char_def label_start_def value_char_def is_alpha_def
      is_space_def is_digit_def Let_def)

lemma lstrip_id: "s = [] \<or> \<not> is_space (hd s) \<Longrightarrow> lstrip s = s"
  by (cases s) (auto simp: lstrip_def)

lemma match_label_render:
  assumes "good_name label_start label_char (fst l)" "r = [] \<or> \<not> is_space (hd r)"
  shows "match_label (render_label l @ r) = Some (fst l, escape (snd l), r)"
proof -
  have "\<not> is_space (hd (fst l))" "fst l \<noteq> []" using assms(1) char_classes by (auto simp: good_name_def)
  then have l: "lstrip (render_label l @ r) = render_label l @ r"
    by (intro lstrip_id) (auto simp: render_label_def)
  have eq: "\<not> label_char (CHR ''='')" "\<not> is_space (CHR ''='')" "\<not> is_space (CHR 0x22)" by code_simp+
  have "scan_name label_start label_char (render_label l @ r) =
      Some (fst l, [CHR ''='', CHR 0x22] @ escape (snd l) @ CHR 0x22 # r)"
    using scan_name_good [OF assms(1), of "[CHR ''='', CHR 0x22] @ escape (snd l) @ CHR 0x22 # r"] eq
    by (simp add: render_label_def)
  with l eq assms(2) show ?thesis
    by (simp add: match_label_def lstrip_id scan_quoted_escape)
qed

lemma dset_fresh: "k \<notin> set (map fst d) \<Longrightarrow> dset d k v = d @ [(k, v)]"
  by (induction d) (auto simp: dset_def)

lemma render_label_start:
  "good_name label_start label_char (fst l) \<Longrightarrow>
   \<exists>c s. render_label l = c # s \<and> \<not> is_space c \<and> \<not> is_sep c"
proof -
  assume "good_name label_start label_char (fst l)"
  then obtain c m where "fst l = c # m" "label_start c" by (cases "fst l") (auto simp: good_name_def)
  moreover from this char_classes have "\<not> is_space c" by blast
  moreover have "\<not> is_sep c" using \<open>label_start c\<close>
    by (auto simp: is_sep_def label_start_def is_alpha_def)
  ultimately show ?thesis by (auto simp: render_label_def)
qed

lemma parse_labels_loop_render:
  "\<forall>l\<in>set ls. good_name label_start label_char (fst l) \<Longrightarrow> distinct (map fst (acc @ ls)) \<Longrightarrow>
   parse_labels_loop (render_labels ls) acc = acc @ ls"
proof (induction ls arbitrary: acc)
  case Nil
  then show ?case by (simp add: render_labels_def parse_labels_loop.simps)
next
  case (Cons l ls)
  define r where "r = (if ls = [] then [] else CHR '','' # render_labels ls)"
  have t: "render_labels (l # ls) = render_label l @ r"
    by (cases ls) (auto simp: render_labels_def r_def)
  have ne: "render_label l \<noteq> []" by (simp add: render_label_def)
  have "dropWhile is_sep r = render_labels ls"
  proof (cases ls)
    case (Cons m ms)
    with Cons.prems(1) render_label_start [of m] obtain c s where "render_labels ls = c # s" "\<not> is_sep c"
      by (cases ms) (auto simp: render_labels_def)
    then show ?thesis by (simp add: r_def Cons is_sep_def)
  qed (simp add: r_def render_labels_def)
  moreover have "match_label (render_labels (l # ls)) = Some (fst l, escape (snd l), r)"
    unfolding t using Cons.prems(1) by (intro match_label_render) (auto simp: r_def is_space_def)
  ultimately have "parse_labels_loop (render_labels (l # ls)) acc =
      parse_labels_loop (render_labels ls) (dset acc (fst l) (snd l))"
    using ne t by (subst parse_labels_loop.simps) (simp add: unescape_escape)
  also have "dset acc (fst l) (snd l) = acc @ [l]" using Cons.prems(2) by (simp add: dset_fresh)
  also have "parse_labels_loop (render_labels ls) (acc @ [l]) = acc @ l # ls"
    using Cons.IH [of "acc @ [l]"] Cons.prems by simp
  finally show ?case .
qed

lemma strip_id: "s = [] \<or> (\<not> is_space (hd s) \<and> \<not> is_space (last s)) \<Longrightarrow> strip s = s"
  by (cases "s = []") (simp_all add: strip_def lstrip_id hd_rev)

lemma render_labels_ends:
  assumes "\<forall>l\<in>set ls. good_name label_start label_char (fst l)" "ls \<noteq> []"
  shows "render_labels ls \<noteq> [] \<and> \<not> is_space (hd (render_labels ls)) \<and> last (render_labels ls) = CHR 0x22"
  using assms
proof (induction ls)
  case (Cons l ls)
  from Cons.prems render_label_start [of l] obtain c s where l: "render_label l = c # s" "\<not> is_space c" by auto
  have "last (render_label l) = CHR 0x22" by (simp add: render_label_def)
  with Cons l show ?case by (cases ls) (auto simp: render_labels_def)
qed simp

lemma parse_labels_render:
  assumes "\<forall>l\<in>set ls. good_name label_start label_char (fst l)" "distinct (map fst ls)"
  shows "parse_labels_relaxed (render_labels ls) = ls"
proof -
  have "\<not> is_space (CHR 0x22)" by code_simp
  then have "strip (render_labels ls) = render_labels ls"
    using render_labels_ends [OF assms(1)] by (intro strip_id) (cases ls; auto simp: render_labels_def)
  then show ?thesis using parse_labels_loop_render [OF assms(1), of "[]"] assms(2)
    by (simp add: parse_labels_relaxed_def)
qed

definition render_sample :: "string \<Rightarrow> labels \<Rightarrow> string \<Rightarrow> string" where
  "render_sample name ls v = name @ ''{'' @ render_labels ls @ ''} '' @ v"

text \<open>
  The spellings of a value: the characters of a number, an unsigned special value, or a signed one, which the expression of
  the relaxed parser does not match.
\<close>

definition special_value :: "string \<Rightarrow> bool" where
  "special_value v \<longleftrightarrow> v \<in> {''NaN'', ''nan'', ''Inf'', ''inf''}"

definition signed_special :: "string \<Rightarrow> bool" where
  "signed_special v \<longleftrightarrow> v \<noteq> [] \<and> hd v \<in> {CHR ''+'', CHR ''-''} \<and> special_value (tl v)"

definition value_text :: "string \<Rightarrow> bool" where
  "value_text v \<longleftrightarrow> v \<noteq> [] \<and> list_all value_char v \<or> special_value v \<or> signed_special v"

lemma scan_value_text:
  assumes "value_text v"
  shows "(case scan_value v of Some (w, r) \<Rightarrow> if lstrip r = [] then Some w else None | None \<Rightarrow> None) =
    (if signed_special v then None else Some v)"
proof -
  consider (number) "v \<noteq> []" "list_all value_char v" | (special) "special_value v" | (signed) "signed_special v"
    using assms unfolding value_text_def by blast
  then show ?thesis
  proof cases
    case number
    then have tw: "takeWhile value_char v = v" "dropWhile value_char v = []"
      by (auto simp: takeWhile_eq_all_conv dropWhile_eq_Nil_conv list_all_iff)
    have "scan_value v = Some (v, [])" using number(1) unfolding scan_value_def Let_def tw by simp
    moreover have "\<not> signed_special v"
    proof
      assume "signed_special v"
      then obtain c w where "v = c # w" "special_value w" by (cases v) (auto simp: signed_special_def)
      moreover have "\<not> list_all value_char ''NaN''" "\<not> list_all value_char ''nan''" "\<not> list_all value_char ''Inf''"
        "\<not> list_all value_char ''inf''" by code_simp+
      ultimately show False using number(2) by (auto simp: special_value_def)
    qed
    ultimately show ?thesis by (simp add: lstrip_def)
  next
    case special
    have "scan_value ''NaN'' = Some (''NaN'', [])" "scan_value ''nan'' = Some (''nan'', [])"
      "scan_value ''Inf'' = Some (''Inf'', [])" "scan_value ''inf'' = Some (''inf'', [])" by code_simp+
    with special show ?thesis by (auto simp: special_value_def signed_special_def lstrip_def)
  next
    case signed
    then obtain c w where v: "v = c # w" "c = CHR ''+'' \<or> c = CHR ''-''" "special_value w"
      by (cases v) (auto simp: signed_special_def)
    have "scan_value ''+NaN'' = Some (''+'', ''NaN'')" "scan_value ''+nan'' = Some (''+'', ''nan'')"
      "scan_value ''+Inf'' = Some (''+'', ''Inf'')" "scan_value ''+inf'' = Some (''+'', ''inf'')"
      "scan_value ''-NaN'' = Some (''-'', ''NaN'')" "scan_value ''-nan'' = Some (''-'', ''nan'')"
      "scan_value ''-Inf'' = Some (''-'', ''Inf'')" "scan_value ''-inf'' = Some (''-'', ''inf'')" by code_simp+
    moreover have "lstrip w = w" if "special_value w" for w
    proof (rule lstrip_id)
      have "\<not> is_space (CHR ''N'')" "\<not> is_space (CHR ''n'')" "\<not> is_space (CHR ''I'')" "\<not> is_space (CHR ''i'')"
        by code_simp+
      with that show "w = [] \<or> \<not> is_space (hd w)" by (auto simp: special_value_def)
    qed
    ultimately have "\<exists>s. scan_value v = Some (s, w) \<and> lstrip w = w" using v by (auto simp: special_value_def)
    moreover have "w \<noteq> []" using v(3) by (auto simp: special_value_def)
    ultimately show ?thesis using signed by auto
  qed
qed

lemma value_text_ends: "value_text v \<Longrightarrow> v \<noteq> [] \<and> list_all (\<lambda>c. \<not> is_space c) v"
proof -
  have c: "list_all (\<lambda>c. \<not> is_space c) (s # w)" if "s = CHR ''+'' \<or> s = CHR ''-''" "special_value w" for s w
  proof -
    have "list_all (\<lambda>c. \<not> is_space c) ''+-NnaIif''" by code_simp
    with that show ?thesis by (auto simp: special_value_def)
  qed
  assume "value_text v"
  then consider "v \<noteq> []" "list_all value_char v" | "special_value v" | "signed_special v"
    unfolding value_text_def by blast
  then show ?thesis
  proof cases
    case 1
    then show ?thesis using char_classes by (auto simp: list_all_iff)
  next
    case 2
    then show ?thesis using c [of "CHR ''+''" v] by (auto simp: special_value_def)
  next
    case 3
    then show ?thesis using c by (cases v) (auto simp: signed_special_def)
  qed
qed

lemma match_line_render:
  assumes "good_name name_start name_char name" "CHR ''}'' \<notin> set body" "value_text v"
  shows "match_line (name @ ''{'' @ body @ ''} '' @ v) = (if signed_special v then None else Some (name, Some body, v))"
proof -
  have b: "\<not> name_char (CHR ''{'')" "is_space (CHR '' '')" by code_simp+
  have "scan_name name_start name_char (name @ ''{'' @ body @ ''} '' @ v) = Some (name, ''{'' @ body @ ''} '' @ v)"
    using assms(1) b by (intro scan_name_good) auto
  moreover have "takeWhile (\<lambda>c. c \<noteq> CHR ''}'') (body @ CHR ''}'' # r) = body"
    "dropWhile (\<lambda>c. c \<noteq> CHR ''}'') (body @ CHR ''}'' # r) = CHR ''}'' # r" for r
    using assms(2) by (induction body) auto
  moreover have l: "lstrip (CHR '' '' # v) = v"
    using value_text_ends [OF assms(3)] b by (cases v) (auto simp: lstrip_def)
  moreover have "v \<noteq> CHR '' '' # v" by (metis n_not_Suc_n length_Cons)
  ultimately have "match_line (name @ ''{'' @ body @ ''} '' @ v) =
      (case scan_value v of None \<Rightarrow> None | Some (w, r4) \<Rightarrow> if lstrip r4 = [] then Some (name, Some body, w) else None)"
    by (simp add: match_line_def)
  then show ?thesis using scan_value_text [OF assms(3)] by (auto split: option.splits prod.splits if_splits)
qed

lemma render_labels_no_brace:
  "\<forall>l\<in>set ls. good_name label_start label_char (fst l) \<and> CHR ''}'' \<notin> set (snd l) \<Longrightarrow>
   CHR ''}'' \<notin> set (render_labels ls)"
proof (induction ls)
  case (Cons l ls)
  have "\<not> label_start (CHR ''}'')" "\<not> label_char (CHR ''}'')" by code_simp+
  then have "CHR ''}'' \<notin> set (fst l)"
    using Cons.prems by (cases "fst l") (auto simp: good_name_def list_all_iff)
  moreover have "CHR ''}'' \<notin> set (escape (snd l))"
    using Cons.prems by (auto simp: escape_def escape_char_def split: if_splits)
  ultimately have "CHR ''}'' \<notin> set (render_label l)" by (auto simp: render_label_def)
  with Cons show ?case by (cases ls) (auto simp: render_labels_def)
qed (simp add: render_labels_def)

section \<open>Properties\<close>

text \<open>
  Property C13.  The dictionary holds, for every metric name, the left-to-right floating point sum of
  the values of exactly those samples that pass the label filter and belong to a counter, gauge or
  untyped family; when the client library's parser raises, the sum over the lines the relaxed
  parser recognises under the same filter.  A name without such a sample is absent.
\<close>

theorem aggregate_sums_by_name:
  "dget (aggregate_prometheus_text families env text label_filter) name =
     (let filt = (case label_filter of Some f \<Rightarrow> Some f | None \<Rightarrow> parse_label_filter_from_env env);
          ps = (case families text of Inr fs \<Rightarrow> family_pairs filt fs
                | Inl _ \<Rightarrow> concat (map (line_pairs filt) (splitlines text)));
          vs = values_of name ps
      in if vs = [] then None else Some (foldl fadd (Fin 0) vs))"
proof -
  have "dget ([] :: metrics) name = None" "dget_or [] name (Fin 0) = Fin 0" by (simp_all add: dget_def dget_or_def)
  then show ?thesis
    by (simp add: aggregate_prometheus_text_def parse_prometheus_text_relaxed_lines_def add_families_pairs
        relaxed_lines_pairs dget_add_pairs Let_def split: sum.split)
qed

text \<open>
  A sample of the text format: a metric name, its labels and the spelling of its value.  Label values may hold any
  characters but a closing brace and the separators, other than the line feed the format escapes, at which \<open>splitlines\<close> cuts.
\<close>

type_synonym text_sample = "string \<times> labels \<times> string"

definition good_sample :: "text_sample \<Rightarrow> bool" where
  "good_sample s \<longleftrightarrow> (case s of (name, ls, v) \<Rightarrow>
     good_name name_start name_char name \<and> distinct (map fst ls) \<and> value_text v \<and>
     (\<forall>l\<in>set ls. good_name label_start label_char (fst l) \<and>
        (\<forall>c\<in>set (snd l). c \<noteq> CHR ''}'' \<and> (is_line_sep c \<longrightarrow> c = CHR 0x0A))))"

definition render_text :: "text_sample list \<Rightarrow> string" where
  "render_text ss = concat (map (\<lambda>(name, ls, v). render_sample name ls v @ [CHR 0x0A]) ss)"

text \<open>What a sample contributes: nothing when its value is signed and special or is no number.\<close>

definition add_text_sample :: "labels option \<Rightarrow> text_sample \<Rightarrow> metrics \<Rightarrow> metrics" where
  "add_text_sample filt s out =
     (case s of (name, ls, v) \<Rightarrow>
        if signed_special v \<or> \<not> passes filt ls then out
        else (case str_to_float v of Inl _ \<Rightarrow> out | Inr x \<Rightarrow> add_metric name x out))"

lemma rendered_line:
  assumes "good_sample (name, ls, v)"
  shows "relaxed_line filt (render_sample name ls v) out = add_text_sample filt (name, ls, v) out"
proof -
  have g: "good_name name_start name_char name" "value_text v" "distinct (map fst ls)"
    "\<forall>l\<in>set ls. good_name label_start label_char (fst l) \<and> CHR ''}'' \<notin> set (snd l)"
    using assms by (auto simp: good_sample_def)
  have "\<not> is_space (hd name)" "name \<noteq> []" using g(1) char_classes by (auto simp: good_name_def)
  moreover have "\<not> is_space (last v)" "v \<noteq> []" using value_text_ends [OF g(2)] by (auto simp: list_all_iff)
  ultimately have "strip (render_sample name ls v) = render_sample name ls v"
    by (intro strip_id) (auto simp: render_sample_def)
  moreover have "match_line (render_sample name ls v) = (if signed_special v then None else Some (name, Some (render_labels ls), v))"
    unfolding render_sample_def using match_line_render [OF g(1) render_labels_no_brace [OF g(4)] g(2)] .
  moreover have "parse_labels_relaxed (render_labels ls) = ls"
    using g(3,4) by (intro parse_labels_render) auto
  ultimately show ?thesis
    by (auto simp: relaxed_line_pairs line_pairs_def add_pairs_def add_text_sample_def split: sum.split)
qed

lemma line_sep_space: "is_line_sep c \<Longrightarrow> is_space c"
  by (auto simp: is_line_sep_def is_space_def Let_def)

abbreviation unbroken :: "string \<Rightarrow> bool" where
  "unbroken s \<equiv> list_all (\<lambda>c. \<not> is_line_sep c) s"

lemma unbroken_spaceless: "list_all (\<lambda>c. \<not> is_space c) s \<Longrightarrow> unbroken s"
  by (metis (mono_tags, lifting) line_sep_space list_all_iff)

lemma unbroken_name:
  assumes "good_name p q n" "\<And>c. p c \<Longrightarrow> \<not> is_space c" "\<And>c. q c \<Longrightarrow> \<not> is_space c"
  shows "unbroken n"
proof (rule unbroken_spaceless)
  show "list_all (\<lambda>c. \<not> is_space c) n" using assms by (cases n) (auto simp: good_name_def list_all_iff)
qed

lemma unbroken_escape:
  assumes "\<forall>c\<in>set w. is_line_sep c \<longrightarrow> c = CHR 0x0A"
  shows "unbroken (escape w)"
proof -
  have k: "\<not> is_line_sep (CHR 0x5C)" "\<not> is_line_sep (CHR 0x22)" "\<not> is_line_sep (CHR ''n'')" by code_simp+
  have "unbroken (escape_char c)" if "is_line_sep c \<longrightarrow> c = CHR 0x0A" for c
    using that k unfolding escape_char_def by (cases "c = CHR 0x0A") auto
  then show ?thesis using assms by (induction w) (simp_all add: escape_def)
qed

lemma unbroken_labels:
  assumes "\<And>l. l \<in> set ls \<Longrightarrow> unbroken (render_label l)"
  shows "unbroken (render_labels ls)"
proof -
  have "\<not> is_line_sep (CHR '','')" by code_simp
  with assms show ?thesis by (induction ls rule: induct_list012) (simp_all add: render_labels_def)
qed

lemma rendered_unbroken:
  assumes "good_sample (name, ls, v)"
  shows "unbroken (render_sample name ls v)"
proof -
  have p: "\<not> is_line_sep (CHR ''{'')" "\<not> is_line_sep (CHR ''}'')" "\<not> is_line_sep (CHR '' '')"
    "\<not> is_line_sep (CHR ''='')" "\<not> is_line_sep (CHR 0x22)" by code_simp+
  have "unbroken (render_label l)" if "l \<in> set ls" for l
  proof -
    have "unbroken (fst l)" using that assms char_classes
      by (intro unbroken_name [of label_start label_char]) (auto simp: good_sample_def)
    moreover have "unbroken (escape (snd l))" using that assms
      by (intro unbroken_escape) (auto simp: good_sample_def)
    ultimately show ?thesis using p by (simp add: render_label_def)
  qed
  then have "unbroken (render_labels ls)" by (rule unbroken_labels)
  moreover have "unbroken name" using assms char_classes
    by (intro unbroken_name [of name_start name_char]) (auto simp: good_sample_def)
  moreover have "unbroken v" using assms value_text_ends [of v] by (intro unbroken_spaceless) (auto simp: good_sample_def)
  ultimately show ?thesis using p by (simp add: render_sample_def)
qed

lemma splitlines_line:
  "list_all (\<lambda>c. \<not> is_line_sep c) l \<Longrightarrow> splitlines_acc acc (l @ CHR 0x0A # r) = (rev acc @ l) # splitlines_acc [] r"
proof (induction l arbitrary: acc)
  case Nil
  have "is_line_sep (CHR 0x0A)" by code_simp
  then show ?case by (cases r) simp_all
next
  case (Cons c l)
  obtain d t where t: "l @ CHR 0x0A # r = d # t" by (cases l) auto
  have "is_line_sep (CHR 0x0D)" by code_simp
  with Cons.prems have "c \<noteq> CHR 0x0D" by auto
  with Cons t show ?case by simp
qed

lemma splitlines_rendered:
  "\<forall>s\<in>set ss. good_sample s \<Longrightarrow> splitlines (render_text ss) = map (\<lambda>(name, ls, v). render_sample name ls v) ss"
  unfolding splitlines_def
proof (induction ss)
  case (Cons s ss)
  obtain name ls v where s: "s = (name, ls, v)" by (cases s)
  have "list_all (\<lambda>c. \<not> is_line_sep c) (render_sample name ls v)" using Cons.prems s by (simp add: rendered_unbroken)
  from splitlines_line [OF this, of "[]" "render_text ss"] Cons show ?case by (simp add: s render_text_def)
qed (simp add: render_text_def)

text \<open>
  Property C14.  The relaxed parser reads back a rendered text exactly: line by line it finds every sample's name, unescaped
  label values and number, and adds the number to the name's sum when the labels pass the filter.  The one spelling it
  drops is a signed special value such as \<open>+Inf\<close>; an unsigned one is read.  The samples have well-formed and distinct label
  names, and label values that hold no closing brace and no line separator but the escaped line feed.
\<close>

theorem relaxed_text_roundtrip:
  assumes "\<forall>s\<in>set samples. good_sample s"
  shows "parse_prometheus_text_relaxed_lines (render_text samples) filt = fold (add_text_sample filt) samples []"
proof -
  have "fold (relaxed_line filt) (map (\<lambda>(name, ls, v). render_sample name ls v) ss) out = fold (add_text_sample filt) ss out"
    if "\<forall>s\<in>set ss. good_sample s" for ss out
    using that by (induction ss arbitrary: out) (auto simp: rendered_line)
  with assms show ?thesis by (simp add: parse_prometheus_text_relaxed_lines_def splitlines_rendered)
qed

section \<open>Instances\<close>

text \<open>Two samples of a metric, a label value with a quote and a line feed, and a value that is dropped.\<close>

definition demo_samples :: "text_sample list" where
  "demo_samples = [(''vllm:x'', [(''gpu'', [CHR 0x22, CHR 0x0A])], ''2''), (''vllm:x'', [], ''+Inf''), (''vllm:x'', [], ''2'')]"

theorem relaxed_text_roundtrip_witness:
  "parse_prometheus_text_relaxed_lines (render_text demo_samples) None = [(''vllm:x'', Fin 4)]"
proof -
  have f: "str_to_float ''2'' = Inr (Fin 2)"
  proof -
    have "parse_decimal ''2'' = Some 2" by code_simp
    moreover have "take_sign (strip ''2'') = (False, ''2'')" by code_simp
    moreover have "lower ''2'' = ''2''" by code_simp
    ultimately show ?thesis by (simp add: str_to_float_def float_simps)
  qed
  have g: "good_name name_start name_char ''vllm:x''" "good_name label_start label_char ''gpu''" "list_all value_char ''2''"
    by code_simp+
  have "fadd (Fin 0) (Fin 2) = Fin 2" "fadd (Fin 2) (Fin 2) = Fin 4" by (simp_all add: float_simps)
  moreover have "\<forall>s\<in>set demo_samples. good_sample s"
    using g by (auto simp: demo_samples_def good_sample_def value_text_def signed_special_def special_value_def is_line_sep_def)
  ultimately show ?thesis using f
    by (simp add: relaxed_text_roundtrip demo_samples_def add_text_sample_def passes_def signed_special_def special_value_def
        add_metric_def dset_def dget_or_def dget_def)
qed

end
