(* ===== verification/ExpDerive.thy ===== *)
theory ExpDerive
  imports PromParse
begin

text \<open>
  \<open>exporter/schemas.py\<close> and \<open>exporter/derive/compute.py\<close>: the two snapshot types and the
  computation of the derived ratios.  The arithmetic is that of binary64 floats, so a scraped NaN or
  infinity is a value like any other.
\<close>

section \<open>Schemas\<close>

record native_snapshot =
  ns_backend :: string
  ns_model :: string
  ns_instance :: string
  ns_model_group :: string
  ns_total_blocks :: pyfloat
  ns_usage_perc :: pyfloat
  ns_active_blocks :: pyfloat
  ns_reusable_cached_blocks :: pyfloat
  ns_free_uncached_blocks :: pyfloat
  ns_duplicate_cached_blocks :: pyfloat
  ns_prefix_hits :: pyfloat
  ns_prefix_queries :: pyfloat
  ns_prefix_hits_metric_name :: string
  ns_prefix_queries_metric_name :: string
  ns_prefix_metric_semantics :: string
  ns_prefix_metric_comparability :: string
  ns_prefix_metric_basis :: string
  ns_prefix_evidence_quality :: string
  ns_block_evidence_quality :: string
  ns_queue_depth :: "pyfloat option"
  ns_running_requests :: "pyfloat option"
  ns_extra :: metrics

record derived_snapshot =
  ds_backend :: string
  ds_model :: string
  ds_instance :: string
  ds_model_group :: string
  ds_total_blocks :: pyfloat
  ds_active_blocks :: pyfloat
  ds_reusable_cached_blocks :: pyfloat
  ds_free_uncached_blocks :: pyfloat
  ds_duplicate_cached_blocks :: pyfloat
  ds_prefix_blocks :: pyfloat
  ds_hidden_reuse_ready_perc :: pyfloat
  ds_effective_residency_perc :: pyfloat
  ds_cold_free_perc :: pyfloat
  ds_cache_hit_ratio :: "pyfloat option"
  ds_prefix_hits_metric_name :: string
  ds_prefix_queries_metric_name :: string
  ds_prefix_metric_semantics :: string
  ds_prefix_metric_comparability :: string
  ds_prefix_metric_basis :: string
  ds_prefix_evidence_quality :: string
  ds_block_evidence_quality :: string
  ds_queue_depth :: "pyfloat option"
  ds_running_requests :: "pyfloat option"

section \<open>Derivation\<close>

definition clamp01 :: "pyfloat \<Rightarrow> pyfloat" where
  "clamp01 v = py_max (Fin 0) (py_min (Fin 1) v)"

definition usage_ratio :: "pyfloat \<Rightarrow> pyfloat res" where
  "usage_ratio usage_perc =
     (if fle usage_perc (Fin 0) then Inr (Fin 0)
      else if fle usage_perc (Fin 1) then Inr (clamp01 usage_perc)
      else bindR (fdiv usage_perc (Fin 100)) (\<lambda>q. Inr (clamp01 q)))"

record derive_state =
  last_prefix_hits :: "pyfloat option"

text \<open>The ratios before clamping: hidden, effective and cold.\<close>

definition block_ratios :: "native_snapshot \<Rightarrow> pyfloat \<Rightarrow> pyfloat \<Rightarrow> (pyfloat \<times> pyfloat \<times> pyfloat) res" where
  "block_ratios native total_blks usage =
     (if flt (Fin 0) total_blks
      then bindR (fdiv (ns_reusable_cached_blocks native) total_blks) (\<lambda>hidden.
           bindR (fdiv (fadd (ns_active_blocks native) (ns_reusable_cached_blocks native)) total_blks) (\<lambda>effective.
           bindR (fdiv (ns_free_uncached_blocks native) total_blks) (\<lambda>cold.
           Inr (hidden, effective, cold))))
      else Inr (Fin 0, usage, fsub (Fin 1) usage))"

definition hit_ratio :: "native_snapshot \<Rightarrow> pyfloat res" where
  "hit_ratio native =
     (if flt (Fin 0) (ns_prefix_queries native) then fdiv (ns_prefix_hits native) (ns_prefix_queries native)
      else Inr (Fin 0))"

text \<open>
  The ratio the snapshot reports, and the state left behind.  With a state the hits are compared with
  the previous ones, but a counter that went backwards changes nothing.
\<close>

definition reported_ratio ::
  "native_snapshot \<Rightarrow> derive_state option \<Rightarrow> pyfloat \<Rightarrow> (pyfloat option \<times> derive_state option) res" where
  "reported_ratio native state ratio =
     (case state of
        Some st \<Rightarrow>
          let hits = ns_prefix_hits native; queries = ns_prefix_queries native;
              st' = st\<lparr>last_prefix_hits := Some hits\<rparr>
          in if flt (Fin 0) queries then bindR (fdiv hits queries) (\<lambda>r. Inr (Some r, Some st'))
             else Inr (None, Some st')
      | None \<Rightarrow> Inr (if flt (Fin 0) (ns_prefix_queries native) then Some ratio else None, None))"

definition compute_derived ::
  "native_snapshot \<Rightarrow> derive_state option \<Rightarrow> (derived_snapshot \<times> derive_state option) res" where
  "compute_derived native state =
     (let total_blks = py_max (ns_total_blocks native) (Fin 0)
      in bindR (usage_ratio (ns_usage_perc native)) (\<lambda>usage.
         bindR (block_ratios native total_blks usage) (\<lambda>(hidden, effective, cold).
         bindR (hit_ratio native) (\<lambda>ratio.
         bindR (reported_ratio native state ratio) (\<lambda>(chr, state').
         Inr (\<lparr>ds_backend = ns_backend native, ds_model = ns_model native, ds_instance = ns_instance native,
               ds_model_group = ns_model_group native, ds_total_blocks = total_blks,
               ds_active_blocks = ns_active_blocks native,
               ds_reusable_cached_blocks = ns_reusable_cached_blocks native,
               ds_free_uncached_blocks = ns_free_uncached_blocks native,
               ds_duplicate_cached_blocks = ns_duplicate_cached_blocks native,
               ds_prefix_blocks = ns_reusable_cached_blocks native,
               ds_hidden_reuse_ready_perc = clamp01 hidden,
               ds_effective_residency_perc = clamp01 effective,
               ds_cold_free_perc = clamp01 cold,
               ds_cache_hit_ratio = map_option clamp01 chr,
               ds_prefix_hits_metric_name = ns_prefix_hits_metric_name native,
               ds_prefix_queries_metric_name = ns_prefix_queries_metric_name native,
               ds_prefix_metric_semantics = ns_prefix_metric_semantics native,
               ds_prefix_metric_comparability = ns_prefix_metric_comparability native,
               ds_prefix_metric_basis = ns_prefix_metric_basis native,
               ds_prefix_evidence_quality = ns_prefix_evidence_quality native,
               ds_block_evidence_quality = ns_block_evidence_quality native,
               ds_queue_depth = ns_queue_depth native,
               ds_running_requests = ns_running_requests native\<rparr>, state'))))))"

section \<open>Facts\<close>

lemma clamp01_in_unit [simp]: "in_unit (clamp01 v)"
  by (cases v) (auto simp: in_unit_def clamp01_def py_max_def py_min_def)

lemma clamp01_id: "in_unit v \<Longrightarrow> clamp01 v = v"
  by (cases v) (auto simp: in_unit_def clamp01_def py_max_def py_min_def)

text \<open>The clamp maps a NaN to one.\<close>

lemma clamp01_NaN: "clamp01 NaN = Fin 1"
  by (simp add: clamp01_def py_max_def py_min_def)

lemma flt_0_not_zero: "flt (Fin 0) x \<Longrightarrow> \<not> feq x (Fin 0)"
  by (cases x) auto

lemma usage_ratio_total: "\<exists>u. usage_ratio p = Inr u \<and> in_unit u"
  by (auto simp: usage_ratio_def fdiv_def in_unit_def [of "Fin 0"])

lemma block_ratios_total: "\<exists>h e c. block_ratios n t u = Inr (h, e, c)"
  by (auto simp: block_ratios_def fdiv_def flt_0_not_zero)

lemma reported_ratio_eq:
  assumes "hit_ratio n = Inr r"
  shows "reported_ratio n st r =
    Inr (if flt (Fin 0) (ns_prefix_queries n) then Some r else None,
         map_option (\<lambda>s. s\<lparr>last_prefix_hits := Some (ns_prefix_hits n)\<rparr>) st)"
  using assms by (auto simp: reported_ratio_def hit_ratio_def Let_def split: option.splits if_splits)

lemma hit_ratio_total: "\<exists>r. hit_ratio n = Inr r"
  by (auto simp: hit_ratio_def fdiv_def flt_0_not_zero)

lemma compute_derived_ok: "\<exists>d. compute_derived native None = Inr (d, None)"
proof -
  obtain u where u: "usage_ratio (ns_usage_perc native) = Inr u" using usage_ratio_total by blast
  obtain h e c where b: "block_ratios native (py_max (ns_total_blocks native) (Fin 0)) u = Inr (h, e, c)"
    using block_ratios_total by blast
  obtain r where r: "hit_ratio native = Inr r" using hit_ratio_total by blast
  show ?thesis by (simp add: compute_derived_def Let_def u b r reported_ratio_def)
qed

section \<open>Properties\<close>

text \<open>
  Property C12.  The derivation is total, whatever was scraped (NaN, infinities and negative numbers
  included): it never raises, every ratio it reports lies in the unit interval, the hit ratio is
  present exactly when the query counter is positive, and the reported snapshot does not depend on
  the previous scrape.
\<close>

theorem compute_derived_total:
  "\<exists>d. compute_derived native state =
         Inr (d, map_option (\<lambda>s. s\<lparr>last_prefix_hits := Some (ns_prefix_hits native)\<rparr>) state) \<and>
       compute_derived native None = Inr (d, None) \<and>
       in_unit (ds_hidden_reuse_ready_perc d) \<and> in_unit (ds_effective_residency_perc d) \<and>
       in_unit (ds_cold_free_perc d) \<and>
       (case ds_cache_hit_ratio d of
          None \<Rightarrow> \<not> flt (Fin 0) (ns_prefix_queries native)
        | Some r \<Rightarrow> flt (Fin 0) (ns_prefix_queries native) \<and> in_unit r)"
proof -
  obtain u where u: "usage_ratio (ns_usage_perc native) = Inr u" using usage_ratio_total by blast
  obtain h e c where b: "block_ratios native (py_max (ns_total_blocks native) (Fin 0)) u = Inr (h, e, c)"
    using block_ratios_total by blast
  obtain r where r: "hit_ratio native = Inr r" using hit_ratio_total by blast
  show ?thesis
    by (auto simp: compute_derived_def Let_def u b r reported_ratio_eq [OF r])
qed

lemma fl_of_nat: "n \<le> 2 ^ 53 \<Longrightarrow> fl (of_nat n) = Fin (of_nat n)"
proof -
  assume "n \<le> 2 ^ 53"
  then have "\<bar>int n\<bar> \<le> 2 ^ 53" by (metis abs_of_nat of_nat_le_iff of_nat_numeral of_nat_power)
  from fl_int [OF this] show ?thesis by simp
qed

text \<open>
  On block counts that fit the total the clamp never acts: the reported shares are the
  correctly rounded quotients, and the reusable share never exceeds the resident share.
\<close>

theorem derived_shares_exact:
  assumes "compute_derived native state = Inr (d, state')"
    and "ns_total_blocks native = Fin (of_nat t)" and "0 < t" and "t \<le> 2 ^ 53"
    and "ns_active_blocks native = Fin (of_nat a)" and "ns_reusable_cached_blocks native = Fin (of_nat r)"
    and "ns_free_uncached_blocks native = Fin (of_nat f)" and "a + r \<le> t" and "f \<le> t"
  shows "ds_hidden_reuse_ready_perc d = fl (of_nat r / of_nat t) \<and>
         ds_effective_residency_perc d = fl (of_nat (a + r) / of_nat t) \<and>
         ds_cold_free_perc d = fl (of_nat f / of_nat t) \<and>
         fle (ds_hidden_reuse_ready_perc d) (ds_effective_residency_perc d)"
proof -
  have sum: "fadd (Fin (of_nat a)) (Fin (of_nat r)) = Fin (of_nat (a + r))"
    using fl_of_nat [of "a + r"] assms(4,8) by simp
  have unit: "in_unit (fl (of_nat x / of_nat t))" if "x \<le> t" for x
    using that assms(3) by (intro fl_unit_fraction) simp_all
  have total: "py_max (Fin (of_nat t)) (Fin 0) = Fin (of_nat t)" by (simp add: py_max_def)
  have "block_ratios native (Fin (of_nat t)) u = Inr (fl (of_nat r / of_nat t), fl (of_nat (a + r) / of_nat t),
      fl (of_nat f / of_nat t))" for u
    using assms(3,5-7) sum by (simp add: block_ratios_def fdiv_def)
  with assms(1,2) total have
    "ds_hidden_reuse_ready_perc d = clamp01 (fl (of_nat r / of_nat t))"
    "ds_effective_residency_perc d = clamp01 (fl (of_nat (a + r) / of_nat t))"
    "ds_cold_free_perc d = clamp01 (fl (of_nat f / of_nat t))"
    by (auto simp: compute_derived_def bindR_eq_Inr Let_def)
  moreover have "fle (fl (of_nat r / of_nat t)) (fl (of_nat (a + r) / of_nat t))"
    by (intro fl_mono divide_right_mono) simp_all
  moreover have "r \<le> t" using assms(8) by simp
  ultimately show ?thesis
    using clamp01_id [OF unit [OF assms(8)]] clamp01_id [OF unit [OF assms(9)]] clamp01_id [OF unit [of r]]
    by (simp del: of_nat_add)
qed

section \<open>Instances\<close>

definition demo_native :: native_snapshot where
  "demo_native = \<lparr>ns_backend = ''vllm'', ns_model = ''m'', ns_instance = ''i'', ns_model_group = [],
     ns_total_blocks = Fin 8, ns_usage_perc = Fin 0, ns_active_blocks = Fin 2, ns_reusable_cached_blocks = Fin 4,
     ns_free_uncached_blocks = Fin 2, ns_duplicate_cached_blocks = Fin 0, ns_prefix_hits = Fin 0,
     ns_prefix_queries = Fin 0, ns_prefix_hits_metric_name = [], ns_prefix_queries_metric_name = [],
     ns_prefix_metric_semantics = ''missing'', ns_prefix_metric_comparability = ''missing'',
     ns_prefix_metric_basis = ''missing'', ns_prefix_evidence_quality = ''missing'',
     ns_block_evidence_quality = ''strict'', ns_queue_depth = None, ns_running_requests = None, ns_extra = []\<rparr>"

theorem derived_shares_exact_witness:
  "\<exists>d. compute_derived demo_native None = Inr (d, None) \<and> ds_effective_residency_perc d = fl (6 / 8)"
proof -
  obtain d where d: "compute_derived demo_native None = Inr (d, None)"
    by (auto simp: compute_derived_def demo_native_def usage_ratio_def block_ratios_def hit_ratio_def
        reported_ratio_def fdiv_def py_max_def Let_def)
  from derived_shares_exact [OF d, of 8 2 4 2] d show ?thesis by (auto simp: demo_native_def)
qed

end
