(* ===== verification/ExpAdapters.thy ===== *)
theory ExpAdapters
  imports ExpDerive
begin

text \<open>
  \<open>exporter/adapters/vllm.py\<close> and \<open>exporter/adapters/sglang.py\<close>: a scrape to a native snapshot.  The
  HTTP exchange is a parameter, the text or the exception it ends with; \<open>families\<close> and \<open>env\<close> are
  those of the metrics parser.  \<open>order\<close> is the iteration order of a Python set, which depends on the
  hash seed of the process.
\<close>

section \<open>Picking metrics\<close>

definition pick_first :: "metrics \<Rightarrow> string list \<Rightarrow> (pyfloat \<times> string) option" where
  "pick_first m keys =
     (case find (\<lambda>k. dhas m k) keys of
        None \<Rightarrow> None
      | Some k \<Rightarrow> map_option (\<lambda>v. (v, k)) (dget m k))"

definition pick :: "metrics \<Rightarrow> string list \<Rightarrow> pyfloat" where
  "pick m keys = (case pick_first m keys of None \<Rightarrow> Fin 0 | Some (v, _) \<Rightarrow> v)"

definition pick_optional :: "metrics \<Rightarrow> string list \<Rightarrow> pyfloat option" where
  "pick_optional m keys = map_option fst (pick_first m keys)"

definition pick_with_name :: "metrics \<Rightarrow> string list \<Rightarrow> pyfloat \<times> string" where
  "pick_with_name m keys = (case pick_first m keys of None \<Rightarrow> (Fin 0, []) | Some r \<Rightarrow> r)"

text \<open>
  The body is parsed by the aggregating parser, which handles its own failures, so the handler in the
  adapters is never entered.
\<close>

definition parse_metrics_body :: "(string \<Rightarrow> metric_family list res) \<Rightarrow> string option \<Rightarrow> string \<Rightarrow> metrics" where
  "parse_metrics_body families env body = aggregate_prometheus_text families env body None"

section \<open>vLLM\<close>

record vllm_adapter =
  va_model_name :: string
  va_instance_name :: string
  va_model_group :: string

definition vllm_prefix_metadata :: "string \<Rightarrow> string \<Rightarrow> string \<times> string \<times> string \<times> string" where
  "vllm_prefix_metadata hits queries =
     (if hits \<noteq> [] \<and> queries \<noteq> [] then (''prefix_query_counters'', ''strict'', ''queries'', ''strict'')
      else if hits \<noteq> [] \<or> queries \<noteq> [] then (''partial'', ''missing'', ''mixed'', ''missing'')
      else (''missing'', ''missing'', ''missing'', ''missing''))"

definition vllm_block_names :: "string list" where
  "vllm_block_names = [''vllm_obs:kv_total_blocks'', ''vllm_obs:kv_active_blocks'',
     ''vllm_obs:kv_reusable_cached_blocks'', ''vllm_obs:kv_free_uncached_blocks'']"

definition vllm_block_quality :: "metrics \<Rightarrow> string" where
  "vllm_block_quality m =
     (if list_all (dhas m) vllm_block_names then ''strict''
      else if dhas m ''vllm:kv_cache_usage_perc'' then ''estimated'' else ''missing'')"

definition vllm_native :: "vllm_adapter \<Rightarrow> metrics \<Rightarrow> native_snapshot" where
  "vllm_native a m =
     (case pick_with_name m [''vllm:prefix_cache_hits_total'', ''vllm:prefix_cache_hits''] of (hits, hits_name) \<Rightarrow>
      case pick_with_name m [''vllm:prefix_cache_queries_total'', ''vllm:prefix_cache_queries''] of (queries, queries_name) \<Rightarrow>
      case vllm_prefix_metadata hits_name queries_name of (semantics, comparability, basis, quality) \<Rightarrow>
      \<lparr>ns_backend = ''vllm'', ns_model = va_model_name a, ns_instance = va_instance_name a,
          ns_model_group = va_model_group a,
          ns_total_blocks = pick m [''vllm_obs:kv_total_blocks''],
          ns_usage_perc = pick m [''vllm:kv_cache_usage_perc''],
          ns_active_blocks = pick m [''vllm_obs:kv_active_blocks''],
          ns_reusable_cached_blocks = pick m [''vllm_obs:kv_reusable_cached_blocks''],
          ns_free_uncached_blocks = pick m [''vllm_obs:kv_free_uncached_blocks''],
          ns_duplicate_cached_blocks = pick m [''vllm_obs:kv_duplicate_cached_blocks''],
          ns_prefix_hits = hits, ns_prefix_queries = queries,
          ns_prefix_hits_metric_name = hits_name, ns_prefix_queries_metric_name = queries_name,
          ns_prefix_metric_semantics = semantics, ns_prefix_metric_comparability = comparability,
          ns_prefix_metric_basis = basis, ns_prefix_evidence_quality = quality,
          ns_block_evidence_quality = vllm_block_quality m,
          ns_queue_depth = pick_optional m [''vllm:num_requests_waiting''],
          ns_running_requests = pick_optional m [''vllm:num_requests_running''],
          ns_extra = m\<rparr>)"

definition vllm_collect ::
  "(string \<Rightarrow> metric_family list res) \<Rightarrow> string option \<Rightarrow> vllm_adapter \<Rightarrow> string res \<Rightarrow> native_snapshot res" where
  "vllm_collect families env a response =
     bindR response (\<lambda>body. Inr (vllm_native a (parse_metrics_body families env body)))"

section \<open>SGLang\<close>

record sglang_adapter =
  sa_model_name :: string
  sa_instance_name :: string
  sa_model_group :: string
  sa_tokens_per_block :: int

definition new_sglang :: "string \<Rightarrow> string \<Rightarrow> string \<Rightarrow> int \<Rightarrow> sglang_adapter" where
  "new_sglang model_name instance_name model_group tokens_per_block =
     \<lparr>sa_model_name = model_name, sa_instance_name = instance_name, sa_model_group = model_group,
      sa_tokens_per_block = max 1 tokens_per_block\<rparr>"

definition tokens_to_blocks :: "sglang_adapter \<Rightarrow> pyfloat \<Rightarrow> pyfloat res" where
  "tokens_to_blocks a v = bindR (float_of_int (sa_tokens_per_block a)) (\<lambda>t. fdiv v t)"

definition token_fallback_hits :: "string list" where
  "token_fallback_hits = [''sglang:cached_tokens_total'', ''sglang_cached_tokens_total'']"

definition token_fallback_queries :: "string list" where
  "token_fallback_queries = [''sglang:prompt_tokens_total'', ''sglang_prompt_tokens_total'']"

definition sglang_prefix_metadata :: "string \<Rightarrow> string \<Rightarrow> string \<times> string \<times> string \<times> string" where
  "sglang_prefix_metadata hits queries =
     (if hits \<noteq> [] \<and> queries \<noteq> []
      then (if hits \<in> set token_fallback_hits \<and> queries \<in> set token_fallback_queries
            then (''token_counter_fallback'', ''directional'', ''tokens'', ''fallback'')
            else (''prefix_query_counters'', ''strict'', ''queries'', ''strict''))
      else if hits \<noteq> [] \<or> queries \<noteq> [] then (''partial'', ''missing'', ''mixed'', ''missing'')
      else (''missing'', ''missing'', ''missing'', ''missing''))"

definition total_block_names :: "string list" where
  "total_block_names = [''sglang:kv_total_blocks'', ''sglang_kv_total_blocks'']"

definition active_block_names :: "string list" where
  "active_block_names = [''sglang_obs:kv_active_blocks'', ''sglang_kv_active_blocks'']"

definition reusable_block_names :: "string list" where
  "reusable_block_names = [''sglang_obs:kv_reusable_cached_blocks'', ''sglang_kv_reusable_cached_blocks'']"

definition free_block_names :: "string list" where
  "free_block_names = [''sglang_obs:kv_free_uncached_blocks'', ''sglang_kv_free_uncached_blocks'']"

definition sglang_hits_names :: "string list" where
  "sglang_hits_names = [''sglang:prefix_cache_hits_total'', ''sglang_prefix_cache_hits_total'',
     ''sglang:prefix_cache_hits'', ''sglang_prefix_cache_hits'',
     ''sglang:cached_tokens_total'', ''sglang_cached_tokens_total'']"

definition sglang_queries_names :: "string list" where
  "sglang_queries_names = [''sglang:prefix_cache_queries_total'', ''sglang_prefix_cache_queries_total'',
     ''sglang:prefix_cache_queries'', ''sglang_prefix_cache_queries'',
     ''sglang:prompt_tokens_total'', ''sglang_prompt_tokens_total'']"

definition sglang_usage_names :: "string list" where
  "sglang_usage_names = [''sglang:kv_cache_usage_perc'', ''sglang_kv_cache_usage_perc'',
     ''sglang:token_usage'', ''sglang_token_usage'']"

text \<open>A block count that falls back to a token count when it is absent or zero.\<close>

definition blocks_or_tokens :: "sglang_adapter \<Rightarrow> metrics \<Rightarrow> pyfloat \<Rightarrow> string list \<Rightarrow> (pyfloat \<times> bool) res" where
  "blocks_or_tokens a m blocks token_names =
     (if feq blocks (Fin 0)
      then let tokens = pick m token_names
           in if flt (Fin 0) tokens then bindR (tokens_to_blocks a tokens) (\<lambda>b. Inr (b, True))
              else Inr (blocks, False)
      else Inr (blocks, False))"

definition sglang_free_blocks :: "pyfloat \<Rightarrow> pyfloat \<Rightarrow> pyfloat \<Rightarrow> pyfloat" where
  "sglang_free_blocks free_uncached_blocks total_blocks active_blocks =
     (if feq free_uncached_blocks (Fin 0) \<and> flt (Fin 0) total_blocks \<and> flt (Fin 0) active_blocks
      then py_max (Fin 0) (fsub total_blocks active_blocks) else free_uncached_blocks)"

definition sglang_block_quality :: "metrics \<Rightarrow> pyfloat \<Rightarrow> pyfloat \<Rightarrow> bool \<Rightarrow> string" where
  "sglang_block_quality m total_blocks usage_perc from_tokens =
     (if list_all (\<lambda>names. list_ex (dhas m) names)
           [total_block_names, active_block_names, reusable_block_names, free_block_names] then ''strict''
      else if flt (Fin 0) total_blocks \<or> flt (Fin 0) usage_perc then ''estimated''
      else if from_tokens then ''estimated'' else ''missing'')"

definition sglang_native :: "(string list \<Rightarrow> string list) \<Rightarrow> sglang_adapter \<Rightarrow> metrics \<Rightarrow> native_snapshot res" where
  "sglang_native order a m =
     bindR (blocks_or_tokens a m (pick m (order total_block_names))
              [''sglang:max_total_num_tokens'', ''sglang_max_total_num_tokens'']) (\<lambda>(total_blocks, from_tokens).
     let usage_perc = pick m sglang_usage_names in
     bindR (blocks_or_tokens a m (pick m (order active_block_names))
              [''sglang:num_used_tokens'', ''sglang_num_used_tokens'']) (\<lambda>(active_blocks, _).
     let free0 = pick m free_block_names;
         free_uncached_blocks = sglang_free_blocks free0 total_blocks active_blocks;
         block_quality = sglang_block_quality m total_blocks usage_perc from_tokens
     in case pick_with_name m sglang_hits_names of (hits, hits_name) \<Rightarrow>
        case pick_with_name m sglang_queries_names of (queries, queries_name) \<Rightarrow>
        case sglang_prefix_metadata hits_name queries_name of (semantics, comparability, basis, quality) \<Rightarrow>
     Inr \<lparr>ns_backend = ''sglang'', ns_model = sa_model_name a, ns_instance = sa_instance_name a,
          ns_model_group = sa_model_group a, ns_total_blocks = total_blocks, ns_usage_perc = usage_perc,
          ns_active_blocks = active_blocks,
          ns_reusable_cached_blocks = pick m reusable_block_names,
          ns_free_uncached_blocks = free_uncached_blocks,
          ns_duplicate_cached_blocks =
            pick m [''sglang_obs:kv_duplicate_cached_blocks'', ''sglang_kv_duplicate_cached_blocks''],
          ns_prefix_hits = hits, ns_prefix_queries = queries,
          ns_prefix_hits_metric_name = hits_name, ns_prefix_queries_metric_name = queries_name,
          ns_prefix_metric_semantics = semantics, ns_prefix_metric_comparability = comparability,
          ns_prefix_metric_basis = basis, ns_prefix_evidence_quality = quality,
          ns_block_evidence_quality = block_quality,
          ns_queue_depth = pick_optional m
            [''sglang:num_queue_reqs'', ''sglang_num_queue_reqs'', ''sglang:num_requests_waiting''],
          ns_running_requests = pick_optional m
            [''sglang:num_running_reqs'', ''sglang_num_running_reqs'', ''sglang:num_requests_running''],
          ns_extra = m\<rparr>))"

definition sglang_collect ::
  "(string \<Rightarrow> metric_family list res) \<Rightarrow> string option \<Rightarrow> (string list \<Rightarrow> string list) \<Rightarrow> sglang_adapter \<Rightarrow>
   string res \<Rightarrow> native_snapshot res" where
  "sglang_collect families env order a response =
     bindR response (\<lambda>body. sglang_native order a (parse_metrics_body families env body))"

section \<open>Facts\<close>

lemma find_SomeD: "find P xs = Some k \<Longrightarrow> k \<in> set xs \<and> P k"
  by (induction xs) (auto split: if_splits)

lemma pick_first_None: "pick_first m keys = None \<longleftrightarrow> \<not> list_ex (dhas m) keys"
proof (cases "find (\<lambda>k. dhas m k) keys")
  case None
  then have "\<not> list_ex (dhas m) keys" by (auto simp: find_None_iff list_ex_iff)
  with None show ?thesis by (simp add: pick_first_def)
next
  case (Some k)
  with find_SomeD [OF Some] show ?thesis by (auto simp: pick_first_def dhas_dget list_ex_iff)
qed

lemma pick_first_Some: "pick_first m keys = Some (v, k) \<Longrightarrow> k \<in> set keys \<and> dget m k = Some v"
  by (auto simp: pick_first_def split: option.splits dest: find_SomeD)

lemma pick_with_name_empty:
  "[] \<notin> set keys \<Longrightarrow> snd (pick_with_name m keys) = [] \<longleftrightarrow> \<not> list_ex (dhas m) keys"
  using pick_first_None [of m keys] pick_first_Some [of m keys]
  by (auto simp: pick_with_name_def split: option.splits)

lemma pick_with_name_mem: "snd (pick_with_name m keys) \<in> insert [] (set keys)"
  using pick_first_Some [of m keys] by (auto simp: pick_with_name_def split: option.splits)

lemma pick_optional_None: "pick_optional m keys = None \<longleftrightarrow> \<not> list_ex (dhas m) keys"
  by (simp add: pick_optional_def pick_first_None)

lemma tokens_to_blocks_total:
  "1 \<le> sa_tokens_per_block a \<Longrightarrow> sa_tokens_per_block a \<le> 2 ^ 53 \<Longrightarrow> \<exists>b. tokens_to_blocks a v = Inr b"
  by (auto simp: tokens_to_blocks_def float_of_int_def fl_int fdiv_def)

lemma blocks_or_tokens_total:
  "1 \<le> sa_tokens_per_block a \<Longrightarrow> sa_tokens_per_block a \<le> 2 ^ 53 \<Longrightarrow>
   \<exists>b t. blocks_or_tokens a m x names = Inr (b, t)"
  using tokens_to_blocks_total [of a "pick m names"] by (auto simp: blocks_or_tokens_def Let_def)

lemma sglang_block_quality_names:
  "sglang_block_quality m t u f =
     (if list_ex (dhas m) total_block_names \<and> list_ex (dhas m) active_block_names \<and>
         list_ex (dhas m) reusable_block_names \<and> list_ex (dhas m) free_block_names then ''strict''
      else if flt (Fin 0) t \<or> flt (Fin 0) u \<or> f then ''estimated'' else ''missing'')"
  by (simp add: sglang_block_quality_def)

lemma blocks_or_tokens_origin:
  "blocks_or_tokens a m x names = Inr (b, t) \<Longrightarrow> t \<longleftrightarrow> feq x (Fin 0) \<and> flt (Fin 0) (pick m names)"
  by (auto simp: blocks_or_tokens_def Let_def bindR_eq_Inr split: if_splits)

lemma sglang_native_eq:
  assumes b: "blocks_or_tokens a m (pick m (order total_block_names))
      [''sglang:max_total_num_tokens'', ''sglang_max_total_num_tokens''] = Inr (tb, ft)"
    and c: "blocks_or_tokens a m (pick m (order active_block_names))
      [''sglang:num_used_tokens'', ''sglang_num_used_tokens''] = Inr (ab, fa)"
  shows "\<exists>n. sglang_native order a m = Inr n \<and> ns_total_blocks n = tb \<and>
    ns_usage_perc n = pick m sglang_usage_names \<and>
    ns_block_evidence_quality n = sglang_block_quality m tb (pick m sglang_usage_names) ft \<and>
    ns_prefix_hits_metric_name n = snd (pick_with_name m sglang_hits_names) \<and>
    ns_prefix_queries_metric_name n = snd (pick_with_name m sglang_queries_names) \<and>
    (ns_prefix_metric_semantics n, ns_prefix_metric_comparability n, ns_prefix_metric_basis n,
     ns_prefix_evidence_quality n) =
      sglang_prefix_metadata (snd (pick_with_name m sglang_hits_names)) (snd (pick_with_name m sglang_queries_names))"
proof -
  obtain h hn where h: "pick_with_name m sglang_hits_names = (h, hn)" by force
  obtain q qn where q: "pick_with_name m sglang_queries_names = (q, qn)" by force
  obtain s c b k where md: "sglang_prefix_metadata hn qn = (s, c, b, k)" by (metis prod_cases4)
  show ?thesis by (simp add: sglang_native_def b c Let_def h q md)
qed

section \<open>Properties\<close>

text \<open>
  The evidence labels of a vLLM scrape say what was scraped: prefix evidence is strict
  exactly when a hit counter and a query counter were both there, block evidence is strict exactly
  when all four block gauges were, and the queue depth is reported exactly when its gauge was.
\<close>

theorem vllm_evidence_labels:
  defines "hits m \<equiv> list_ex (dhas m) [''vllm:prefix_cache_hits_total'', ''vllm:prefix_cache_hits'']"
    and "queries m \<equiv> list_ex (dhas m) [''vllm:prefix_cache_queries_total'', ''vllm:prefix_cache_queries'']"
  shows "(ns_prefix_evidence_quality (vllm_native a m) = ''strict'' \<longleftrightarrow> hits m \<and> queries m) \<and>
     (ns_prefix_metric_semantics (vllm_native a m) =
        (if hits m \<and> queries m then ''prefix_query_counters''
         else if hits m \<or> queries m then ''partial'' else ''missing'')) \<and>
     (ns_block_evidence_quality (vllm_native a m) = ''strict'' \<longleftrightarrow> list_all (dhas m) vllm_block_names) \<and>
     (ns_queue_depth (vllm_native a m) \<noteq> None \<longleftrightarrow> dhas m ''vllm:num_requests_waiting'') \<and>
     ns_extra (vllm_native a m) = m"
proof -
  have h: "snd (pick_with_name m [''vllm:prefix_cache_hits_total'', ''vllm:prefix_cache_hits'']) = [] \<longleftrightarrow> \<not> hits m"
    unfolding hits_def by (rule pick_with_name_empty) simp
  have q: "snd (pick_with_name m [''vllm:prefix_cache_queries_total'', ''vllm:prefix_cache_queries'']) = [] \<longleftrightarrow> \<not> queries m"
    unfolding queries_def by (rule pick_with_name_empty) simp
  have d: "pick_optional m [''vllm:num_requests_waiting''] = None \<longleftrightarrow> \<not> dhas m ''vllm:num_requests_waiting''"
    by (simp add: pick_optional_None)
  obtain x hn where hn: "pick_with_name m [''vllm:prefix_cache_hits_total'', ''vllm:prefix_cache_hits''] = (x, hn)" by force
  obtain y qn where qn: "pick_with_name m [''vllm:prefix_cache_queries_total'', ''vllm:prefix_cache_queries''] = (y, qn)" by force
  obtain s c b k where md: "vllm_prefix_metadata hn qn = (s, c, b, k)" by (metis prod_cases4)
  have n: "ns_prefix_evidence_quality (vllm_native a m) = k" "ns_prefix_metric_semantics (vllm_native a m) = s"
    "ns_block_evidence_quality (vllm_native a m) = vllm_block_quality m"
    "ns_queue_depth (vllm_native a m) = pick_optional m [''vllm:num_requests_waiting'']" "ns_extra (vllm_native a m) = m"
    by (simp_all add: vllm_native_def hn qn md)
  have "vllm_block_quality m = ''strict'' \<longleftrightarrow> list_all (dhas m) vllm_block_names"
    by (simp add: vllm_block_quality_def)
  moreover have "k = ''strict'' \<longleftrightarrow> hits m \<and> queries m"
    "s = (if hits m \<and> queries m then ''prefix_query_counters'' else if hits m \<or> queries m then ''partial'' else ''missing'')"
    using md h q hn qn by (auto simp: vllm_prefix_metadata_def split: if_splits)
  ultimately show ?thesis unfolding n using d by simp
qed

text \<open>
  Property C15.  A scraped SGLang text always gives a snapshot, in whatever order the interpreter iterates its sets, and its
  evidence labels are completely determined.  Block evidence is strict when each of the four block gauges was scraped under
  one of its names; failing that it is estimated when the snapshot's total blocks or its usage are positive or the total was
  taken from a positive token count because the block gauge was absent or zero, and missing otherwise.  The four prefix
  labels depend on the names found only: both counters found is the directional token fallback when both chosen names are
  token counters and strict when they are not, one of them found is partial, none is missing.
\<close>

theorem sglang_evidence_labels:
  assumes "tokens_per_block \<le> 2 ^ 53"
  shows "\<exists>n. sglang_native order (new_sglang model_name instance_name model_group tokens_per_block) m = Inr n \<and>
     ns_block_evidence_quality n =
       (if list_ex (dhas m) total_block_names \<and> list_ex (dhas m) active_block_names \<and>
           list_ex (dhas m) reusable_block_names \<and> list_ex (dhas m) free_block_names then ''strict''
        else if flt (Fin 0) (ns_total_blocks n) \<or> flt (Fin 0) (ns_usage_perc n) \<or>
           feq (pick m (order total_block_names)) (Fin 0) \<and>
             flt (Fin 0) (pick m [''sglang:max_total_num_tokens'', ''sglang_max_total_num_tokens'']) then ''estimated''
        else ''missing'') \<and>
     (ns_prefix_metric_semantics n, ns_prefix_metric_comparability n, ns_prefix_metric_basis n,
      ns_prefix_evidence_quality n) =
       (if list_ex (dhas m) sglang_hits_names \<and> list_ex (dhas m) sglang_queries_names
        then (if ns_prefix_hits_metric_name n \<in> set token_fallback_hits \<and>
                 ns_prefix_queries_metric_name n \<in> set token_fallback_queries
              then (''token_counter_fallback'', ''directional'', ''tokens'', ''fallback'')
              else (''prefix_query_counters'', ''strict'', ''queries'', ''strict''))
        else if list_ex (dhas m) sglang_hits_names \<or> list_ex (dhas m) sglang_queries_names
        then (''partial'', ''missing'', ''mixed'', ''missing'')
        else (''missing'', ''missing'', ''missing'', ''missing''))"
proof -
  let ?a = "new_sglang model_name instance_name model_group tokens_per_block"
  have t: "1 \<le> sa_tokens_per_block ?a" "sa_tokens_per_block ?a \<le> 2 ^ 53"
    using assms by (simp_all add: new_sglang_def)
  obtain tb ft where b: "blocks_or_tokens ?a m (pick m (order total_block_names))
      [''sglang:max_total_num_tokens'', ''sglang_max_total_num_tokens''] = Inr (tb, ft)"
    using blocks_or_tokens_total [OF t] by blast
  obtain ab fa where c: "blocks_or_tokens ?a m (pick m (order active_block_names))
      [''sglang:num_used_tokens'', ''sglang_num_used_tokens''] = Inr (ab, fa)"
    using blocks_or_tokens_total [OF t] by blast
  have e: "[] \<notin> set sglang_hits_names" "[] \<notin> set sglang_queries_names"
    by (simp_all add: sglang_hits_names_def sglang_queries_names_def)
  from sglang_native_eq [OF b c] obtain n where n: "sglang_native order ?a m = Inr n"
    "ns_total_blocks n = tb" "ns_usage_perc n = pick m sglang_usage_names"
    "ns_block_evidence_quality n = sglang_block_quality m tb (pick m sglang_usage_names) ft"
    "ns_prefix_hits_metric_name n = snd (pick_with_name m sglang_hits_names)"
    "ns_prefix_queries_metric_name n = snd (pick_with_name m sglang_queries_names)"
    "(ns_prefix_metric_semantics n, ns_prefix_metric_comparability n, ns_prefix_metric_basis n,
      ns_prefix_evidence_quality n) =
      sglang_prefix_metadata (snd (pick_with_name m sglang_hits_names)) (snd (pick_with_name m sglang_queries_names))"
    by blast
  note block = n(4) [unfolded sglang_block_quality_names blocks_or_tokens_origin [OF b], folded n(2,3)]
  note prefix = n(7) [unfolded sglang_prefix_metadata_def pick_with_name_empty [OF e(1)] pick_with_name_empty [OF e(2)]
      not_not, folded n(5,6)]
  show ?thesis using n(1) block prefix by (intro exI [of _ n]) simp
qed

section \<open>Instances\<close>

theorem sglang_evidence_labels_witness:
  "\<exists>n. sglang_native rev (new_sglang ''m'' ''i'' [] 16)
        [(''sglang:prefix_cache_hits'', Fin 3), (''sglang:prompt_tokens_total'', Fin 9)] = Inr n \<and>
       ns_prefix_evidence_quality n \<noteq> ''missing'' \<and> ns_block_evidence_quality n \<noteq> ''strict''"
proof -
  let ?m = "[(''sglang:prefix_cache_hits'', Fin 3), (''sglang:prompt_tokens_total'', Fin 9)]"
  have l: "list_ex (dhas ?m) sglang_hits_names" "list_ex (dhas ?m) sglang_queries_names"
    "\<not> list_ex (dhas ?m) total_block_names" by code_simp+
  have "(16 :: int) \<le> 2 ^ 53" by simp
  from sglang_evidence_labels [OF this, of rev "''m''" "''i''" "[]" ?m] l obtain n where
    "sglang_native rev (new_sglang ''m'' ''i'' [] 16) ?m = Inr n" "ns_block_evidence_quality n \<noteq> ''strict''"
    "ns_prefix_evidence_quality n \<noteq> ''missing''" by (auto split: if_splits)
  then show ?thesis by blast
qed

end
