(* ===== verification/PyJson.thy ===== *)
theory PyJson
  imports PyVal "HOL-Library.Word"
begin

text \<open>
  Two functions of the standard library the sources call on their documents: \<open>json.dumps\<close> with sorted
  keys and compact separators, and \<open>hashlib.sha256\<close> with its hexadecimal digest.
\<close>

unbundle bit_operations_syntax

section \<open>JSON text\<close>

text \<open>A string with everything outside printable ASCII escaped.\<close>

definition json_char :: "char \<Rightarrow> string" where
  "json_char c = (let n = (of_char c :: nat) in
     if n = 34 \<or> n = 92 then [CHR 0x5C, c]
     else if n = 10 then [CHR 0x5C, CHR ''n''] else if n = 13 then [CHR 0x5C, CHR ''r'']
     else if n = 9 then [CHR 0x5C, CHR ''t''] else if n = 12 then [CHR 0x5C, CHR ''f'']
     else if n = 8 then [CHR 0x5C, CHR ''b'']
     else if n < 32 \<or> 126 < n
       then [CHR 0x5C, CHR ''u'', CHR ''0'', CHR ''0'', hex_digit (n div 16), hex_digit (n mod 16)]
     else [c])"

definition json_string :: "string \<Rightarrow> string" where
  "json_string s = CHR 0x22 # concat (map json_char s) @ [CHR 0x22]"

definition json_float :: "pyfloat \<Rightarrow> string" where
  "json_float x = (case x of NaN \<Rightarrow> ''NaN'' | PInf \<Rightarrow> ''Infinity'' | NInf \<Rightarrow> ''-Infinity'' | Fin a \<Rightarrow> float_repr (Fin a))"

text \<open>The order of keys: by code points, a proper prefix first.\<close>

fun str_lt :: "string \<Rightarrow> string \<Rightarrow> bool" where
  "str_lt s [] = False"
| "str_lt [] (d # t) = True"
| "str_lt (c # s) (d # t) = ((of_char c :: nat) < of_char d \<or> c = d \<and> str_lt s t)"

lemma mapR_cong [fundef_cong]: "xs = ys \<Longrightarrow> (\<And>x. x \<in> set ys \<Longrightarrow> f x = g x) \<Longrightarrow> mapR f xs = mapR g ys"
proof -
  assume "xs = ys" and "\<And>x. x \<in> set ys \<Longrightarrow> f x = g x"
  then show ?thesis by (induction xs arbitrary: ys) auto
qed

fun json_dumps :: "pyval \<Rightarrow> string res" where
  "json_dumps VNone = Inr ''null''"
| "json_dumps (VBool b) = Inr (if b then ''true'' else ''false'')"
| "json_dumps (VInt n) = Inr (int_str n)"
| "json_dumps (VFloat x) = Inr (json_float x)"
| "json_dumps (VStr s) = Inr (json_string s)"
| "json_dumps (VBytes s) = Inl TypeError"
| "json_dumps (VList xs) = bindR (mapR json_dumps xs) (\<lambda>ts. Inr (''['' @ join '','' ts @ '']''))"
| "json_dumps (VDict d) =
     bindR (mapR (\<lambda>(k, v). bindR (json_dumps v) (\<lambda>t. Inr (k, t))) d)
           (\<lambda>kts. Inr (''{'' @ join '','' (map (\<lambda>(k, t). json_string k @ '':'' @ t)
                      (sort_lt (\<lambda>a b. str_lt (fst a) (fst b)) kts)) @ ''}''))"

section \<open>Values that can be written\<close>

definition writable :: "pyval \<Rightarrow> bool" where
  "writable v \<longleftrightarrow> (\<exists>t. json_dumps v = Inr t)"

lemma writable_simps:
  "writable (VList xs) \<longleftrightarrow> (\<forall>x \<in> set xs. writable x)" "writable (VDict d) \<longleftrightarrow> (\<forall>(k, v) \<in> set d. writable v)"
  "writable (VStr s)"
proof -
  have "writable (VList xs) \<longleftrightarrow> (\<exists>ts. mapR json_dumps xs = Inr ts)" by (auto simp: writable_def bindR_eq_Inr)
  then show "writable (VList xs) \<longleftrightarrow> (\<forall>x \<in> set xs. writable x)" by (simp add: mapR_returns writable_def)
  have "writable (VDict d) \<longleftrightarrow> (\<exists>ts. mapR (\<lambda>(k, v). bindR (json_dumps v) (\<lambda>t. Inr (k, t))) d = Inr ts)"
    by (auto simp: writable_def bindR_eq_Inr)
  then show "writable (VDict d) \<longleftrightarrow> (\<forall>(k, v) \<in> set d. writable v)"
    by (auto simp: mapR_returns writable_def bindR_eq_Inr)
qed (simp add: writable_def)

lemma writable_dset: "writable (VDict d) \<Longrightarrow> writable v \<Longrightarrow> writable (VDict (dset d k v))"
  using set_dset [of d k v] by (auto simp: writable_simps)

lemma writable_leaf [simp]: "writable (VStr s)" "writable (VInt n)" "writable (VFloat x)" "writable (VBool b)" "writable VNone"
  by (simp_all add: writable_def)

lemma writable_Cons [simp]: "writable (VDict []) \<longleftrightarrow> True" "writable (VDict ((k, v) # d)) \<longleftrightarrow> writable v \<and> writable (VDict d)"
  by (auto simp: writable_simps)

lemma writable_maps [simp]: "writable (VList (map f xs)) \<longleftrightarrow> (\<forall>x \<in> set xs. writable (f x))"
  by (auto simp: writable_simps)

section \<open>SHA-256\<close>

text \<open>
  The constants are the first 32 bits of the fractional parts of the cube roots of the first 64
  primes, and of the square roots of the first 8 primes; \<open>iroot\<close> computes the integer root bit by bit.
\<close>

fun iroot :: "nat \<Rightarrow> nat \<Rightarrow> nat \<Rightarrow> nat \<Rightarrow> nat" where
  "iroot k n 0 r = r"
| "iroot k n (Suc b) r = iroot k n b (if (r + 2 ^ b) ^ k \<le> n then r + 2 ^ b else r)"

definition small_primes :: "nat list" where
  "small_primes = filter (\<lambda>n. list_all (\<lambda>d. n mod d \<noteq> 0) [2..<n]) [2..<312]"

definition sha_k :: "32 word list" where
  "sha_k = map (\<lambda>p. of_nat (iroot 3 (p * 2 ^ 96) 35 0)) small_primes"

definition sha_init :: "32 word list" where
  "sha_init = map (\<lambda>p. of_nat (iroot 2 (p * 2 ^ 64) 35 0)) [2, 3, 5, 7, 11, 13, 17, 19]"

definition rotr :: "nat \<Rightarrow> 32 word \<Rightarrow> 32 word" where
  "rotr n w = drop_bit n w OR push_bit (32 - n) w"

definition sha_pad :: "string \<Rightarrow> string" where
  "sha_pad m = (let l = length m; z = (119 - l mod 64) mod 64
     in m @ [CHR 0x80] @ replicate z (CHR 0x00) @
        map (\<lambda>i. char_of (8 * l div 256 ^ (7 - i) mod 256)) [0..<8])"

fun chunks :: "nat \<Rightarrow> 'a list \<Rightarrow> 'a list list" where
  "chunks n xs = (if n = 0 \<or> xs = [] then [] else take n xs # chunks n (drop n xs))"

declare chunks.simps [simp del]

definition be_word :: "string \<Rightarrow> 32 word" where
  "be_word b = foldl (\<lambda>acc c. push_bit 8 acc OR of_char c) 0 b"

fun sha_extend :: "nat \<Rightarrow> 32 word list \<Rightarrow> 32 word list" where
  "sha_extend 0 w = w"
| "sha_extend (Suc n) w =
     (let t = length w; a = w ! (t - 15); b = w ! (t - 2);
          s0 = rotr 7 a XOR rotr 18 a XOR drop_bit 3 a;
          s1 = rotr 17 b XOR rotr 19 b XOR drop_bit 10 b
      in sha_extend n (w @ [w ! (t - 16) + s0 + w ! (t - 7) + s1]))"

definition sha_round :: "32 word list \<Rightarrow> 32 word \<times> 32 word \<Rightarrow> 32 word list" where
  "sha_round v kw = (case v of
     [a, b, c, d, e, f, g, h] \<Rightarrow>
       let s1 = rotr 6 e XOR rotr 11 e XOR rotr 25 e; ch = (e AND f) XOR (NOT e AND g);
           t1 = h + s1 + ch + fst kw + snd kw;
           s0 = rotr 2 a XOR rotr 13 a XOR rotr 22 a; maj = (a AND b) XOR (a AND c) XOR (b AND c)
       in [t1 + (s0 + maj), a, b, c, d + t1, e, f, g]
   | _ \<Rightarrow> v)"

definition sha_block :: "32 word list \<Rightarrow> string \<Rightarrow> 32 word list" where
  "sha_block h blk = (let w = sha_extend 48 (map be_word (chunks 4 blk))
     in map2 (+) h (foldl sha_round h (zip sha_k w)))"

definition word_hex :: "32 word \<Rightarrow> string" where
  "word_hex w = map (\<lambda>i. hex_digit (unat (drop_bit (28 - 4 * i) w AND 15))) [0..<8]"

definition sha256_hex :: "string \<Rightarrow> string" where
  "sha256_hex m = concat (map word_hex (foldl sha_block sha_init (chunks 64 (sha_pad m))))"

text \<open>\<open>s.encode("utf-8")\<close> for the code points of the model.\<close>

definition utf8 :: "string \<Rightarrow> string" where
  "utf8 s = concat (map (\<lambda>c. let n = (of_char c :: nat) in
     if n < 128 then [c] else [char_of (192 + n div 64), char_of (128 + n mod 64)]) s)"

lemma sha_round_length: "length v = 8 \<Longrightarrow> length (sha_round v kw) = 8"
  by (auto simp: sha_round_def Let_def split: list.splits)

lemma foldl_sha_round_length: "length v = 8 \<Longrightarrow> length (foldl sha_round v kws) = 8"
  by (induction kws arbitrary: v) (simp_all add: sha_round_length)

text \<open>The digest always has 64 hexadecimal digits.\<close>

lemma sha256_hex_length: "length (sha256_hex m) = 64"
proof -
  have "length (foldl sha_block h bs) = 8" if "length h = 8" for h bs
    using that by (induction bs arbitrary: h) (simp_all add: sha_block_def Let_def foldl_sha_round_length)
  moreover have "length sha_init = 8" by (simp add: sha_init_def)
  ultimately have "length (foldl sha_block sha_init (chunks 64 (sha_pad m))) = 8" by simp
  then show ?thesis by (simp add: sha256_hex_def length_concat comp_def word_hex_def sum_list_triv)
qed

end
