(* ===== verification/ExpState.thy ===== *)
theory ExpState
  imports ExpDerive PyJson
begin

text \<open>
  \<open>exporter/backend_state.py\<close> and \<open>exporter/advisor.py\<close>: the published snapshot document with its
  content hash, and the tuning advice.  Documents are dictionaries of dynamic values; the clock is a
  parameter.
\<close>

type_synonym doc = "(string \<times> pyval) list"

section \<open>Backend state\<close>

definition schema_version :: string where
  "schema_version = ''kavora.backend-state/v1''"

definition quality :: "pyfloat option \<Rightarrow> bool \<Rightarrow> string" where
  "quality v stale = (if v = None then ''missing'' else if stale then ''stale'' else ''fresh'')"

definition signal :: "pyfloat option \<Rightarrow> string \<Rightarrow> int \<Rightarrow> string \<Rightarrow> string \<Rightarrow> bool \<Rightarrow> pyval" where
  "signal v source observed semantics evidence_quality stale = VDict
     [(''value'', VFloat (case v of Some x \<Rightarrow> x | None \<Rightarrow> Fin 0)),
      (''has_value'', VBool (v \<noteq> None)),
      (''quality'', VStr (quality v stale)),
      (''source'', VStr (if source = [] then ''derived'' else source)),
      (''observed_at_unix_millis'', VInt observed),
      (''semantics'', VStr semantics),
      (''evidence_quality'', VStr evidence_quality)]"

definition prefix_source :: "derived_snapshot \<Rightarrow> string" where
  "prefix_source snap =
     (if ds_prefix_hits_metric_name snap \<noteq> [] then ds_prefix_hits_metric_name snap
      else if ds_prefix_queries_metric_name snap \<noteq> [] then ds_prefix_queries_metric_name snap else ''derived'')"

definition presence_quality :: "pyfloat option \<Rightarrow> string" where
  "presence_quality v = (if v \<noteq> None then ''strict'' else ''missing'')"

definition snapshot_signals :: "derived_snapshot \<Rightarrow> int \<Rightarrow> bool \<Rightarrow> doc" where
  "snapshot_signals snap observed stale =
     (let g = (\<lambda>v src. signal (Some v) src observed ''gauge'' (ds_block_evidence_quality snap) stale);
          r = (\<lambda>v src. signal (Some v) src observed ''ratio'' (ds_block_evidence_quality snap) stale)
      in [(''total_blocks'', g (ds_total_blocks snap) ''derived.total_blocks''),
          (''active_blocks'', g (ds_active_blocks snap) ''derived.active_blocks''),
          (''reusable_cached_blocks'', g (ds_reusable_cached_blocks snap) ''derived.reusable_cached_blocks''),
          (''free_uncached_blocks'', g (ds_free_uncached_blocks snap) ''derived.free_uncached_blocks''),
          (''duplicate_cached_blocks'', g (ds_duplicate_cached_blocks snap) ''derived.duplicate_cached_blocks''),
          (''hidden_reuse_ready_perc'', r (ds_hidden_reuse_ready_perc snap) ''derived.hidden_reuse_ready_perc''),
          (''effective_residency_perc'', r (ds_effective_residency_perc snap) ''derived.effective_residency_perc''),
          (''cold_free_perc'', r (ds_cold_free_perc snap) ''derived.cold_free_perc''),
          (''cache_hit_ratio'', signal (ds_cache_hit_ratio snap) (prefix_source snap) observed
             (ds_prefix_metric_semantics snap) (ds_prefix_evidence_quality snap) stale),
          (''queue_depth'', signal (ds_queue_depth snap) ''backend.queue_depth'' observed ''gauge''
             (presence_quality (ds_queue_depth snap)) stale),
          (''running_requests'', signal (ds_running_requests snap) ''backend.running_requests'' observed ''gauge''
             (presence_quality (ds_running_requests snap)) stale)])"

text \<open>\<open>observed_at_unix_millis or int(time.time() * 1000)\<close>: a zero counts as absent.\<close>

definition observed_time :: "pyfloat \<Rightarrow> int option \<Rightarrow> int res" where
  "observed_time now millis =
     (case millis of Some n \<Rightarrow> if n \<noteq> 0 then Inr n else int_of_float (fmul now (Fin 1000))
      | None \<Rightarrow> int_of_float (fmul now (Fin 1000)))"

definition snapshot_from_derived ::
  "pyfloat \<Rightarrow> derived_snapshot \<Rightarrow> string option \<Rightarrow> int option \<Rightarrow> bool \<Rightarrow> doc res" where
  "snapshot_from_derived now snap backend_id millis stale =
     bindR (observed_time now millis) (\<lambda>observed.
     let backend_key = (case backend_id of
           Some b \<Rightarrow> if b \<noteq> [] then b else ds_backend snap @ '':'' @ ds_instance snap
         | None \<Rightarrow> ds_backend snap @ '':'' @ ds_instance snap);
         body = [(''schema_version'', VStr schema_version), (''backend_id'', VStr backend_key),
                 (''backend'', VStr (ds_backend snap)), (''model'', VStr (ds_model snap)),
                 (''instance'', VStr (ds_instance snap)), (''model_group'', VStr (ds_model_group snap)),
                 (''observed_at_unix_millis'', VInt observed),
                 (''signals'', VDict (snapshot_signals snap observed stale))]
     in bindR (json_dumps (VDict body)) (\<lambda>canonical.
        Inr (dset body ''snapshot_hash'' (VStr (sha256_hex canonical)))))"

section \<open>Advice\<close>

text \<open>
  \<open>f"{x:.3f}"\<close> and \<open>f"{x:.1f}"\<close>: the exact value rounded to \<open>d\<close> decimals, ties to even.
\<close>

definition fixed :: "nat \<Rightarrow> pyfloat \<Rightarrow> string" where
  "fixed d x = (case x of NaN \<Rightarrow> ''nan'' | PInf \<Rightarrow> ''inf'' | NInf \<Rightarrow> ''-inf''
     | Fin a \<Rightarrow> let m = rne (\<bar>a\<bar> * 10 ^ d); ds = pad_left (Suc d) (CHR ''0'') (int_str m); k = length ds - d
                in (if a < 0 then ''-'' else []) @ take k ds @ ''.'' @ drop k ds)"

definition advice_item :: "string \<Rightarrow> string \<Rightarrow> string \<Rightarrow> string \<Rightarrow> doc" where
  "advice_item severity code action reason =
     [(''severity'', VStr severity), (''code'', VStr code), (''action'', VStr action), (''reason'', VStr reason)]"

definition recommendations :: "derived_snapshot \<Rightarrow> bool \<Rightarrow> doc list" where
  "recommendations snapshot stale =
     (if stale then [advice_item ''critical'' ''metrics_stale'' ''check_backend_metrics_endpoint''
        ''backend metrics are stale; keep static routing and do not promote KV-aware decisions''] else []) @
     (if ds_prefix_evidence_quality snapshot \<in> {''estimated'', ''fallback'', ''missing''}
      then [advice_item ''warning'' ''cache_evidence_not_strict'' ''keep_recommendations_dry_run_only''
        (''cache evidence quality is '' @ ds_prefix_evidence_quality snapshot @ ''; do not auto-promote a calibrated policy'')] else []) @
     (case ds_cache_hit_ratio snapshot of
        None \<Rightarrow> [advice_item ''info'' ''cache_hit_ratio_missing'' ''enable_comparable_prefix_counters''
          ''cache hit ratio is unavailable and must not be inferred from zero'']
      | Some r \<Rightarrow> if flt r (fl (2 / 10))
          then [advice_item ''warning'' ''low_prefix_reuse'' ''increase_shared_prefix_or_review_prompt_stability''
            (''cache hit ratio is '' @ fixed 3 r)] else []) @
     (if flt (fl (35 / 100)) (ds_cold_free_perc snapshot)
      then [advice_item ''info'' ''cold_capacity_available'' ''consider_higher_concurrency_or_batch_size''
        (''cold free ratio is '' @ fixed 3 (ds_cold_free_perc snapshot))] else []) @
     (if flt (fl (9 / 10)) (ds_effective_residency_perc snapshot)
      then [advice_item ''warning'' ''kv_pressure_high'' ''reduce_concurrency_or_increase_gpu_memory''
        (''effective residency is '' @ fixed 3 (ds_effective_residency_perc snapshot))] else []) @
     (if flt (py_max (fmul (ds_total_blocks snapshot) (fl (1 / 10))) (Fin 1)) (ds_duplicate_cached_blocks snapshot)
      then [advice_item ''warning'' ''duplicate_cache_pressure'' ''review_prefix_normalization_and_tenant_isolation''
        (''duplicate cached blocks are '' @ fixed 1 (ds_duplicate_cached_blocks snapshot))] else [])"

definition build_advice :: "derived_snapshot \<Rightarrow> bool \<Rightarrow> doc" where
  "build_advice snapshot stale =
     (let rs = recommendations snapshot stale;
          rs' = (if rs = [] then [advice_item ''ok'' ''healthy'' ''continue_observing''
                   ''no immediate tuning action is indicated''] else rs)
      in [(''schema_version'', VStr ''kavora-advice/v1''), (''backend'', VStr (ds_backend snapshot)),
          (''model'', VStr (ds_model snapshot)), (''instance'', VStr (ds_instance snapshot)),
          (''observed_at_unix_millis'', VInt 0), (''recommendations'', VList (map VDict rs'))])"

section \<open>Facts\<close>

text \<open>The documents hold no bytes, so they always serialise.\<close>

lemma json_signal: "\<exists>t. json_dumps (signal v src obs sem ev stale) = Inr t"
  by (simp add: signal_def)

lemma json_pairs:
  "\<forall>kv\<in>set d. \<exists>t. json_dumps (snd kv) = Inr t \<Longrightarrow> \<exists>t. json_dumps (VDict d) = Inr t"
proof -
  assume "\<forall>kv\<in>set d. \<exists>t. json_dumps (snd kv) = Inr t"
  then have "\<exists>ts. mapR (\<lambda>(k, v). bindR (json_dumps v) (\<lambda>t. Inr (k, t))) d = Inr ts"
    by (induction d) auto
  then show ?thesis by auto
qed

lemma json_signals: "\<exists>t. json_dumps (VDict (snapshot_signals snap obs stale)) = Inr t"
  by (rule json_pairs) (simp add: snapshot_signals_def Let_def json_signal)

definition signal_sound :: "bool \<Rightarrow> pyval \<Rightarrow> bool" where
  "signal_sound stale v \<longleftrightarrow>
     (\<exists>d q h. v = VDict d \<and> dget d ''quality'' = Some (VStr q) \<and> dget d ''has_value'' = Some (VBool h) \<and>
        (q = ''missing'' \<longleftrightarrow> \<not> h) \<and> (q = ''stale'' \<longleftrightarrow> h \<and> stale) \<and> (q = ''fresh'' \<longleftrightarrow> h \<and> \<not> stale) \<and>
        (\<not> h \<longrightarrow> dget d ''value'' = Some (VFloat (Fin 0))))"

lemma signal_sound: "signal_sound stale (signal v src obs sem ev stale)"
  by (cases v) (auto simp: signal_sound_def signal_def quality_def dget_def)

section \<open>Properties\<close>

text \<open>
  A snapshot document is always produced when the clock is finite, or a time is given;
  it has eleven signals of distinct names, every signal says \<open>missing\<close> exactly when it has no value and
  \<open>fresh\<close> never for a stale snapshot, and its hash is the SHA-256 of the canonical JSON of the rest of
  the document, 64 hexadecimal digits long.
\<close>

theorem snapshot_document:
  assumes "isfinite (fmul now (Fin 1000)) \<or> millis \<noteq> None \<and> millis \<noteq> Some 0"
  shows "\<exists>body sigs canonical. snapshot_from_derived now snap backend_id millis stale = Inr body \<and>
     dget body ''signals'' = Some (VDict sigs) \<and> distinct (map fst sigs) \<and> length sigs = 11 \<and>
     (\<forall>(name, sig) \<in> set sigs. signal_sound stale sig) \<and>
     json_dumps (VDict (ddel body ''snapshot_hash'')) = Inr canonical \<and>
     dget body ''snapshot_hash'' = Some (VStr (sha256_hex canonical)) \<and> length (sha256_hex canonical) = 64"
proof -
  have "\<exists>obs. observed_time now millis = Inr obs"
    using assms by (cases millis; cases "fmul now (Fin 1000)") (auto simp: observed_time_def)
  then obtain obs where obs: "observed_time now millis = Inr obs" ..
  let ?sigs = "snapshot_signals snap obs stale"
  obtain st where st: "json_dumps (VDict ?sigs) = Inr st" using json_signals by blast
  define body where "body = [(''schema_version'', VStr schema_version), (''backend_id'', VStr (case backend_id of
           Some b \<Rightarrow> if b \<noteq> [] then b else ds_backend snap @ '':'' @ ds_instance snap
         | None \<Rightarrow> ds_backend snap @ '':'' @ ds_instance snap)),
      (''backend'', VStr (ds_backend snap)), (''model'', VStr (ds_model snap)),
      (''instance'', VStr (ds_instance snap)), (''model_group'', VStr (ds_model_group snap)),
      (''observed_at_unix_millis'', VInt obs), (''signals'', VDict ?sigs)]"
  have "\<exists>c. json_dumps (VDict body) = Inr c"
    by (rule json_pairs) (simp add: body_def st del: json_dumps.simps(8))
  then obtain c where c: "json_dumps (VDict body) = Inr c" ..
  have snap: "snapshot_from_derived now snap backend_id millis stale =
      Inr (dset body ''snapshot_hash'' (VStr (sha256_hex c)))"
    using c by (simp add: snapshot_from_derived_def obs Let_def body_def [symmetric] del: json_dumps.simps)
  have "ddel (dset body ''snapshot_hash'' (VStr (sha256_hex c))) ''snapshot_hash'' = body"
    by (simp add: body_def dset_def ddel_def)
  moreover have "distinct (map fst ?sigs) \<and> length ?sigs = 11" by (simp add: snapshot_signals_def Let_def)
  moreover have "\<forall>(name, sig) \<in> set ?sigs. signal_sound stale sig"
    by (simp add: snapshot_signals_def Let_def signal_sound)
  moreover have "dget (dset body ''snapshot_hash'' (VStr (sha256_hex c))) ''signals'' = Some (VDict ?sigs)"
    by (simp add: dget_dset) (simp add: body_def dget_def)
  ultimately show ?thesis using snap c
    by (intro exI [of _ "dset body ''snapshot_hash'' (VStr (sha256_hex c))"] exI [of _ ?sigs] exI [of _ c])
       (simp add: dget_dset sha256_hex_length del: json_dumps.simps)
qed

text \<open>
  The advice is \<open>healthy\<close> exactly when nothing is wrong: the metrics are not stale, the
  cache evidence is none of the weak kinds, a hit ratio is known and not below 0.2, the cold share is
  at most 0.35 and the residency at most 0.9 (as doubles), and duplicates stay below a tenth of the
  blocks.  The list of recommendations is never empty.
\<close>

theorem advice_healthy_iff:
  "\<exists>rs. dget (build_advice snapshot stale) ''recommendations'' = Some (VList rs) \<and> rs \<noteq> [] \<and>
     (rs = [VDict (advice_item ''ok'' ''healthy'' ''continue_observing'' ''no immediate tuning action is indicated'')] \<longleftrightarrow>
        \<not> stale \<and> ds_prefix_evidence_quality snapshot \<notin> {''estimated'', ''fallback'', ''missing''} \<and>
        (\<exists>r. ds_cache_hit_ratio snapshot = Some r \<and> \<not> flt r (fl (2 / 10))) \<and>
        \<not> flt (fl (35 / 100)) (ds_cold_free_perc snapshot) \<and>
        \<not> flt (fl (9 / 10)) (ds_effective_residency_perc snapshot) \<and>
        \<not> flt (py_max (fmul (ds_total_blocks snapshot) (fl (1 / 10))) (Fin 1)) (ds_duplicate_cached_blocks snapshot))"
proof -
  let ?rs = "recommendations snapshot stale"
  let ?ok = "advice_item ''ok'' ''healthy'' ''continue_observing'' ''no immediate tuning action is indicated''"
  have sev: "\<forall>r\<in>set ?rs. dget r ''severity'' \<noteq> Some (VStr ''ok'')"
    by (auto simp: recommendations_def advice_item_def dget_def split: option.splits)
  then have "?ok \<notin> set ?rs" by (auto simp: advice_item_def dget_def)
  moreover have "?rs = [] \<longleftrightarrow> \<not> stale \<and> ds_prefix_evidence_quality snapshot \<notin> {''estimated'', ''fallback'', ''missing''} \<and>
        (\<exists>r. ds_cache_hit_ratio snapshot = Some r \<and> \<not> flt r (fl (2 / 10))) \<and>
        \<not> flt (fl (35 / 100)) (ds_cold_free_perc snapshot) \<and>
        \<not> flt (fl (9 / 10)) (ds_effective_residency_perc snapshot) \<and>
        \<not> flt (py_max (fmul (ds_total_blocks snapshot) (fl (1 / 10))) (Fin 1)) (ds_duplicate_cached_blocks snapshot)"
    unfolding recommendations_def append_is_Nil_conv by (auto split: option.split if_split)
  ultimately show ?thesis
    by (cases "?rs = []") (auto simp: build_advice_def Let_def dget_def)
qed

section \<open>Instances\<close>

definition demo_derived :: derived_snapshot where
  "demo_derived = \<lparr>ds_backend = ''vllm'', ds_model = ''m'', ds_instance = ''i'', ds_model_group = [],
     ds_total_blocks = Fin 8, ds_active_blocks = Fin 2, ds_reusable_cached_blocks = Fin 4,
     ds_free_uncached_blocks = Fin 2, ds_duplicate_cached_blocks = Fin 0, ds_prefix_blocks = Fin 4,
     ds_hidden_reuse_ready_perc = Fin (1 / 2), ds_effective_residency_perc = Fin (3 / 4),
     ds_cold_free_perc = Fin (1 / 4), ds_cache_hit_ratio = None, ds_prefix_hits_metric_name = [],
     ds_prefix_queries_metric_name = [], ds_prefix_metric_semantics = ''missing'',
     ds_prefix_metric_comparability = ''missing'', ds_prefix_metric_basis = ''missing'',
     ds_prefix_evidence_quality = ''missing'', ds_block_evidence_quality = ''strict'',
     ds_queue_depth = None, ds_running_requests = None\<rparr>"

theorem snapshot_document_witness:
  "\<exists>body. snapshot_from_derived NaN demo_derived None (Some 7) True = Inr body"
  using snapshot_document [of NaN "Some 7" demo_derived None True] by auto

end
