(* ===== verification/PromWriter.thy ===== *)
theory PromWriter
  imports ExpDerive
begin

text \<open>
  \<open>exporter/registry/prom_writer.py\<close>: the gauges the exporter publishes.  The registry of
  \<open>prometheus_client\<close> is a parameter: the record \<open>prom_lib\<close> holds the operations the writer calls on a
  registry of type \<open>'r\<close>, and \<open>prom_lib_ok\<close> states what their documentation promises.
\<close>

section \<open>The client library\<close>

text \<open>
  \<open>lib_new\<close> registers a metric (and raises on a duplicate name), \<open>lib_unregister\<close> removes one,
  \<open>lib_set\<close> sets a gauge, \<open>lib_inc\<close> increments a counter, \<open>lib_info\<close> sets the labels of an info metric,
  \<open>lib_value\<close> and \<open>lib_labels\<close> read what a scrape of the registry would show.
\<close>

record 'r prom_lib =
  lib_empty :: 'r
  lib_new :: "'r \<Rightarrow> string \<Rightarrow> 'r res"
  lib_unregister :: "'r \<Rightarrow> string \<Rightarrow> 'r res"
  lib_set :: "'r \<Rightarrow> string \<Rightarrow> pyfloat \<Rightarrow> 'r"
  lib_inc :: "'r \<Rightarrow> string \<Rightarrow> 'r"
  lib_info :: "'r \<Rightarrow> string \<Rightarrow> labels \<Rightarrow> 'r"
  lib_value :: "'r \<Rightarrow> string \<Rightarrow> pyfloat option"
  lib_labels :: "'r \<Rightarrow> string \<Rightarrow> labels option"

definition prom_lib_ok :: "'r prom_lib \<Rightarrow> bool" where
  "prom_lib_ok lib \<longleftrightarrow>
     (\<forall>n. lib_value lib (lib_empty lib) n = None) \<and>
     (\<forall>r n. lib_value lib r n = None \<longrightarrow>
        (\<exists>r'. lib_new lib r n = Inr r' \<and> lib_value lib r' = (lib_value lib r)(n \<mapsto> Fin 0))) \<and>
     (\<forall>r n v. lib_value lib r n = Some v \<longrightarrow>
        (\<exists>r'. lib_unregister lib r n = Inr r' \<and> lib_value lib r' = (lib_value lib r)(n := None))) \<and>
     (\<forall>r n v w. lib_value lib r n = Some w \<longrightarrow> lib_value lib (lib_set lib r n v) = (lib_value lib r)(n \<mapsto> v)) \<and>
     (\<forall>r n w. lib_value lib r n = Some w \<longrightarrow>
        lib_value lib (lib_inc lib r n) = (lib_value lib r)(n \<mapsto> fadd w (Fin 1))) \<and>
     (\<forall>r n ls. lib_value lib (lib_info lib r n ls) = lib_value lib r) \<and>
     (\<forall>r n ls. lib_labels lib (lib_info lib r n ls) n = Some ls)"

section \<open>The writer\<close>

definition required_gauges :: "string list" where
  "required_gauges = [''kvcache_kv_total_blocks'', ''kvcache_kv_active_blocks'', ''kvcache_kv_reusable_cached_blocks'',
     ''kvcache_kv_free_uncached_blocks'', ''kvcache_kv_duplicate_cached_blocks'',
     ''kvcache_kv_hidden_reuse_ready_perc'', ''kvcache_kv_effective_residency_perc'', ''kvcache_kv_cold_free_perc'',
     ''kvcache_exporter_scrape_last_success_timestamp_seconds'', ''kvcache_exporter_scrape_consecutive_failures'']"

definition optional_gauges :: "string list" where
  "optional_gauges = [''kvcache_kv_cache_hit_ratio'', ''kvcache_backend_queue_depth'', ''kvcache_backend_running_requests'']"

text \<open>The metrics with attributes of their own: the failure counter, the info metric, three flags.\<close>

definition own_metrics :: "string list" where
  "own_metrics = [''kvcache_exporter_scrape_failures_total'', ''kvcache_exporter_prefix_metric_semantics'',
     ''kvcache_exporter_prefix_metric_comparable'', ''kvcache_exporter_prefix_metric_token_fallback'',
     ''kvcache_exporter_prefix_metric_estimated'']"

record 'r prom_writer =
  pw_registry :: 'r
  pw_gauges :: "string list"

definition new_writer :: "'r prom_lib \<Rightarrow> 'r prom_writer res" where
  "new_writer lib =
     bindR (foldR (\<lambda>n r. lib_new lib r n) (own_metrics @ required_gauges) (lib_empty lib)) (\<lambda>r.
     Inr \<lparr>pw_registry = r, pw_gauges = required_gauges\<rparr>)"

text \<open>\<open>self._gauges[name].set(value)\<close>.\<close>

definition set_gauge :: "'r prom_lib \<Rightarrow> string \<Rightarrow> pyfloat \<Rightarrow> 'r prom_writer \<Rightarrow> 'r prom_writer res" where
  "set_gauge lib name v w =
     (if name \<in> set (pw_gauges w) then Inr (w\<lparr>pw_registry := lib_set lib (pw_registry w) name v\<rparr>) else Inl KeyError)"

definition set_optional_gauge ::
  "'r prom_lib \<Rightarrow> string \<Rightarrow> pyfloat option \<Rightarrow> 'r prom_writer \<Rightarrow> 'r prom_writer res" where
  "set_optional_gauge lib name v w =
     (case v of
        None \<Rightarrow>
          if name \<in> set (pw_gauges w)
          then bindR (lib_unregister lib (pw_registry w) name) (\<lambda>r.
               Inr (w\<lparr>pw_registry := r, pw_gauges := removeAll name (pw_gauges w)\<rparr>))
          else Inr w
      | Some x \<Rightarrow>
          bindR (if name \<in> set (pw_gauges w) then Inr w
                 else bindR (lib_new lib (pw_registry w) name) (\<lambda>r.
                      Inr (w\<lparr>pw_registry := r, pw_gauges := pw_gauges w @ [name]\<rparr>)))
                (set_gauge lib name x))"

definition or_else :: "string \<Rightarrow> string \<Rightarrow> string" where
  "or_else s d = (if s = [] then d else s)"

definition prefix_info :: "derived_snapshot \<Rightarrow> labels" where
  "prefix_info snap =
     [(''backend'', or_else (ds_backend snap) ''unknown''),
      (''semantics'', or_else (ds_prefix_metric_semantics snap) ''missing''),
      (''comparability'', or_else (ds_prefix_metric_comparability snap) ''missing''),
      (''basis'', or_else (ds_prefix_metric_basis snap) ''missing''),
      (''hits_metric'', or_else (ds_prefix_hits_metric_name snap) ''missing''),
      (''queries_metric'', or_else (ds_prefix_queries_metric_name snap) ''missing''),
      (''evidence_quality'', or_else (ds_prefix_evidence_quality snap) ''missing'')]"

definition flag :: "bool \<Rightarrow> pyfloat" where
  "flag b = Fin (if b then 1 else 0)"

definition write_required :: "derived_snapshot \<Rightarrow> (string \<times> pyfloat) list" where
  "write_required snap =
     [(''kvcache_kv_total_blocks'', ds_total_blocks snap),
      (''kvcache_kv_active_blocks'', ds_active_blocks snap),
      (''kvcache_kv_reusable_cached_blocks'', ds_reusable_cached_blocks snap),
      (''kvcache_kv_free_uncached_blocks'', ds_free_uncached_blocks snap),
      (''kvcache_kv_duplicate_cached_blocks'', ds_duplicate_cached_blocks snap),
      (''kvcache_kv_hidden_reuse_ready_perc'', ds_hidden_reuse_ready_perc snap),
      (''kvcache_kv_effective_residency_perc'', ds_effective_residency_perc snap),
      (''kvcache_kv_cold_free_perc'', ds_cold_free_perc snap)]"

definition write_optional :: "derived_snapshot \<Rightarrow> (string \<times> pyfloat option) list" where
  "write_optional snap =
     [(''kvcache_kv_cache_hit_ratio'', ds_cache_hit_ratio snap),
      (''kvcache_backend_queue_depth'', ds_queue_depth snap),
      (''kvcache_backend_running_requests'', ds_running_requests snap)]"

definition write_flags :: "derived_snapshot \<Rightarrow> (string \<times> pyfloat) list" where
  "write_flags snap =
     [(''kvcache_exporter_prefix_metric_comparable'', flag (ds_prefix_metric_comparability snap = ''strict'')),
      (''kvcache_exporter_prefix_metric_token_fallback'', flag (ds_prefix_metric_semantics snap = ''token_counter_fallback'')),
      (''kvcache_exporter_prefix_metric_estimated'', flag (ds_prefix_evidence_quality snap = ''estimated''))]"

definition write_snapshot :: "'r prom_lib \<Rightarrow> derived_snapshot \<Rightarrow> 'r prom_writer \<Rightarrow> 'r prom_writer res" where
  "write_snapshot lib snap w =
     bindR (foldR (\<lambda>(n, v). set_gauge lib n v) (write_required snap) w) (\<lambda>w1.
     bindR (foldR (\<lambda>(n, v). set_optional_gauge lib n v) (write_optional snap) w1) (\<lambda>w2.
     let r = lib_info lib (pw_registry w2) ''kvcache_exporter_prefix_metric_semantics'' (prefix_info snap)
     in Inr (w2\<lparr>pw_registry := fold (\<lambda>(n, v) r. lib_set lib r n v) (write_flags snap) r\<rparr>)))"

definition set_scrape_health ::
  "'r prom_lib \<Rightarrow> pyfloat option \<Rightarrow> int \<Rightarrow> 'r prom_writer \<Rightarrow> 'r prom_writer res" where
  "set_scrape_health lib last_success_ts consecutive_failures w =
     bindR (case last_success_ts of None \<Rightarrow> Inr w
            | Some t \<Rightarrow> set_gauge lib ''kvcache_exporter_scrape_last_success_timestamp_seconds'' t w) (\<lambda>w1.
     bindR (float_of_int consecutive_failures) (\<lambda>f.
     set_gauge lib ''kvcache_exporter_scrape_consecutive_failures'' f w1))"

definition inc_scrape_failure :: "'r prom_lib \<Rightarrow> 'r prom_writer \<Rightarrow> 'r prom_writer" where
  "inc_scrape_failure lib w =
     w\<lparr>pw_registry := lib_inc lib (pw_registry w) ''kvcache_exporter_scrape_failures_total''\<rparr>"

text \<open>What a scrape shows of a metric.\<close>

definition shows_value :: "'r prom_lib \<Rightarrow> 'r prom_writer \<Rightarrow> string \<Rightarrow> pyfloat option" where
  "shows_value lib w name = lib_value lib (pw_registry w) name"

section \<open>The invariant\<close>

text \<open>
  The dictionary of gauges and the registry agree, and the metrics that are not optional are always
  there.
\<close>

definition writer_inv :: "'r prom_lib \<Rightarrow> 'r prom_writer \<Rightarrow> bool" where
  "writer_inv lib w \<longleftrightarrow>
     (\<forall>n. shows_value lib w n \<noteq> None \<longleftrightarrow> n \<in> set own_metrics \<union> set (pw_gauges w)) \<and>
     set required_gauges \<subseteq> set (pw_gauges w) \<and>
     set (pw_gauges w) \<subseteq> set required_gauges \<union> set optional_gauges"

lemma name_classes:
  "set own_metrics \<inter> set required_gauges = {}" "set own_metrics \<inter> set optional_gauges = {}"
  "set required_gauges \<inter> set optional_gauges = {}" "distinct (own_metrics @ required_gauges)"
  by (simp_all add: own_metrics_def required_gauges_def optional_gauges_def)

lemma prom_lib_okD:
  assumes "prom_lib_ok lib"
  shows "lib_value lib (lib_empty lib) n = None"
    "lib_value lib r n = None \<Longrightarrow> \<exists>r'. lib_new lib r n = Inr r' \<and> lib_value lib r' = (lib_value lib r)(n \<mapsto> Fin 0)"
    "lib_value lib r n \<noteq> None \<Longrightarrow> \<exists>r'. lib_unregister lib r n = Inr r' \<and> lib_value lib r' = (lib_value lib r)(n := None)"
    "lib_value lib r n \<noteq> None \<Longrightarrow> lib_value lib (lib_set lib r n v) = (lib_value lib r)(n \<mapsto> v)"
    "lib_value lib r n = Some x \<Longrightarrow> lib_value lib (lib_inc lib r n) = (lib_value lib r)(n \<mapsto> fadd x (Fin 1))"
    "lib_value lib (lib_info lib r n ls) = lib_value lib r"
    "lib_labels lib (lib_info lib r n ls) n = Some ls"
  using assms by (auto simp: prom_lib_ok_def)

lemma register_all:
  assumes ok: "prom_lib_ok lib"
  shows "distinct ns \<Longrightarrow> \<forall>n\<in>set ns. lib_value lib r n = None \<Longrightarrow>
    \<exists>r'. foldR (\<lambda>n r. lib_new lib r n) ns r = Inr r' \<and>
      (\<forall>n. lib_value lib r' n = (if n \<in> set ns then Some (Fin 0) else lib_value lib r n))"
proof (induction ns arbitrary: r)
  case (Cons n ns)
  obtain r1 where r1: "lib_new lib r n = Inr r1" "lib_value lib r1 = (lib_value lib r)(n \<mapsto> Fin 0)"
    using prom_lib_okD(2) [OF ok, of r n] Cons.prems by auto
  have "\<forall>m\<in>set ns. lib_value lib r1 m = None" using Cons.prems r1 by auto
  from Cons.IH [OF _ this] Cons.prems obtain r' where "foldR (\<lambda>n r. lib_new lib r n) ns r1 = Inr r'"
    "\<forall>m. lib_value lib r' m = (if m \<in> set ns then Some (Fin 0) else lib_value lib r1 m)" by auto
  with r1 show ?case by auto
qed simp

lemma new_writer_inv:
  assumes "prom_lib_ok lib"
  shows "\<exists>w. new_writer lib = Inr w \<and> writer_inv lib w \<and> pw_gauges w = required_gauges \<and>
    (\<forall>n. shows_value lib w n = (if n \<in> set own_metrics \<union> set required_gauges then Some (Fin 0) else None))"
proof -
  obtain r where "foldR (\<lambda>n r. lib_new lib r n) (own_metrics @ required_gauges) (lib_empty lib) = Inr r"
    "\<forall>n. lib_value lib r n = (if n \<in> set (own_metrics @ required_gauges) then Some (Fin 0) else lib_value lib (lib_empty lib) n)"
    using register_all [OF assms name_classes(4)] prom_lib_okD(1) [OF assms] by metis
  then show ?thesis using prom_lib_okD(1) [OF assms]
    by (auto simp: new_writer_def writer_inv_def shows_value_def)
qed

lemma set_gauge_ok:
  assumes "prom_lib_ok lib" "writer_inv lib w" "n \<in> set (pw_gauges w)"
  shows "\<exists>w'. set_gauge lib n v w = Inr w' \<and> shows_value lib w' = (shows_value lib w)(n \<mapsto> v) \<and>
    writer_inv lib w' \<and> pw_gauges w' = pw_gauges w"
proof -
  have "lib_value lib (pw_registry w) n \<noteq> None" using assms(2,3) by (auto simp: writer_inv_def shows_value_def)
  from prom_lib_okD(4) [OF assms(1) this] assms show ?thesis
    by (auto simp: set_gauge_def writer_inv_def shows_value_def fun_eq_iff)
qed

lemma set_optional_gauge_ok:
  assumes ok: "prom_lib_ok lib" and inv: "writer_inv lib w" and n: "n \<in> set optional_gauges"
  shows "\<exists>w'. set_optional_gauge lib n v w = Inr w' \<and> shows_value lib w' = (shows_value lib w)(n := v) \<and>
    writer_inv lib w'"
proof -
  have cls: "n \<notin> set own_metrics" "n \<notin> set required_gauges" using n name_classes by auto
  have val: "lib_value lib (pw_registry w) n \<noteq> None \<longleftrightarrow> n \<in> set (pw_gauges w)"
    using inv cls by (auto simp: writer_inv_def shows_value_def)
  show ?thesis
  proof (cases "n \<in> set (pw_gauges w)"; cases v)
    case None assume g: "n \<in> set (pw_gauges w)"
    from prom_lib_okD(3) [OF ok, of "pw_registry w" n] g val obtain r where
      r: "lib_unregister lib (pw_registry w) n = Inr r" "lib_value lib r = (lib_value lib (pw_registry w))(n := None)" by auto
    have "writer_inv lib (w\<lparr>pw_registry := r, pw_gauges := removeAll n (pw_gauges w)\<rparr>)"
      using inv r(2) cls by (auto simp: writer_inv_def shows_value_def)
    with None g r show ?thesis by (auto simp: set_optional_gauge_def shows_value_def)
  next
    case None assume "n \<notin> set (pw_gauges w)"
    with None inv val show ?thesis by (auto simp: set_optional_gauge_def shows_value_def fun_eq_iff)
  next
    case (Some x) assume "n \<in> set (pw_gauges w)"
    with set_gauge_ok [OF ok inv, of n x] Some show ?thesis by (auto simp: set_optional_gauge_def)
  next
    case (Some x) assume g: "n \<notin> set (pw_gauges w)"
    with prom_lib_okD(2) [OF ok, of "pw_registry w" n] val obtain r where
      r: "lib_new lib (pw_registry w) n = Inr r" "lib_value lib r = (lib_value lib (pw_registry w))(n \<mapsto> Fin 0)" by auto
    let ?w = "w\<lparr>pw_registry := r, pw_gauges := pw_gauges w @ [n]\<rparr>"
    have "writer_inv lib ?w" using inv r(2) n by (auto simp: writer_inv_def shows_value_def)
    from set_gauge_ok [OF ok this, of n x] Some g r show ?thesis
      by (auto simp: set_optional_gauge_def shows_value_def fun_eq_iff)
  qed
qed

lemma set_gauges_ok:
  assumes ok: "prom_lib_ok lib"
  shows "writer_inv lib w \<Longrightarrow> set (map fst ps) \<subseteq> set required_gauges \<Longrightarrow> distinct (map fst ps) \<Longrightarrow>
    \<exists>w'. foldR (\<lambda>(n, v). set_gauge lib n v) ps w = Inr w' \<and> writer_inv lib w' \<and>
      (\<forall>n. shows_value lib w' n = (case dget ps n of Some v \<Rightarrow> Some v | None \<Rightarrow> shows_value lib w n))"
proof (induction ps arbitrary: w)
  case (Cons p ps)
  obtain n v where p: "p = (n, v)" by force
  have "n \<in> set (pw_gauges w)" using Cons.prems p by (auto simp: writer_inv_def)
  from set_gauge_ok [OF ok Cons.prems(1) this] obtain w1 where
    w1: "set_gauge lib n v w = Inr w1" "shows_value lib w1 = (shows_value lib w)(n \<mapsto> v)" "writer_inv lib w1" by blast
  from Cons.IH [OF w1(3)] Cons.prems obtain w' where
    w': "foldR (\<lambda>(n, v). set_gauge lib n v) ps w1 = Inr w'" "writer_inv lib w'"
    "\<forall>m. shows_value lib w' m = (case dget ps m of Some v \<Rightarrow> Some v | None \<Rightarrow> shows_value lib w1 m)" by auto
  have "dget ps n = None" using Cons.prems p by (simp add: dget_None_iff)
  with w1 w' p show ?case by (auto simp: dget_def split: option.splits)
qed (simp add: dget_def)

lemma set_optionals_ok:
  assumes ok: "prom_lib_ok lib"
  shows "writer_inv lib w \<Longrightarrow> set (map fst ps) \<subseteq> set optional_gauges \<Longrightarrow> distinct (map fst ps) \<Longrightarrow>
    \<exists>w'. foldR (\<lambda>(n, v). set_optional_gauge lib n v) ps w = Inr w' \<and> writer_inv lib w' \<and>
      (\<forall>n. shows_value lib w' n = (case dget ps n of Some v \<Rightarrow> v | None \<Rightarrow> shows_value lib w n))"
proof (induction ps arbitrary: w)
  case (Cons p ps)
  obtain n v where p: "p = (n, v)" by force
  have "n \<in> set optional_gauges" using Cons.prems p by auto
  from set_optional_gauge_ok [OF ok Cons.prems(1) this] obtain w1 where
    w1: "set_optional_gauge lib n v w = Inr w1" "shows_value lib w1 = (shows_value lib w)(n := v)" "writer_inv lib w1" by blast
  from Cons.IH [OF w1(3)] Cons.prems obtain w' where
    w': "foldR (\<lambda>(n, v). set_optional_gauge lib n v) ps w1 = Inr w'" "writer_inv lib w'"
    "\<forall>m. shows_value lib w' m = (case dget ps m of Some v \<Rightarrow> v | None \<Rightarrow> shows_value lib w1 m)" by auto
  have "dget ps n = None" using Cons.prems p by (simp add: dget_None_iff)
  with w1 w' p show ?case by (auto simp: dget_def split: option.splits)
qed (simp add: dget_def)

lemma set_flags_ok:
  assumes ok: "prom_lib_ok lib"
  shows "\<forall>n\<in>set (map fst ps). lib_value lib r n \<noteq> None \<Longrightarrow> distinct (map fst ps) \<Longrightarrow>
    lib_value lib (fold (\<lambda>(n, v) r. lib_set lib r n v) ps r) n =
      (case dget ps n of Some v \<Rightarrow> Some v | None \<Rightarrow> lib_value lib r n)"
proof (induction ps arbitrary: r)
  case (Cons p ps)
  obtain m v where p: "p = (m, v)" by force
  have s: "lib_value lib (lib_set lib r m v) = (lib_value lib r)(m \<mapsto> v)"
    using prom_lib_okD(4) [OF ok] Cons.prems p by auto
  have "dget ps m = None" using Cons.prems p by (simp add: dget_None_iff)
  with Cons s p show ?case by (auto simp: dget_def split: option.splits)
qed (simp add: dget_def)

lemma write_names:
  "set (map fst (write_required s)) \<subseteq> set required_gauges" "distinct (map fst (write_required s))"
  "set (map fst (write_optional s)) = set optional_gauges" "distinct (map fst (write_optional s))"
  "set (map fst (write_flags s)) \<subseteq> set own_metrics" "distinct (map fst (write_flags s))"
  by (simp_all add: write_required_def write_optional_def write_flags_def required_gauges_def optional_gauges_def
      own_metrics_def)

lemma write_ok:
  assumes ok: "prom_lib_ok lib" and inv: "writer_inv lib w"
  shows "\<exists>w'. write_snapshot lib snap w = Inr w' \<and> writer_inv lib w' \<and>
    (\<forall>n. shows_value lib w' n =
       (case dget (write_flags snap) n of Some v \<Rightarrow> Some v
        | None \<Rightarrow> case dget (write_optional snap) n of Some v \<Rightarrow> v
        | None \<Rightarrow> case dget (write_required snap) n of Some v \<Rightarrow> Some v
        | None \<Rightarrow> shows_value lib w n))"
proof -
  obtain w1 where w1: "foldR (\<lambda>(n, v). set_gauge lib n v) (write_required snap) w = Inr w1" "writer_inv lib w1"
    "\<forall>n. shows_value lib w1 n = (case dget (write_required snap) n of Some v \<Rightarrow> Some v | None \<Rightarrow> shows_value lib w n)"
    using set_gauges_ok [OF ok inv write_names(1,2)] by blast
  obtain w2 where w2: "foldR (\<lambda>(n, v). set_optional_gauge lib n v) (write_optional snap) w1 = Inr w2" "writer_inv lib w2"
    "\<forall>n. shows_value lib w2 n = (case dget (write_optional snap) n of Some v \<Rightarrow> v | None \<Rightarrow> shows_value lib w1 n)"
    using set_optionals_ok [OF ok w1(2), of "write_optional snap"] write_names(3,4) by blast
  let ?r = "lib_info lib (pw_registry w2) ''kvcache_exporter_prefix_metric_semantics'' (prefix_info snap)"
  let ?w = "w2\<lparr>pw_registry := fold (\<lambda>(n, v) r. lib_set lib r n v) (write_flags snap) ?r\<rparr>"
  have own: "\<forall>n\<in>set (map fst (write_flags snap)). lib_value lib ?r n \<noteq> None"
    using w2(2) write_names(5) prom_lib_okD(6) [OF ok] by (auto simp: writer_inv_def shows_value_def)
  have v: "shows_value lib ?w n = (case dget (write_flags snap) n of Some v \<Rightarrow> Some v | None \<Rightarrow> shows_value lib w2 n)" for n
    using set_flags_ok [OF ok own write_names(6)] prom_lib_okD(6) [OF ok]
    by (simp add: shows_value_def split: option.split)
  have f: "n \<in> set own_metrics" if "dget (write_flags snap) n = Some x" for n x
    using dget_mem [OF that] write_names(5) [of snap] by force
  have "writer_inv lib ?w"
    using w2(2) v f by (auto simp: writer_inv_def split: option.splits)
  moreover have "write_snapshot lib snap w = Inr ?w" by (simp add: write_snapshot_def w1(1) w2(1) Let_def)
  moreover have "shows_value lib ?w n = (case dget (write_flags snap) n of Some v \<Rightarrow> Some v
        | None \<Rightarrow> case dget (write_optional snap) n of Some v \<Rightarrow> v
        | None \<Rightarrow> case dget (write_required snap) n of Some v \<Rightarrow> Some v
        | None \<Rightarrow> shows_value lib w n)" for n
    unfolding v using w1(3) w2(3) by (simp split: option.split)
  ultimately show ?thesis by blast
qed

lemma set_scrape_health_ok:
  assumes ok: "prom_lib_ok lib" and inv: "writer_inv lib w" and f: "\<bar>f\<bar> \<le> 2 ^ 53"
  shows "\<exists>w'. set_scrape_health lib t f w = Inr w' \<and> writer_inv lib w' \<and> pw_gauges w' = pw_gauges w \<and>
    shows_value lib w' = (case t of None \<Rightarrow> shows_value lib w
        | Some x \<Rightarrow> (shows_value lib w)(''kvcache_exporter_scrape_last_success_timestamp_seconds'' \<mapsto> x))
      (''kvcache_exporter_scrape_consecutive_failures'' \<mapsto> Fin (of_int f))"
proof -
  have g: "''kvcache_exporter_scrape_last_success_timestamp_seconds'' \<in> set (pw_gauges v)"
    "''kvcache_exporter_scrape_consecutive_failures'' \<in> set (pw_gauges v)" if "writer_inv lib v" for v
    using that by (auto simp: writer_inv_def required_gauges_def)
  have fl: "float_of_int f = Inr (Fin (of_int f))" using fl_int [OF f] by (simp add: float_of_int_def)
  obtain w1 where w1: "(case t of None \<Rightarrow> Inr w
        | Some x \<Rightarrow> set_gauge lib ''kvcache_exporter_scrape_last_success_timestamp_seconds'' x w) = Inr w1"
    "writer_inv lib w1" "pw_gauges w1 = pw_gauges w" "shows_value lib w1 = (case t of None \<Rightarrow> shows_value lib w
        | Some x \<Rightarrow> (shows_value lib w)(''kvcache_exporter_scrape_last_success_timestamp_seconds'' \<mapsto> x))"
    using set_gauge_ok [OF ok inv g(1) [OF inv]] inv by (cases t) auto
  from set_gauge_ok [OF ok w1(2) g(2) [OF w1(2)], of "Fin (of_int f)"] w1 fl show ?thesis
    by (auto simp: set_scrape_health_def)
qed

lemma inc_scrape_failure_ok:
  assumes ok: "prom_lib_ok lib" and inv: "writer_inv lib w"
  shows "writer_inv lib (inc_scrape_failure lib w) \<and>
    (\<exists>x. shows_value lib w ''kvcache_exporter_scrape_failures_total'' = Some x \<and>
     shows_value lib (inc_scrape_failure lib w) =
       (shows_value lib w)(''kvcache_exporter_scrape_failures_total'' \<mapsto> fadd x (Fin 1)))"
proof -
  have "''kvcache_exporter_scrape_failures_total'' \<in> set own_metrics" by (simp add: own_metrics_def)
  then obtain x where x: "lib_value lib (pw_registry w) ''kvcache_exporter_scrape_failures_total'' = Some x"
    using inv by (force simp: writer_inv_def shows_value_def)
  from prom_lib_okD(5) [OF ok x] x inv show ?thesis
    by (auto simp: inc_scrape_failure_def writer_inv_def shows_value_def fun_eq_iff)
qed

section \<open>Properties\<close>

text \<open>The writers a process can have.\<close>

inductive writer_reach :: "'r prom_lib \<Rightarrow> 'r prom_writer \<Rightarrow> bool" for lib where
  wr_new: "new_writer lib = Inr w \<Longrightarrow> writer_reach lib w"
| wr_write: "writer_reach lib w \<Longrightarrow> write_snapshot lib snap w = Inr w' \<Longrightarrow> writer_reach lib w'"
| wr_health: "writer_reach lib w \<Longrightarrow> \<bar>f\<bar> \<le> 2 ^ 53 \<Longrightarrow> set_scrape_health lib t f w = Inr w' \<Longrightarrow> writer_reach lib w'"
| wr_inc: "writer_reach lib w \<Longrightarrow> writer_reach lib (inc_scrape_failure lib w)"

lemma writer_reach_inv: "writer_reach lib w \<Longrightarrow> prom_lib_ok lib \<Longrightarrow> writer_inv lib w"
proof (induction rule: writer_reach.induct)
  case (wr_new w)
  with new_writer_inv show ?case by fastforce
next
  case (wr_write w snap w')
  with write_ok [of lib w snap] show ?case by auto
next
  case (wr_health w f t w')
  with set_scrape_health_ok [of lib w f t] show ?case by auto
next
  case (wr_inc w)
  with inc_scrape_failure_ok [of lib w] show ?case by auto
qed

text \<open>
  Property C11.  After any sequence of operations writing a snapshot succeeds, and the registry then
  shows exactly the snapshot: the eight block metrics with their values, each optional metric if and
  only if the snapshot has a value for it (the dictionary of gauges and the registry never disagree),
  and the three evidence flags.
\<close>

theorem write_shows_snapshot:
  assumes "prom_lib_ok lib" and "writer_reach lib w"
  shows "\<exists>w'. write_snapshot lib snap w = Inr w' \<and>
    (\<forall>(n, v) \<in> set (write_required snap). shows_value lib w' n = Some v) \<and>
    (\<forall>(n, v) \<in> set (write_optional snap). shows_value lib w' n = v) \<and>
    (\<forall>(n, v) \<in> set (write_flags snap). shows_value lib w' n = Some v) \<and>
    (\<forall>n. n \<in> set (pw_gauges w') \<longleftrightarrow> n \<notin> set own_metrics \<and> shows_value lib w' n \<noteq> None)"
proof -
  from write_ok [OF assms(1) writer_reach_inv [OF assms(2,1)]] obtain w' where
    w': "write_snapshot lib snap w = Inr w'" "writer_inv lib w'"
    "\<forall>n. shows_value lib w' n = (case dget (write_flags snap) n of Some v \<Rightarrow> Some v
        | None \<Rightarrow> case dget (write_optional snap) n of Some v \<Rightarrow> v
        | None \<Rightarrow> case dget (write_required snap) n of Some v \<Rightarrow> Some v | None \<Rightarrow> shows_value lib w n)" by blast
  have "n \<in> set (pw_gauges w') \<longleftrightarrow> n \<notin> set own_metrics \<and> shows_value lib w' n \<noteq> None" for n
    using w'(2) name_classes by (auto simp: writer_inv_def)
  moreover have "\<forall>(n, v) \<in> set (write_required snap). shows_value lib w' n = Some v"
    unfolding w'(3) [rule_format] by (simp add: write_flags_def write_optional_def write_required_def dget_def)
  moreover have "\<forall>(n, v) \<in> set (write_optional snap). shows_value lib w' n = v"
    unfolding w'(3) [rule_format] by (simp add: write_flags_def write_optional_def write_required_def dget_def)
  moreover have "\<forall>(n, v) \<in> set (write_flags snap). shows_value lib w' n = Some v"
    unfolding w'(3) [rule_format] by (simp add: write_flags_def write_optional_def write_required_def dget_def)
  ultimately show ?thesis using w'(1) by blast
qed

section \<open>Instances\<close>

text \<open>A registry as two dictionaries.\<close>

definition dict_lib :: "((string \<times> pyfloat) list \<times> (string \<times> labels) list) prom_lib" where
  "dict_lib = \<lparr>lib_empty = ([], []),
     lib_new = (\<lambda>r n. if dhas (fst r) n then Inl (ValueError ''Duplicated timeseries'') else Inr (dset (fst r) n (Fin 0), snd r)),
     lib_unregister = (\<lambda>r n. if dhas (fst r) n then Inr (ddel (fst r) n, snd r) else Inl KeyError),
     lib_set = (\<lambda>r n v. (dset (fst r) n v, snd r)),
     lib_inc = (\<lambda>r n. (dset (fst r) n (fadd (dget_or (fst r) n (Fin 0)) (Fin 1)), snd r)),
     lib_info = (\<lambda>r n ls. (fst r, dset (snd r) n ls)),
     lib_value = (\<lambda>r n. dget (fst r) n), lib_labels = (\<lambda>r n. dget (snd r) n)\<rparr>"

lemma dict_lib_ok: "prom_lib_ok dict_lib"
  by (auto simp: prom_lib_ok_def dict_lib_def dget_dset dget_ddel dhas_dget dget_or_def fun_eq_iff dget_def [of "[]"])

lemma demo_writer_reach: "\<exists>w. writer_reach dict_lib w"
  using new_writer_inv [OF dict_lib_ok] wr_new by blast

theorem write_shows_snapshot_witness:
  "\<exists>w w'. writer_reach dict_lib w \<and>
     write_snapshot dict_lib (fst (projr (compute_derived demo_native None))) w = Inr w'"
proof -
  obtain w where "writer_reach dict_lib w" using demo_writer_reach by blast
  with write_shows_snapshot [OF dict_lib_ok this] show ?thesis by blast
qed

end
