(* ===== verification/ExpApp.thy ===== *)
theory ExpApp
  imports ExpAdapters ExpState PromWriter
begin

text \<open>
  \<open>exporter/app.py\<close>: the polling loop and the endpoints.  One turn of the loop gets from its
  environment the scrape's answer, two clock readings, whether the state files could be written, and
  the text of the traceback; the two files are output only.  The client library's registry and parser
  are the parameters of the theories below.
\<close>

section \<open>Settings and state\<close>

record settings =
  st_backend_type :: string
  st_model_name :: string
  st_instance_name :: string
  st_backend_id :: string
  st_model_group :: string
  st_scrape_stale_after_s :: pyfloat
  st_scrape_failures_not_ready :: int
  st_scrape_error_max_len :: int
  st_tokens_per_block :: int

datatype backend_adapter = AVllm vllm_adapter | ASglang sglang_adapter

definition build_adapter :: "settings \<Rightarrow> backend_adapter" where
  "build_adapter cfg =
     (let backend_type = lower (strip (or_else (st_backend_type cfg) ''vllm''))
      in if backend_type = ''sglang''
         then ASglang (new_sglang (st_model_name cfg) (st_instance_name cfg) (st_model_group cfg) (st_tokens_per_block cfg))
         else AVllm \<lparr>va_model_name = st_model_name cfg, va_instance_name = st_instance_name cfg,
                     va_model_group = st_model_group cfg\<rparr>)"

record 'r exporter =
  ex_writer :: "'r prom_writer"
  ex_backend_state :: doc
  ex_advice :: doc
  ex_last_success :: "pyfloat option"
  ex_failures :: int
  ex_last_error :: string

record turn =
  tn_response :: "string res"
  tn_now :: pyfloat
  tn_files_ok :: bool
  tn_done :: pyfloat
  tn_traceback :: string

text \<open>The parts of the environment that do not change: the library and the interpreter.\<close>

record 'r world =
  wd_lib :: "'r prom_lib"
  wd_families :: "string \<Rightarrow> metric_family list res"
  wd_env :: "string option"
  wd_order :: "string list \<Rightarrow> string list"

definition new_exporter :: "'r world \<Rightarrow> 'r exporter res" where
  "new_exporter wd =
     bindR (new_writer (wd_lib wd)) (\<lambda>w.
     Inr \<lparr>ex_writer = w, ex_backend_state = [], ex_advice = [], ex_last_success = None, ex_failures = 0,
          ex_last_error = []\<rparr>)"

section \<open>The polling loop\<close>

definition collect :: "'r world \<Rightarrow> settings \<Rightarrow> string res \<Rightarrow> native_snapshot res" where
  "collect wd cfg response =
     (case build_adapter cfg of
        AVllm a \<Rightarrow> vllm_collect (wd_families wd) (wd_env wd) a response
      | ASglang a \<Rightarrow> sglang_collect (wd_families wd) (wd_env wd) (wd_order wd) a response)"

text \<open>The \<open>try\<close> block: its result and the state it leaves, also when it raises half way.\<close>

definition poll_try :: "'r world \<Rightarrow> settings \<Rightarrow> turn \<Rightarrow> 'r exporter \<Rightarrow> unit res \<times> 'r exporter" where
  "poll_try wd cfg tn s =
     (case collect wd cfg (tn_response tn) of
        Inl e \<Rightarrow> (Inl e, s)
      | Inr native \<Rightarrow>
     (case compute_derived native None of
        Inl e \<Rightarrow> (Inl e, s)
      | Inr (derived, _) \<Rightarrow>
     (case write_snapshot (wd_lib wd) derived (ex_writer s) of
        Inl e \<Rightarrow> (Inl e, s)
      | Inr w \<Rightarrow>
     let s1 = s\<lparr>ex_writer := w, ex_backend_state := []\<rparr> in
     (case snapshot_from_derived (tn_now tn) derived
             (if st_backend_id cfg = [] then None else Some (st_backend_id cfg)) None False of
        Inl e \<Rightarrow> (Inl e, s1)
      | Inr body \<Rightarrow>
     let s2 = s1\<lparr>ex_backend_state := body, ex_advice := build_advice derived False\<rparr> in
     (case dget body ''observed_at_unix_millis'' of
        None \<Rightarrow> (Inl KeyError, s2)
      | Some obs \<Rightarrow>
     let s3 = s2\<lparr>ex_advice := dset (ex_advice s2) ''observed_at_unix_millis'' obs\<rparr> in
     if \<not> tn_files_ok tn then (Inl OSError, s3)
     else
     let s4 = s3\<lparr>ex_last_success := Some (tn_done tn), ex_failures := 0, ex_last_error := []\<rparr> in
     (case set_scrape_health (wd_lib wd) (Some (tn_done tn)) 0 (ex_writer s4) of
        Inl e \<Rightarrow> (Inl e, s4)
      | Inr w' \<Rightarrow> (Inr (), s4\<lparr>ex_writer := w'\<rparr>)))))))"

definition failure_advice :: "string \<Rightarrow> doc" where
  "failure_advice err =
     [(''schema_version'', VStr ''kavora-advice/v1''), (''status'', VStr ''unavailable''),
      (''reason'', VStr ''scrape_failed''), (''detail'', VStr err)]"

definition poll_once :: "'r world \<Rightarrow> settings \<Rightarrow> turn \<Rightarrow> 'r exporter \<Rightarrow> 'r exporter res" where
  "poll_once wd cfg tn s =
     (case poll_try wd cfg tn s of
        (Inr _, s') \<Rightarrow> Inr s'
      | (Inl _, s') \<Rightarrow>
          let err = slice_to (st_scrape_error_max_len cfg) (tn_traceback tn);
              s1 = s'\<lparr>ex_failures := ex_failures s' + 1, ex_last_error := err, ex_advice := failure_advice err\<rparr>;
              w = inc_scrape_failure (wd_lib wd) (ex_writer s1)
          in bindR (set_scrape_health (wd_lib wd) (ex_last_success s1) (ex_failures s1) w) (\<lambda>w'.
             Inr (s1\<lparr>ex_writer := w'\<rparr>)))"

definition poll_loop :: "'r world \<Rightarrow> settings \<Rightarrow> turn list \<Rightarrow> 'r exporter \<Rightarrow> 'r exporter res" where
  "poll_loop wd cfg turns s = foldR (poll_once wd cfg) turns s"

section \<open>The endpoints\<close>

definition is_stale :: "settings \<Rightarrow> pyfloat \<Rightarrow> 'r exporter \<Rightarrow> bool" where
  "is_stale cfg now s =
     (case ex_last_success s of None \<Rightarrow> True | Some t \<Rightarrow> flt (st_scrape_stale_after_s cfg) (fsub now t))"

definition opt_float :: "pyfloat option \<Rightarrow> pyval" where
  "opt_float x = (case x of None \<Rightarrow> VNone | Some v \<Rightarrow> VFloat v)"

definition readyz :: "settings \<Rightarrow> pyfloat \<Rightarrow> 'r exporter \<Rightarrow> int \<times> doc" where
  "readyz cfg now s =
     (let stale = is_stale cfg now s; too_many_failures = st_scrape_failures_not_ready cfg \<le> ex_failures s
      in if stale \<or> too_many_failures
         then (503, [(''ready'', VBool False), (''last_success_ts'', opt_float (ex_last_success s)),
                     (''consecutive_failures'', VInt (ex_failures s)), (''stale'', VBool stale),
                     (''too_many_failures'', VBool too_many_failures), (''last_error'', VStr (ex_last_error s))])
         else (200, [(''ready'', VBool True), (''last_success_ts'', opt_float (ex_last_success s)),
                     (''consecutive_failures'', VInt (ex_failures s))]))"

definition backend_state_endpoint :: "'r exporter \<Rightarrow> int \<times> doc" where
  "backend_state_endpoint s =
     (if ex_backend_state s = [] then (503, [(''ready'', VBool False), (''reason'', VStr ''no_snapshot'')])
      else (200, ex_backend_state s))"

definition advice_endpoint :: "'r exporter \<Rightarrow> int \<times> doc" where
  "advice_endpoint s =
     (if ex_advice s = [] then (503, [(''status'', VStr ''unavailable''), (''reason'', VStr ''no_snapshot'')])
      else (200, ex_advice s))"

section \<open>One turn\<close>

text \<open>What makes a turn succeed; the state of the exporter has no part in it.\<close>

definition turn_ok :: "'r world \<Rightarrow> settings \<Rightarrow> turn \<Rightarrow> bool" where
  "turn_ok wd cfg tn \<longleftrightarrow>
     (\<exists>native. collect wd cfg (tn_response tn) = Inr native) \<and> isfinite (fmul (tn_now tn) (Fin 1000)) \<and> tn_files_ok tn"

lemma snapshot_from_derived_fields:
  assumes "snapshot_from_derived now d b m st = Inr body"
  shows "body \<noteq> [] \<and> (\<exists>obs. dget body ''observed_at_unix_millis'' = Some (VInt obs))"
  using assms by (auto simp: snapshot_from_derived_def bindR_eq_Inr Let_def dget_dset dget_def dset_def
      simp del: json_dumps.simps)

lemma snapshot_from_derived_ok:
  assumes "isfinite (fmul now (Fin 1000))"
  shows "\<exists>body. snapshot_from_derived now d b None st = Inr body"
proof -
  obtain x where "fmul now (Fin 1000) = Fin x" using assms by (cases "fmul now (Fin 1000)") auto
  then obtain obs where obs: "observed_time now None = Inr obs" by (auto simp: observed_time_def)
  obtain t where t: "json_dumps (VDict (snapshot_signals d obs st)) = Inr t" using json_signals by blast
  have "\<exists>c. json_dumps (VDict [(''schema_version'', VStr schema_version), (''backend_id'', VStr k),
      (''backend'', VStr (ds_backend d)), (''model'', VStr (ds_model d)), (''instance'', VStr (ds_instance d)),
      (''model_group'', VStr (ds_model_group d)), (''observed_at_unix_millis'', VInt obs),
      (''signals'', VDict (snapshot_signals d obs st))]) = Inr c" for k
    by (rule json_pairs) (simp add: t del: json_dumps.simps(8))
  then show ?thesis by (auto simp: snapshot_from_derived_def obs Let_def bindR_eq_Inr simp del: json_dumps.simps)
qed

lemma snapshot_from_derived_fails:
  assumes "\<not> isfinite (fmul now (Fin 1000))"
  shows "\<exists>e. snapshot_from_derived now d b None st = Inl e"
  using assms by (cases "fmul now (Fin 1000)") (auto simp: snapshot_from_derived_def observed_time_def)

text \<open>The three metrics a snapshot does not touch.\<close>

definition health_metrics :: "string list" where
  "health_metrics = [''kvcache_exporter_scrape_failures_total'', ''kvcache_exporter_scrape_last_success_timestamp_seconds'',
     ''kvcache_exporter_scrape_consecutive_failures'']"

lemma write_frame:
  assumes "prom_lib_ok lib" "writer_inv lib w"
  shows "\<exists>w'. write_snapshot lib snap w = Inr w' \<and> writer_inv lib w' \<and>
    (\<forall>n\<in>set health_metrics. shows_value lib w' n = shows_value lib w n)"
proof -
  have "dget (write_flags snap) n = None \<and> dget (write_optional snap) n = None \<and> dget (write_required snap) n = None"
    if "n \<in> set health_metrics" for n
    using that by (auto simp: health_metrics_def write_flags_def write_optional_def write_required_def dget_def)
  with write_ok [OF assms, of snap] show ?thesis by fastforce
qed

definition health_ok :: "'r prom_lib \<Rightarrow> 'r exporter \<Rightarrow> nat \<Rightarrow> bool" where
  "health_ok lib s failed \<longleftrightarrow>
     writer_inv lib (ex_writer s) \<and>
     shows_value lib (ex_writer s) ''kvcache_exporter_scrape_failures_total'' = Some (Fin (of_nat failed)) \<and>
     shows_value lib (ex_writer s) ''kvcache_exporter_scrape_consecutive_failures'' = Some (Fin (of_int (ex_failures s))) \<and>
     (\<forall>t. ex_last_success s = Some t \<longrightarrow>
        shows_value lib (ex_writer s) ''kvcache_exporter_scrape_last_success_timestamp_seconds'' = Some t)"

lemma poll_try_ok:
  assumes ok: "prom_lib_ok (wd_lib wd)" and h: "health_ok (wd_lib wd) s k" and t: "turn_ok wd cfg tn"
  shows "\<exists>s'. poll_try wd cfg tn s = (Inr (), s') \<and> health_ok (wd_lib wd) s' k \<and> ex_failures s' = 0 \<and>
    ex_last_success s' = Some (tn_done tn) \<and> ex_backend_state s' \<noteq> []"
proof -
  let ?b = "if st_backend_id cfg = [] then None else Some (st_backend_id cfg)"
  obtain native where n: "collect wd cfg (tn_response tn) = Inr native" using t by (auto simp: turn_ok_def)
  obtain d where d: "compute_derived native None = Inr (d, None)" using compute_derived_ok by blast
  have inv: "writer_inv (wd_lib wd) (ex_writer s)" using h by (simp add: health_ok_def)
  obtain w where w: "write_snapshot (wd_lib wd) d (ex_writer s) = Inr w" "writer_inv (wd_lib wd) w"
    "\<forall>n\<in>set health_metrics. shows_value (wd_lib wd) w n = shows_value (wd_lib wd) (ex_writer s) n"
    using write_frame [OF ok inv] by blast
  obtain body where b: "snapshot_from_derived (tn_now tn) d ?b None False = Inr body"
    using snapshot_from_derived_ok [of "tn_now tn" d ?b False] t unfolding turn_ok_def by blast
  obtain obs where o: "body \<noteq> []" "dget body ''observed_at_unix_millis'' = Some (VInt obs)"
    using snapshot_from_derived_fields [OF b] by blast
  obtain w' where w': "set_scrape_health (wd_lib wd) (Some (tn_done tn)) 0 w = Inr w'" "writer_inv (wd_lib wd) w'"
    "shows_value (wd_lib wd) w' = (shows_value (wd_lib wd) w)
       (''kvcache_exporter_scrape_last_success_timestamp_seconds'' \<mapsto> tn_done tn,
        ''kvcache_exporter_scrape_consecutive_failures'' \<mapsto> Fin 0)"
    using set_scrape_health_ok [OF ok w(2), of 0 "Some (tn_done tn)"] by auto
  have f: "tn_files_ok tn" using t by (simp add: turn_ok_def)
  show ?thesis using h w(3) w' o
    by (simp add: poll_try_def n d w(1) b f Let_def health_ok_def health_metrics_def)
qed

lemma poll_try_fail:
  assumes ok: "prom_lib_ok (wd_lib wd)" and h: "health_ok (wd_lib wd) s k" and t: "\<not> turn_ok wd cfg tn"
  shows "\<exists>e s'. poll_try wd cfg tn s = (Inl e, s') \<and> health_ok (wd_lib wd) s' k \<and> ex_failures s' = ex_failures s \<and>
    ex_last_success s' = ex_last_success s"
proof (cases "collect wd cfg (tn_response tn)")
  case (Inl e)
  with h show ?thesis by (simp add: poll_try_def)
next
  case n: (Inr native)
  let ?b = "if st_backend_id cfg = [] then None else Some (st_backend_id cfg)"
  obtain d where d: "compute_derived native None = Inr (d, None)" using compute_derived_ok by blast
  have inv: "writer_inv (wd_lib wd) (ex_writer s)" using h by (simp add: health_ok_def)
  obtain w where w: "write_snapshot (wd_lib wd) d (ex_writer s) = Inr w" "writer_inv (wd_lib wd) w"
    "\<forall>n\<in>set health_metrics. shows_value (wd_lib wd) w n = shows_value (wd_lib wd) (ex_writer s) n"
    using write_frame [OF ok inv] by blast
  show ?thesis
  proof (cases "isfinite (fmul (tn_now tn) (Fin 1000))")
    case False
    from snapshot_from_derived_fails [OF False] obtain e where
      "snapshot_from_derived (tn_now tn) d ?b None False = Inl e" by blast
    with h w show ?thesis by (simp add: poll_try_def n d Let_def health_ok_def health_metrics_def)
  next
    case True
    with t n have f: "\<not> tn_files_ok tn" by (simp add: turn_ok_def)
    obtain body where b: "snapshot_from_derived (tn_now tn) d ?b None False = Inr body"
      using snapshot_from_derived_ok [OF True] by blast
    obtain obs where "dget body ''observed_at_unix_millis'' = Some (VInt obs)"
      using snapshot_from_derived_fields [OF b] by blast
    with h w f b show ?thesis by (simp add: poll_try_def n d Let_def health_ok_def health_metrics_def)
  qed
qed

lemma poll_once_ok:
  assumes ok: "prom_lib_ok (wd_lib wd)" and h: "health_ok (wd_lib wd) s k" and b: "k < 2 ^ 53" "0 \<le> ex_failures s" "ex_failures s < 2 ^ 53"
  shows "\<exists>s'. poll_once wd cfg tn s = Inr s' \<and> health_ok (wd_lib wd) s' (if turn_ok wd cfg tn then k else Suc k) \<and>
    ex_failures s' = (if turn_ok wd cfg tn then 0 else ex_failures s + 1) \<and>
    ex_last_success s' = (if turn_ok wd cfg tn then Some (tn_done tn) else ex_last_success s)"
proof (cases "turn_ok wd cfg tn")
  case True
  with poll_try_ok [OF ok h True] show ?thesis by (auto simp: poll_once_def)
next
  case False
  from poll_try_fail [OF ok h False] obtain e s' where p: "poll_try wd cfg tn s = (Inl e, s')"
    "health_ok (wd_lib wd) s' k" "ex_failures s' = ex_failures s" "ex_last_success s' = ex_last_success s" by blast
  let ?w = "inc_scrape_failure (wd_lib wd) (ex_writer s')"
  have inc: "writer_inv (wd_lib wd) ?w" "shows_value (wd_lib wd) ?w = (shows_value (wd_lib wd) (ex_writer s'))
      (''kvcache_exporter_scrape_failures_total'' \<mapsto> fadd (Fin (of_nat k)) (Fin 1))"
    using inc_scrape_failure_ok [OF ok, of "ex_writer s'"] p(2) by (auto simp: health_ok_def)
  have "fl (of_nat k + 1) = Fin (of_nat (Suc k))" using fl_of_nat [of "Suc k"] b(1) by (simp add: add.commute)
  then have add: "fadd (Fin (of_nat k)) (Fin 1) = Fin (of_nat (Suc k))" by simp
  have "\<bar>ex_failures s + 1\<bar> \<le> 2 ^ 53" using b by simp
  from set_scrape_health_ok [OF ok inc(1) this, of "ex_last_success s"] obtain w' where
    w': "set_scrape_health (wd_lib wd) (ex_last_success s) (ex_failures s + 1) ?w = Inr w'" "writer_inv (wd_lib wd) w'"
    "shows_value (wd_lib wd) w' = (case ex_last_success s of None \<Rightarrow> shows_value (wd_lib wd) ?w
        | Some x \<Rightarrow> (shows_value (wd_lib wd) ?w)(''kvcache_exporter_scrape_last_success_timestamp_seconds'' \<mapsto> x))
      (''kvcache_exporter_scrape_consecutive_failures'' \<mapsto> Fin (of_int (ex_failures s + 1)))" by blast
  show ?thesis using p inc w' add False
    by (simp add: poll_once_def Let_def health_ok_def split: option.split)
qed

section \<open>The whole loop\<close>

definition trailing_failures :: "'r world \<Rightarrow> settings \<Rightarrow> turn list \<Rightarrow> nat" where
  "trailing_failures wd cfg turns = length (takeWhile (\<lambda>tn. \<not> turn_ok wd cfg tn) (rev turns))"

definition last_done :: "'r world \<Rightarrow> settings \<Rightarrow> turn list \<Rightarrow> pyfloat option" where
  "last_done wd cfg turns = map_option tn_done (find (turn_ok wd cfg) (rev turns))"

lemma trailing_failures_le: "trailing_failures wd cfg turns \<le> length turns"
  using length_takeWhile_le [of _ "rev turns"] by (simp add: trailing_failures_def)

lemma poll_loop_ok:
  assumes ok: "prom_lib_ok (wd_lib wd)" and s0: "new_exporter wd = Inr s0"
  shows "length turns \<le> 2 ^ 53 \<Longrightarrow>
    \<exists>s. poll_loop wd cfg turns s0 = Inr s \<and>
      health_ok (wd_lib wd) s (length (filter (\<lambda>tn. \<not> turn_ok wd cfg tn) turns)) \<and>
      ex_failures s = int (trailing_failures wd cfg turns) \<and> ex_last_success s = last_done wd cfg turns"
proof (induction turns rule: rev_induct)
  case Nil
  obtain w where "new_writer (wd_lib wd) = Inr w" "writer_inv (wd_lib wd) w"
    "\<forall>n. shows_value (wd_lib wd) w n = (if n \<in> set own_metrics \<union> set required_gauges then Some (Fin 0) else None)"
    using new_writer_inv [OF ok] by blast
  with s0 show ?case
    by (simp add: poll_loop_def new_exporter_def health_ok_def trailing_failures_def last_done_def own_metrics_def
        required_gauges_def) auto
next
  case (snoc tn turns)
  then obtain s where s: "poll_loop wd cfg turns s0 = Inr s"
    "health_ok (wd_lib wd) s (length (filter (\<lambda>tn. \<not> turn_ok wd cfg tn) turns))"
    "ex_failures s = int (trailing_failures wd cfg turns)" "ex_last_success s = last_done wd cfg turns" by auto
  have b: "length (filter (\<lambda>tn. \<not> turn_ok wd cfg tn) turns) < 2 ^ 53" "0 \<le> ex_failures s" "ex_failures s < 2 ^ 53"
  proof -
    show "length (filter (\<lambda>tn. \<not> turn_ok wd cfg tn) turns) < 2 ^ 53"
      by (rule le_less_trans [OF length_filter_le]) (use snoc.prems in simp)
    have "trailing_failures wd cfg turns < 2 ^ 53"
      using snoc.prems trailing_failures_le [of wd cfg turns] by simp
    then show "0 \<le> ex_failures s" "ex_failures s < 2 ^ 53"
      unfolding s(3) by (simp_all add: of_nat_less_iff [of _ "2 ^ 53", where ?'a = int, simplified])
  qed
  from poll_once_ok [OF ok s(2) b, of cfg tn] s show ?case
    by (auto simp: poll_loop_def foldR_append trailing_failures_def last_done_def)
qed

section \<open>Properties\<close>

text \<open>
  Property C9.  The polling loop survives everything: whatever the scrapes, the clock and the disk do,
  no turn raises out of the loop, and after any number of turns (up to \<open>2 ^ 53\<close>, where floats still
  count exactly) the state and the published metrics agree on the number of failed turns since the
  last success, the number of failed turns in all, and the time of the last success.
\<close>

theorem poll_loop_accounts:
  assumes "prom_lib_ok (wd_lib wd)" and "new_exporter wd = Inr s0" and "length turns \<le> 2 ^ 53"
  shows "\<exists>s. poll_loop wd cfg turns s0 = Inr s \<and>
     ex_failures s = int (trailing_failures wd cfg turns) \<and>
     ex_last_success s = last_done wd cfg turns \<and>
     shows_value (wd_lib wd) (ex_writer s) ''kvcache_exporter_scrape_consecutive_failures'' =
       Some (Fin (of_nat (trailing_failures wd cfg turns))) \<and>
     shows_value (wd_lib wd) (ex_writer s) ''kvcache_exporter_scrape_failures_total'' =
       Some (Fin (of_nat (length (filter (\<lambda>tn. \<not> turn_ok wd cfg tn) turns)))) \<and>
     (\<forall>t. last_done wd cfg turns = Some t \<longrightarrow>
        shows_value (wd_lib wd) (ex_writer s) ''kvcache_exporter_scrape_last_success_timestamp_seconds'' = Some t)"
  using poll_loop_ok [OF assms, of cfg] by (auto simp: health_ok_def)

text \<open>
  The readiness endpoint says 200 exactly when some turn has succeeded, the last
  success is not older than the configured limit, and fewer turns failed since than configured.
\<close>

theorem readyz_iff:
  assumes "prom_lib_ok (wd_lib wd)" and "new_exporter wd = Inr s0" and "length turns \<le> 2 ^ 53"
    and "poll_loop wd cfg turns s0 = Inr s"
  shows "fst (readyz cfg now s) = 200 \<longleftrightarrow>
     (\<exists>t. last_done wd cfg turns = Some t \<and> \<not> flt (st_scrape_stale_after_s cfg) (fsub now t)) \<and>
     int (trailing_failures wd cfg turns) < st_scrape_failures_not_ready cfg"
proof -
  have "ex_failures s = int (trailing_failures wd cfg turns)" "ex_last_success s = last_done wd cfg turns"
    using poll_loop_ok [OF assms(1-3), of cfg] assms(4) by auto
  then show ?thesis by (auto simp: readyz_def is_stale_def Let_def split: option.splits)
qed

text \<open>
  Property C10.  A scrape that fails leaves the published backend state as it was, while the advice
  becomes unavailable: the state endpoint goes on serving the old snapshot with its old labels.
\<close>

theorem failed_scrape_keeps_snapshot:
  assumes "collect wd cfg (tn_response tn) = Inl e" and "poll_once wd cfg tn s = Inr s'"
  shows "backend_state_endpoint s' = backend_state_endpoint s \<and>
     ex_last_success s' = ex_last_success s \<and>
     dget (snd (advice_endpoint s')) ''status'' = Some (VStr ''unavailable'')"
  using assms
  by (auto simp: poll_once_def poll_try_def bindR_eq_Inr Let_def backend_state_endpoint_def advice_endpoint_def
      failure_advice_def dget_def)

section \<open>Instances\<close>

definition demo_world :: "((string \<times> pyfloat) list \<times> (string \<times> labels) list) world" where
  "demo_world = \<lparr>wd_lib = dict_lib, wd_families = (\<lambda>_. Inr []), wd_env = None, wd_order = (\<lambda>xs. xs)\<rparr>"

definition demo_settings :: settings where
  "demo_settings = \<lparr>st_backend_type = ''vllm'', st_model_name = ''m'', st_instance_name = ''i'', st_backend_id = [],
     st_model_group = [], st_scrape_stale_after_s = Fin 120, st_scrape_failures_not_ready = 3,
     st_scrape_error_max_len = 256, st_tokens_per_block = 16\<rparr>"

definition demo_turn :: "bool \<Rightarrow> turn" where
  "demo_turn good = \<lparr>tn_response = (if good then Inr [] else Inl HTTPError), tn_now = Fin 1, tn_files_ok = True,
     tn_done = Fin 2, tn_traceback = ''Traceback''\<rparr>"

lemma demo_new_exporter: "\<exists>s. new_exporter demo_world = Inr s"
  using new_writer_inv [OF dict_lib_ok] by (auto simp: new_exporter_def demo_world_def)

lemma demo_collect: "collect demo_world demo_settings (Inl HTTPError) = Inl HTTPError"
  "\<exists>n. collect demo_world demo_settings (Inr []) = Inr n"
proof -
  have "build_adapter demo_settings = AVllm \<lparr>va_model_name = ''m'', va_instance_name = ''i'', va_model_group = []\<rparr>"
    by code_simp
  then show "collect demo_world demo_settings (Inl HTTPError) = Inl HTTPError"
    "\<exists>n. collect demo_world demo_settings (Inr []) = Inr n" by (simp_all add: collect_def vllm_collect_def)
qed

lemma demo_turn_ok: "turn_ok demo_world demo_settings (demo_turn good) \<longleftrightarrow> good"
  using demo_collect by (auto simp: turn_ok_def demo_turn_def float_simps)

theorem poll_loop_accounts_witness:
  "\<exists>s0 s. new_exporter demo_world = Inr s0 \<and>
     poll_loop demo_world demo_settings [demo_turn True, demo_turn False] s0 = Inr s \<and> ex_failures s = 1"
proof -
  obtain s0 where s0: "new_exporter demo_world = Inr s0" using demo_new_exporter by blast
  have "prom_lib_ok (wd_lib demo_world)" by (simp add: demo_world_def dict_lib_ok)
  from poll_loop_accounts [OF this s0, of "[demo_turn True, demo_turn False]" demo_settings] s0 show ?thesis
    by (auto simp: trailing_failures_def demo_turn_ok)
qed

theorem readyz_iff_witness:
  "\<exists>s0 s. new_exporter demo_world = Inr s0 \<and> poll_loop demo_world demo_settings [demo_turn True] s0 = Inr s \<and>
     fst (readyz demo_settings (Fin 3) s) = 200"
proof -
  obtain s0 where s0: "new_exporter demo_world = Inr s0" using demo_new_exporter by blast
  have ok: "prom_lib_ok (wd_lib demo_world)" by (simp add: demo_world_def dict_lib_ok)
  obtain s where s: "poll_loop demo_world demo_settings [demo_turn True] s0 = Inr s"
    using poll_loop_ok [OF ok s0, of "[demo_turn True]" demo_settings] by auto
  have "fsub (Fin 3) (Fin 2) = Fin 1" by (simp add: fsub_def float_simps)
  moreover have "tn_done (demo_turn True) = Fin 2" "st_scrape_stale_after_s demo_settings = Fin 120"
    "st_scrape_failures_not_ready demo_settings = 3" by (simp_all add: demo_turn_def demo_settings_def)
  ultimately have "fst (readyz demo_settings (Fin 3) s) = 200"
    using readyz_iff [OF ok s0 _ s, of "Fin 3"] by (simp add: last_done_def trailing_failures_def demo_turn_ok)
  with s s0 show ?thesis by blast
qed

theorem failed_scrape_keeps_snapshot_witness:
  "\<exists>s0 s. new_exporter demo_world = Inr s0 \<and> poll_once demo_world demo_settings (demo_turn False) s0 = Inr s \<and>
     dget (snd (advice_endpoint s)) ''status'' = Some (VStr ''unavailable'')"
proof -
  obtain s0 where s0: "new_exporter demo_world = Inr s0" using demo_new_exporter by blast
  have ok: "prom_lib_ok (wd_lib demo_world)" by (simp add: demo_world_def dict_lib_ok)
  obtain s where s: "poll_once demo_world demo_settings (demo_turn False) s0 = Inr s"
    using poll_loop_ok [OF ok s0, of "[demo_turn False]" demo_settings] by (auto simp: poll_loop_def bindR_eq_Inr)
  have "collect demo_world demo_settings (tn_response (demo_turn False)) = Inl HTTPError"
    using demo_collect by (simp add: demo_turn_def)
  from failed_scrape_keeps_snapshot [OF this s] s s0 show ?thesis by blast
qed

end
