(* ===== verification/PyStats.thy ===== *)
theory PyStats
  imports PyVal
begin

text \<open>
  The numeric helpers the planner modules share: \<open>round(x, n)\<close>, \<open>float(x or 0)\<close>, sums and means of
  floats, the interpolated percentile and the tuple comparison that \<open>list.sort\<close> uses on keys.
\<close>

section \<open>Conversions\<close>

text \<open>\<open>float(v or 0)\<close>.\<close>

definition float_or0 :: "pyval \<Rightarrow> pyfloat res" where
  "float_or0 v = (if truthy v then py_float v else Inr (Fin 0))"

text \<open>A number that may be absent, 0 then.\<close>

definition or_zero :: "pyfloat option \<Rightarrow> pyfloat" where
  "or_zero x = (case x of None \<Rightarrow> Fin 0 | Some v \<Rightarrow> v)"

text \<open>
  \<open>round(x, n)\<close> is the double nearest to the decimal with \<open>n\<close> places nearest to the exact value,
  ties to even; infinities and NaN are returned as they are.
\<close>

definition py_round :: "nat \<Rightarrow> pyfloat \<Rightarrow> pyfloat" where
  "py_round n x = (case x of Fin a \<Rightarrow> fl (of_int (rne (a * 10 ^ n)) / 10 ^ n) | _ \<Rightarrow> x)"

lemma py_round_mono: "fle a b \<Longrightarrow> fle (py_round n a) (py_round n b)"
proof -
  have inf: "fle (fl x) PInf" "fle NInf (fl x)" for x by (auto simp: fl_def Let_def)
  have "fle (fl (of_int (rne (x * 10 ^ n)) / 10 ^ n)) (fl (of_int (rne (y * 10 ^ n)) / 10 ^ n))" if "x \<le> y" for x y
    using that by (intro fl_mono divide_right_mono) (auto intro!: rne_mono mult_right_mono)
  with inf show "fle a b \<Longrightarrow> ?thesis" by (cases a; cases b) (auto simp: py_round_def)
qed

lemma py_round_0 [simp]: "py_round n (Fin 0) = Fin 0"
  using rne_of_int [of 0] by (simp add: py_round_def)

section \<open>Products with a factor\<close>

text \<open>A nonnegative value times a nonnegative finite factor is nonnegative, and the order is kept.\<close>

lemma fmul_mono0:
  assumes "fle a b" "0 \<le> c" "isfinite a" "isfinite b"
  shows "fle (fmul a (Fin c)) (fmul b (Fin c))"
  using assms by (cases a; cases b) (auto intro!: fl_mono mult_right_mono)

lemma fmul_le_self:
  assumes "fle (Fin 0) a" "isfinite a" "is_f64 a" "0 \<le> c" "c \<le> 1"
  shows "fle (fmul a (Fin c)) a"
proof -
  from assms(1,2) obtain x where a: "a = Fin x" "0 \<le> x" by (cases a) auto
  have "fle (fl (x * c)) (fl x)" using a assms(4,5) by (intro fl_mono mult_left_le) auto
  with a fl_exact [of x] assms(3) show ?thesis by auto
qed

section \<open>Sums and means\<close>

text \<open>
  \<open>sum(xs)\<close> of floats in Python 3.12, the version the repository tests with: Neumaier's compensated
  summation, whose correction is added at the end when it is finite.
\<close>

definition sum_step :: "pyfloat \<times> pyfloat \<Rightarrow> pyfloat \<Rightarrow> pyfloat \<times> pyfloat" where
  "sum_step sc x =
     (case sc of (s, c) \<Rightarrow>
        let t = fadd s x
        in (t, fadd c (if fle (fabs x) (fabs s) then fadd (fsub s t) x else fadd (fsub x t) s)))"

definition py_sum :: "pyfloat list \<Rightarrow> pyfloat" where
  "py_sum xs = (case foldl sum_step (Fin 0, Fin 0) xs of (s, c) \<Rightarrow> if isfinite c then fadd s c else s)"

text \<open>\<open>sum(xs) / len(xs)\<close>.\<close>

definition float_mean :: "pyfloat list \<Rightarrow> pyfloat res" where
  "float_mean xs = fdiv (py_sum xs) (Fin (of_nat (length xs)))"

text \<open>
  \<open>statistics.mean\<close> adds exactly and rounds the quotient once; a NaN or infinity among the values
  makes the sum the float sum of those.
\<close>

definition finite_part :: "pyfloat \<Rightarrow> rat" where
  "finite_part x = (case x of Fin a \<Rightarrow> a | _ \<Rightarrow> 0)"

definition stat_mean :: "pyfloat list \<Rightarrow> pyfloat res" where
  "stat_mean xs =
     (if xs = [] then Inl StatisticsError
      else if list_all isfinite xs
        then (case fl (sum_list (map finite_part xs) / of_nat (length xs)) of
                Fin m \<Rightarrow> Inr (Fin m) | _ \<Rightarrow> Inl OverflowError)
      else Inr (foldl fadd (Fin 0) (filter (\<lambda>x. \<not> isfinite x) xs)))"

lemma stat_mean_bounds:
  assumes "stat_mean xs = Inr m" "list_all (\<lambda>x. isfinite x \<and> fle (Fin a) x \<and> fle x (Fin b)) xs"
    "is_f64 (Fin a)" "is_f64 (Fin b)"
  shows "isfinite m \<and> fle (Fin a) m \<and> fle m (Fin b)"
proof -
  have ne: "xs \<noteq> []" and fin: "list_all isfinite xs" using assms(1,2)
    by (auto simp: stat_mean_def list_all_iff split: if_splits)
  let ?s = "sum_list (map finite_part xs)" and ?n = "of_nat (length xs) :: rat"
  have "a * ?n \<le> ?s \<and> ?s \<le> b * ?n"
    using assms(2) by (induction xs) (auto simp: finite_part_def algebra_simps split: pyfloat.splits)
  moreover have n: "0 < ?n" using ne by simp
  ultimately have "a \<le> ?s / ?n" "?s / ?n \<le> b" by (simp_all add: le_divide_eq divide_le_eq)
  then have "fle (fl a) (fl (?s / ?n))" "fle (fl (?s / ?n)) (fl b)" by (auto intro: fl_mono)
  moreover have "m = fl (?s / ?n) \<and> isfinite m"
    using assms(1) ne fin
    by (cases m) (auto simp: stat_mean_def split: pyfloat.splits)
  ultimately show ?thesis using fl_exact [OF assms(3)] fl_exact [OF assms(4)] by auto
qed

section \<open>Square roots and the standard deviation\<close>

text \<open>The integer square root, two bits of the argument at a time.\<close>

fun isqrt :: "nat \<Rightarrow> nat" where
  "isqrt n = (if n = 0 then 0 else
     (let r = 2 * isqrt (n div 4) in if (r + 1) * (r + 1) \<le> n then r + 1 else r))"

declare isqrt.simps [simp del]

lemma isqrt_correct: "isqrt n * isqrt n \<le> n \<and> n < (isqrt n + 1) * (isqrt n + 1)"
proof (induction n rule: isqrt.induct)
  case (1 n)
  show ?case
  proof (cases "n = 0")
    case True
    then show ?thesis by (simp add: isqrt.simps)
  next
    case False
    let ?q = "isqrt (n div 4)"
    have ih: "?q * ?q \<le> n div 4" "n div 4 < (?q + 1) * (?q + 1)" using 1 [OF False] by auto
    have lo: "(2 * ?q) * (2 * ?q) \<le> n" using ih(1) by linarith
    have "n div 4 + 1 \<le> (?q + 1) * (?q + 1)" using ih(2) by linarith
    then have "4 * (n div 4 + 1) \<le> 4 * ((?q + 1) * (?q + 1))" by (rule mult_le_mono2)
    moreover have "n < 4 * (n div 4 + 1)" by simp
    moreover have "4 * ((?q + 1) * (?q + 1)) = (2 * ?q + 2) * (2 * ?q + 2)" by (simp add: algebra_simps)
    ultimately have hi: "n < (2 * ?q + 2) * (2 * ?q + 2)" by linarith
    have eq: "isqrt n = (if (2 * ?q + 1) * (2 * ?q + 1) \<le> n then 2 * ?q + 1 else 2 * ?q)"
      using False by (subst isqrt.simps) (simp add: Let_def)
    show ?thesis
    proof (cases "(2 * ?q + 1) * (2 * ?q + 1) \<le> n")
      case True
      then show ?thesis using eq hi by simp
    next
      case False
      then show ?thesis using eq lo by simp
    qed
  qed
qed

text \<open>
  The correctly rounded square root: the root of the scaled argument has at least 60 bits, is made odd
  when it is inexact, and is then rounded once.
\<close>

definition sqrt64 :: "rat \<Rightarrow> rat" where
  "sqrt64 x =
     (if x \<le> 0 then 0
      else let k = 60 - ilog2 x div 2; y = x * 4 powi k; m = isqrt (nat \<lfloor>y\<rfloor>)
           in rnd64 (of_nat (if of_nat (m * m) = y \<or> odd m then m else m + 1) * 2 powi (- k)))"

text \<open>\<open>math.sqrt\<close> of a nonnegative finite number and \<open>statistics.stdev\<close> of finite numbers, exact up to one rounding.\<close>

definition stat_stdev :: "pyfloat list \<Rightarrow> pyfloat res" where
  "stat_stdev xs =
     (if length xs < 2 then Inl StatisticsError
      else let qs = map finite_part xs; n = of_nat (length xs); m = sum_list qs / n
           in Inr (Fin (sqrt64 (sum_list (map (\<lambda>q. (q - m) * (q - m)) qs) / (n - 1)))))"

lemma sqrt64_nonneg: "0 \<le> sqrt64 x"
  by (auto simp: sqrt64_def Let_def intro!: rnd64_nonneg)

text \<open>The root of a count is not zero, so the margin of an interval is defined.\<close>

lemma sqrt64_ge_1:
  assumes "1 \<le> x" "ilog2 x div 2 \<le> 60"
  shows "1 \<le> sqrt64 x"
proof -
  define k where "k = nat (60 - ilog2 x div 2)"
  have k: "60 - ilog2 x div 2 = int k" using assms(2) by (simp add: k_def)
  define m where "m = isqrt (nat \<lfloor>x * 4 ^ k\<rfloor>)"
  define m' where "m' = (if of_nat (m * m) = x * 4 ^ k \<or> odd m then m else m + 1)"
  have "(4::rat) ^ k \<le> x * 4 ^ k" using assms(1) by simp
  then have "(4::nat) ^ k \<le> nat \<lfloor>x * 4 ^ k\<rfloor>" by (simp add: le_nat_iff le_floor_iff)
  then have "(4::nat) ^ k < (m + 1) * (m + 1)"
    unfolding m_def by (rule order_le_less_trans [OF _ conjunct2 [OF isqrt_correct]])
  moreover have "(2::nat) ^ k * 2 ^ k = 4 ^ k" by (simp flip: power_mult_distrib)
  ultimately have "\<not> (m + 1) \<le> 2 ^ k" using mult_le_mono [of "m + 1" "2 ^ k" "m + 1" "2 ^ k"] by linarith
  then have "2 ^ k \<le> m'" by (simp add: m'_def)
  then have "(2::rat) ^ k \<le> of_nat m'" by (metis of_nat_le_iff of_nat_numeral of_nat_power)
  then have "1 \<le> of_nat m' * (2::rat) powi (- int k)" by (simp add: power_int_minus field_simps)
  then have "rnd64 1 \<le> rnd64 (of_nat m' * 2 powi (- int k))" by (rule rnd64_mono)
  moreover have "rnd64 1 = 1" using rnd64_int_exact [of 1] by simp
  moreover have "sqrt64 x = rnd64 (of_nat m' * 2 powi (- int k))"
    using assms(1) by (simp add: sqrt64_def k m_def m'_def Let_def)
  ultimately show ?thesis by simp
qed

section \<open>Percentiles\<close>

text \<open>
  \<open>_percentile\<close>: linear interpolation between the two neighbours of the position
  \<open>quantile * (len - 1)\<close> in the sorted list.  The position is a float.
\<close>

definition py_nth :: "'a list \<Rightarrow> int \<Rightarrow> 'a res" where
  "py_nth xs i =
     (if 0 \<le> i \<and> i < int (length xs) then Inr (xs ! nat i)
      else if - int (length xs) \<le> i \<and> i < 0 then Inr (xs ! nat (int (length xs) + i))
      else Inl IndexError)"

definition interpolate :: "pyfloat list \<Rightarrow> pyfloat \<Rightarrow> pyfloat res" where
  "interpolate ordered quantile =
     (case fmul quantile (Fin (of_int (int (length ordered) - 1))) of
        Fin p \<Rightarrow>
          bindR (py_nth ordered \<lfloor>p\<rfloor>) (\<lambda>lo.
          if \<lfloor>p\<rfloor> = \<lceil>p\<rceil> then Inr lo
          else bindR (py_nth ordered \<lceil>p\<rceil>) (\<lambda>hi.
            Inr (fadd lo (fmul (fsub hi lo) (fsub (Fin p) (Fin (of_int \<lfloor>p\<rfloor>)))))))
      | NaN \<Rightarrow> Inl (ValueError ''cannot convert float NaN to integer'')
      | _ \<Rightarrow> Inl OverflowError)"

text \<open>For a quantile of the unit interval the indices are in range, and the result lies above the least value.\<close>

lemma fmul_unit_index:
  assumes "0 \<le> q" "q \<le> 1" "0 < n" "n \<le> 2 ^ 53"
  shows "\<exists>p. fmul (Fin q) (Fin (of_int (int n - 1))) = Fin p \<and> 0 \<le> p \<and> p \<le> of_int (int n - 1)"
proof -
  let ?m = "of_int (int n - 1) :: rat"
  have m: "fl ?m = Fin ?m" using assms by (intro fl_int) auto
  have "0 \<le> ?m" using assms by simp
  then have "0 \<le> q * ?m" "q * ?m \<le> ?m" using assms by (auto simp: mult_left_le_one_le)
  then have "fle (Fin 0) (fl (q * ?m))" "fle (fl (q * ?m)) (Fin ?m)"
    using fl_nonneg fl_mono m by metis+
  then show ?thesis by (cases "fl (q * ?m)") auto
qed

section \<open>Fixed-point notation\<close>

text \<open>
  \<open>f"{x:.3f}"\<close> and its kin: the exact value rounded to \<open>n\<close> places, ties to even.  The sign of a negative
  zero, which the model of floats does not keep, is not shown.
\<close>

definition fixed_str :: "nat \<Rightarrow> pyfloat \<Rightarrow> string" where
  "fixed_str n x =
     (case x of NaN \<Rightarrow> ''nan'' | PInf \<Rightarrow> ''inf'' | NInf \<Rightarrow> ''-inf''
      | Fin a \<Rightarrow>
          let ds = pad_left (n + 1) (CHR ''0'') (nat_str (nat (rne (\<bar>a\<bar> * 10 ^ n)))); i = length ds - n
          in (if a < 0 then ''-'' else []) @ take i ds @ (if n = 0 then [] else ''.'' @ drop i ds))"

text \<open>\<open>f"{x:.12g}"\<close> and its kin: \<open>p\<close> significant digits, trailing zeros dropped, scientific outside \<open>1e-4 .. 10^p\<close>.\<close>

definition sig_digits :: "nat \<Rightarrow> rat \<Rightarrow> int \<times> string" where
  "sig_digits p a =
     (let e = ilog10 a; m = rne (a / 10 powi (e - int p + 1))
      in if m = 10 ^ p then (e + 1, rstrip0 (nat_str (nat (m div 10)))) else (e, rstrip0 (nat_str (nat m))))"

definition general_str :: "nat \<Rightarrow> pyfloat \<Rightarrow> string" where
  "general_str p x =
     (case x of NaN \<Rightarrow> ''nan'' | PInf \<Rightarrow> ''inf'' | NInf \<Rightarrow> ''-inf''
      | Fin a \<Rightarrow>
          if a = 0 then ''0''
          else (case sig_digits p \<bar>a\<bar> of (e, ds) \<Rightarrow>
            (if a < 0 then ''-'' else []) @
            (if - 4 \<le> e \<and> e < int p
             then (if e < 0 then ''0.'' @ replicate (nat (- e - 1)) (CHR ''0'') @ ds
                   else if int (length ds) \<le> e + 1 then ds @ replicate (nat (e + 1) - length ds) (CHR ''0'')
                   else take (nat (e + 1)) ds @ ''.'' @ drop (nat (e + 1)) ds)
             else take 1 ds @ (if length ds = 1 then [] else ''.'' @ drop 1 ds) @ ''e'' @
                  (if e < 0 then ''-'' else ''+'') @ pad_left 2 (CHR ''0'') (nat_str (nat \<bar>e\<bar>)))))"

section \<open>Comparison of sort keys\<close>

text \<open>
  Tuples compare at the first position where they are not equal.  Equality of elements is tried by
  identity first, so a NaN object equals itself; on keys without NaN this is the lexicographic order.
\<close>

fun key_lt :: "pyfloat list \<Rightarrow> pyfloat list \<Rightarrow> bool" where
  "key_lt (x # xs) (y # ys) = (if feq x y then key_lt xs ys else flt x y)"
| "key_lt [] (y # ys) = True"
| "key_lt _ [] = False"

text \<open>\<open>xs.sort(key=k, reverse=True)\<close>: the largest key first, equal keys in their order.\<close>

definition sort_desc :: "('a \<Rightarrow> pyfloat list) \<Rightarrow> 'a list \<Rightarrow> 'a list" where
  "sort_desc k xs = sort_lt (\<lambda>a b. key_lt (k b) (k a)) xs"

definition key_ok :: "pyfloat list \<Rightarrow> bool" where
  "key_ok k = list_all (\<lambda>x. x \<noteq> NaN) k"

lemma key_lt_asym: "key_ok x \<Longrightarrow> key_ok y \<Longrightarrow> key_lt x y \<Longrightarrow> \<not> key_lt y x"
  by (induction x y rule: key_lt.induct)
     (auto simp: key_ok_def feq_iff dest: flt_asym split: if_splits)

lemma key_lt_neg_trans:
  "key_ok x \<Longrightarrow> key_ok y \<Longrightarrow> key_ok z \<Longrightarrow> key_lt x z \<Longrightarrow> key_lt x y \<or> key_lt y z"
proof (induction x z arbitrary: y rule: key_lt.induct)
  case (1 a as c cs)
  show ?case
  proof (cases y)
    case (Cons b bs)
    with 1 show ?thesis using float_order.lt_neg_trans [of a b c] fle_linear [of b c]
      by (auto simp: key_ok_def feq_iff fle_def split: if_splits)
  qed simp
next
  case (2 c cs)
  then show ?case by (cases y) auto
qed auto

text \<open>A stable sort by such keys, as an instance of the order sorting relies on.\<close>

interpretation key_order: weak_order_on "\<lambda>x. key_ok (k x)" "\<lambda>a b. key_lt (k b) (k a)" for k
  by unfold_locales (use key_lt_asym key_lt_neg_trans in blast)+

lemma sort_desc_hd:
  "\<forall>x\<in>set xs. key_ok (k x) \<Longrightarrow> y \<in> set xs \<Longrightarrow> \<not> key_lt (k (hd (sort_desc k xs))) (k y)"
  unfolding sort_desc_def by (rule key_order.hd_sort_least)

lemma sort_desc_sorted:
  "\<forall>x\<in>set xs. key_ok (k x) \<Longrightarrow> sorted_wrt (\<lambda>a b. \<not> key_lt (k a) (k b)) (sort_desc k xs)"
  unfolding sort_desc_def by (rule key_order.sorted_sort)

lemma set_sort_desc [simp]: "set (sort_desc k xs) = set xs"
  by (simp add: sort_desc_def)

lemma length_sort_desc [simp]: "length (sort_desc k xs) = length xs"
  by (simp add: sort_desc_def)

lemma sort_desc_Nil [simp]: "sort_desc k [] = []"
  by (simp add: sort_desc_def)

lemma sort_desc_Nil_iff [simp]: "sort_desc k xs = [] \<longleftrightarrow> xs = []"
  by (simp add: sort_desc_def)

lemma mset_sort_desc [simp]: "mset (sort_desc k xs) = mset xs"
  by (simp add: sort_desc_def)

end
