(* ===== verification/Envelope.thy ===== *)
theory Envelope
  imports PyStats
begin

text \<open>
  \<open>planner/operating_envelope.py\<close>: the points of a capacity sweep are checked against the latency,
  success-rate, evidence and resource limits; the admissible point with the largest lower bound of
  goodput is recommended and the admissible points no other point dominates are reported.
\<close>

section \<open>Reading a point\<close>

definition envelope_number :: "pyval \<Rightarrow> pyfloat option res" where
  "envelope_number v = (if v = VNone then Inr None else coerce_finite_float v)"

definition point_aggregates :: "pydict \<Rightarrow> pyval" where
  "point_aggregates point = dget_or point ''aggregates'' (VDict [])"

text \<open>\<open>_number(d.get(key)) if isinstance(d, dict) else None\<close>.\<close>

definition dict_number :: "pyval \<Rightarrow> string \<Rightarrow> pyfloat option res" where
  "dict_number d key = (case d of VDict m \<Rightarrow> envelope_number (dget_or m key VNone) | _ \<Rightarrow> Inr None)"

definition point_resource :: "pydict \<Rightarrow> pyfloat option res" where
  "point_resource point =
     (let aggregates = point_aggregates point;
          resource = (case aggregates of VDict m \<Rightarrow> dget_or m ''resource'' (VDict []) | _ \<Rightarrow> VDict [])
      in bindR (dict_number aggregates ''gpu_seconds_mean'') (\<lambda>own.
         case own of
           Some x \<Rightarrow> if feq x (Fin 0) then dict_number resource ''gpu_seconds_mean'' else Inr (Some x)
         | None \<Rightarrow> dict_number resource ''gpu_seconds_mean''))"

definition point_goodput :: "pydict \<Rightarrow> (pyfloat option \<times> pyfloat option) res" where
  "point_goodput point =
     (let aggregates = point_aggregates point in
      bindR (dict_number aggregates ''goodput_req_s_mean'') (\<lambda>mean.
      bindR (dict_number aggregates ''goodput_req_s_lcb'') (\<lambda>lower.
      Inr (mean, if lower = None \<and> mean \<noteq> None then mean else lower))))"

section \<open>The gates\<close>

record envelope_limits =
  el_slo_ms :: pyfloat
  el_min_success :: pyfloat
  el_budget :: "pyfloat option"
  el_safety :: pyfloat

record envelope_point =
  ep_scenario :: pyval
  ep_concurrency :: int
  ep_mean :: "pyfloat option"
  ep_lcb :: "pyfloat option"
  ep_e2e :: "pyfloat option"
  ep_success :: "pyfloat option"
  ep_gpu :: "pyfloat option"
  ep_quality :: pyval
  ep_reasons :: "string list"

definition ep_feasible :: "envelope_point \<Rightarrow> bool" where
  "ep_feasible q = (ep_reasons q = [])"

definition reason_if :: "bool \<Rightarrow> string \<Rightarrow> string list" where
  "reason_if b r = (if b then [r] else [])"

definition rejection_reasons ::
  "envelope_limits \<Rightarrow> pyfloat option \<Rightarrow> pyfloat option \<Rightarrow> pyfloat option \<Rightarrow> pyfloat option \<Rightarrow> string \<Rightarrow> string list" where
  "rejection_reasons l mean e2e success resource quality =
     reason_if (mean = None) ''goodput_missing'' @
     reason_if (case e2e of None \<Rightarrow> True | Some x \<Rightarrow> flt (el_slo_ms l) x) ''e2e_p95_slo'' @
     reason_if (case success of None \<Rightarrow> False | Some x \<Rightarrow> flt x (el_min_success l)) ''success_rate'' @
     reason_if (quality \<in> {''missing'', ''stale'', ''invalid''}) ''evidence_quality'' @
     (case el_budget l of
        None \<Rightarrow> []
      | Some b \<Rightarrow> (case resource of None \<Rightarrow> [''resource_missing''] | Some x \<Rightarrow> reason_if (flt b x) ''resource_budget''))"

definition evaluate_point :: "envelope_limits \<Rightarrow> pydict \<Rightarrow> envelope_point res" where
  "evaluate_point l point =
     (let aggregates = point_aggregates point;
          quality = (case aggregates of VDict m \<Rightarrow> dget_or m ''quality_summary'' (VDict []) | _ \<Rightarrow> VDict []) in
     bindR (point_goodput point) (\<lambda>(mean, lcb).
     bindR (dict_number aggregates ''e2e_p95_ms_mean'') (\<lambda>e2e.
     bindR (dict_number aggregates ''success_rate_mean'') (\<lambda>success.
     bindR (point_resource point) (\<lambda>resource.
     bindR (vget quality ''metric_quality'' (VStr ''missing'')) (\<lambda>q.
     bindR (py_int (dget_or point ''concurrency'' (VInt 0))) (\<lambda>concurrency.
     Inr \<lparr>ep_scenario = dget_or point ''scenario'' (VStr ''unknown''), ep_concurrency = concurrency,
          ep_mean = mean, ep_lcb = lcb, ep_e2e = e2e, ep_success = success, ep_gpu = resource, ep_quality = q,
          ep_reasons = rejection_reasons l mean e2e success resource (py_str q)\<rparr>)))))))"

section \<open>Selection\<close>

definition num_of :: "pyfloat option \<Rightarrow> pyfloat" where
  "num_of x = (case x of Some v \<Rightarrow> v | None \<Rightarrow> NaN)"

text \<open>The sort key \<open>(goodput_req_s_lcb, goodput_req_s_mean, -concurrency)\<close>; an admissible point has both goodputs.\<close>

definition point_key :: "envelope_point \<Rightarrow> pyfloat list" where
  "point_key q = [num_of (ep_lcb q), num_of (ep_mean q), Fin (of_int (- ep_concurrency q))]"

definition dominates :: "envelope_point \<Rightarrow> envelope_point \<Rightarrow> bool" where
  "dominates other candidate \<longleftrightarrow>
     fle (num_of (ep_lcb candidate)) (num_of (ep_lcb other)) \<and>
     (case (ep_gpu candidate, ep_gpu other) of (Some c, Some x) \<Rightarrow> fle x c | _ \<Rightarrow> True) \<and>
     (flt (num_of (ep_lcb candidate)) (num_of (ep_lcb other)) \<or>
      (case (ep_gpu candidate, ep_gpu other) of (Some c, Some x) \<Rightarrow> flt x c | _ \<Rightarrow> False))"

definition pareto_points :: "envelope_point list \<Rightarrow> envelope_point list" where
  "pareto_points feasible =
     map snd (filter (\<lambda>(i, c). \<not> list_ex (\<lambda>(j, other). j \<noteq> i \<and> dominates other c) (enumerate 0 feasible))
                (enumerate 0 feasible))"

record envelope_result =
  er_limits :: envelope_limits
  er_points :: "envelope_point list"
  er_pareto :: "envelope_point list"
  er_recommendation :: "(envelope_point \<times> pyfloat) option"
  er_status :: string

definition select_point :: "envelope_limits \<Rightarrow> envelope_point list \<Rightarrow> envelope_result" where
  "select_point l evaluated =
     (let feasible = sort_desc point_key (filter ep_feasible evaluated);
          selected = (case feasible of [] \<Rightarrow> None | q # _ \<Rightarrow> Some (q, fmul (num_of (ep_lcb q)) (el_safety l)))
      in \<lparr>er_limits = l, er_points = evaluated, er_pareto = pareto_points feasible, er_recommendation = selected,
          er_status = (if selected = None then ''blocked'' else ''recommended'')\<rparr>)"

definition dict_points :: "pyval list \<Rightarrow> pydict list" where
  "dict_points ps = concat (map (\<lambda>v. case v of VDict d \<Rightarrow> [d] | _ \<Rightarrow> []) ps)"

definition recommend_operating_point :: "envelope_limits \<Rightarrow> pydict \<Rightarrow> envelope_result res" where
  "recommend_operating_point l document =
     bindR (py_iter (dget_or document ''points'' (VList []))) (\<lambda>ps.
     bindR (mapR (evaluate_point l) (dict_points ps)) (\<lambda>evaluated.
     Inr (select_point l evaluated)))"

section \<open>Facts\<close>

lemma dict_number_finite: "dict_number d k = Inr (Some x) \<Longrightarrow> isfinite x"
  by (auto simp: dict_number_def envelope_number_def coerce_finite_float_finite split: pyval.splits if_splits)

lemma reason_if_Nil [simp]: "reason_if b r = [] \<longleftrightarrow> \<not> b"
  by (simp add: reason_if_def)

lemma rejection_reasons_Nil:
  "rejection_reasons l mean e2e success resource quality = [] \<longleftrightarrow>
     mean \<noteq> None \<and> (\<exists>x. e2e = Some x \<and> \<not> flt (el_slo_ms l) x) \<and>
     (\<forall>x. success = Some x \<longrightarrow> \<not> flt x (el_min_success l)) \<and> quality \<notin> {''missing'', ''stale'', ''invalid''} \<and>
     (\<forall>b. el_budget l = Some b \<longrightarrow> (\<exists>x. resource = Some x \<and> \<not> flt b x))"
  by (auto simp: rejection_reasons_def split: option.splits)

text \<open>What an evaluated point is known to satisfy.\<close>

lemma evaluate_pointD:
  assumes "evaluate_point l d = Inr q"
  shows "ep_reasons q = rejection_reasons l (ep_mean q) (ep_e2e q) (ep_success q) (ep_gpu q) (py_str (ep_quality q))"
    "ep_mean q = Some x \<Longrightarrow> isfinite x \<and> (\<exists>y. ep_lcb q = Some y \<and> isfinite y)"
  using assms
  by (auto simp: evaluate_point_def Let_def bindR_eq_Inr point_goodput_def dict_number_finite split: if_splits option.splits)

lemma feasible_key:
  assumes "evaluate_point l d = Inr q" "ep_feasible q"
  shows "key_ok (point_key q)" "isfinite (num_of (ep_lcb q))" "isfinite (num_of (ep_mean q))"
proof -
  from evaluate_pointD(1) [OF assms(1)] assms(2) obtain x where x: "ep_mean q = Some x"
    by (auto simp: ep_feasible_def rejection_reasons_Nil)
  with evaluate_pointD(2) [OF assms(1) x] show "key_ok (point_key q)" "isfinite (num_of (ep_lcb q))"
    "isfinite (num_of (ep_mean q))"
    by (auto simp: key_ok_def point_key_def num_of_def)
qed

lemma pareto_mem:
  "q \<in> set (pareto_points xs) \<longleftrightarrow> q \<in> set xs \<and> (\<forall>o'\<in>set xs. \<not> dominates o' q)"
proof -
  have irr: "\<not> dominates q q" for q by (auto simp: dominates_def split: option.splits)
  have en: "list_ex P (enumerate 0 xs) \<longleftrightarrow> (\<exists>j<length xs. P (j, xs ! j))" for P :: "nat \<times> envelope_point \<Rightarrow> bool"
    by (auto simp: list_ex_iff in_set_enumerate_eq)
  have "q \<in> set (pareto_points xs) \<longleftrightarrow>
      (\<exists>i<length xs. xs ! i = q \<and> \<not> (\<exists>j<length xs. j \<noteq> i \<and> dominates (xs ! j) q))"
    by (auto simp: pareto_points_def en image_iff in_set_enumerate_eq)
  also have "\<dots> \<longleftrightarrow> q \<in> set xs \<and> (\<forall>o'\<in>set xs. \<not> dominates o' q)"
    using irr by (metis in_set_conv_nth)
  finally show ?thesis .
qed

text \<open>The candidate with the largest lower bound and, among those, the least use of the resource is not dominated.\<close>

definition frugal_key :: "envelope_point \<Rightarrow> pyfloat list" where
  "frugal_key q = [num_of (ep_lcb q), case ep_gpu q of None \<Rightarrow> PInf | Some g \<Rightarrow> fneg g]"

lemma dominates_frugal:
  assumes "dominates y x"
  shows "key_lt (frugal_key x) (frugal_key y)"
proof -
  have neg: "\<not> feq (fneg b) (fneg a) \<and> flt (fneg b) (fneg a)" if "flt a b" for a b
    using that by (cases a; cases b) auto
  from assms have le: "fle (num_of (ep_lcb x)) (num_of (ep_lcb y))" by (simp add: dominates_def)
  show ?thesis
  proof (cases "flt (num_of (ep_lcb x)) (num_of (ep_lcb y))")
    case True
    then have "\<not> feq (num_of (ep_lcb x)) (num_of (ep_lcb y))" by (metis feq_iff flt_irrefl)
    with True show ?thesis by (simp add: frugal_key_def)
  next
    case False
    then obtain c g where g: "ep_gpu x = Some c" "ep_gpu y = Some g" "flt g c"
      using assms by (auto simp: dominates_def split: option.splits)
    moreover have "feq (num_of (ep_lcb x)) (num_of (ep_lcb y))" using le False by (simp add: fle_def)
    ultimately show ?thesis using neg [OF g(3)] by (simp add: frugal_key_def)
  qed
qed

lemma pareto_nonempty:
  assumes "xs \<noteq> []" "list_all (\<lambda>q. isfinite (num_of (ep_lcb q)) \<and> (\<forall>g. ep_gpu q = Some g \<longrightarrow> isfinite g)) xs"
  shows "pareto_points xs \<noteq> []"
proof -
  let ?x = "hd (sort_desc frugal_key xs)"
  have ok: "\<forall>q\<in>set xs. key_ok (frugal_key q)"
    using assms(2) by (auto simp: list_all_iff key_ok_def frugal_key_def split: option.splits elim!: fneg.elims)
  have x: "?x \<in> set xs" using assms(1) by (metis hd_in_set set_sort_desc sort_desc_Nil_iff)
  have "\<not> dominates y ?x" if "y \<in> set xs" for y
    using dominates_frugal sort_desc_hd [OF ok that] by blast
  with x have "?x \<in> set (pareto_points xs)" by (simp add: pareto_mem)
  then show ?thesis by auto
qed

lemma recommendD:
  assumes "recommend_operating_point l document = Inr r"
  shows "\<exists>ds es. mapR (evaluate_point l) ds = Inr es \<and> r = select_point l es"
  using assms by (auto simp: recommend_operating_point_def bindR_eq_Inr)

lemma select_point_simps:
  "er_points (select_point l es) = es"
  "er_pareto (select_point l es) = pareto_points (sort_desc point_key (filter ep_feasible es))"
  "er_recommendation (select_point l es) =
     (case sort_desc point_key (filter ep_feasible es) of [] \<Rightarrow> None | q # _ \<Rightarrow> Some (q, fmul (num_of (ep_lcb q)) (el_safety l)))"
  "er_status (select_point l es) = (if filter ep_feasible es = [] then ''blocked'' else ''recommended'')"
  using sort_desc_Nil_iff [of point_key "filter ep_feasible es"]
  by (auto simp: select_point_def Let_def simp del: sort_desc_Nil_iff split: list.splits)

lemma feasible_keys:
  assumes "mapR (evaluate_point l) ds = Inr qs"
  shows "\<forall>q\<in>set (filter ep_feasible qs). key_ok (point_key q)"
    "list_all (\<lambda>q. isfinite (num_of (ep_lcb q)) \<and> (\<forall>g. ep_gpu q = Some g \<longrightarrow> isfinite g)) (filter ep_feasible qs)"
proof -
  have gpu: "isfinite g" if "evaluate_point l d = Inr q" "ep_gpu q = Some g" for d q g
    using that by (auto simp: evaluate_point_def Let_def bindR_eq_Inr point_resource_def dict_number_finite
        split: option.splits if_splits)
  have q: "\<exists>d. evaluate_point l d = Inr q" if "q \<in> set qs" for q using mapR_Inr_set [OF assms that] by blast
  then show "\<forall>q\<in>set (filter ep_feasible qs). key_ok (point_key q)" using feasible_key(1) by auto
  show "list_all (\<lambda>q. isfinite (num_of (ep_lcb q)) \<and> (\<forall>g. ep_gpu q = Some g \<longrightarrow> isfinite g)) (filter ep_feasible qs)"
    using q feasible_key(2) gpu by (fastforce simp: list_all_iff)
qed

section \<open>Properties\<close>

text \<open>The limits a point has to meet, written as conditions on its numbers.\<close>

definition within_limits :: "envelope_limits \<Rightarrow> envelope_point \<Rightarrow> bool" where
  "within_limits l q \<longleftrightarrow>
     ep_mean q \<noteq> None \<and> (case ep_e2e q of None \<Rightarrow> False | Some x \<Rightarrow> \<not> flt (el_slo_ms l) x) \<and>
     (case ep_success q of None \<Rightarrow> True | Some x \<Rightarrow> \<not> flt x (el_min_success l)) \<and>
     py_str (ep_quality q) \<notin> {''missing'', ''stale'', ''invalid''} \<and>
     (case el_budget l of None \<Rightarrow> True
      | Some b \<Rightarrow> (case ep_gpu q of None \<Rightarrow> False | Some x \<Rightarrow> \<not> flt b x))"

lemma feasible_within: "evaluate_point l d = Inr q \<Longrightarrow> ep_feasible q \<longleftrightarrow> within_limits l q"
  by (auto simp: ep_feasible_def evaluate_pointD(1) rejection_reasons_Nil within_limits_def split: option.splits)

text \<open>
  Property C24.  The recommendation is the best admissible point: it is one of the evaluated points, it
  meets every limit on its own numbers (nothing missing is imputed), no admissible point has a larger
  key (lower bound of goodput, then mean goodput, then lower concurrency), the recommended rate is the
  safety factor times its lower bound; and the status is \<open>blocked\<close> exactly when no point meets the limits.
\<close>

theorem envelope_recommends_best:
  assumes "recommend_operating_point l document = Inr r"
  shows "(er_status r = ''blocked'' \<longleftrightarrow> \<not> list_ex (within_limits l) (er_points r)) \<and>
    (case er_recommendation r of
       None \<Rightarrow> er_status r = ''blocked''
     | Some (q, rate) \<Rightarrow> q \<in> set (er_points r) \<and> within_limits l q \<and>
         rate = fmul (num_of (ep_lcb q)) (el_safety l) \<and>
         (\<forall>q'\<in>set (er_points r). within_limits l q' \<longrightarrow> \<not> key_lt (point_key q) (point_key q')))"
proof -
  obtain ds es where ev: "mapR (evaluate_point l) ds = Inr es" and r: "r = select_point l es"
    using recommendD [OF assms] by blast
  have fw: "ep_feasible q \<longleftrightarrow> within_limits l q" if "q \<in> set es" for q
    using mapR_Inr_set [OF ev that] feasible_within by blast
  let ?f = "filter ep_feasible es"
  have nil: "?f = [] \<longleftrightarrow> \<not> list_ex (within_limits l) es"
    using fw by (auto simp: filter_empty_conv list_ex_iff)
  show ?thesis
  proof (cases "sort_desc point_key ?f")
    case Nil
    then have "?f = []" by simp
    with nil Nil show ?thesis by (simp add: r select_point_simps)
  next
    case (Cons q qs)
    then have q: "q \<in> set ?f" and hd: "hd (sort_desc point_key ?f) = q"
      by (metis list.set_intros(1) set_sort_desc, simp)
    have "\<not> key_lt (point_key q) (point_key q')" if "q' \<in> set ?f" for q'
      using sort_desc_hd [OF feasible_keys(1) [OF ev] that] hd by simp
    then have "\<forall>q'\<in>set es. within_limits l q' \<longrightarrow> \<not> key_lt (point_key q) (point_key q')"
      using fw by auto
    moreover have "q \<in> set es" "within_limits l q" using q fw by auto
    moreover have "list_ex (within_limits l) es" "?f \<noteq> []" using nil Cons by auto
    ultimately show ?thesis using Cons by (simp add: r select_point_simps)
  qed
qed

text \<open>
  Property C25.  The Pareto points are exactly the admissible points that no admissible point dominates,
  and there is one as soon as any point is admissible, although domination is not transitive across
  points without resource evidence.
\<close>

theorem envelope_pareto_exact:
  assumes "recommend_operating_point l document = Inr r"
  shows "set (er_pareto r) = {q \<in> set (er_points r). within_limits l q \<and>
           \<not> list_ex (\<lambda>q'. within_limits l q' \<and> dominates q' q) (er_points r)} \<and>
         (er_pareto r = [] \<longleftrightarrow> er_status r = ''blocked'')"
proof -
  obtain ds es where ev: "mapR (evaluate_point l) ds = Inr es" and r: "r = select_point l es"
    using recommendD [OF assms] by blast
  have fw: "ep_feasible q \<longleftrightarrow> within_limits l q" if "q \<in> set es" for q
    using mapR_Inr_set [OF ev that] feasible_within by blast
  let ?s = "sort_desc point_key (filter ep_feasible es)"
  have "list_all (\<lambda>q. isfinite (num_of (ep_lcb q)) \<and> (\<forall>g. ep_gpu q = Some g \<longrightarrow> isfinite g)) ?s"
    using feasible_keys(2) [OF ev] by (simp add: list_all_iff)
  then have "?s \<noteq> [] \<Longrightarrow> pareto_points ?s \<noteq> []" by (rule pareto_nonempty [rotated])
  moreover have "pareto_points [] = []" by (simp add: pareto_points_def)
  ultimately have "pareto_points ?s = [] \<longleftrightarrow> ?s = []" by metis
  then have "er_pareto r = [] \<longleftrightarrow> er_status r = ''blocked''" by (simp add: r select_point_simps)
  moreover have "q \<in> set (er_pareto r) \<longleftrightarrow> q \<in> set (er_points r) \<and> within_limits l q \<and>
      \<not> list_ex (\<lambda>q'. within_limits l q' \<and> dominates q' q) (er_points r)" for q
    using fw by (auto simp: r select_point_simps pareto_mem list_ex_iff)
  ultimately show ?thesis by blast
qed

section \<open>Witnesses\<close>

definition sample_point :: "rat \<Rightarrow> rat \<Rightarrow> rat \<Rightarrow> int \<Rightarrow> pyval" where
  "sample_point goodput e2e gpu n =
     VDict [(''scenario'', VStr ''high_reuse''), (''concurrency'', VInt n),
       (''aggregates'', VDict [(''goodput_req_s_mean'', VFloat (Fin goodput)), (''e2e_p95_ms_mean'', VFloat (Fin e2e)),
          (''gpu_seconds_mean'', VFloat (Fin gpu)), (''quality_summary'', VDict [(''metric_quality'', VStr ''ok'')])])]"

definition sample_limits :: envelope_limits where
  "sample_limits = \<lparr>el_slo_ms = Fin 1500, el_min_success = Fin (99 / 100), el_budget = Some (Fin 100), el_safety = Fin 1\<rparr>"

lemma sample_envelope:
  "\<exists>r. recommend_operating_point sample_limits [(''points'', VList [sample_point 8 900 50 4, sample_point 9 1900 60 8])] = Inr r \<and>
     list_ex (within_limits sample_limits) (er_points r)"
  by (simp add: recommend_operating_point_def dget_or_def dget_def dict_points_def sample_point_def evaluate_point_def
      point_aggregates_def Let_def point_goodput_def dict_number_def envelope_number_def point_resource_def
      select_point_simps within_limits_def sample_limits_def)

theorem envelope_recommends_best_witness:
  "\<exists>r. recommend_operating_point sample_limits [(''points'', VList [sample_point 8 900 50 4, sample_point 9 1900 60 8])] = Inr r \<and>
     er_status r \<noteq> ''blocked''"
  using sample_envelope envelope_recommends_best by blast

theorem envelope_pareto_exact_witness:
  "\<exists>r. recommend_operating_point sample_limits [(''points'', VList [sample_point 8 900 50 4, sample_point 9 1900 60 8])] = Inr r \<and>
     (er_pareto r = [] \<longleftrightarrow> er_status r = ''blocked'')"
  using sample_envelope envelope_pareto_exact by blast

end
