(* ===== verification/PolicyEval.thy ===== *)
theory PolicyEval
  imports PyStats "HOL-Library.List_Lexorder" "HOL-Library.Char_ord"
begin

text \<open>
  \<open>planner/policy_evaluation.py\<close>: decisions and outcomes of an online experiment are joined by request,
  split into a control and a treatment arm and compared; the treatment is promoted only when every
  gate holds.  The decoded rows of the journals, the pseudo-random draws of the bootstrap and the
  reading of an ISO timestamp are arguments.
\<close>

section \<open>Equality and hashing of dynamic values\<close>

text \<open>Numbers compare across their types, dictionaries without order; a NaN equals nothing.\<close>

fun canon :: "pyval \<Rightarrow> pyval" where
  "canon (VBool b) = VInt (if b then 1 else 0)"
| "canon (VFloat x) = (case x of Fin q \<Rightarrow> if of_int \<lfloor>q\<rfloor> = q then VInt \<lfloor>q\<rfloor> else VFloat x | _ \<Rightarrow> VFloat x)"
| "canon (VList xs) = VList (map canon xs)"
| "canon (VDict d) = VDict (sort_key fst (map (\<lambda>(k, v). (k, canon v)) d))"
| "canon v = v"

definition py_eq :: "pyval \<Rightarrow> pyval \<Rightarrow> bool" where
  "py_eq a b \<longleftrightarrow> canon a = canon b \<and> a \<noteq> VFloat NaN"

text \<open>The key a value has in a dictionary or set; lists and dictionaries are not hashable.\<close>

definition hash_key :: "pyval \<Rightarrow> pyval res" where
  "hash_key v = (case v of VList xs \<Rightarrow> Inl TypeError | VDict d \<Rightarrow> Inl TypeError | _ \<Rightarrow> Inr (canon v))"

section \<open>Journals\<close>

text \<open>The non-blank lines of the files, decoded; other values than objects are skipped.\<close>

definition journal_rows :: "pyval list \<Rightarrow> pydict list" where
  "journal_rows vs = concat (map (\<lambda>v. case v of VDict d \<Rightarrow> [d] | _ \<Rightarrow> []) vs)"

definition index_rows :: "(pydict \<Rightarrow> bool) \<Rightarrow> pydict list \<Rightarrow> (pyval \<times> pydict) list res" where
  "index_rows keep rows =
     foldR (\<lambda>row d. bindR (hash_key (dget_or row ''request_id'' VNone)) (\<lambda>k. Inr (dset d k row)))
       (filter keep rows) []"

record joined_row =
  jr_decision :: pydict
  jr_outcome :: pydict

definition join_rows :: "(pyval \<times> pydict) list \<Rightarrow> (pyval \<times> pydict) list \<Rightarrow> joined_row list" where
  "join_rows decisions outcomes =
     concat (map (\<lambda>(k, d). case dget outcomes k of None \<Rightarrow> [] | Some out \<Rightarrow> [\<lparr>jr_decision = d, jr_outcome = out\<rparr>]) decisions)"

definition is_guarded :: "joined_row \<Rightarrow> bool" where
  "is_guarded row \<longleftrightarrow>
     truthy (dget_or (jr_decision row) ''warmup'' VNone) \<or> truthy (dget_or (jr_decision row) ''carryover_guard'' VNone)"

definition assigned :: "string \<Rightarrow> joined_row \<Rightarrow> bool" where
  "assigned pol row \<longleftrightarrow> dget_or (jr_decision row) ''assigned_policy'' VNone = VStr pol"

section \<open>Numbers of a row\<close>

definition field_float :: "pydict \<Rightarrow> string \<Rightarrow> pyfloat res" where
  "field_float d key = py_float (dget_or d key (VInt 0))"

text \<open>\<open>[float(v) for row in rows if float(v) > 0]\<close> for the time to first token.\<close>

definition ttft_samples :: "joined_row list \<Rightarrow> pyfloat list res" where
  "ttft_samples rows =
     bindR (mapR (\<lambda>row. field_float (jr_outcome row) ''ttft_ms'') rows) (\<lambda>xs. Inr (filter (flt (Fin 0)) xs))"

text \<open>\<open>_percentile\<close>.\<close>

definition percentile_opt :: "pyfloat list \<Rightarrow> pyfloat \<Rightarrow> pyfloat option res" where
  "percentile_opt xs q =
     (if xs = [] then Inr None else bindR (interpolate (py_sorted xs) q) (\<lambda>v. Inr (Some v)))"

definition mean_opt :: "pyfloat list \<Rightarrow> pyfloat option res" where
  "mean_opt xs = (if xs = [] then Inr None else bindR (stat_mean xs) (\<lambda>m. Inr (Some m)))"

text \<open>\<open>a / b\<close> for two integers, correctly rounded.\<close>

definition ratio_of :: "nat \<Rightarrow> nat \<Rightarrow> pyfloat" where
  "ratio_of a b = fl (of_nat a / of_nat b)"

section \<open>Qualified requests\<close>

record slo =
  sl_ttft :: pyfloat
  sl_tpot :: "pyfloat option"
  sl_gap :: "pyfloat option"

text \<open>An optional limit on an optional measurement: the reason of a rejection, if any.\<close>

definition check_limit :: "pyfloat option \<Rightarrow> pyval \<Rightarrow> string \<Rightarrow> string \<Rightarrow> string option res" where
  "check_limit limit v missing violated =
     (case limit of
        None \<Rightarrow> Inr None
      | Some l \<Rightarrow> if v = VNone then Inr (Some missing)
                  else bindR (py_float v) (\<lambda>x. Inr (if flt l x then Some violated else None)))"

definition qualified_request :: "slo \<Rightarrow> pydict \<Rightarrow> (bool \<times> string) res" where
  "qualified_request s outcome =
     (if \<not> truthy (dget_or outcome ''success'' (VBool False)) then Inr (False, ''request_failed'')
      else bindR (float_or0 (dget_or outcome ''ttft_ms'' (VInt 0))) (\<lambda>ttft.
      if fle ttft (Fin 0) \<or> flt (sl_ttft s) ttft then Inr (False, ''ttft_slo_violation'')
      else bindR (check_limit (sl_tpot s) (dget_or outcome ''tpot_ms'' VNone) ''tpot_missing'' ''tpot_slo_violation'') (\<lambda>r1.
      case r1 of Some why \<Rightarrow> Inr (False, why)
      | None \<Rightarrow>
        bindR (check_limit (sl_gap s) (dget_or outcome ''stream_gap_p95_ms'' VNone) ''stream_gap_missing''
                 ''stream_gap_slo_violation'') (\<lambda>r2.
        case r2 of Some why \<Rightarrow> Inr (False, why) | None \<Rightarrow> Inr (True, ''qualified'')))))"

section \<open>The metrics of an arm\<close>

record arm_metrics =
  am_requests :: nat
  am_successful :: nat
  am_ttft_samples :: nat
  am_ttft_mean :: "pyfloat option"
  am_ttft_p95 :: "pyfloat option"
  am_slo_violation_rate :: "pyfloat option"
  am_qualified :: nat
  am_qualified_rate :: "pyfloat option"
  am_goodput :: "pyfloat option"
  am_reasons :: "(string \<times> nat) list"
  am_tpot_samples :: nat
  am_tpot_p95 :: "pyfloat option"
  am_gap_samples :: nat
  am_gap_p95 :: "pyfloat option"
  am_throughput :: "pyfloat option"
  am_error_rate :: "pyfloat option"
  am_fallback_rate :: "pyfloat option"
  am_prediction_mae :: "pyfloat option"

definition arm_timestamps :: "(string \<Rightarrow> pyfloat option) \<Rightarrow> joined_row list \<Rightarrow> pyfloat list" where
  "arm_timestamps timestamp_of rows =
     concat (map (\<lambda>row. case dget_or (jr_outcome row) ''completed_at'' VNone of
        VStr v \<Rightarrow> (case timestamp_of v of None \<Rightarrow> [] | Some t \<Rightarrow> [t]) | _ \<Rightarrow> []) rows)"

definition elapsed_of :: "pyfloat list \<Rightarrow> pyfloat" where
  "elapsed_of ts = (case ts of x # y # zs \<Rightarrow> fsub (foldl py_max x (y # zs)) (foldl py_min x (y # zs)) | _ \<Rightarrow> Fin 0)"

definition prediction_errors :: "joined_row list \<Rightarrow> pyfloat list res" where
  "prediction_errors rows =
     mapR (\<lambda>row. bindR (vget (dget_or (jr_decision row) ''prediction_error'' (VDict [])) ''ttft_absolute_error_ms'' (VInt 0))
                   py_float)
       (filter (\<lambda>row. truthy (dget_or (jr_decision row) ''prediction_error'' VNone)) rows)"

definition present_values :: "string \<Rightarrow> joined_row list \<Rightarrow> pyfloat list res" where
  "present_values key rows =
     mapR (\<lambda>row. py_float (dget_or (jr_outcome row) key VNone))
       (filter (\<lambda>row. dget_or (jr_outcome row) key VNone \<noteq> VNone) rows)"

definition count_reasons :: "string list \<Rightarrow> (string \<times> nat) list" where
  "count_reasons rs = foldl (\<lambda>d r. dset d r (dget_or d r 0 + 1)) [] rs"

definition per_second :: "nat \<Rightarrow> pyfloat \<Rightarrow> pyfloat option res" where
  "per_second n elapsed =
     (if flt (Fin 0) elapsed
      then bindR (float_of_int (int n)) (\<lambda>x. bindR (fdiv x elapsed) (\<lambda>v. Inr (Some v))) else Inr None)"

definition rate_opt :: "nat \<Rightarrow> nat \<Rightarrow> pyfloat option" where
  "rate_opt a n = (if n = 0 then None else Some (ratio_of a n))"

definition arm_metrics_of :: "(string \<Rightarrow> pyfloat option) \<Rightarrow> slo \<Rightarrow> joined_row list \<Rightarrow> arm_metrics res" where
  "arm_metrics_of timestamp_of s rows =
     bindR (ttft_samples rows) (\<lambda>ttfts.
     let successes = filter (\<lambda>row. truthy (dget_or (jr_outcome row) ''success'' (VBool False))) rows;
         elapsed = elapsed_of (arm_timestamps timestamp_of rows); n = length rows in
     bindR (prediction_errors rows) (\<lambda>errors.
     bindR (mapR (\<lambda>row. qualified_request s (jr_outcome row)) rows) (\<lambda>qualification.
     let qualified = length (filter fst qualification) in
     bindR (present_values ''tpot_ms'' rows) (\<lambda>tpots.
     bindR (present_values ''stream_gap_p95_ms'' rows) (\<lambda>gaps.
     bindR (mean_opt ttfts) (\<lambda>mean.
     bindR (percentile_opt ttfts (fl (95 / 100))) (\<lambda>p95.
     bindR (per_second qualified elapsed) (\<lambda>goodput.
     bindR (percentile_opt tpots (fl (95 / 100))) (\<lambda>tpot_p95.
     bindR (percentile_opt gaps (fl (95 / 100))) (\<lambda>gap_p95.
     bindR (per_second n elapsed) (\<lambda>throughput.
     bindR (mean_opt errors) (\<lambda>mae.
     Inr \<lparr>am_requests = n, am_successful = length successes, am_ttft_samples = length ttfts, am_ttft_mean = mean,
          am_ttft_p95 = p95, am_slo_violation_rate = rate_opt (length (filter (flt (sl_ttft s)) ttfts)) (length ttfts),
          am_qualified = qualified, am_qualified_rate = rate_opt qualified n, am_goodput = goodput,
          am_reasons = count_reasons (map snd qualification), am_tpot_samples = length tpots, am_tpot_p95 = tpot_p95,
          am_gap_samples = length gaps, am_gap_p95 = gap_p95, am_throughput = throughput,
          am_error_rate = map_option (fsub (Fin 1)) (rate_opt (length successes) n),
          am_fallback_rate = rate_opt (length (filter (\<lambda>row. truthy (dget_or (jr_decision row) ''fallback'' (VBool False))) rows)) n,
          am_prediction_mae = mae\<rparr>))))))))))))"

section \<open>The bootstrap\<close>

text \<open>\<open>generator.choice(xs)\<close>: \<open>draw\<close> gives an index below the length and the next state of the generator.\<close>

fun draw_many :: "('g \<Rightarrow> nat \<Rightarrow> nat \<times> 'g) \<Rightarrow> 'a list \<Rightarrow> nat \<Rightarrow> 'g \<Rightarrow> 'a list \<times> 'g" where
  "draw_many draw xs 0 g = ([], g)"
| "draw_many draw xs (Suc n) g =
     (case draw g (length xs) of (i, g1) \<Rightarrow> case draw_many draw xs n g1 of (ys, g2) \<Rightarrow> (xs ! i # ys, g2))"

fun bootstrap_differences ::
  "('g \<Rightarrow> nat \<Rightarrow> nat \<times> 'g) \<Rightarrow> pyfloat list \<Rightarrow> pyfloat list \<Rightarrow> nat \<Rightarrow> 'g \<Rightarrow> pyfloat list res" where
  "bootstrap_differences draw control treatment 0 g = Inr []"
| "bootstrap_differences draw control treatment (Suc n) g =
     (case draw_many draw control (length control) g of (cs, g1) \<Rightarrow>
      case draw_many draw treatment (length treatment) g1 of (ts, g2) \<Rightarrow>
        bindR (stat_mean cs) (\<lambda>cm. bindR (stat_mean ts) (\<lambda>tm.
        bindR (bootstrap_differences draw control treatment n g2) (\<lambda>ds. Inr (fsub tm cm # ds)))))"

definition bootstrap_difference ::
  "('g \<Rightarrow> nat \<Rightarrow> nat \<times> 'g) \<Rightarrow> pyfloat list \<Rightarrow> pyfloat list \<Rightarrow> int \<Rightarrow> 'g \<Rightarrow> (pyfloat \<times> pyfloat) res" where
  "bootstrap_difference draw control treatment samples g =
     bindR (bootstrap_differences draw control treatment (nat samples) g) (\<lambda>ds.
     bindR (percentile_opt ds (fl (25 / 1000))) (\<lambda>lo.
     bindR (percentile_opt ds (fl (975 / 1000))) (\<lambda>hi. Inr (or_zero lo, or_zero hi))))"

definition window_means :: "joined_row list \<Rightarrow> pyfloat list res" where
  "window_means rows =
     bindR (foldR (\<lambda>row d. bindR (field_float (jr_outcome row) ''ttft_ms'') (\<lambda>ttft.
        if fle ttft (Fin 0) then Inr d
        else let w = py_str (dget_or (jr_decision row) ''experiment_window'' (VStr []))
             in Inr (dset d w (dget_or d w [] @ [ttft])))) rows []) (\<lambda>windows.
     mapR (\<lambda>(_, xs). stat_mean xs) windows)"

section \<open>Strata\<close>

definition actual_queue :: "joined_row \<Rightarrow> pyfloat res" where
  "actual_queue row =
     bindR (py_iter (dget_or (jr_decision row) ''candidates'' (VList []))) (\<lambda>cs.
     let actual = dget_or (jr_outcome row) ''actual_backend'' VNone in
     foldr (\<lambda>c rest. bindR (vget c ''backend_id'' VNone) (\<lambda>b.
              if py_eq b actual then bindR (vget c ''queue_depth'' (VInt 0)) py_float else rest))
       cs (Inr (Fin 0)))"

definition prompt_tokens_of :: "joined_row \<Rightarrow> int res" where
  "prompt_tokens_of row = py_int (dget_or (jr_outcome row) ''prompt_tokens'' (VInt 0))"

definition hit_ratio_of :: "joined_row \<Rightarrow> pyfloat res" where
  "hit_ratio_of row = float_or0 (dget_or (jr_outcome row) ''observed_cache_hit_ratio'' (VInt 0))"

definition stratum_predicates :: "(string \<times> (joined_row \<Rightarrow> bool res)) list" where
  "stratum_predicates =
     [(''short_prompt'', \<lambda>row. bindR (prompt_tokens_of row) (\<lambda>n. Inr (n \<le> 1024))),
      (''long_prompt'', \<lambda>row. bindR (prompt_tokens_of row) (\<lambda>n. Inr (1024 < n))),
      (''low_reuse'', \<lambda>row. bindR (hit_ratio_of row) (\<lambda>x. Inr (flt x (Fin (1 / 2))))),
      (''high_reuse'', \<lambda>row. bindR (hit_ratio_of row) (\<lambda>x. Inr (fle (Fin (1 / 2)) x))),
      (''low_load'', \<lambda>row. bindR (actual_queue row) (\<lambda>x. Inr (flt x (Fin 1)))),
      (''high_load'', \<lambda>row. bindR (actual_queue row) (\<lambda>x. Inr (fle (Fin 1) x)))]"

record stratum =
  st_name :: string
  st_control_requests :: nat
  st_treatment_requests :: nat
  st_difference :: "pyfloat option"
  st_control_rate :: "pyfloat option"
  st_treatment_rate :: "pyfloat option"

definition mean_difference :: "pyfloat list \<Rightarrow> pyfloat list \<Rightarrow> pyfloat res" where
  "mean_difference treatment control =
     bindR (stat_mean treatment) (\<lambda>t. bindR (stat_mean control) (\<lambda>c. Inr (fsub t c)))"

definition stratum_of ::
  "(string \<Rightarrow> pyfloat option) \<Rightarrow> joined_row list \<Rightarrow> string \<Rightarrow> string \<Rightarrow> pyfloat \<Rightarrow>
   string \<times> (joined_row \<Rightarrow> bool res) \<Rightarrow> stratum res" where
  "stratum_of timestamp_of rows control treatment slo_ms sp =
     bindR (filterR (snd sp) rows) (\<lambda>selected.
     let cr = filter (assigned control) selected; tr = filter (assigned treatment) selected;
         s = \<lparr>sl_ttft = slo_ms, sl_tpot = None, sl_gap = None\<rparr> in
     bindR (ttft_samples cr) (\<lambda>ct. bindR (ttft_samples tr) (\<lambda>tt.
     bindR (if ct = [] \<or> tt = [] then Inr None else bindR (mean_difference tt ct) (\<lambda>d. Inr (Some d))) (\<lambda>diff.
     bindR (arm_metrics_of timestamp_of s cr) (\<lambda>cm. bindR (arm_metrics_of timestamp_of s tr) (\<lambda>tm.
     Inr \<lparr>st_name = fst sp, st_control_requests = length cr, st_treatment_requests = length tr, st_difference = diff,
          st_control_rate = am_slo_violation_rate cm, st_treatment_rate = am_slo_violation_rate tm\<rparr>))))))"

section \<open>The evaluation\<close>

record trial =
  ex_id :: string
  ex_control :: string
  ex_treatment :: string
  ex_slo :: slo
  ex_min_requests :: int
  ex_samples :: int
  ex_guardrails :: "(string \<times> pyfloat) list"

fun allR :: "('a \<Rightarrow> bool res) \<Rightarrow> 'a list \<Rightarrow> bool res" where
  "allR p [] = Inr True"
| "allR p (x # xs) = bindR (p x) (\<lambda>b. if b then allR p xs else Inr False)"

definition row_assigned_ok :: "trial \<Rightarrow> joined_row \<Rightarrow> bool res" where
  "row_assigned_ok ex row =
     bindR (field_float (jr_decision row) ''assignment_probability'') (\<lambda>p.
     if flt (Fin 0) p \<and> fle p (Fin 1)
     then bindR (hash_key (dget_or (jr_decision row) ''assigned_policy'' VNone)) (\<lambda>_.
          Inr (assigned (ex_control ex) row \<or> assigned (ex_treatment ex) row))
     else Inr False)"

definition window_of :: "joined_row \<Rightarrow> string" where
  "window_of row = py_str (dget_or (jr_decision row) ''experiment_window'' (VStr []))"

definition policy_of :: "joined_row \<Rightarrow> string" where
  "policy_of row = py_str (dget_or (jr_decision row) ''assigned_policy'' (VStr []))"

definition policies_by_window :: "joined_row list \<Rightarrow> (string \<times> string list) list" where
  "policies_by_window rows =
     foldl (\<lambda>d row. dset d (window_of row) (List.insert (policy_of row) (dget_or d (window_of row) []))) [] rows"

definition contaminated_windows :: "joined_row list \<Rightarrow> string list" where
  "contaminated_windows rows =
     map fst (filter (\<lambda>(w, ps). w \<noteq> ''isolated-pool'' \<and> 1 < length ps) (policies_by_window rows))"

record safety_gates =
  sg_errors :: bool
  sg_fallback :: bool
  sg_p95_ttft :: bool
  sg_prediction_drift :: bool

definition or_inf :: "pyfloat option \<Rightarrow> pyfloat" where
  "or_inf x = (case x of None \<Rightarrow> PInf | Some v \<Rightarrow> if feq v (Fin 0) then PInf else v)"

definition safety_of :: "(string \<times> pyfloat) list \<Rightarrow> arm_metrics \<Rightarrow> arm_metrics \<Rightarrow> safety_gates" where
  "safety_of guardrails c t =
     \<lparr>sg_errors = fle (py_max (or_zero (am_error_rate c)) (or_zero (am_error_rate t)))
                      (dget_or guardrails ''max_error_rate'' (Fin 1)),
      sg_fallback = fle (py_max (or_zero (am_fallback_rate c)) (or_zero (am_fallback_rate t)))
                      (dget_or guardrails ''max_fallback_rate'' (Fin 1)),
      sg_p95_ttft = fle (py_max (or_inf (am_ttft_p95 c)) (or_inf (am_ttft_p95 t)))
                      (dget_or guardrails ''max_p95_ttft_ms'' PInf),
      sg_prediction_drift = fle (or_zero (am_prediction_mae t)) (dget_or guardrails ''max_prediction_mae_ms'' PInf)\<rparr>"

definition all_safe :: "safety_gates \<Rightarrow> bool" where
  "all_safe g \<longleftrightarrow> sg_errors g \<and> sg_fallback g \<and> sg_p95_ttft g \<and> sg_prediction_drift g"

record evaluation =
  ev_joined :: "joined_row list"
  ev_eligible :: "joined_row list"
  ev_guarded :: nat
  ev_control :: arm_metrics
  ev_treatment :: arm_metrics
  ev_difference :: pyfloat
  ev_relative_percent :: pyfloat
  ev_ci :: "pyfloat \<times> pyfloat"
  ev_clustered :: bool
  ev_slo_delta :: pyfloat
  ev_goodput_difference :: pyfloat
  ev_goodput_percent :: "pyfloat option"
  ev_safety :: safety_gates
  ev_assignment :: bool
  ev_window_balance :: bool
  ev_contaminated :: "string list"
  ev_strata :: "stratum list"
  ev_promotion :: bool

text \<open>The two arms of the eligible rows and the interval of their difference.\<close>

definition effect_interval ::
  "('g \<Rightarrow> nat \<Rightarrow> nat \<times> 'g) \<Rightarrow> 'g \<Rightarrow> int \<Rightarrow> joined_row list \<Rightarrow> joined_row list \<Rightarrow> pyfloat list \<Rightarrow> pyfloat list \<Rightarrow>
   ((pyfloat \<times> pyfloat) \<times> bool) res" where
  "effect_interval draw g samples cr tr ct tt =
     bindR (window_means cr) (\<lambda>cw. bindR (window_means tr) (\<lambda>tw.
     let clustered = 1 < length cw \<and> 1 < length tw in
     bindR (bootstrap_difference draw (if clustered then cw else ct) (if clustered then tw else tt) samples g) (\<lambda>ci.
     Inr (ci, clustered))))"

definition goodput_percent :: "pyfloat option \<Rightarrow> pyfloat option \<Rightarrow> pyfloat option res" where
  "goodput_percent t c =
     (case c of
        None \<Rightarrow> Inr None
      | Some x \<Rightarrow> if feq x (Fin 0) then Inr None
                  else bindR (fdiv (fsub (or_zero t) (or_zero c)) x) (\<lambda>q. Inr (Some (fmul q (Fin 100)))))"

definition evaluate_rows ::
  "(string \<Rightarrow> pyfloat option) \<Rightarrow> ('g \<Rightarrow> nat \<Rightarrow> nat \<times> 'g) \<Rightarrow> 'g \<Rightarrow> trial \<Rightarrow> joined_row list \<Rightarrow> evaluation res" where
  "evaluate_rows timestamp_of draw g ex joined =
     (let eligible = filter (\<lambda>row. \<not> is_guarded row) joined;
          cr = filter (assigned (ex_control ex)) eligible; tr = filter (assigned (ex_treatment ex)) eligible in
     bindR (ttft_samples cr) (\<lambda>ct. bindR (ttft_samples tr) (\<lambda>tt.
     guardR (ct = [] \<or> tt = []) (ValueError ''both experiment arms require realized TTFT samples'') (
     bindR (mean_difference tt ct) (\<lambda>difference.
     bindR (effect_interval draw g (ex_samples ex) cr tr ct tt) (\<lambda>(ci, clustered).
     bindR (arm_metrics_of timestamp_of (ex_slo ex) cr) (\<lambda>cm.
     bindR (arm_metrics_of timestamp_of (ex_slo ex) tr) (\<lambda>tm.
     bindR (allR (row_assigned_ok ex) joined) (\<lambda>assignment_ok.
     bindR (mapR (\<lambda>row. hash_key (dget_or (jr_decision row) ''experiment_window'' VNone)) (cr @ tr)) (\<lambda>_.
     let contaminated = contaminated_windows eligible; balance = (cr \<noteq> [] \<and> tr \<noteq> [] \<and> contaminated = []);
         gates = safety_of (ex_guardrails ex) cm tm; assignment = (assignment_ok \<and> cr \<noteq> [] \<and> tr \<noteq> []);
         promotion = (ex_min_requests ex \<le> int (length eligible) \<and> all_safe gates \<and> assignment \<and> balance \<and>
                      flt (snd ci) (Fin 0)) in
     bindR (bindR (stat_mean ct) (fdiv difference)) (\<lambda>rel.
     bindR (goodput_percent (am_goodput tm) (am_goodput cm)) (\<lambda>gp.
     bindR (mapR (stratum_of timestamp_of eligible (ex_control ex) (ex_treatment ex) (sl_ttft (ex_slo ex)))
              stratum_predicates) (\<lambda>strata.
     Inr \<lparr>ev_joined = joined, ev_eligible = eligible, ev_guarded = length (filter is_guarded joined),
          ev_control = cm, ev_treatment = tm, ev_difference = difference, ev_relative_percent = fmul rel (Fin 100),
          ev_ci = ci, ev_clustered = clustered,
          ev_slo_delta = fmul (fsub (or_zero (am_slo_violation_rate tm)) (or_zero (am_slo_violation_rate cm))) (Fin 100),
          ev_goodput_difference = fsub (or_zero (am_goodput tm)) (or_zero (am_goodput cm)), ev_goodput_percent = gp,
          ev_safety = gates, ev_assignment = assignment, ev_window_balance = balance, ev_contaminated = contaminated,
          ev_strata = strata, ev_promotion = promotion\<rparr>)))))))))))))"

definition evaluate_experiment ::
  "(string \<Rightarrow> pyfloat option) \<Rightarrow> ('g \<Rightarrow> nat \<Rightarrow> nat \<times> 'g) \<Rightarrow> 'g \<Rightarrow> trial \<Rightarrow> pyval list \<Rightarrow> pyval list \<Rightarrow>
   evaluation res" where
  "evaluate_experiment timestamp_of draw g ex decision_lines outcome_lines =
     bindR (index_rows (\<lambda>row. dget_or row ''experiment_id'' VNone = VStr (ex_id ex)) (journal_rows decision_lines)) (\<lambda>decisions.
     bindR (index_rows (\<lambda>row. truthy (dget_or row ''request_id'' VNone)) (journal_rows outcome_lines)) (\<lambda>outcomes.
     evaluate_rows timestamp_of draw g ex (join_rows decisions outcomes)))"

section \<open>Facts about the join\<close>

lemma index_rows_mem:
  assumes "index_rows keep rows = Inr d" "(k, row) \<in> set d"
  shows "row \<in> set rows \<and> keep row \<and> hash_key (dget_or row ''request_id'' VNone) = Inr k"
proof -
  let ?I = "\<lambda>d. \<forall>(k, row) \<in> set d. row \<in> set rows \<and> keep row \<and> hash_key (dget_or row ''request_id'' VNone) = Inr k"
  have "set (dset d k v) \<subseteq> insert (k, v) (set d)" for d :: "(pyval \<times> pydict) list" and k v
    by (induction d) (auto simp: dset_def)
  then have "?I d" using assms(1) unfolding index_rows_def
    by (elim foldR_invariant [where I = ?I]) (fastforce simp: bindR_eq_Inr)+
  with assms(2) show ?thesis by blast
qed

lemma join_rows_mem:
  assumes "index_rows keep1 rows1 = Inr ds" "index_rows keep2 rows2 = Inr os" "row \<in> set (join_rows ds os)"
  shows "jr_decision row \<in> set rows1 \<and> jr_outcome row \<in> set rows2 \<and> keep1 (jr_decision row) \<and>
    hash_key (dget_or (jr_decision row) ''request_id'' VNone) = hash_key (dget_or (jr_outcome row) ''request_id'' VNone)"
proof -
  from assms(3) obtain k d out where k: "(k, d) \<in> set ds" "dget os k = Some out"
    "row = \<lparr>jr_decision = d, jr_outcome = out\<rparr>"
    by (auto simp: join_rows_def split: option.splits)
  from index_rows_mem [OF assms(1) k(1)] index_rows_mem [OF assms(2) dget_mem [OF k(2)]] k(3) show ?thesis by simp
qed

section \<open>Facts about windows\<close>

lemma policies_by_window_snoc:
  "policies_by_window (rows @ [row]) =
     dset (policies_by_window rows) (window_of row)
       (List.insert (policy_of row) (dget_or (policies_by_window rows) (window_of row) []))"
  by (simp add: policies_by_window_def)

lemma policies_by_window_spec:
  "set (dget_or (policies_by_window rows) w []) = policy_of ` {row \<in> set rows. window_of row = w} \<and>
   distinct (dget_or (policies_by_window rows) w [])"
proof (induction rows rule: rev_induct)
  case Nil
  then show ?case by (simp add: policies_by_window_def dget_or_def dget_def)
next
  case (snoc row rows)
  then show ?case
    by (auto simp: policies_by_window_snoc dget_or_def dget_dset split: option.splits)
qed

lemma distinct_windows: "distinct (map fst (policies_by_window rows))"
  by (induction rows rule: rev_induct) (simp add: policies_by_window_def, simp only: policies_by_window_snoc distinct_dset)

lemma uncontaminated_same_policy:
  assumes "contaminated_windows rows = []" "a \<in> set rows" "b \<in> set rows" "window_of a = window_of b"
    "window_of a \<noteq> ''isolated-pool''"
  shows "policy_of a = policy_of b"
proof -
  let ?ps = "dget_or (policies_by_window rows) (window_of a) []"
  have mem: "policy_of a \<in> set ?ps" "policy_of b \<in> set ?ps"
    using policies_by_window_spec [of rows "window_of a"] assms(2,3,4) by auto
  then obtain ps where ps: "dget (policies_by_window rows) (window_of a) = Some ps" "?ps = ps"
    by (cases "dget (policies_by_window rows) (window_of a)") (auto simp: dget_or_def)
  have "(window_of a, ps) \<in> set (policies_by_window rows)" using dget_mem [OF ps(1)] .
  then have "\<not> 1 < length ps" using assms(1,5) by (auto simp: contaminated_windows_def filter_empty_conv)
  moreover have "ps \<noteq> []" using mem ps(2) by auto
  ultimately obtain q where "ps = [q]" by (cases ps) auto
  with mem ps(2) show ?thesis by simp
qed

section \<open>Facts about an arm\<close>

lemma count_reasons_snoc:
  "count_reasons (rs @ [r]) = dset (count_reasons rs) r (dget_or (count_reasons rs) r 0 + 1)"
  by (simp add: count_reasons_def)

lemma count_reasons_get: "dget_or (count_reasons rs) r 0 = count_list rs r"
proof (induction rs rule: rev_induct)
  case Nil
  then show ?case by (simp add: count_reasons_def dget_or_def dget_def)
next
  case (snoc x rs)
  then show ?case by (auto simp: count_reasons_snoc dget_or_def dget_dset)
qed

lemma sum_dset:
  fixes d :: "(string \<times> nat) list"
  assumes "distinct (map fst d)"
  shows "sum_list (map snd (dset d k v)) + dget_or d k 0 = sum_list (map snd d) + v"
  using assms
proof (induction d)
  case (Cons p d)
  show ?case
  proof (cases "fst p = k")
    case True
    then show ?thesis by (cases p) (simp add: dset_def dget_or_def dget_def)
  next
    case False
    then show ?thesis using Cons by (cases p) (simp add: dset_def dget_or_def dget_def)
  qed
qed (simp add: dset_def dget_or_def dget_def)

lemma count_reasons_sum: "distinct (map fst (count_reasons rs)) \<and> sum_list (map snd (count_reasons rs)) = length rs"
proof (induction rs rule: rev_induct)
  case (snoc x rs)
  then show ?case
    using sum_dset [of "count_reasons rs" x "dget_or (count_reasons rs) x 0 + 1"]
    by (simp add: count_reasons_snoc distinct_dset)
qed (simp add: count_reasons_def)

lemma qualified_requestD:
  assumes "qualified_request s outcome = Inr (b, why)"
  shows "b \<longleftrightarrow> why = ''qualified''" "b \<Longrightarrow> truthy (dget_or outcome ''success'' (VBool False))"
  using assms
  by (auto simp: qualified_request_def bindR_eq_Inr check_limit_def split: if_splits option.splits)

lemma qualified_rows:
  assumes "mapR (\<lambda>row. qualified_request s (jr_outcome row)) rows = Inr qs"
  shows "length (filter fst qs) = count_list (map snd qs) ''qualified''"
    "length (filter fst qs) \<le> length (filter (\<lambda>row. truthy (dget_or (jr_outcome row) ''success'' (VBool False))) rows)"
  using assms
proof (induction rows arbitrary: qs)
  case (Cons row rows)
  {
    case 1
    then show ?case using Cons.IH(1) qualified_requestD(1) by (fastforce simp: bindR_eq_Inr)
  next
    case 2
    then show ?case using Cons.IH(2) qualified_requestD(2) by (fastforce simp: bindR_eq_Inr)
  }
qed auto

lemma rate_unit: "a \<le> n \<Longrightarrow> pred_option in_unit (rate_opt a n)"
  by (auto simp: rate_opt_def ratio_of_def in_unit_def divide_le_eq intro!: fl_nonneg fl_le_1 split: if_splits)

lemma complement_unit: "in_unit x \<Longrightarrow> in_unit (fsub (Fin 1) x)"
  by (cases x) (auto simp: in_unit_def fsub_def intro!: fl_nonneg fl_le_1)

lemma arm_metricsD:
  assumes "arm_metrics_of ts s rows = Inr m"
  shows "\<exists>qs. mapR (\<lambda>row. qualified_request s (jr_outcome row)) rows = Inr qs \<and> am_qualified m = length (filter fst qs) \<and>
     am_reasons m = count_reasons (map snd qs)"
    "am_requests m = length rows"
    "am_successful m = length (filter (\<lambda>row. truthy (dget_or (jr_outcome row) ''success'' (VBool False))) rows)"
    "am_qualified_rate m = rate_opt (am_qualified m) (am_requests m)"
    "am_error_rate m = map_option (fsub (Fin 1)) (rate_opt (am_successful m) (am_requests m))"
    "am_fallback_rate m =
       rate_opt (length (filter (\<lambda>row. truthy (dget_or (jr_decision row) ''fallback'' (VBool False))) rows)) (am_requests m)"
  using assms by (auto simp: arm_metrics_of_def bindR_eq_Inr Let_def)

lemma py_max_leD: "a \<noteq> NaN \<Longrightarrow> b \<noteq> NaN \<Longrightarrow> fle (py_max a b) c \<Longrightarrow> fle a c \<and> fle b c"
  using py_max_bounds [of a b] fle_trans by blast

lemma arm_rates_not_NaN:
  assumes "arm_metrics_of ts s rows = Inr m"
  shows "or_zero (am_error_rate m) \<noteq> NaN" "or_zero (am_fallback_rate m) \<noteq> NaN"
proof -
  have r: "or_zero (rate_opt a n) \<noteq> NaN" for a n by (simp add: rate_opt_def or_zero_def ratio_of_def)
  have "fsub (Fin 1) (ratio_of a n) \<noteq> NaN" for a n
    by (cases "ratio_of a n") (auto simp: fsub_def ratio_of_def)
  then have "or_zero (map_option (fsub (Fin 1)) (rate_opt a n)) \<noteq> NaN" for a n
    by (simp add: rate_opt_def or_zero_def)
  with r show "or_zero (am_error_rate m) \<noteq> NaN" "or_zero (am_fallback_rate m) \<noteq> NaN"
    by (simp_all add: arm_metricsD [OF assms])
qed

lemma allR_True: "allR p xs = Inr True \<Longrightarrow> x \<in> set xs \<Longrightarrow> p x = Inr True"
  by (induction xs) (auto simp: bindR_eq_Inr split: if_splits)

lemma row_assigned_okD:
  "row_assigned_ok ex row = Inr True \<Longrightarrow>
     (\<exists>p. field_float (jr_decision row) ''assignment_probability'' = Inr p \<and> flt (Fin 0) p \<and> fle p (Fin 1)) \<and>
     (assigned (ex_control ex) row \<or> assigned (ex_treatment ex) row)"
  by (auto simp: row_assigned_ok_def bindR_eq_Inr split: if_splits)

text \<open>What a promoting evaluation has established.\<close>

lemma evaluate_rowsD:
  assumes "evaluate_rows timestamp_of draw g ex joined = Inr r" "ev_promotion r"
  shows "ev_joined r = joined" "ev_eligible r = filter (\<lambda>row. \<not> is_guarded row) (ev_joined r)"
    "allR (row_assigned_ok ex) joined = Inr True"
    "ex_min_requests ex \<le> int (length (ev_eligible r))"
    "list_ex (assigned (ex_control ex)) (ev_eligible r)" "list_ex (assigned (ex_treatment ex)) (ev_eligible r)"
    "arm_metrics_of timestamp_of (ex_slo ex) (filter (assigned (ex_control ex)) (ev_eligible r)) = Inr (ev_control r)"
    "arm_metrics_of timestamp_of (ex_slo ex) (filter (assigned (ex_treatment ex)) (ev_eligible r)) = Inr (ev_treatment r)"
    "all_safe (safety_of (ex_guardrails ex) (ev_control r) (ev_treatment r))"
    "flt (snd (ev_ci r)) (Fin 0)" "contaminated_windows (ev_eligible r) = []"
  using assms
  by (auto simp: evaluate_rows_def bindR_eq_Inr guardR_eq_Inr Let_def list_ex_iff filter_empty_conv)

section \<open>Properties\<close>

text \<open>
  An arm accounts for its requests: the reason counts have distinct names and add up to
  the number of requests, the count of \<open>qualified\<close> is the number of qualified requests, no more requests
  are qualified than succeeded, and the qualified, error and fallback rates lie in the unit interval.
\<close>

theorem arm_accounts:
  assumes "arm_metrics_of ts s rows = Inr m"
  shows "am_requests m = length rows \<and> distinct (map fst (am_reasons m)) \<and>
     sum_list (map snd (am_reasons m)) = am_requests m \<and> dget_or (am_reasons m) ''qualified'' 0 = am_qualified m \<and>
     am_qualified m \<le> am_successful m \<and>
     pred_option in_unit (am_qualified_rate m) \<and> pred_option in_unit (am_error_rate m) \<and>
     pred_option in_unit (am_fallback_rate m)"
proof -
  obtain qs where qs: "mapR (\<lambda>row. qualified_request s (jr_outcome row)) rows = Inr qs"
      "am_qualified m = length (filter fst qs)" "am_reasons m = count_reasons (map snd qs)"
    using arm_metricsD(1) [OF assms] by blast
  note d = arm_metricsD(2-6) [OF assms] and q = qualified_rows [OF qs(1)]
  have succ: "am_successful m \<le> am_requests m" unfolding d(1,2) by (rule length_filter_le)
  then have "am_qualified m \<le> am_requests m" using q(2) qs(2) d(2) by linarith
  then have "pred_option in_unit (am_qualified_rate m)" unfolding d(3) by (rule rate_unit)
  moreover have "pred_option in_unit (am_error_rate m)" unfolding d(4) using rate_unit [OF succ] complement_unit
    by (cases "rate_opt (am_successful m) (am_requests m)") auto
  moreover have "pred_option in_unit (am_fallback_rate m)" unfolding d(5) d(1)
    by (rule rate_unit) (rule length_filter_le)
  ultimately show ?thesis
    using qs(2,3) q d(1,2) mapR_Inr_length [OF qs(1)] count_reasons_sum [of "map snd qs"] count_reasons_get [of "map snd qs"]
    by simp
qed

text \<open>
  Property C30.  Promotion is earned.  When the evaluation promotes the treatment, every joined row pairs a
  decision of this experiment with an outcome of the same request, carries an assignment probability in
  (0, 1] and one of the two policies; the eligible rows are the unguarded joined rows, at least as many as
  required, both arms are represented among them, and no window mixes policies, except the one named
  \<open>isolated-pool\<close>, which the code exempts; the upper end of the interval is below zero; and both arms stay within the error and
  fallback limits.
\<close>

theorem promotion_is_earned:
  assumes "evaluate_experiment timestamp_of draw g ex decision_lines outcome_lines = Inr r" and "ev_promotion r"
  shows "(\<forall>row\<in>set (ev_joined r).
        dget_or (jr_decision row) ''experiment_id'' VNone = VStr (ex_id ex) \<and>
        hash_key (dget_or (jr_decision row) ''request_id'' VNone) = hash_key (dget_or (jr_outcome row) ''request_id'' VNone) \<and>
        (\<exists>p. field_float (jr_decision row) ''assignment_probability'' = Inr p \<and> flt (Fin 0) p \<and> fle p (Fin 1)) \<and>
        (assigned (ex_control ex) row \<or> assigned (ex_treatment ex) row)) \<and>
     ev_eligible r = filter (\<lambda>row. \<not> is_guarded row) (ev_joined r) \<and>
     ex_min_requests ex \<le> int (length (ev_eligible r)) \<and>
     list_ex (assigned (ex_control ex)) (ev_eligible r) \<and> list_ex (assigned (ex_treatment ex)) (ev_eligible r) \<and>
     (\<forall>a\<in>set (ev_eligible r). \<forall>b\<in>set (ev_eligible r).
        window_of a = window_of b \<and> window_of a \<noteq> ''isolated-pool'' \<longrightarrow> policy_of a = policy_of b) \<and>
     flt (snd (ev_ci r)) (Fin 0) \<and>
     list_all (\<lambda>m. fle (or_zero (am_error_rate m)) (dget_or (ex_guardrails ex) ''max_error_rate'' (Fin 1)) \<and>
                   fle (or_zero (am_fallback_rate m)) (dget_or (ex_guardrails ex) ''max_fallback_rate'' (Fin 1)))
       [ev_control r, ev_treatment r]"
proof -
  let ?keep1 = "\<lambda>row. dget_or row ''experiment_id'' VNone = VStr (ex_id ex)"
  let ?keep2 = "\<lambda>row. truthy (dget_or row ''request_id'' VNone)"
  obtain ds os where ds: "index_rows ?keep1 (journal_rows decision_lines) = Inr ds"
    and os: "index_rows ?keep2 (journal_rows outcome_lines) = Inr os"
    and ev: "evaluate_rows timestamp_of draw g ex (join_rows ds os) = Inr r"
    using assms(1) by (auto simp: evaluate_experiment_def bindR_eq_Inr)
  note f = evaluate_rowsD [OF ev assms(2)]
  have joined: "ev_joined r = join_rows ds os" using f(1) .
  have rows: "?keep1 (jr_decision row) \<and>
      hash_key (dget_or (jr_decision row) ''request_id'' VNone) = hash_key (dget_or (jr_outcome row) ''request_id'' VNone)"
    if "row \<in> set (ev_joined r)" for row using join_rows_mem [OF ds os] that joined by simp
  have asg: "(\<exists>p. field_float (jr_decision row) ''assignment_probability'' = Inr p \<and> flt (Fin 0) p \<and> fle p (Fin 1)) \<and>
        (assigned (ex_control ex) row \<or> assigned (ex_treatment ex) row)"
    if "row \<in> set (ev_joined r)" for row
    using allR_True [OF f(3)] that joined by (intro row_assigned_okD) simp
  have gates: "list_all (\<lambda>m. fle (or_zero (am_error_rate m)) (dget_or (ex_guardrails ex) ''max_error_rate'' (Fin 1)) \<and>
                   fle (or_zero (am_fallback_rate m)) (dget_or (ex_guardrails ex) ''max_fallback_rate'' (Fin 1)))
       [ev_control r, ev_treatment r]"
    using f(9) arm_rates_not_NaN [OF f(7)] arm_rates_not_NaN [OF f(8)] py_max_leD
    by (simp add: all_safe_def safety_of_def)
  show ?thesis
    using rows asg f(2,4,5,6,10) gates uncontaminated_same_policy [OF f(11)] by blast
qed

section \<open>Witnesses\<close>

text \<open>One request for each policy, each in an experiment window of its own.\<close>

definition sample_decision :: "string \<Rightarrow> string \<Rightarrow> pydict" where
  "sample_decision rid pol =
     [(''request_id'', VStr rid), (''experiment_id'', VStr ''e''), (''assigned_policy'', VStr pol),
      (''assignment_probability'', VFloat (Fin (1 / 2))), (''experiment_window'', VStr rid)]"

definition sample_outcome :: "string \<Rightarrow> rat \<Rightarrow> pydict" where
  "sample_outcome rid ttft = [(''request_id'', VStr rid), (''success'', VBool True), (''ttft_ms'', VFloat (Fin ttft))]"

definition sample_row :: "string \<Rightarrow> string \<Rightarrow> rat \<Rightarrow> joined_row" where
  "sample_row rid pol ttft = \<lparr>jr_decision = sample_decision rid pol, jr_outcome = sample_outcome rid ttft\<rparr>"

definition sample_trial :: trial where
  "sample_trial = \<lparr>ex_id = ''e'', ex_control = ''c'', ex_treatment = ''t'',
     ex_slo = \<lparr>sl_ttft = Fin 1000, sl_tpot = None, sl_gap = None\<rparr>, ex_min_requests = 2, ex_samples = 1, ex_guardrails = []\<rparr>"

lemma sample_row_sel [simp]:
  "jr_decision (sample_row rid pol t) = sample_decision rid pol" "jr_outcome (sample_row rid pol t) = sample_outcome rid t"
  by (simp_all add: sample_row_def)

lemma interpolate_single: "isfinite q \<Longrightarrow> interpolate [x] q = Inr x"
  by (cases q) (auto simp: interpolate_def py_nth_def)

lemma unit_quantile: "0 \<le> x \<Longrightarrow> x \<le> 1 \<Longrightarrow> isfinite (fl x)"
  by (rule in_unit_finite) (auto simp: in_unit_def intro!: fl_nonneg fl_le_1)

lemma ttft_sample:
  "0 < t \<Longrightarrow> ttft_samples [sample_row rid pol t] = Inr [Fin t]"
  "ttft_samples [] = Inr []"
  by (simp_all add: ttft_samples_def field_float_def sample_outcome_def dget_or_def dget_def)

lemma arm_sample:
  assumes "0 < t" "t \<le> 1000" "fl t = Fin t"
  shows "arm_metrics_of ts \<lparr>sl_ttft = Fin 1000, sl_tpot = None, sl_gap = None\<rparr> [sample_row rid pol t] =
    Inr \<lparr>am_requests = 1, am_successful = 1, am_ttft_samples = 1, am_ttft_mean = Some (Fin t), am_ttft_p95 = Some (Fin t),
      am_slo_violation_rate = Some (Fin 0), am_qualified = 1, am_qualified_rate = Some (Fin 1), am_goodput = None,
      am_reasons = [(''qualified'', 1)], am_tpot_samples = 0, am_tpot_p95 = None, am_gap_samples = 0, am_gap_p95 = None,
      am_throughput = None, am_error_rate = Some (Fin 0), am_fallback_rate = Some (Fin 0), am_prediction_mae = None\<rparr>"
proof -
  have q: "qualified_request \<lparr>sl_ttft = Fin 1000, sl_tpot = None, sl_gap = None\<rparr> (sample_outcome rid t) = Inr (True, ''qualified'')"
    using assms by (simp add: qualified_request_def sample_outcome_def dget_or_def dget_def float_or0_def check_limit_def)
  have p: "prediction_errors [sample_row rid pol t] = Inr []" "present_values ''tpot_ms'' [sample_row rid pol t] = Inr []"
      "present_values ''stream_gap_p95_ms'' [sample_row rid pol t] = Inr []" "arm_timestamps ts [sample_row rid pol t] = []"
    by (simp_all add: prediction_errors_def present_values_def arm_timestamps_def sample_outcome_def
        sample_decision_def dget_or_def dget_def)
  have f: "truthy (dget_or (sample_outcome rid t) ''success'' (VBool False))"
      "\<not> truthy (dget_or (sample_decision rid pol) ''fallback'' (VBool False))"
    by (simp_all add: sample_outcome_def sample_decision_def dget_or_def dget_def)
  have m: "mean_opt [Fin t] = Inr (Some (Fin t))" "percentile_opt [Fin t] (fl (19 / 20)) = Inr (Some (Fin t))"
    using assms unit_quantile [of "19 / 20"]
    by (simp_all add: mean_opt_def stat_mean_def finite_part_def percentile_opt_def py_sorted_def interpolate_single)
  show ?thesis using assms(2)
    by (simp add: arm_metrics_of_def ttft_sample(1) [OF assms(1)] p m q f Let_def elapsed_of_def per_second_def
        percentile_opt_def [of "[]"] mean_opt_def [of "[]"] rate_opt_def ratio_of_def count_reasons_def dset_def
        dget_or_def [of "[]"] dget_def fsub_def)
qed

lemma arm_empty:
  "\<exists>m. arm_metrics_of ts s [] = Inr m"
  by (simp add: arm_metrics_of_def ttft_sample(2) prediction_errors_def present_values_def mean_opt_def percentile_opt_def
      per_second_def arm_timestamps_def elapsed_of_def Let_def)

lemma assigned_sample:
  "assigned p (sample_row rid q t) \<longleftrightarrow> p = q" "\<not> is_guarded (sample_row rid q t)"
  by (auto simp: assigned_def is_guarded_def sample_decision_def dget_or_def dget_def)

text \<open>Every stratum of the two sample rows holds both or none of them.\<close>

lemma stratum_sample:
  assumes "p \<in> set stratum_predicates"
  shows "\<exists>st. stratum_of ts [sample_row ''1'' ''c'' 200, sample_row ''2'' ''t'' 100] ''c'' ''t'' (Fin 1000) p = Inr st"
proof -
  let ?rows = "[sample_row ''1'' ''c'' 200, sample_row ''2'' ''t'' 100]"
  have v: "prompt_tokens_of (sample_row rid q t) = Inr 0" "hit_ratio_of (sample_row rid q t) = Inr (Fin 0)"
    "actual_queue (sample_row rid q t) = Inr (Fin 0)" for rid q t
    by (simp_all add: prompt_tokens_of_def hit_ratio_of_def actual_queue_def float_or0_def sample_decision_def
        sample_outcome_def dget_or_def dget_def)
  have f: "filterR (snd p) ?rows = Inr ?rows \<or> filterR (snd p) ?rows = Inr []"
    using assms by (auto simp: stratum_predicates_def v)
  have arms: "\<exists>m. arm_metrics_of ts \<lparr>sl_ttft = Fin 1000, sl_tpot = None, sl_gap = None\<rparr> [sample_row ''1'' ''c'' 200] = Inr m"
      "\<exists>m. arm_metrics_of ts \<lparr>sl_ttft = Fin 1000, sl_tpot = None, sl_gap = None\<rparr> [sample_row ''2'' ''t'' 100] = Inr m"
    using arm_sample [of 200] arm_sample [of 100] by (simp_all add: float_simps)
  have d: "mean_difference [Fin 100] [Fin 200] = Inr (Fin (- 100))"
    using fl_int [of "- 100"] by (simp add: mean_difference_def stat_mean_def finite_part_def float_simps fsub_def)
  from f show ?thesis
  proof
    assume "filterR (snd p) ?rows = Inr ?rows"
    with arms d show ?thesis by (auto simp: stratum_of_def assigned_sample ttft_sample(1) Let_def simp del: filterR.simps)
  next
    assume e: "filterR (snd p) ?rows = Inr []"
    obtain m where m: "arm_metrics_of ts \<lparr>sl_ttft = Fin 1000, sl_tpot = None, sl_gap = None\<rparr> [] = Inr m"
      using arm_empty by blast
    show ?thesis by (simp add: stratum_of_def e ttft_sample(2) Let_def m del: filterR.simps)
  qed
qed

theorem arm_accounts_witness:
  "\<exists>m. arm_metrics_of (\<lambda>_. None) \<lparr>sl_ttft = Fin 1000, sl_tpot = None, sl_gap = None\<rparr> [sample_row ''1'' ''c'' 200] = Inr m \<and>
     sum_list (map snd (am_reasons m)) = 1"
proof -
  obtain m where m: "arm_metrics_of (\<lambda>_. None) \<lparr>sl_ttft = Fin 1000, sl_tpot = None, sl_gap = None\<rparr>
      [sample_row ''1'' ''c'' 200] = Inr m"
    using arm_sample [of 200] by (simp add: float_simps)
  with arm_accounts [OF m] show ?thesis by simp
qed

lemma mapR_exists: "(\<And>x. x \<in> set xs \<Longrightarrow> \<exists>y. f x = Inr y) \<Longrightarrow> \<exists>ys. mapR f xs = Inr ys"
  by (induction xs) fastforce+

lemma sample_interval:
  "effect_interval (\<lambda>g n. (0, g)) g 1 [sample_row ''1'' ''c'' 200] [sample_row ''2'' ''t'' 100] [Fin 200] [Fin 100] =
     Inr ((Fin (- 100), Fin (- 100)), False)"
proof -
  have w: "\<exists>xs. window_means [sample_row rid q t] = Inr xs \<and> length xs = 1" if "0 < t" "fl t = Fin t" for rid q t
    using that by (simp add: window_means_def field_float_def sample_outcome_def sample_decision_def dget_or_def
        dget_def dset_def stat_mean_def finite_part_def)
  obtain cw tw where w: "window_means [sample_row ''1'' ''c'' 200] = Inr cw" "length cw = 1"
      "window_means [sample_row ''2'' ''t'' 100] = Inr tw" "length tw = 1"
    using w [of 200 "''1''" "''c''"] w [of 100 "''2''" "''t''"] by (auto simp: float_simps)
  have "isfinite (fl (25 / 1000))" "isfinite (fl (975 / 1000))" by (rule unit_quantile; simp)+
  then have "bootstrap_difference (\<lambda>g n. (0, g)) [Fin 200] [Fin 100] 1 g = Inr (Fin (- 100), Fin (- 100))"
    using fl_int [of "- 100"]
    by (simp add: bootstrap_difference_def stat_mean_def finite_part_def float_simps fsub_def percentile_opt_def py_sorted_def
        interpolate_single or_zero_def numeral_eq_Suc)
  with w show ?thesis by (simp add: effect_interval_def Let_def)
qed

lemma sample_join:
  "index_rows (\<lambda>row. dget_or row ''experiment_id'' VNone = VStr ''e'')
     (journal_rows [VDict (sample_decision ''1'' ''c''), VDict (sample_decision ''2'' ''t'')]) =
     Inr [(VStr ''1'', sample_decision ''1'' ''c''), (VStr ''2'', sample_decision ''2'' ''t'')]"
  "index_rows (\<lambda>row. truthy (dget_or row ''request_id'' VNone))
     (journal_rows [VDict (sample_outcome ''1'' 200), VDict (sample_outcome ''2'' 100)]) =
     Inr [(VStr ''1'', sample_outcome ''1'' 200), (VStr ''2'', sample_outcome ''2'' 100)]"
  "join_rows [(VStr ''1'', sample_decision ''1'' ''c''), (VStr ''2'', sample_decision ''2'' ''t'')]
     [(VStr ''1'', sample_outcome ''1'' 200), (VStr ''2'', sample_outcome ''2'' 100)] =
     [sample_row ''1'' ''c'' 200, sample_row ''2'' ''t'' 100]"
proof -
  have k: "dget_or (sample_decision rid q) ''request_id'' VNone = VStr rid"
    "dget_or (sample_decision rid q) ''experiment_id'' VNone = VStr ''e''"
    "dget_or (sample_outcome rid t) ''request_id'' VNone = VStr rid" for rid q t
    by (simp_all add: sample_decision_def sample_outcome_def dget_or_def dget_def)
  show "index_rows (\<lambda>row. dget_or row ''experiment_id'' VNone = VStr ''e'')
     (journal_rows [VDict (sample_decision ''1'' ''c''), VDict (sample_decision ''2'' ''t'')]) =
     Inr [(VStr ''1'', sample_decision ''1'' ''c''), (VStr ''2'', sample_decision ''2'' ''t'')]"
    by (simp add: index_rows_def journal_rows_def k hash_key_def dset_def)
  show "index_rows (\<lambda>row. truthy (dget_or row ''request_id'' VNone))
     (journal_rows [VDict (sample_outcome ''1'' 200), VDict (sample_outcome ''2'' 100)]) =
     Inr [(VStr ''1'', sample_outcome ''1'' 200), (VStr ''2'', sample_outcome ''2'' 100)]"
    by (simp add: index_rows_def journal_rows_def k hash_key_def dset_def)
  show "join_rows [(VStr ''1'', sample_decision ''1'' ''c''), (VStr ''2'', sample_decision ''2'' ''t'')]
     [(VStr ''1'', sample_outcome ''1'' 200), (VStr ''2'', sample_outcome ''2'' 100)] =
     [sample_row ''1'' ''c'' 200, sample_row ''2'' ''t'' 100]"
    by (simp add: join_rows_def dget_def sample_row_def)
qed

lemma evaluate_rows_promotes:
  assumes "filter (\<lambda>row. \<not> is_guarded row) joined = eligible" "filter (assigned (ex_control ex)) eligible = cr"
    "filter (assigned (ex_treatment ex)) eligible = tr" "ttft_samples cr = Inr ct" "ttft_samples tr = Inr tt"
    "ct \<noteq> []" "tt \<noteq> []" "cr \<noteq> []" "tr \<noteq> []" "mean_difference tt ct = Inr d"
    "effect_interval draw g (ex_samples ex) cr tr ct tt = Inr (ci, clustered)"
    "arm_metrics_of timestamp_of (ex_slo ex) cr = Inr cm" "arm_metrics_of timestamp_of (ex_slo ex) tr = Inr tm"
    "allR (row_assigned_ok ex) joined = Inr True"
    "mapR (\<lambda>row. hash_key (dget_or (jr_decision row) ''experiment_window'' VNone)) (cr @ tr) = Inr ws"
    "contaminated_windows eligible = []" "all_safe (safety_of (ex_guardrails ex) cm tm)"
    "ex_min_requests ex \<le> int (length eligible)" "flt (snd ci) (Fin 0)" "bindR (stat_mean ct) (fdiv d) = Inr rel"
    "goodput_percent (am_goodput tm) (am_goodput cm) = Inr gp"
    "mapR (stratum_of timestamp_of eligible (ex_control ex) (ex_treatment ex) (sl_ttft (ex_slo ex))) stratum_predicates = Inr st"
  shows "\<exists>r. evaluate_rows timestamp_of draw g ex joined = Inr r \<and> ev_promotion r"
  using assms by (simp add: evaluate_rows_def Let_def)

lemma sample_evaluation:
  "\<exists>r. evaluate_rows (\<lambda>_. None) (\<lambda>g n. (0, g)) (0::nat) sample_trial [sample_row ''1'' ''c'' 200, sample_row ''2'' ''t'' 100] = Inr r \<and>
     ev_promotion r"
proof -
  let ?rows = "[sample_row ''1'' ''c'' 200, sample_row ''2'' ''t'' 100]"
  obtain st where st: "mapR (stratum_of (\<lambda>_. None) ?rows ''c'' ''t'' (Fin 1000)) stratum_predicates = Inr st"
    
    using mapR_exists [of stratum_predicates "stratum_of (\<lambda>_. None) ?rows ''c'' ''t'' (Fin 1000)", OF stratum_sample]
    by blast
  have d: "mean_difference [Fin 100] [Fin 200] = Inr (Fin (- 100))"
    using fl_int [of "- 100"] by (simp add: mean_difference_def stat_mean_def finite_part_def float_simps fsub_def)
  have h: "hash_key (dget_or (sample_decision rid q) ''experiment_window'' VNone) = Inr (VStr rid)" for rid q
    by (simp add: sample_decision_def dget_or_def dget_def hash_key_def)
  have a: "row_assigned_ok sample_trial (sample_row rid q t) = Inr (q = ''c'' \<or> q = ''t'')" for rid q t
    by (auto simp: row_assigned_ok_def field_float_def assigned_sample sample_trial_def sample_decision_def dget_or_def dget_def
        hash_key_def)
  have w: "contaminated_windows ?rows = []"
    by (simp add: contaminated_windows_def policies_by_window_def window_of_def policy_of_def sample_decision_def dget_or_def
        dget_def dset_def)
  have f: "stat_mean [Fin 200] = Inr (Fin 200)" "fl 200 = Fin 200" "fl 100 = Fin 100"
    by (simp_all add: stat_mean_def finite_part_def float_simps)
  obtain cm tm where m: "arm_metrics_of (\<lambda>_. None) \<lparr>sl_ttft = Fin 1000, sl_tpot = None, sl_gap = None\<rparr> [sample_row ''1'' ''c'' 200] = Inr cm"
      "arm_metrics_of (\<lambda>_. None) \<lparr>sl_ttft = Fin 1000, sl_tpot = None, sl_gap = None\<rparr> [sample_row ''2'' ''t'' 100] = Inr tm"
    and c: "am_error_rate cm = Some (Fin 0)" "am_fallback_rate cm = Some (Fin 0)" "am_goodput cm = None"
      "am_ttft_p95 cm = Some (Fin 200)"
    and t: "am_error_rate tm = Some (Fin 0)" "am_fallback_rate tm = Some (Fin 0)" "am_goodput tm = None"
      "am_ttft_p95 tm = Some (Fin 100)" "am_prediction_mae tm = None"
    using arm_sample [of 200] arm_sample [of 100] f by simp
  have g: "all_safe (safety_of [] cm tm)"
    by (simp add: all_safe_def safety_of_def c t or_zero_def or_inf_def py_max_def dget_or_def dget_def)
  have gp: "goodput_percent None None = Inr None" by (simp add: goodput_percent_def)
  have tr: "ex_control sample_trial = ''c''" "ex_treatment sample_trial = ''t''" "ex_guardrails sample_trial = []"
      "ex_slo sample_trial = \<lparr>sl_ttft = Fin 1000, sl_tpot = None, sl_gap = None\<rparr>" "ex_min_requests sample_trial = 2"
      "ex_samples sample_trial = 1"
    by (simp_all add: sample_trial_def)
  have fs: "filter (\<lambda>row. \<not> is_guarded row) ?rows = ?rows" "filter (assigned ''c'') ?rows = [sample_row ''1'' ''c'' 200]"
      "filter (assigned ''t'') ?rows = [sample_row ''2'' ''t'' 100]"
    by (simp_all add: assigned_sample)
  have hs: "mapR (\<lambda>row. hash_key (dget_or (jr_decision row) ''experiment_window'' VNone))
      ([sample_row ''1'' ''c'' 200] @ [sample_row ''2'' ''t'' 100]) = Inr [VStr ''1'', VStr ''2'']"
    by (simp add: h)
  have as: "allR (row_assigned_ok sample_trial) ?rows = Inr True" by (simp add: a)
  have rel: "bindR (stat_mean [Fin 200]) (fdiv (Fin (- 100))) = Inr (fquot (Fin (- 100)) (Fin 200))"
    by (simp add: f fdiv_def)
  have tt: "ttft_samples [sample_row ''1'' ''c'' 200] = Inr [Fin 200]" "ttft_samples [sample_row ''2'' ''t'' 100] = Inr [Fin 100]"
    by (simp_all add: ttft_sample)
  note promotes = evaluate_rows_promotes [where ex = sample_trial, unfolded tr]
  show ?thesis
    by (rule promotes [OF fs tt _ _ _ _ d sample_interval m as hs w g _ _ rel]) (simp_all add: c t gp st)
qed

theorem promotion_is_earned_witness:
  "\<exists>r. evaluate_experiment (\<lambda>_. None) (\<lambda>g n. (0, g)) (0::nat) sample_trial
      [VDict (sample_decision ''1'' ''c''), VDict (sample_decision ''2'' ''t'')]
      [VDict (sample_outcome ''1'' 200), VDict (sample_outcome ''2'' 100)] = Inr r \<and>
     flt (snd (ev_ci r)) (Fin 0) \<and> list_ex (assigned ''t'') (ev_eligible r)"
proof -
  have [simp]: "ex_id sample_trial = ''e''" "ex_treatment sample_trial = ''t''" by (simp_all add: sample_trial_def)
  obtain r where r: "evaluate_experiment (\<lambda>_. None) (\<lambda>g n. (0, g)) (0::nat) sample_trial
      [VDict (sample_decision ''1'' ''c''), VDict (sample_decision ''2'' ''t'')]
      [VDict (sample_outcome ''1'' 200), VDict (sample_outcome ''2'' 100)] = Inr r" "ev_promotion r"
    using sample_evaluation by (auto simp: evaluate_experiment_def sample_join)
  have "flt (snd (ev_ci r)) (Fin 0) \<and> list_ex (assigned (ex_treatment sample_trial)) (ev_eligible r)"
    using promotion_is_earned [OF r] by blast
  with r(1) show ?thesis by (intro exI [of _ r]) simp
qed

end
