(* ===== verification/Ttft.thy ===== *)
theory Ttft
  imports PolicyEval PyJson
begin

text \<open>
  \<open>planner/ttft_predictor.py\<close> and \<open>planner/ttft_validation.py\<close>: a linear model of the time to first token
  is fitted by ridge regression from journal rows that carry observed cache reuse, its coefficients are
  clamped to be nonnegative, and a fitted artifact is checked against other journals.  The decoded rows
  of the journals are arguments.
\<close>

section \<open>Reading\<close>

definition feature_names :: "string list" where
  "feature_names = [''intercept_ms'', ''uncached_token_ms'', ''cached_token_ms'', ''queue_penalty_ms'', ''kv_pressure_penalty_ms'']"

text \<open>The decoded non-blank lines of the journals; a line that is not an object is an error.\<close>

definition strict_rows :: "pyval list \<Rightarrow> pydict list res" where
  "strict_rows vs = mapR (\<lambda>v. case v of VDict d \<Rightarrow> Inr d | _ \<Rightarrow> Inl (ValueError ''expected a JSON object'')) vs"

definition find_candidate :: "pydict \<Rightarrow> string \<Rightarrow> pydict option res" where
  "find_candidate decision backend_id =
     bindR (py_iter (dget_or decision ''candidates'' (VList []))) (\<lambda>cs.
     Inr (find (\<lambda>c. dget_or c ''backend_id'' VNone = VStr backend_id)
            (concat (map (\<lambda>v. case v of VDict d \<Rightarrow> [d] | _ \<Rightarrow> []) cs))))"

section \<open>Linear algebra\<close>

definition swap_rows :: "nat \<Rightarrow> nat \<Rightarrow> 'a list \<Rightarrow> 'a list" where
  "swap_rows i j rows = rows[i := rows ! j, j := rows ! i]"

text \<open>\<open>max(range(column, size), key=...)\<close>: the first row with the largest absolute value in the column.\<close>

definition pivot_row :: "pyfloat list list \<Rightarrow> nat \<Rightarrow> nat" where
  "pivot_row augmented column =
     foldl (\<lambda>best row. if flt (fabs (augmented ! best ! column)) (fabs (augmented ! row ! column)) then row else best)
       column [Suc column..<length augmented]"

definition reduce_row :: "nat \<Rightarrow> pyfloat list \<Rightarrow> pyfloat list \<Rightarrow> pyfloat list" where
  "reduce_row column pivot_values row =
     map2 (\<lambda>current pivot_value. fsub current (fmul (row ! column) pivot_value)) row pivot_values"

definition eliminate_column :: "nat \<Rightarrow> pyfloat list list \<Rightarrow> pyfloat list list res" where
  "eliminate_column column augmented =
     (let pivot = pivot_row augmented column in
      if flt (fabs (augmented ! pivot ! column)) (fl (1 / 10 ^ 12))
      then Inl (ValueError ''predictor design matrix is singular'')
      else
        let swapped = swap_rows column pivot augmented; divisor = swapped ! column ! column in
        bindR (mapR (\<lambda>v. fdiv v divisor) (swapped ! column)) (\<lambda>normalized.
        Inr (map (\<lambda>row. if row = column then normalized else reduce_row column normalized (swapped ! row))
               [0..<length swapped])))"

definition solve :: "pyfloat list list \<Rightarrow> pyfloat list \<Rightarrow> pyfloat list res" where
  "solve matrix vec =
     bindR (foldR eliminate_column [0..<length vec] (map2 (\<lambda>row v. row @ [v]) matrix vec)) (\<lambda>augmented.
     Inr (map last augmented))"

definition accumulate_sample ::
  "pyfloat list \<times> pyfloat \<Rightarrow> pyfloat list list \<times> pyfloat list \<Rightarrow> pyfloat list list \<times> pyfloat list" where
  "accumulate_sample sample mv =
     (case sample of (row, target) \<Rightarrow> case mv of (matrix, vec) \<Rightarrow>
       (map2 (\<lambda>left mrow. map2 (\<lambda>right m. fadd m (fmul left right)) row mrow) row matrix,
        map2 (\<lambda>left v. fadd v (fmul left target)) row vec))"

definition add_ridge :: "pyfloat \<Rightarrow> pyfloat list list \<Rightarrow> pyfloat list list" where
  "add_ridge ridge matrix =
     map (\<lambda>i. if 1 \<le> i then (matrix ! i)[i := fadd (matrix ! i ! i) ridge] else matrix ! i) [0..<length matrix]"

definition dot :: "pyfloat list \<Rightarrow> pyfloat list \<Rightarrow> pyfloat" where
  "dot xs ys = py_sum (map2 fmul xs ys)"

definition fit :: "(pyfloat list \<times> pyfloat) list \<Rightarrow> pyfloat \<Rightarrow> pyfloat list res" where
  "fit samples ridge =
     (let width = length feature_names;
          (matrix, vec) = fold accumulate_sample samples (replicate width (replicate width (Fin 0)), replicate width (Fin 0)) in
      bindR (solve (add_ridge ridge matrix) vec) (\<lambda>coefficients.
      let slopes = map (py_max (Fin 0)) (tl coefficients) in
      bindR (fdiv (py_sum (map (\<lambda>(row, target). fsub target (dot (tl row) slopes)) samples))
                  (Fin (of_nat (length samples)))) (\<lambda>mean.
      Inr (py_max (Fin 0) mean # slopes))))"

definition predict :: "pyfloat list \<Rightarrow> pyfloat list \<Rightarrow> pyfloat" where
  "predict row coefficients = py_max (Fin 0) (dot row coefficients)"

definition ttft_percentile :: "pyfloat list \<Rightarrow> pyfloat \<Rightarrow> pyfloat res" where
  "ttft_percentile xs quantile =
     (case py_sorted xs of [x] \<Rightarrow> Inr x | ordered \<Rightarrow> interpolate ordered quantile)"

section \<open>Selecting the samples\<close>

record dimensions =
  di_model :: string
  di_gpu_type :: string
  di_engine :: string
  di_version :: string

datatype outcome_class =
    MissingDecision | Unsuccessful | DimensionMismatch | MissingObservedCache | Invalid
  | Sample "pyfloat list" pyfloat

definition dimensions_match :: "dimensions \<Rightarrow> pydict \<Rightarrow> bool" where
  "dimensions_match d outcome \<longleftrightarrow>
     list_all (\<lambda>(key, expected). dget_or outcome key VNone = VStr expected)
       [(''model'', di_model d), (''gpu_type'', di_gpu_type d), (''backend_engine'', di_engine d),
        (''backend_version'', di_version d)]"

text \<open>The conversions inside the \<open>try\<close>: a \<open>TypeError\<close> or \<open>ValueError\<close> makes the sample invalid.\<close>

definition sample_numbers :: "pydict \<Rightarrow> pyval \<Rightarrow> pydict \<Rightarrow> (int \<times> int \<times> pyfloat \<times> pyfloat \<times> pyfloat) res" where
  "sample_numbers outcome matched candidate =
     bindR (py_int (dget_or outcome ''prompt_tokens'' (VInt 0))) (\<lambda>prompt.
     bindR (py_int matched) (\<lambda>m.
     bindR (py_float (dget_or outcome ''ttft_ms'' (VInt 0))) (\<lambda>ttft.
     bindR (py_float (dget_or candidate ''queue_depth'' (VInt 0))) (\<lambda>queue.
     bindR (py_float (dget_or candidate ''kv_pressure'' (VInt 0))) (\<lambda>pressure.
     Inr (prompt, m, ttft, queue, pressure))))))"

definition checked_sample :: "pydict option \<Rightarrow> int \<times> int \<times> pyfloat \<times> pyfloat \<times> pyfloat \<Rightarrow> outcome_class res" where
  "checked_sample candidate ns =
     (case ns of (prompt, matched, ttft, queue, pressure) \<Rightarrow>
       if candidate = None \<or> prompt \<le> 0 \<or> matched < 0 \<or> prompt < matched \<or> fle ttft (Fin 0) then Inr Invalid
       else bindR (float_of_int prompt) (\<lambda>_. bindR (float_of_int matched) (\<lambda>cached.
            if \<not> isfinite ttft \<or> \<not> isfinite queue \<or> \<not> isfinite pressure then Inr Invalid
            else bindR (float_of_int (prompt - matched)) (\<lambda>uncached.
                 Inr (Sample [Fin 1, uncached, cached, queue, pressure] ttft)))))"

definition classify_outcome :: "dimensions \<Rightarrow> (pyval \<times> pydict) list \<Rightarrow> pydict \<Rightarrow> outcome_class res" where
  "classify_outcome d decisions outcome =
     bindR (hash_key (dget_or outcome ''request_id'' VNone)) (\<lambda>k.
     case dget decisions k of
       None \<Rightarrow> Inr MissingDecision
     | Some decision \<Rightarrow>
         if \<not> truthy (dget_or outcome ''success'' (VBool False)) then Inr Unsuccessful
         else if \<not> dimensions_match d outcome then Inr DimensionMismatch
         else
           let matched = dget_or outcome ''observed_matched_tokens'' VNone in
           if matched = VNone then Inr MissingObservedCache
           else bindR (find_candidate decision (py_str (dget_or outcome ''actual_backend'' (VStr [])))) (\<lambda>candidate.
                bindR (catch_tv (sample_numbers outcome matched (case candidate of None \<Rightarrow> [] | Some c \<Rightarrow> c))) (\<lambda>ns.
                case ns of None \<Rightarrow> Inr Invalid | Some x \<Rightarrow> checked_sample candidate x)))"

fun used_samples :: "outcome_class list \<Rightarrow> (pyfloat list \<times> pyfloat) list" where
  "used_samples [] = []"
| "used_samples (Sample row target # ss) = (row, target) # used_samples ss"
| "used_samples (_ # ss) = used_samples ss"

definition count_samples :: "outcome_class \<Rightarrow> outcome_class list \<Rightarrow> nat" where
  "count_samples s ss = length (filter (\<lambda>x. x = s) ss)"

section \<open>Fitting\<close>

record predictor =
  pr_version :: string
  pr_dimensions :: dimensions
  pr_coefficients :: "(string \<times> pyfloat) list"
  pr_mae :: pyfloat
  pr_p95 :: pyfloat
  pr_decisions :: nat
  pr_outcomes :: nat
  pr_used :: nat
  pr_missing_decision :: nat
  pr_missing_cache :: nat
  pr_unsuccessful :: nat
  pr_dimension_mismatch :: nat
  pr_invalid :: nat

definition version_payload :: "pyfloat list \<Rightarrow> nat \<Rightarrow> dimensions \<Rightarrow> string" where
  "version_payload coefficients n d =
     join '':'' (map (general_str 12) coefficients) @ '':'' @ nat_str n @ '':'' @ di_model d @ '':'' @ di_gpu_type d @
     '':'' @ di_engine d @ '':'' @ di_version d"

definition build_predictor ::
  "dimensions \<Rightarrow> pyfloat \<Rightarrow> nat \<Rightarrow> nat \<Rightarrow> outcome_class list \<Rightarrow> predictor res" where
  "build_predictor d ridge n_decisions n_outcomes ss =
     (let used = used_samples ss in
      guardR (length used < length feature_names) (ValueError ''at least 5 outcome-grounded samples are required'') (
      bindR (fit used ridge) (\<lambda>coefficients.
      let errors = map (\<lambda>(row, target). fabs (fsub target (predict row coefficients))) used in
      bindR (float_mean errors) (\<lambda>mae. bindR (ttft_percentile errors (fl (95 / 100))) (\<lambda>p95.
      Inr \<lparr>pr_version = ''fitted-'' @ take 12 (sha256_hex (utf8 (version_payload coefficients (length used) d))), pr_dimensions = d,
           pr_coefficients = zip feature_names coefficients @ [(''slo_scale_ms'', Fin 25)], pr_mae = mae, pr_p95 = p95,
           pr_decisions = n_decisions, pr_outcomes = n_outcomes, pr_used = length used,
           pr_missing_decision = count_samples MissingDecision ss, pr_missing_cache = count_samples MissingObservedCache ss,
           pr_unsuccessful = count_samples Unsuccessful ss, pr_dimension_mismatch = count_samples DimensionMismatch ss,
           pr_invalid = count_samples Invalid ss\<rparr>)))))"

definition fit_from_journal ::
  "dimensions \<Rightarrow> pyfloat \<Rightarrow> pyval list \<Rightarrow> pyval list \<Rightarrow> predictor res" where
  "fit_from_journal d ridge decision_lines outcome_lines =
     bindR (strict_rows decision_lines) (\<lambda>decision_rows.
     bindR (index_rows (\<lambda>row. truthy (dget_or row ''request_id'' VNone)) decision_rows) (\<lambda>decisions.
     bindR (strict_rows outcome_lines) (\<lambda>outcomes.
     bindR (mapR (classify_outcome d decisions) outcomes) (\<lambda>ss.
     build_predictor d ridge (length decisions) (length outcomes) ss))))"

section \<open>Held-out validation\<close>

definition artifact_dimensions :: "pydict \<Rightarrow> pydict \<Rightarrow> bool" where
  "artifact_dimensions artifact outcome \<longleftrightarrow>
     list_all (\<lambda>key. py_eq (dget_or outcome key VNone) (dget_or artifact key VNone))
       [''model'', ''gpu_type'', ''backend_engine'', ''backend_version'']"

text \<open>\<open>n * x\<close> for an integer and a float: the integer is converted first.\<close>

definition int_times :: "int \<Rightarrow> pyfloat \<Rightarrow> pyfloat res" where
  "int_times n x = bindR (float_of_int n) (\<lambda>y. Inr (fmul y x))"

definition coefficient :: "pyval \<Rightarrow> string \<Rightarrow> pyfloat res" where
  "coefficient coefficients name = bindR (vitem coefficients name) py_float"

text \<open>The conversions and the prediction inside the \<open>try\<close>.\<close>

definition validation_numbers :: "pyval \<Rightarrow> pydict \<Rightarrow> pydict \<Rightarrow> (int \<times> int \<times> pyfloat \<times> pyfloat) res" where
  "validation_numbers coefficients outcome candidate =
     bindR (bindR (vitem (VDict outcome) ''prompt_tokens'') py_int) (\<lambda>prompt.
     bindR (bindR (vitem (VDict outcome) ''observed_matched_tokens'') py_int) (\<lambda>matched.
     bindR (bindR (vitem (VDict outcome) ''ttft_ms'') py_float) (\<lambda>actual.
     bindR (py_float (dget_or candidate ''queue_depth'' (VInt 0))) (\<lambda>queue.
     bindR (py_float (dget_or candidate ''kv_pressure'' (VInt 0))) (\<lambda>pressure.
     bindR (coefficient coefficients ''intercept_ms'') (\<lambda>c0.
     bindR (coefficient coefficients ''uncached_token_ms'') (\<lambda>c1. bindR (int_times (prompt - matched) c1) (\<lambda>t1.
     bindR (coefficient coefficients ''cached_token_ms'') (\<lambda>c2. bindR (int_times matched c2) (\<lambda>t2.
     bindR (coefficient coefficients ''queue_penalty_ms'') (\<lambda>c3.
     bindR (coefficient coefficients ''kv_pressure_penalty_ms'') (\<lambda>c4.
     Inr (prompt, matched, actual, fadd (fadd (fadd (fadd c0 t1) t2) (fmul queue c3)) (fmul pressure c4))))))))))))))"

text \<open>\<open>except (KeyError, TypeError, ValueError)\<close>.\<close>

fun catch_ktv :: "'a res \<Rightarrow> 'a option res" where
  "catch_ktv (Inl KeyError) = Inr None"
| "catch_ktv r = catch_tv r"

text \<open>The actual and the predicted time of an eligible outcome, nothing for a skipped one.\<close>

definition validate_outcome ::
  "pydict \<Rightarrow> pyval \<Rightarrow> (pyval \<times> pydict) list \<Rightarrow> pydict \<Rightarrow> (pyfloat \<times> pyfloat) option res" where
  "validate_outcome artifact coefficients decisions outcome =
     bindR (hash_key (dget_or outcome ''request_id'' VNone)) (\<lambda>k.
     let decision = (case dget decisions k of None \<Rightarrow> [] | Some d \<Rightarrow> d) in
     bindR (find_candidate decision (py_str (dget_or outcome ''actual_backend'' (VStr [])))) (\<lambda>candidate.
     case candidate of
       None \<Rightarrow> Inr None
     | Some c \<Rightarrow>
         if decision = [] \<or> c = [] \<or> \<not> truthy (dget_or outcome ''success'' VNone) \<or> \<not> artifact_dimensions artifact outcome
         then Inr None
         else bindR (catch_ktv (validation_numbers coefficients outcome c)) (\<lambda>ns.
              case ns of
                None \<Rightarrow> Inr None
              | Some (prompt, matched, actual, predicted) \<Rightarrow>
                  Inr (if prompt \<le> 0 \<or> matched < 0 \<or> prompt < matched \<or> fle actual (Fin 0) \<or>
                          \<not> (isfinite actual \<and> isfinite predicted)
                       then None else Some (actual, predicted)))))"

record validation =
  va_version :: pyval
  va_samples :: nat
  va_skipped :: nat
  va_mae :: pyfloat
  va_p95 :: pyfloat
  va_signed :: pyfloat
  va_status :: string

definition build_validation :: "pyfloat \<Rightarrow> pyfloat \<Rightarrow> pydict \<Rightarrow> (pyfloat \<times> pyfloat) option list \<Rightarrow> validation res" where
  "build_validation max_mae max_p95 artifact rs =
     (let pairs = List.map_filter id rs; signed = map (\<lambda>(actual, predicted). fsub actual predicted) pairs;
          errors = map fabs signed in
      guardR (errors = []) (ValueError ''no eligible held-out outcome samples'') (
      bindR (float_mean errors) (\<lambda>mae. bindR (ttft_percentile errors (fl (95 / 100))) (\<lambda>p95.
      bindR (vitem (VDict artifact) ''predictor_version'') (\<lambda>version. bindR (float_mean signed) (\<lambda>sm.
      Inr \<lparr>va_version = version, va_samples = length errors, va_skipped = length (filter (\<lambda>r. r = None) rs), va_mae = mae,
           va_p95 = p95, va_signed = sm,
           va_status = (if fle mae max_mae \<and> fle p95 max_p95 then ''HELD_OUT_PASS'' else ''HELD_OUT_FAIL'')\<rparr>))))))"

definition validate_predictor ::
  "pyfloat \<Rightarrow> pyfloat \<Rightarrow> pyval \<Rightarrow> pyval list \<Rightarrow> pyval list \<Rightarrow> validation res" where
  "validate_predictor max_mae max_p95 artifact_v decision_lines outcome_lines =
     bindR (vitem artifact_v ''coefficients'') (\<lambda>coefficients.
     bindR (strict_rows decision_lines) (\<lambda>decision_rows.
     bindR (index_rows (\<lambda>row. truthy (dget_or row ''request_id'' VNone)) decision_rows) (\<lambda>decisions.
     bindR (strict_rows outcome_lines) (\<lambda>outcomes.
     case artifact_v of
       VDict artifact \<Rightarrow>
         bindR (mapR (validate_outcome artifact coefficients decisions) outcomes) (build_validation max_mae max_p95 artifact)
     | _ \<Rightarrow> Inl AttributeError))))"

section \<open>Facts\<close>

lemma sample_counts:
  "length (used_samples ss) + count_samples MissingDecision ss + count_samples MissingObservedCache ss +
   count_samples Unsuccessful ss + count_samples DimensionMismatch ss + count_samples Invalid ss = length ss"
proof (induction ss)
  case (Cons s ss)
  then show ?case by (cases s) (simp_all add: count_samples_def)
qed (simp add: count_samples_def)

lemma map_filter_None: "length (List.map_filter id rs) + length (filter (\<lambda>r. r = None) rs) = length rs"
  by (induction rs) (auto simp: map_filter_def)

lemma strict_rows_length: "strict_rows vs = Inr ds \<Longrightarrow> length ds = length vs"
  by (simp add: strict_rows_def mapR_Inr_length)

text \<open>A sample's features are the intercept, two nonnegative token counts and two finite numbers; its target is positive.\<close>

definition sound_sample :: "pyfloat list \<times> pyfloat \<Rightarrow> bool" where
  "sound_sample s \<longleftrightarrow>
     (case s of ([one, uncached, cached, queue, pressure], target) \<Rightarrow>
        one = Fin 1 \<and> fle (Fin 0) uncached \<and> fle (Fin 0) cached \<and> isfinite uncached \<and> isfinite cached \<and>
        isfinite queue \<and> isfinite pressure \<and> isfinite target \<and> \<not> fle target (Fin 0)
      | _ \<Rightarrow> False)"

lemma float_of_int_nonneg: "float_of_int n = Inr x \<Longrightarrow> 0 \<le> n \<Longrightarrow> isfinite x \<and> fle (Fin 0) x"
  using fl_nonneg [of "of_int n"] by (cases "fl (of_int n)") (auto simp: float_of_int_def)

lemma classify_sound:
  assumes "classify_outcome d decisions outcome = Inr (Sample row target)"
  shows "sound_sample (row, target)"
proof -
  have c: "sound_sample (row, target)" if "checked_sample candidate ns = Inr (Sample row target)" for candidate ns
    using that float_of_int_nonneg
    by (auto simp: checked_sample_def bindR_eq_Inr sound_sample_def split: if_splits prod.splits)
  have "\<exists>candidate ns. checked_sample candidate ns = Inr (Sample row target)"
  proof -
    from assms obtain k where k: "(case dget decisions k of
       None \<Rightarrow> Inr MissingDecision
     | Some decision \<Rightarrow>
         if \<not> truthy (dget_or outcome ''success'' (VBool False)) then Inr Unsuccessful
         else if \<not> dimensions_match d outcome then Inr DimensionMismatch
         else
           let matched = dget_or outcome ''observed_matched_tokens'' VNone in
           if matched = VNone then Inr MissingObservedCache
           else bindR (find_candidate decision (py_str (dget_or outcome ''actual_backend'' (VStr [])))) (\<lambda>candidate.
                bindR (catch_tv (sample_numbers outcome matched (case candidate of None \<Rightarrow> [] | Some c \<Rightarrow> c))) (\<lambda>ns.
                case ns of None \<Rightarrow> Inr Invalid | Some x \<Rightarrow> checked_sample candidate x))) = Inr (Sample row target)"
      by (auto simp: classify_outcome_def bindR_eq_Inr)
    show ?thesis
    proof (cases "dget decisions k")
      case (Some decision)
      from k Some obtain candidate ns where
        "(case ns of None \<Rightarrow> Inr Invalid | Some x \<Rightarrow> checked_sample candidate x) = Inr (Sample row target)"
        by (auto simp: Let_def bindR_eq_Inr split: if_split_asm)
      then have "\<exists>x. checked_sample candidate x = Inr (Sample row target)" 
        by (cases ns) (simp, metis option.simps(5))
      then show ?thesis by blast
    qed (use k in simp)
  qed
  with c show ?thesis by blast
qed

lemma used_mem: "s \<in> set (used_samples ss) \<Longrightarrow> Sample (fst s) (snd s) \<in> set ss"
  by (induction ss rule: used_samples.induct) auto

lemma length_eliminate: "eliminate_column k a = Inr b \<Longrightarrow> length b = length a"
  by (auto simp: eliminate_column_def Let_def bindR_eq_Inr swap_rows_def split: if_splits)

lemma solve_length:
  assumes "solve matrix vec = Inr xs" "length matrix = length vec"
  shows "length xs = length vec"
proof -
  from assms(1) obtain a where a: "foldR eliminate_column [0..<length vec] (map2 (\<lambda>row v. row @ [v]) matrix vec) = Inr a"
    "xs = map last a" by (auto simp: solve_def bindR_eq_Inr)
  have "length a = length (map2 (\<lambda>row v. row @ [v]) matrix vec)"
    by (rule foldR_invariant [OF a(1), where I = "\<lambda>x. length x = length (map2 (\<lambda>row v. row @ [v]) matrix vec)"])
       (simp_all add: length_eliminate)
  with a(2) assms(2) show ?thesis by simp
qed

lemma accumulate_length:
  "list_all (\<lambda>s. length (fst s) = n) samples \<Longrightarrow> length m = n \<Longrightarrow> length v = n \<Longrightarrow>
   length (fst (fold accumulate_sample samples (m, v))) = n \<and> length (snd (fold accumulate_sample samples (m, v))) = n"
proof (induction samples arbitrary: m v)
  case (Cons s samples)
  obtain m' v' where a: "accumulate_sample s (m, v) = (m', v')" by force
  then have "length m' = n" "length v' = n" using Cons.prems by (auto simp: accumulate_sample_def split: prod.splits)
  with Cons.IH [of m' v'] Cons.prems a show ?case by simp
qed simp

lemma sound_sample_length: "sound_sample s \<Longrightarrow> length (fst s) = 5"
  by (cases s) (auto simp: sound_sample_def split: list.split_asm)

lemma fit_shape:
  assumes "fit samples ridge = Inr cs" "list_all sound_sample samples"
  shows "length cs = 5 \<and> list_all (fle (Fin 0)) cs"
proof -
  have "list_all (\<lambda>s. length (fst s) = 5) samples"
    using assms(2) sound_sample_length by (auto simp: list_all_iff)
  then have l: "length (fst (fold accumulate_sample samples (replicate 5 (replicate 5 (Fin 0)), replicate 5 (Fin 0)))) = 5"
      "length (snd (fold accumulate_sample samples (replicate 5 (replicate 5 (Fin 0)), replicate 5 (Fin 0)))) = 5"
    using accumulate_length by simp_all
  have five: "length feature_names = 5" by (simp add: feature_names_def)
  from assms(1) obtain xs mean where x: "solve (add_ridge ridge
        (fst (fold accumulate_sample samples (replicate 5 (replicate 5 (Fin 0)), replicate 5 (Fin 0)))))
        (snd (fold accumulate_sample samples (replicate 5 (replicate 5 (Fin 0)), replicate 5 (Fin 0)))) = Inr xs"
      "cs = py_max (Fin 0) mean # map (py_max (Fin 0)) (tl xs)"
    by (auto simp: fit_def five bindR_eq_Inr Let_def split: prod.splits)
  then have "length xs = 5" using solve_length [OF x(1)] l by (simp add: add_ridge_def)
  moreover have "fle (Fin 0) (py_max (Fin 0) y)" for y by (auto simp: py_max_def flt_imp_fle)
  ultimately show ?thesis using x(2) by (auto simp: list_all_iff)
qed

lemma build_predictorD:
  assumes "build_predictor d ridge nd no ss = Inr r"
  shows "pr_outcomes r = no" "pr_used r = length (used_samples ss)" "5 \<le> pr_used r"
    "pr_used r + pr_missing_decision r + pr_missing_cache r + pr_unsuccessful r + pr_dimension_mismatch r + pr_invalid r =
       length ss"
    "\<exists>cs. fit (used_samples ss) ridge = Inr cs \<and> pr_coefficients r = zip feature_names cs @ [(''slo_scale_ms'', Fin 25)]"
  using assms sample_counts [of ss]
  by (auto simp: build_predictor_def bindR_eq_Inr guardR_eq_Inr Let_def feature_names_def)

section \<open>Properties\<close>

text \<open>
  A fitted predictor accounts for every outcome row: each is used or counted under exactly one
  reason to skip it, at least five are used, and every used one is sound: nonnegative token counts, finite
  numbers and a positive time.
\<close>

theorem fit_accounts:
  assumes "fit_from_journal d ridge decision_lines outcome_lines = Inr r"
  shows "pr_outcomes r = length outcome_lines \<and> 5 \<le> pr_used r \<and>
     pr_used r + pr_missing_decision r + pr_missing_cache r + pr_unsuccessful r + pr_dimension_mismatch r + pr_invalid r =
       pr_outcomes r \<and>
     (\<exists>decisions outcomes ss. strict_rows outcome_lines = Inr outcomes \<and>
        mapR (classify_outcome d decisions) outcomes = Inr ss \<and> pr_used r = length (used_samples ss) \<and>
        list_all sound_sample (used_samples ss))"
proof -
  from assms obtain decisions outcomes ss where
    o': "strict_rows outcome_lines = Inr outcomes" and ss: "mapR (classify_outcome d decisions) outcomes = Inr ss"
    and b: "build_predictor d ridge (length decisions) (length outcomes) ss = Inr r"
    by (auto simp: fit_from_journal_def bindR_eq_Inr)
  have "list_all sound_sample (used_samples ss)"
    using mapR_Inr_set [OF ss] used_mem classify_sound by (fastforce simp: list_all_iff)
  then show ?thesis
    using build_predictorD [OF b] o' ss strict_rows_length [OF o'] mapR_Inr_length [OF ss] by auto
qed

text \<open>
  Property C36.  A fitted predictor has exactly the five named coefficients and the scale, none of them
  negative or undefined, whatever the solver returned; so its prediction is never negative either.
\<close>

theorem fitted_coefficients_sound:
  assumes "fit_from_journal d ridge decision_lines outcome_lines = Inr r"
  shows "map fst (pr_coefficients r) = feature_names @ [''slo_scale_ms''] \<and>
     list_all (fle (Fin 0)) (map snd (pr_coefficients r)) \<and> fle (Fin 0) (predict row (take 5 (map snd (pr_coefficients r))))"
proof -
  from assms obtain decisions outcomes ss where
    ss: "mapR (classify_outcome d decisions) outcomes = Inr ss"
    and b: "build_predictor d ridge (length decisions) (length outcomes) ss = Inr r"
    by (auto simp: fit_from_journal_def bindR_eq_Inr)
  have "list_all sound_sample (used_samples ss)"
    using mapR_Inr_set [OF ss] used_mem classify_sound by (fastforce simp: list_all_iff)
  moreover obtain cs where cs: "fit (used_samples ss) ridge = Inr cs"
      "pr_coefficients r = zip feature_names cs @ [(''slo_scale_ms'', Fin 25)]"
    using build_predictorD(5) [OF b] by blast
  ultimately have "length cs = 5 \<and> list_all (fle (Fin 0)) cs" using fit_shape by blast
  then show ?thesis using cs(2) by (auto simp: feature_names_def predict_def py_max_def flt_imp_fle)
qed

text \<open>
  A held-out validation accounts for every outcome row, uses at least one, and passes exactly when
  the mean and the 95th percentile of the absolute errors are within the thresholds.
\<close>

theorem validation_accounts:
  assumes "validate_predictor max_mae max_p95 artifact decision_lines outcome_lines = Inr v"
  shows "va_samples v + va_skipped v = length outcome_lines \<and> 0 < va_samples v \<and>
     (va_status v = ''HELD_OUT_PASS'' \<longleftrightarrow> fle (va_mae v) max_mae \<and> fle (va_p95 v) max_p95)"
proof -
  from assms obtain a coefficients decisions outcomes rs where
    o': "strict_rows outcome_lines = Inr outcomes"
    and rs: "mapR (validate_outcome a coefficients decisions) outcomes = Inr rs"
    and b: "build_validation max_mae max_p95 a rs = Inr v"
    by (cases artifact) (auto simp: validate_predictor_def bindR_eq_Inr)
  show ?thesis
    using b strict_rows_length [OF o'] mapR_Inr_length [OF rs] map_filter_None [of rs]
    by (auto simp: build_validation_def bindR_eq_Inr guardR_eq_Inr Let_def split: if_split_asm)
qed

section \<open>Witnesses\<close>

text \<open>A journal with one decision and outcomes of one token served in 8 ms.\<close>

definition sample_features :: "pyfloat list" where
  "sample_features = [Fin 1, Fin 1, Fin 0, Fin 0, Fin 0]"

lemma sample_matrix:
  "fold accumulate_sample (replicate 5 (sample_features, Fin 8)) (replicate 5 (replicate 5 (Fin 0)), replicate 5 (Fin 0)) =
     ([[Fin 5, Fin 5, Fin 0, Fin 0, Fin 0], [Fin 5, Fin 5, Fin 0, Fin 0, Fin 0], replicate 5 (Fin 0), replicate 5 (Fin 0),
       replicate 5 (Fin 0)], [Fin 40, Fin 40, Fin 0, Fin 0, Fin 0])"
  by (simp add: accumulate_sample_def sample_features_def numeral_eq_Suc float_simps)

lemma eps_unit: "\<not> flt (Fin 1) (fl (1 / 10 ^ 12))" "\<not> flt (Fin 5) (fl (1 / 10 ^ 12))" "\<not> flt (Fin 2) (fl (1 / 10 ^ 12))"
proof -
  have e: "fle (fl (1 / 10 ^ 12)) (Fin 1)" by (rule fl_le_1) simp
  show "\<not> flt (Fin 1) (fl (1 / 10 ^ 12))" "\<not> flt (Fin 5) (fl (1 / 10 ^ 12))" "\<not> flt (Fin 2) (fl (1 / 10 ^ 12))"
    using e by (cases "fl (1 / 10 ^ 12)"; simp)+
qed

lemma sample_solve:
  "solve (add_ridge (Fin 1) [[Fin 5, Fin 5, Fin 0, Fin 0, Fin 0], [Fin 5, Fin 5, Fin 0, Fin 0, Fin 0], replicate 5 (Fin 0),
     replicate 5 (Fin 0), replicate 5 (Fin 0)]) [Fin 40, Fin 40, Fin 0, Fin 0, Fin 0] = Inr [Fin 8, Fin 0, Fin 0, Fin 0, Fin 0]"
proof -
  have r: "add_ridge (Fin 1) [[Fin 5, Fin 5, Fin 0, Fin 0, Fin 0], [Fin 5, Fin 5, Fin 0, Fin 0, Fin 0], replicate 5 (Fin 0),
     replicate 5 (Fin 0), replicate 5 (Fin 0)] =
    [[Fin 5, Fin 5, Fin 0, Fin 0, Fin 0], [Fin 5, Fin 6, Fin 0, Fin 0, Fin 0], [Fin 0, Fin 0, Fin 1, Fin 0, Fin 0],
     [Fin 0, Fin 0, Fin 0, Fin 1, Fin 0], [Fin 0, Fin 0, Fin 0, Fin 0, Fin 1]]"
    by (simp add: add_ridge_def numeral_eq_Suc upt_rec float_simps)
  let ?z = "[[Fin 0, Fin 0, Fin 1, Fin 0, Fin 0, Fin 0], [Fin 0, Fin 0, Fin 0, Fin 1, Fin 0, Fin 0],
     [Fin 0, Fin 0, Fin 0, Fin 0, Fin 1, Fin 0]]"
  let ?r0 = "[Fin 1, Fin 0, Fin 0, Fin 0, Fin 0, Fin 8]" and ?r1 = "[Fin 0, Fin 1, Fin 0, Fin 0, Fin 0, Fin 0]"
  have c0: "eliminate_column 0 ([[Fin 5, Fin 5, Fin 0, Fin 0, Fin 0, Fin 40], [Fin 5, Fin 6, Fin 0, Fin 0, Fin 0, Fin 40]] @ ?z) =
      Inr ([[Fin 1, Fin 1, Fin 0, Fin 0, Fin 0, Fin 8], ?r1] @ ?z)"
    using eps_unit
    by (simp add: eliminate_column_def pivot_row_def swap_rows_def reduce_row_def fabs_def fdiv_def fsub_def upt_rec float_simps Let_def)
  have c1: "eliminate_column 1 ([[Fin 1, Fin 1, Fin 0, Fin 0, Fin 0, Fin 8], ?r1] @ ?z) = Inr ([?r0, ?r1] @ ?z)"
    using eps_unit
    by (simp add: eliminate_column_def pivot_row_def swap_rows_def reduce_row_def fabs_def fdiv_def fsub_def upt_rec float_simps Let_def)
  have c2: "eliminate_column 2 ([?r0, ?r1] @ ?z) = Inr ([?r0, ?r1] @ ?z)"
    "eliminate_column 3 ([?r0, ?r1] @ ?z) = Inr ([?r0, ?r1] @ ?z)"
    "eliminate_column 4 ([?r0, ?r1] @ ?z) = Inr ([?r0, ?r1] @ ?z)"
    using eps_unit
    by (simp_all add: eliminate_column_def pivot_row_def swap_rows_def reduce_row_def fabs_def fdiv_def fsub_def upt_rec float_simps
        Let_def)
  show ?thesis unfolding r using c0 c1 c2 by (simp add: solve_def upt_rec numeral_eq_Suc)
qed

lemma sample_fit:
  "fit (replicate 5 (sample_features, Fin 8)) (Fin 1) = Inr [Fin 8, Fin 0, Fin 0, Fin 0, Fin 0]"
proof -
  have l: "length feature_names = 5" by (simp add: feature_names_def)
  have m: "py_max (Fin 0) (Fin 0) = Fin 0" "py_max (Fin 0) (Fin 8) = Fin 8" by (simp_all add: py_max_def)
  have d: "dot (tl sample_features) [Fin 0, Fin 0, Fin 0, Fin 0] = Fin 0"
    by (simp add: dot_def sample_features_def py_sum_def sum_step_def fabs_def fsub_def Let_def)
  have s: "py_sum (replicate 5 (Fin 8)) = Fin 40"
    by (simp add: py_sum_def sum_step_def fabs_def fsub_def Let_def numeral_eq_Suc float_simps)
  have f: "fsub (Fin 8) (Fin 0) = Fin 8" "fdiv (Fin 40) (Fin 5) = Inr (Fin 8)" by (simp_all add: fsub_def fdiv_def float_simps)
  show ?thesis
    unfolding fit_def l sample_matrix Let_def prod.case sample_solve
    by (simp add: m d s f map_replicate)
qed

lemma sample_errors: "predict sample_features [Fin 8, Fin 0, Fin 0, Fin 0, Fin 0] = Fin 8"
  by (simp add: predict_def dot_def sample_features_def py_sum_def sum_step_def fabs_def fsub_def Let_def py_max_def float_simps)

lemma sample_percentile: "\<exists>x. ttft_percentile (replicate 5 (Fin 0)) (fl (95 / 100)) = Inr x"
proof -
  obtain q where q: "fl (95 / 100) = Fin q" "0 \<le> q" "q \<le> 1"
    using fl_nonneg [of "95 / 100"] fl_le_1 [of "95 / 100"] by (cases "fl (95 / 100)") auto
  obtain p where p: "fmul (Fin q) (Fin 4) = Fin p" "0 \<le> p" "p \<le> 4"
    using fmul_unit_index [of q 5] q by auto
  have "py_sorted (replicate 5 (Fin 0)) = replicate 5 (Fin 0)" by (simp add: py_sorted_def numeral_eq_Suc)
  moreover have nth: "\<exists>x. py_nth (replicate 5 (Fin 0)) i = Inr x" if "0 \<le> i" "i \<le> 4" for i
    using that by (simp add: py_nth_def)
  have "0 \<le> \<lfloor>p\<rfloor>" "\<lfloor>p\<rfloor> \<le> 4" "0 \<le> \<lceil>p\<rceil>" "\<lceil>p\<rceil> \<le> 4"
    using p by (auto simp: ceiling_le_iff floor_le_iff)
  then obtain a b where "py_nth (replicate 5 (Fin 0)) \<lfloor>p\<rfloor> = Inr a" "py_nth (replicate 5 (Fin 0)) \<lceil>p\<rceil> = Inr b"
    using nth by meson
  ultimately show ?thesis using q(1) p(1)
    by (auto simp: ttft_percentile_def interpolate_def numeral_eq_Suc split: list.split)
qed

definition journal_decision :: pyval where
  "journal_decision = VDict [(''request_id'', VStr ''r''), (''candidates'', VList [VDict [(''backend_id'', VStr ''b'')]])]"

definition journal_outcome :: pydict where
  "journal_outcome = [(''request_id'', VStr ''r''), (''success'', VBool True), (''model'', VStr ''m''), (''gpu_type'', VStr ''g''),
     (''backend_engine'', VStr ''e''), (''backend_version'', VStr ''v''), (''observed_matched_tokens'', VInt 0),
     (''actual_backend'', VStr ''b''), (''prompt_tokens'', VInt 1), (''ttft_ms'', VFloat (Fin 8))]"

definition journal_dimensions :: dimensions where
  "journal_dimensions = \<lparr>di_model = ''m'', di_gpu_type = ''g'', di_engine = ''e'', di_version = ''v''\<rparr>"

lemma journal_classified:
  "classify_outcome journal_dimensions [(VStr ''r'', [(''request_id'', VStr ''r''), (''candidates'', VList [VDict [(''backend_id'', VStr ''b'')]])])]
     journal_outcome = Inr (Sample sample_features (Fin 8))"
  by (simp add: classify_outcome_def journal_outcome_def journal_dimensions_def dget_or_def dget_def hash_key_def
      dimensions_match_def find_candidate_def sample_numbers_def checked_sample_def float_of_int_def float_simps
      sample_features_def)

lemma journal_index:
  "index_rows (\<lambda>row. truthy (dget_or row ''request_id'' VNone)) [[(''request_id'', VStr ''r''), (''candidates'', VList [VDict [(''backend_id'', VStr ''b'')]])]] =
   Inr [(VStr ''r'', [(''request_id'', VStr ''r''), (''candidates'', VList [VDict [(''backend_id'', VStr ''b'')]])])]"
  by (simp add: index_rows_def dget_or_def dget_def hash_key_def dset_def)

lemma journal_fit:
  "\<exists>r. fit_from_journal journal_dimensions (Fin 1) [journal_decision] (replicate 5 (VDict journal_outcome)) = Inr r"
proof -
  have m: "mapR f (replicate n x) = Inr (replicate n y)" if "f x = Inr y" for f :: "'a \<Rightarrow> 'b res" and x y n
    using that by (induction n) auto
  have u: "used_samples (replicate n (Sample a b)) = replicate n (a, b)" for n a b by (induction n) auto
  have e: "float_mean (replicate 5 (Fin 0)) = Inr (Fin 0)"
    by (simp add: float_mean_def py_sum_def sum_step_def fabs_def fsub_def Let_def numeral_eq_Suc fdiv_def)
  obtain x where x: "ttft_percentile (replicate 5 (Fin 0)) (fl (95 / 100)) = Inr x" using sample_percentile by blast
  have b: "\<exists>r. build_predictor journal_dimensions (Fin 1) 1 5 (replicate 5 (Sample sample_features (Fin 8))) = Inr r"
    using x by (simp add: build_predictor_def u sample_fit sample_errors feature_names_def fsub_def fabs_def float_simps e
        map_replicate Let_def)
  have s: "strict_rows [journal_decision] = Inr [[(''request_id'', VStr ''r''), (''candidates'', VList [VDict [(''backend_id'', VStr ''b'')]])]]"
    by (simp add: strict_rows_def journal_decision_def)
  have o': "strict_rows (replicate 5 (VDict journal_outcome)) = Inr (replicate 5 journal_outcome)"
    unfolding strict_rows_def by (rule m) simp
  have mc: "mapR (classify_outcome journal_dimensions [(VStr ''r'', [(''request_id'', VStr ''r''), (''candidates'', VList [VDict [(''backend_id'', VStr ''b'')]])])])
      (replicate 5 journal_outcome) = Inr (replicate 5 (Sample sample_features (Fin 8)))"
    using journal_classified by (rule m)
  show ?thesis using b
    by (simp add: fit_from_journal_def s o' journal_index mc)
qed

theorem fit_accounts_witness:
  "\<exists>r. fit_from_journal journal_dimensions (Fin 1) [journal_decision] (replicate 5 (VDict journal_outcome)) = Inr r \<and>
     pr_outcomes r = 5 \<and> 5 \<le> pr_used r"
proof -
  obtain r where r: "fit_from_journal journal_dimensions (Fin 1) [journal_decision] (replicate 5 (VDict journal_outcome)) = Inr r"
    using journal_fit by blast
  with fit_accounts [OF r] show ?thesis by simp
qed

theorem fitted_coefficients_sound_witness:
  "\<exists>r. fit_from_journal journal_dimensions (Fin 1) [journal_decision] (replicate 5 (VDict journal_outcome)) = Inr r \<and>
     fle (Fin 0) (predict [Fin 1, Fin 2, Fin 3, Fin 0, Fin 0] (take 5 (map snd (pr_coefficients r))))"
proof -
  obtain r where r: "fit_from_journal journal_dimensions (Fin 1) [journal_decision] (replicate 5 (VDict journal_outcome)) = Inr r"
    using journal_fit by blast
  with fitted_coefficients_sound [OF r] show ?thesis by blast
qed

definition journal_artifact :: pyval where
  "journal_artifact = VDict [(''model'', VStr ''m''), (''gpu_type'', VStr ''g''), (''backend_engine'', VStr ''e''),
     (''backend_version'', VStr ''v''), (''predictor_version'', VStr ''x''),
     (''coefficients'', VDict [(''intercept_ms'', VFloat (Fin 8)), (''uncached_token_ms'', VFloat (Fin 0)),
       (''cached_token_ms'', VFloat (Fin 0)), (''queue_penalty_ms'', VFloat (Fin 0)), (''kv_pressure_penalty_ms'', VFloat (Fin 0))])]"

lemma journal_pair:
  assumes "journal_artifact = VDict a"
  shows "validate_outcome a (the (dget a ''coefficients'')) [(VStr ''r'', [(''request_id'', VStr ''r''), (''candidates'', VList [VDict [(''backend_id'', VStr ''b'')]])])]
     journal_outcome = Inr (Some (Fin 8, Fin 8))"
  using assms
  by (auto simp: validate_outcome_def journal_outcome_def journal_artifact_def dget_or_def dget_def hash_key_def
      find_candidate_def artifact_dimensions_def py_eq_def validation_numbers_def coefficient_def int_times_def
      float_of_int_def float_simps)

lemma journal_validation:
  "\<exists>v. validate_predictor (Fin 1) (Fin 1) journal_artifact [journal_decision] [VDict journal_outcome] = Inr v"
proof -
  obtain a where a: "journal_artifact = VDict a" by (simp add: journal_artifact_def)
  then have c: "vitem (VDict a) ''coefficients'' = Inr (the (dget a ''coefficients''))"
      "\<exists>x. vitem (VDict a) ''predictor_version'' = Inr x"
    by (auto simp: journal_artifact_def dget_def)
  have s: "strict_rows [journal_decision] = Inr [[(''request_id'', VStr ''r''), (''candidates'', VList [VDict [(''backend_id'', VStr ''b'')]])]]"
    "strict_rows [VDict journal_outcome] = Inr [journal_outcome]"
    by (simp_all add: strict_rows_def journal_decision_def)
  have b: "\<exists>v. build_validation (Fin 1) (Fin 1) a [Some (Fin 8, Fin 8)] = Inr v"
    using c(2) by (auto simp: build_validation_def map_filter_def fsub_def fabs_def float_mean_def py_sum_def sum_step_def Let_def
      fdiv_def ttft_percentile_def py_sorted_def)
  show ?thesis
    using b unfolding validate_predictor_def a c(1) s bindR_simps journal_index
    by (simp add: journal_pair [OF a])
qed

theorem validation_accounts_witness:
  "\<exists>v. validate_predictor (Fin 1) (Fin 1) journal_artifact [journal_decision] [VDict journal_outcome] = Inr v \<and>
     va_samples v + va_skipped v = 1"
proof -
  obtain v where v: "validate_predictor (Fin 1) (Fin 1) journal_artifact [journal_decision] [VDict journal_outcome] = Inr v"
    using journal_validation by blast
  with validation_accounts [OF v] show ?thesis by simp
qed

end
