(* ===== verification/WindowMetrics.thy ===== *)
theory WindowMetrics
  imports PyVal
begin

text \<open>
  \<open>benchmark/window_metrics.py\<close>: run entries, counter deltas between two snapshots, the evidence
  quality of a run and the summaries over runs.  Entries and snapshots are the dictionaries the
  program writes to and reads from JSON.
\<close>

section \<open>Keys and empty documents\<close>

definition default_prefix_hits_keys :: "string list" where
  "default_prefix_hits_keys = [''vllm:prefix_cache_hits_total'', ''vllm:prefix_cache_hits'',
     ''sglang:prefix_cache_hits_total'', ''sglang_prefix_cache_hits_total'', ''sglang:prefix_cache_hits'',
     ''sglang_prefix_cache_hits'', ''sglang:cached_tokens_total'', ''sglang_cached_tokens_total'']"

definition default_prefix_queries_keys :: "string list" where
  "default_prefix_queries_keys = [''vllm:prefix_cache_queries_total'', ''vllm:prefix_cache_queries'',
     ''sglang:prefix_cache_queries_total'', ''sglang_prefix_cache_queries_total'', ''sglang:prefix_cache_queries'',
     ''sglang_prefix_cache_queries'', ''sglang:prompt_tokens_total'', ''sglang_prompt_tokens_total'']"

definition exporter_last_success_keys :: "string list" where
  "exporter_last_success_keys = [''kvcache_exporter_scrape_last_success_timestamp_seconds'']"

definition empty_window :: pydict where
  "empty_window = [(''start_ts'', VNone), (''warmup_end_ts'', VNone), (''end_ts'', VNone)]"

definition empty_metric_snapshots :: pydict where
  "empty_metric_snapshots = [(''backend_before'', VNone), (''backend_after'', VNone), (''exporter_before'', VNone),
     (''exporter_after'', VNone)]"

definition empty_derived_window_metrics :: "string \<Rightarrow> pydict" where
  "empty_derived_window_metrics metric_source =
     [(''prefix_hits_delta'', VNone), (''prefix_queries_delta'', VNone), (''cache_hit_ratio_window'', VNone),
      (''metrics_missing'', VBool False), (''metrics_stale'', VBool False), (''metric_source'', VStr metric_source),
      (''evidence_quality'', VStr ''missing'')]"

definition make_metric_snapshot :: "pyfloat \<Rightarrow> pydict option \<Rightarrow> pyfloat option \<Rightarrow> string \<Rightarrow> pydict res" where
  "make_metric_snapshot now metrics ts error =
     bindR (mapR (\<lambda>(k, v). bindR (py_float v) (\<lambda>x. Inr (k, VFloat x)))
                 (case metrics of None \<Rightarrow> [] | Some m \<Rightarrow> m)) (\<lambda>ms.
     Inr [(''ts'', VFloat (case ts of Some t \<Rightarrow> t | None \<Rightarrow> now)), (''metrics'', VDict ms), (''error'', VStr error)])"

definition opt_v :: "pyfloat option \<Rightarrow> pyval" where
  "opt_v x = (case x of None \<Rightarrow> VNone | Some v \<Rightarrow> VFloat v)"

definition make_run_entry ::
  "int \<Rightarrow> pydict \<Rightarrow> pydict \<Rightarrow> pyfloat option \<Rightarrow> pyfloat option \<Rightarrow> pyfloat option \<Rightarrow> string \<Rightarrow> pydict" where
  "make_run_entry rep summary exporter_metrics start_ts warmup_end_ts end_ts metric_source =
     [(''repeat'', VInt rep),
      (''window'', VDict [(''start_ts'', opt_v start_ts), (''warmup_end_ts'', opt_v warmup_end_ts), (''end_ts'', opt_v end_ts)]),
      (''summary'', VDict summary), (''exporter_metrics'', VDict exporter_metrics),
      (''metric_snapshots'', VDict empty_metric_snapshots),
      (''derived_window_metrics'', VDict (empty_derived_window_metrics metric_source))]"

section \<open>Reading snapshots\<close>

definition pick_metric_with_name :: "pydict \<Rightarrow> string list \<Rightarrow> (pyfloat option \<times> string) res" where
  "pick_metric_with_name metrics candidates =
     (case find (dhas metrics) candidates of
        None \<Rightarrow> Inr (None, [])
      | Some name \<Rightarrow> bindR (vitem (VDict metrics) name) (\<lambda>v. bindR (py_float v) (\<lambda>x. Inr (Some x, name))))"

definition pick_metric :: "pydict \<Rightarrow> string list \<Rightarrow> pyfloat option res" where
  "pick_metric metrics candidates = bindR (pick_metric_with_name metrics candidates) (\<lambda>r. Inr (fst r))"

definition metric_from_snapshot :: "pydict option \<Rightarrow> string list \<Rightarrow> pyfloat option res" where
  "metric_from_snapshot snapshot candidates =
     (case snapshot of
        None \<Rightarrow> Inr None
      | Some [] \<Rightarrow> Inr None
      | Some s \<Rightarrow> (case dget_or s ''metrics'' (VDict []) of VDict m \<Rightarrow> pick_metric m candidates | _ \<Rightarrow> Inr None))"

definition snapshot_has_error :: "pydict option \<Rightarrow> bool" where
  "snapshot_has_error snapshot =
     (case snapshot of None \<Rightarrow> False | Some s \<Rightarrow> s \<noteq> [] \<and> truthy (dget_or s ''error'' (VStr [])))"

definition compute_counter_delta :: "pyfloat option \<Rightarrow> pyfloat option \<Rightarrow> pyfloat option" where
  "compute_counter_delta before after =
     (case (before, after) of
        (Some b, Some a) \<Rightarrow> if flt a b then None else Some (fsub a b)
      | _ \<Rightarrow> None)"

definition compute_hit_ratio_from_deltas :: "pyfloat option \<Rightarrow> pyfloat option \<Rightarrow> pyfloat option res" where
  "compute_hit_ratio_from_deltas hits_delta queries_delta =
     (case (hits_delta, queries_delta) of
        (Some h, Some q) \<Rightarrow>
          if fle q (Fin 0) then Inr None
          else bindR (fdiv h q) (\<lambda>r. Inr (Some (py_max (Fin 0) (py_min (Fin 1) r))))
      | _ \<Rightarrow> Inr None)"

definition token_fallback_names :: "string list" where
  "token_fallback_names = [''sglang:cached_tokens_total'', ''sglang_cached_tokens_total'',
     ''sglang:prompt_tokens_total'', ''sglang_prompt_tokens_total'']"

definition snapshot_metrics :: "pydict option \<Rightarrow> pyval" where
  "snapshot_metrics snapshot = (case snapshot of None \<Rightarrow> VDict [] | Some s \<Rightarrow> dget_or s ''metrics'' (VDict []))"

definition pick_from :: "pyval \<Rightarrow> string list \<Rightarrow> (pyfloat option \<times> string) res" where
  "pick_from metrics keys = (case metrics of VDict m \<Rightarrow> pick_metric_with_name m keys | _ \<Rightarrow> Inr (None, []))"

text \<open>A counter that is absent before and present after counts from zero unless the first scrape failed.\<close>

definition default_before :: "pydict option \<Rightarrow> pyfloat option \<Rightarrow> pyfloat option \<Rightarrow> pyfloat option" where
  "default_before before_snapshot before after =
     (if before = None \<and> after \<noteq> None \<and> \<not> snapshot_has_error before_snapshot then Some (Fin 0) else before)"

definition window_evidence :: "pyfloat option \<Rightarrow> string list \<Rightarrow> string \<Rightarrow> string \<Rightarrow> string" where
  "window_evidence ratio names hits_after_name queries_after_name =
     (let selected = filter (\<lambda>n. n \<noteq> []) names
      in if ratio \<noteq> None \<and> selected \<noteq> [] \<and> set selected \<subseteq> set token_fallback_names then ''fallback''
         else if ratio \<noteq> None \<and> hits_after_name \<noteq> [] \<and> queries_after_name \<noteq> [] then ''strict''
         else ''missing'')"

definition derive_window_metrics ::
  "pydict option \<Rightarrow> pydict option \<Rightarrow> string list \<Rightarrow> string list \<Rightarrow> string \<Rightarrow> pydict res" where
  "derive_window_metrics before_snapshot after_snapshot prefix_hits_keys prefix_queries_keys metric_source =
     bindR (pick_from (snapshot_metrics before_snapshot) prefix_hits_keys) (\<lambda>(hb0, hb_name).
     bindR (pick_from (snapshot_metrics after_snapshot) prefix_hits_keys) (\<lambda>(ha, ha_name).
     bindR (pick_from (snapshot_metrics before_snapshot) prefix_queries_keys) (\<lambda>(qb0, qb_name).
     bindR (pick_from (snapshot_metrics after_snapshot) prefix_queries_keys) (\<lambda>(qa, qa_name).
     let hb = default_before before_snapshot hb0 ha; qb = default_before before_snapshot qb0 qa;
         hits_delta = compute_counter_delta hb ha; queries_delta = compute_counter_delta qb qa in
     bindR (compute_hit_ratio_from_deltas hits_delta queries_delta) (\<lambda>ratio.
     Inr [(''prefix_hits_delta'', opt_v hits_delta), (''prefix_queries_delta'', opt_v queries_delta),
          (''cache_hit_ratio_window'', opt_v ratio),
          (''metrics_missing'', VBool (list_ex (\<lambda>v. v = None) [hb, ha, qb, qa] \<or> ratio = None)),
          (''metrics_stale'', VBool False), (''metric_source'', VStr metric_source),
          (''evidence_quality'', VStr (window_evidence ratio [hb_name, ha_name, qb_name, qa_name] ha_name qa_name))])))))"

definition snapshot_is_stale :: "pydict option \<Rightarrow> pyfloat \<Rightarrow> string list \<Rightarrow> bool res" where
  "snapshot_is_stale snapshot reference_ts freshness_keys =
     bindR (metric_from_snapshot snapshot freshness_keys) (\<lambda>last_success.
     Inr (case last_success of None \<Rightarrow> True | Some t \<Rightarrow> flt t reference_ts))"

section \<open>The quality of an entry\<close>

definition is_one :: "pyfloat option \<Rightarrow> bool" where
  "is_one x = (case x of None \<Rightarrow> False | Some v \<Rightarrow> feq v (Fin 1))"

definition exporter_evidence_quality :: "pydict \<Rightarrow> string res" where
  "exporter_evidence_quality entry =
     (case dget_or entry ''exporter_metrics'' (VDict []) of
        VDict m \<Rightarrow>
          bindR (coerce_finite_float (dget_or m ''kvcache_exporter_prefix_metric_comparable'' VNone)) (\<lambda>c.
          if is_one c then Inr ''strict'' else
          bindR (coerce_finite_float (dget_or m ''kvcache_exporter_prefix_metric_estimated'' VNone)) (\<lambda>e.
          if is_one e then Inr ''estimated'' else
          bindR (coerce_finite_float (dget_or m ''kvcache_exporter_prefix_metric_token_fallback'' VNone)) (\<lambda>f.
          Inr (if is_one f then ''fallback'' else ''missing''))))
      | _ \<Rightarrow> Inr ''missing'')"

definition get_entry_evidence_quality :: "pydict \<Rightarrow> string res" where
  "get_entry_evidence_quality entry =
     (case dget_or entry ''derived_window_metrics'' (VDict []) of
        VDict d \<Rightarrow>
          let q = py_str (dget_or d ''evidence_quality'' (VStr ''missing''))
          in if q \<in> {''strict'', ''estimated'', ''fallback''} then Inr q else exporter_evidence_quality entry
      | _ \<Rightarrow> exporter_evidence_quality entry)"

text \<open>The one value of a list of names, \<open>mixed\<close> for several.\<close>

definition single_or_mixed :: "string list \<Rightarrow> string" where
  "single_or_mixed qs = (case remdups qs of [] \<Rightarrow> ''missing'' | [q] \<Rightarrow> q | _ \<Rightarrow> ''mixed'')"

definition summarize_evidence_quality :: "pydict list \<Rightarrow> string res" where
  "summarize_evidence_quality entries = bindR (mapR get_entry_evidence_quality entries) (\<lambda>qs. Inr (single_or_mixed qs))"

definition at_least_half :: "pyfloat option \<Rightarrow> bool" where
  "at_least_half x = (case x of None \<Rightarrow> False | Some v \<Rightarrow> fle (Fin (1 / 2)) v)"

definition get_entry_prefix_metric_check :: "pydict \<Rightarrow> string res" where
  "get_entry_prefix_metric_check entry =
     bindR (get_entry_evidence_quality entry) (\<lambda>q.
     if q = ''strict'' then Inr ''strict''
     else if q = ''fallback'' then Inr ''token_fallback''
     else if q = ''estimated'' then Inr ''other''
     else (case dget_or entry ''exporter_metrics'' (VDict []) of
        VDict m \<Rightarrow>
          bindR (coerce_finite_float (dget_or m ''kvcache_exporter_prefix_metric_comparable'' VNone)) (\<lambda>c.
          bindR (coerce_finite_float (dget_or m ''kvcache_exporter_prefix_metric_token_fallback'' VNone)) (\<lambda>f.
          let cp = dhas m ''kvcache_exporter_prefix_metric_comparable'';
              fp = dhas m ''kvcache_exporter_prefix_metric_token_fallback''
          in Inr (if cp \<and> at_least_half c then ''strict''
                  else if fp \<and> at_least_half f then ''token_fallback''
                  else if cp \<or> fp then ''other'' else ''missing'')))
      | _ \<Rightarrow> Inr ''missing''))"

definition get_entry_hit_ratio_quality_and_source :: "pydict \<Rightarrow> (pyfloat option \<times> string \<times> string) res" where
  "get_entry_hit_ratio_quality_and_source entry =
     (case dget entry ''derived_window_metrics'' of
        Some (VDict d) \<Rightarrow>
          bindR (coerce_finite_float (dget_or d ''cache_hit_ratio_window'' VNone)) (\<lambda>v.
          let stale = truthy (dget_or d ''metrics_stale'' (VBool False))
          in Inr (if v \<noteq> None then (v, if stale then ''stale'' else ''ok'', ''window'')
                  else if stale then (None, ''stale'', ''window'') else (None, ''missing'', ''window'')))
      | Some _ \<Rightarrow> Inr (None, ''missing'', ''window'')
      | None \<Rightarrow>
          (case dget_or entry ''exporter_metrics'' (VDict []) of
             VDict m \<Rightarrow>
               bindR (coerce_finite_float (dget_or m ''kvcache_kv_cache_hit_ratio'' VNone)) (\<lambda>v.
               Inr (if v \<noteq> None then (v, ''ok'', ''snapshot_fallback'') else (None, ''missing'', ''missing'')))
           | _ \<Rightarrow> Inr (None, ''missing'', ''missing'')))"

definition get_entry_hit_ratio_and_quality :: "pydict \<Rightarrow> (pyfloat option \<times> string) res" where
  "get_entry_hit_ratio_and_quality entry =
     bindR (get_entry_hit_ratio_quality_and_source entry) (\<lambda>(v, q, _). Inr (v, q))"

definition summarize_entry_quality :: "pydict \<Rightarrow> pydict res" where
  "summarize_entry_quality entry =
     bindR (get_entry_hit_ratio_quality_and_source entry) (\<lambda>(v, q, src).
     bindR (get_entry_evidence_quality entry) (\<lambda>e.
     Inr [(''cache_hit_ratio'', opt_v v), (''metric_quality'', VStr q), (''hit_ratio_source'', VStr src),
          (''evidence_quality'', VStr e)]))"

section \<open>Summaries over runs\<close>

definition summarize_metric_quality_counts :: "int \<Rightarrow> int \<Rightarrow> int \<Rightarrow> int \<Rightarrow> string" where
  "summarize_metric_quality_counts total_runs ok_metrics stale_metrics missing_hit_ratio =
     (if total_runs \<le> 0 then ''missing''
      else if ok_metrics = total_runs then ''ok''
      else if stale_metrics = total_runs then ''stale''
      else if missing_hit_ratio = total_runs then ''missing''
      else ''mixed'')"

definition summarize_hit_ratio_source_counts :: "int \<Rightarrow> int \<Rightarrow> int \<Rightarrow> string" where
  "summarize_hit_ratio_source_counts window snapshot_fallback missing_source =
     (let present = length (filter (\<lambda>c. 0 < c) [window, snapshot_fallback, missing_source])
      in if 1 < present then ''mixed''
         else if 0 < window then ''window''
         else if 0 < snapshot_fallback then ''snapshot_fallback''
         else ''missing'')"

text \<open>\<open>float(count) / float(total)\<close>, and 0 without runs.\<close>

definition run_fraction :: "int \<Rightarrow> int \<Rightarrow> pyfloat res" where
  "run_fraction c total_runs =
     (if 0 < total_runs
      then bindR (float_of_int c) (\<lambda>x. bindR (float_of_int total_runs) (\<lambda>t. fdiv x t))
      else Inr (Fin 0))"

record prefix_checks =
  pc_strict :: int
  pc_token_fallback :: int
  pc_other :: int
  pc_missing :: int

definition count_check :: "string \<Rightarrow> prefix_checks \<Rightarrow> prefix_checks" where
  "count_check check c =
     (if check = ''strict'' then c\<lparr>pc_strict := pc_strict c + 1\<rparr>
      else if check = ''token_fallback'' then c\<lparr>pc_token_fallback := pc_token_fallback c + 1\<rparr>
      else if check = ''other'' then c\<lparr>pc_other := pc_other c + 1\<rparr>
      else c\<lparr>pc_missing := pc_missing c + 1\<rparr>)"

definition check_summary :: "int \<Rightarrow> prefix_checks \<Rightarrow> string" where
  "check_summary total_runs c =
     (if total_runs \<le> 0 \<or> pc_missing c = total_runs then ''missing''
      else if pc_strict c = total_runs then ''strict''
      else if pc_token_fallback c = total_runs then ''token_fallback''
      else if pc_other c = total_runs then ''other''
      else ''mixed'')"

record prefix_summary =
  ps_counts :: prefix_checks
  ps_check :: string
  ps_strict_fraction :: pyfloat
  ps_fallback_fraction :: pyfloat

definition no_checks :: prefix_checks where
  "no_checks = \<lparr>pc_strict = 0, pc_token_fallback = 0, pc_other = 0, pc_missing = 0\<rparr>"

definition summarize_prefix_metric_checks :: "pydict list \<Rightarrow> prefix_summary res" where
  "summarize_prefix_metric_checks entries =
     bindR (mapR get_entry_prefix_metric_check entries) (\<lambda>checks.
     let c = fold count_check checks no_checks; total_runs = int (length entries) in
     bindR (run_fraction (pc_strict c) total_runs) (\<lambda>s.
     bindR (run_fraction (pc_token_fallback c) total_runs) (\<lambda>f.
     Inr \<lparr>ps_counts = c, ps_check = check_summary total_runs c, ps_strict_fraction = s, ps_fallback_fraction = f\<rparr>)))"

record run_counts =
  rc_ok :: int
  rc_missing :: int
  rc_stale :: int
  rc_window :: int
  rc_snapshot_fallback :: int
  rc_missing_source :: int

definition no_runs :: run_counts where
  "no_runs = \<lparr>rc_ok = 0, rc_missing = 0, rc_stale = 0, rc_window = 0, rc_snapshot_fallback = 0, rc_missing_source = 0\<rparr>"

definition count_run :: "pyfloat option \<times> string \<times> string \<Rightarrow> run_counts \<Rightarrow> run_counts" where
  "count_run r c =
     (case r of (_, quality, source) \<Rightarrow>
        let c1 = (if quality = ''ok'' then c\<lparr>rc_ok := rc_ok c + 1\<rparr>
                  else if quality = ''stale'' then c\<lparr>rc_stale := rc_stale c + 1\<rparr>
                  else c\<lparr>rc_missing := rc_missing c + 1\<rparr>)
        in if source = ''window'' then c1\<lparr>rc_window := rc_window c1 + 1\<rparr>
           else if source = ''snapshot_fallback'' then c1\<lparr>rc_snapshot_fallback := rc_snapshot_fallback c1 + 1\<rparr>
           else c1\<lparr>rc_missing_source := rc_missing_source c1 + 1\<rparr>)"

record runs_quality =
  rq_total :: int
  rq_counts :: run_counts
  rq_metric_quality :: string
  rq_hit_ratio_source :: string
  rq_ok_fraction :: pyfloat
  rq_comparable :: bool
  rq_prefix :: prefix_summary
  rq_evidence :: string

definition summarize_runs_quality :: "pydict list \<Rightarrow> runs_quality res" where
  "summarize_runs_quality entries =
     bindR (mapR get_entry_hit_ratio_quality_and_source entries) (\<lambda>rs.
     let c = fold count_run rs no_runs; total_runs = int (length entries);
         q = summarize_metric_quality_counts total_runs (rc_ok c) (rc_stale c) (rc_missing c);
         src = summarize_hit_ratio_source_counts (rc_window c) (rc_snapshot_fallback c) (rc_missing_source c) in
     bindR (run_fraction (rc_ok c) total_runs) (\<lambda>okf.
     bindR (summarize_prefix_metric_checks entries) (\<lambda>p.
     bindR (summarize_evidence_quality entries) (\<lambda>e.
     Inr \<lparr>rq_total = total_runs, rq_counts = c, rq_metric_quality = q, rq_hit_ratio_source = src,
          rq_ok_fraction = okf, rq_comparable = (q = ''ok'' \<and> src \<noteq> ''mixed''), rq_prefix = p, rq_evidence = e\<rparr>))))"

section \<open>Facts\<close>

lemma count_check_sums:
  "pc_strict (fold count_check cs c) = pc_strict c + int (count_list cs ''strict'')"
  "pc_token_fallback (fold count_check cs c) = pc_token_fallback c + int (count_list cs ''token_fallback'')"
  "pc_other (fold count_check cs c) = pc_other c + int (count_list cs ''other'')"
  "pc_strict (fold count_check cs c) + pc_token_fallback (fold count_check cs c) + pc_other (fold count_check cs c) +
     pc_missing (fold count_check cs c) = pc_strict c + pc_token_fallback c + pc_other c + pc_missing c + int (length cs)"
  by (induction cs arbitrary: c) (auto simp: count_check_def)

lemma count_run_sums:
  "rc_ok (fold count_run rs c) = rc_ok c + int (length (filter (\<lambda>r. fst (snd r) = ''ok'') rs))"
  "rc_stale (fold count_run rs c) = rc_stale c + int (length (filter (\<lambda>r. fst (snd r) = ''stale'') rs))"
  "rc_ok (fold count_run rs c) + rc_stale (fold count_run rs c) + rc_missing (fold count_run rs c) =
     rc_ok c + rc_stale c + rc_missing c + int (length rs)"
  "rc_window (fold count_run rs c) = rc_window c + int (length (filter (\<lambda>r. snd (snd r) = ''window'') rs))"
  "rc_snapshot_fallback (fold count_run rs c) =
     rc_snapshot_fallback c + int (length (filter (\<lambda>r. snd (snd r) = ''snapshot_fallback'') rs))"
  "rc_window (fold count_run rs c) + rc_snapshot_fallback (fold count_run rs c) + rc_missing_source (fold count_run rs c) =
     rc_window c + rc_snapshot_fallback c + rc_missing_source c + int (length rs)"
  by (induction rs arbitrary: c) (auto simp: count_run_def Let_def split: prod.splits)

lemma length_filter_all: "length (filter P xs) = length xs \<longleftrightarrow> list_all P xs"
  by (metis filter_id_conv length_filter_less list_all_iff nless_le)

text \<open>
  The interface the policy, the calibrator and the sweep read runs through: a run has one of three qualities
  and one of three sources, and a run of quality \<open>ok\<close> has a ratio.
\<close>

locale quality_reader =
  fixes read :: "'e \<Rightarrow> (pyfloat option \<times> string \<times> string) res"
  assumes quality_names: "read e = Inr r \<Longrightarrow> fst (snd r) \<in> {''ok'', ''stale'', ''missing''}"
    and source_names: "read e = Inr r \<Longrightarrow> snd (snd r) \<in> {''window'', ''snapshot_fallback'', ''missing''}"
    and ok_value: "read e = Inr r \<Longrightarrow> fst (snd r) = ''ok'' \<Longrightarrow> fst r \<noteq> None"
begin

lemma all_ok:
  assumes "mapR read es = Inr rs"
  shows "rc_ok (fold count_run rs no_runs) = int (length es) \<longleftrightarrow> list_all (\<lambda>e. \<exists>v s. read e = Inr (Some v, ''ok'', s)) es"
proof -
  have "list_all (\<lambda>e. \<exists>v s. read e = Inr (Some v, ''ok'', s)) es \<longleftrightarrow> list_all (\<lambda>r. fst (snd r) = ''ok'') rs"
    using assms ok_value by (induction es arbitrary: rs) (fastforce simp: bindR_eq_Inr)+
  then show ?thesis
    using count_run_sums(1) [of rs no_runs] mapR_Inr_length [OF assms] length_filter_all [of "\<lambda>r. fst (snd r) = ''ok''" rs]
    by (simp add: no_runs_def)
qed

text \<open>The summary quality is \<open>ok\<close> exactly when there is a run and every run is.\<close>

lemma summary_ok:
  assumes "mapR read es = Inr rs"
  shows "summarize_metric_quality_counts (int (length es)) (rc_ok (fold count_run rs no_runs)) x y = ''ok'' \<longleftrightarrow>
    es \<noteq> [] \<and> list_all (\<lambda>e. \<exists>v s. read e = Inr (Some v, ''ok'', s)) es"
  unfolding all_ok [OF assms, symmetric] by (auto simp: summarize_metric_quality_counts_def)

end

interpretation entries: quality_reader get_entry_hit_ratio_quality_and_source
  by unfold_locales
     (auto simp: get_entry_hit_ratio_quality_and_source_def bindR_eq_Inr Let_def split: option.splits pyval.splits if_splits)

lemma run_fraction_unit:
  assumes "0 \<le> c" "c \<le> t" "t \<le> 2 ^ 53"
  shows "\<exists>x. run_fraction c t = Inr x \<and> in_unit x"
proof (cases "0 < t")
  case True
  have "float_of_int c = Inr (Fin (of_int c))" "float_of_int t = Inr (Fin (of_int t))"
    using assms True by (simp_all add: float_of_int_def fl_int)
  moreover have "in_unit (fl (of_int c / of_int t))"
    using assms True by (auto simp: in_unit_def intro!: fl_nonneg fl_le_1)
  ultimately show ?thesis using True by (simp add: run_fraction_def fdiv_def)
qed (simp add: run_fraction_def in_unit_def)

lemma compute_hit_ratio_unit:
  "\<exists>r. compute_hit_ratio_from_deltas h q = Inr r \<and> (\<forall>x. r = Some x \<longrightarrow> in_unit x \<and> h \<noteq> None \<and> q \<noteq> None)"
proof (cases h; cases q)
  fix x y assume h: "h = Some x" and q: "q = Some y"
  have "\<not> feq y (Fin 0)" if "\<not> fle y (Fin 0)" using that by (auto simp: fle_def)
  with h q show ?thesis by (auto simp: compute_hit_ratio_from_deltas_def fdiv_def clamp_in_unit)
qed (auto simp: compute_hit_ratio_from_deltas_def)

lemma delta_Some: "compute_counter_delta b a = Some d \<Longrightarrow> b \<noteq> None \<and> a \<noteq> None"
  by (auto simp: compute_counter_delta_def split: option.splits)

text \<open>What a derived window document holds.\<close>

lemma derive_window_metricsD:
  assumes "derive_window_metrics b a hk qk src = Inr out"
  shows "\<exists>ratio names hn qn.
    dget out ''cache_hit_ratio_window'' = Some (opt_v ratio) \<and>
    dget out ''metrics_missing'' = Some (VBool (ratio = None)) \<and>
    dget out ''metrics_stale'' = Some (VBool False) \<and>
    dget out ''evidence_quality'' = Some (VStr (window_evidence ratio names hn qn)) \<and>
    (\<forall>x. ratio = Some x \<longrightarrow> in_unit x)"
proof -
  from assms obtain hb ha qb qa names hn qn ratio where
    r: "compute_hit_ratio_from_deltas (compute_counter_delta hb ha) (compute_counter_delta qb qa) = Inr ratio"
    and out: "out = [(''prefix_hits_delta'', opt_v (compute_counter_delta hb ha)),
        (''prefix_queries_delta'', opt_v (compute_counter_delta qb qa)),
        (''cache_hit_ratio_window'', opt_v ratio),
        (''metrics_missing'', VBool (list_ex (\<lambda>v. v = None) [hb, ha, qb, qa] \<or> ratio = None)),
        (''metrics_stale'', VBool False), (''metric_source'', VStr src),
        (''evidence_quality'', VStr (window_evidence ratio names hn qn))]"
    by (auto simp: derive_window_metrics_def bindR_eq_Inr Let_def)
  have "(list_ex (\<lambda>v. v = None) [hb, ha, qb, qa] \<or> ratio = None) = (ratio = None)"
    using compute_hit_ratio_unit [of "compute_counter_delta hb ha" "compute_counter_delta qb qa"] r delta_Some
    by (cases ratio) auto
  moreover have "\<forall>x. ratio = Some x \<longrightarrow> in_unit x"
    using compute_hit_ratio_unit [of "compute_counter_delta hb ha" "compute_counter_delta qb qa"] r by auto
  ultimately show ?thesis
    by (intro exI [of _ ratio] exI [of _ names] exI [of _ hn] exI [of _ qn]) (simp add: out dget_def)
qed

lemma window_evidence_cases:
  "window_evidence ratio names hn qn \<in> {''strict'', ''fallback'', ''missing''} \<and>
   (ratio = None \<longrightarrow> window_evidence ratio names hn qn = ''missing'')"
  by (auto simp: window_evidence_def Let_def)

section \<open>Properties\<close>

text \<open>
  Property C16.  A derived window document reads back as it was meant: the hit ratio is absent or in
  the unit interval, \<open>metrics_missing\<close> is set exactly when there is no ratio, evidence is claimed only
  with a ratio, and an entry that carries the document reports that ratio with quality \<open>ok\<close> or
  \<open>missing\<close> and with the window as its source.
\<close>

theorem derived_window_reads_back:
  assumes "derive_window_metrics before after hits_keys queries_keys src = Inr out"
    and "dget entry ''derived_window_metrics'' = Some (VDict out)"
  shows "\<exists>ratio quality.
     (\<forall>x. ratio = Some x \<longrightarrow> in_unit x) \<and>
     dget out ''metrics_missing'' = Some (VBool (ratio = None)) \<and>
     dget out ''evidence_quality'' = Some (VStr quality) \<and> quality \<in> {''strict'', ''fallback'', ''missing''} \<and>
     (quality \<noteq> ''missing'' \<longrightarrow> ratio \<noteq> None \<and> get_entry_evidence_quality entry = Inr quality) \<and>
     get_entry_hit_ratio_quality_and_source entry =
       Inr (ratio, if ratio = None then ''missing'' else ''ok'', ''window'')"
proof -
  from derive_window_metricsD [OF assms(1)] obtain ratio names hn qn where
    o: "dget out ''cache_hit_ratio_window'' = Some (opt_v ratio)"
      "dget out ''metrics_missing'' = Some (VBool (ratio = None))"
      "dget out ''metrics_stale'' = Some (VBool False)"
      "dget out ''evidence_quality'' = Some (VStr (window_evidence ratio names hn qn))"
      "\<forall>x. ratio = Some x \<longrightarrow> in_unit x" by blast
  have "get_entry_hit_ratio_quality_and_source entry =
       Inr (ratio, if ratio = None then ''missing'' else ''ok'', ''window'')"
    using assms(2) o in_unit_finite
    by (cases ratio) (auto simp: get_entry_hit_ratio_quality_and_source_def dget_or_def opt_v_def)
  moreover have "get_entry_evidence_quality entry = Inr (window_evidence ratio names hn qn)"
    if "window_evidence ratio names hn qn \<noteq> ''missing''"
    using assms(2) o(4) that window_evidence_cases [of ratio names hn qn]
    by (auto simp: get_entry_evidence_quality_def dget_or_def Let_def)
  ultimately show ?thesis using o window_evidence_cases [of ratio names hn qn] by blast
qed

lemma derive_example:
  "derive_window_metrics
     (Some [(''metrics'', VDict [(''vllm:prefix_cache_hits_total'', VInt 10), (''vllm:prefix_cache_queries_total'', VInt 20)])])
     (Some [(''metrics'', VDict [(''vllm:prefix_cache_hits_total'', VInt 30), (''vllm:prefix_cache_queries_total'', VInt 40)])])
     default_prefix_hits_keys default_prefix_queries_keys ''backend'' =
   Inr [(''prefix_hits_delta'', VFloat (Fin 20)), (''prefix_queries_delta'', VFloat (Fin 20)),
        (''cache_hit_ratio_window'', VFloat (Fin 1)), (''metrics_missing'', VBool False),
        (''metrics_stale'', VBool False), (''metric_source'', VStr ''backend''), (''evidence_quality'', VStr ''strict'')]"
  by (simp add: derive_window_metrics_def default_prefix_hits_keys_def default_prefix_queries_keys_def
      pick_from_def snapshot_metrics_def dget_or_def dget_def pick_metric_with_name_def dhas_def float_of_int_def
      float_simps default_before_def compute_counter_delta_def compute_hit_ratio_from_deltas_def fsub_def fdiv_def
      py_max_def py_min_def opt_v_def window_evidence_def token_fallback_names_def)

theorem derived_window_reads_back_witness:
  "get_entry_evidence_quality [(''derived_window_metrics'', VDict
     [(''prefix_hits_delta'', VFloat (Fin 20)), (''prefix_queries_delta'', VFloat (Fin 20)),
        (''cache_hit_ratio_window'', VFloat (Fin 1)), (''metrics_missing'', VBool False),
        (''metrics_stale'', VBool False), (''metric_source'', VStr ''backend''), (''evidence_quality'', VStr ''strict'')])]
   = Inr ''strict''"
  using derived_window_reads_back [OF derive_example, of "[(''derived_window_metrics'', VDict
     [(''prefix_hits_delta'', VFloat (Fin 20)), (''prefix_queries_delta'', VFloat (Fin 20)),
        (''cache_hit_ratio_window'', VFloat (Fin 1)), (''metrics_missing'', VBool False),
        (''metrics_stale'', VBool False), (''metric_source'', VStr ''backend''), (''evidence_quality'', VStr ''strict'')])]"]
  by (auto simp: dget_def)

text \<open>
  The summary of a list of runs counts every run once: the metric qualities, the hit
  ratio sources and the prefix checks each add up to the number of runs; the summary quality is \<open>ok\<close>
  exactly when there is a run and every run is \<open>ok\<close>; and the fractions lie in the unit interval.
\<close>

theorem summarize_runs_quality_partition:
  assumes "summarize_runs_quality entries = Inr q" and "length entries \<le> 2 ^ 53"
  shows "rq_total q = int (length entries) \<and>
     rc_ok (rq_counts q) + rc_stale (rq_counts q) + rc_missing (rq_counts q) = rq_total q \<and>
     rc_window (rq_counts q) + rc_snapshot_fallback (rq_counts q) + rc_missing_source (rq_counts q) = rq_total q \<and>
     pc_strict (ps_counts (rq_prefix q)) + pc_token_fallback (ps_counts (rq_prefix q)) +
       pc_other (ps_counts (rq_prefix q)) + pc_missing (ps_counts (rq_prefix q)) = rq_total q \<and>
     (rq_metric_quality q = ''ok'' \<longleftrightarrow> entries \<noteq> [] \<and>
        list_all (\<lambda>e. \<exists>v s. get_entry_hit_ratio_quality_and_source e = Inr (v, ''ok'', s)) entries) \<and>
     in_unit (rq_ok_fraction q)"
proof -
  from assms(1) obtain rs cs where rs: "mapR get_entry_hit_ratio_quality_and_source entries = Inr rs"
    and cs: "mapR get_entry_prefix_metric_check entries = Inr cs"
    and q: "rq_total q = int (length entries)" "rq_counts q = fold count_run rs no_runs"
      "ps_counts (rq_prefix q) = fold count_check cs no_checks"
      "rq_metric_quality q = summarize_metric_quality_counts (int (length entries)) (rc_ok (fold count_run rs no_runs))
         (rc_stale (fold count_run rs no_runs)) (rc_missing (fold count_run rs no_runs))"
      "run_fraction (rc_ok (fold count_run rs no_runs)) (int (length entries)) = Inr (rq_ok_fraction q)"
    by (auto simp: summarize_runs_quality_def summarize_prefix_metric_checks_def bindR_eq_Inr Let_def)
  note len = mapR_Inr_length [OF rs] mapR_Inr_length [OF cs]
  have ok: "rc_ok (fold count_run rs no_runs) = int (length (filter (\<lambda>r. fst (snd r) = ''ok'') rs))"
    using count_run_sums(1) [of rs no_runs] by (simp add: no_runs_def)
  have "(\<exists>v s. get_entry_hit_ratio_quality_and_source e = Inr (Some v, ''ok'', s)) \<longleftrightarrow>
      (\<exists>v s. get_entry_hit_ratio_quality_and_source e = Inr (v, ''ok'', s))" for e
    using entries.ok_value by fastforce
  then have "rq_metric_quality q = ''ok'' \<longleftrightarrow> entries \<noteq> [] \<and>
      list_all (\<lambda>e. \<exists>v s. get_entry_hit_ratio_quality_and_source e = Inr (v, ''ok'', s)) entries"
    unfolding q(4) using entries.summary_ok [OF rs] by simp
  moreover have "in_unit (rq_ok_fraction q)"
  proof -
    have "rc_ok (fold count_run rs no_runs) \<le> int (length entries)"
      unfolding ok using len length_filter_le [of "\<lambda>r. fst (snd r) = ''ok''" rs] by simp
    moreover have "int (length entries) \<le> 2 ^ 53" using assms(2) by simp
    ultimately show ?thesis using run_fraction_unit [of "rc_ok (fold count_run rs no_runs)" "int (length entries)"] q(5) ok
      by auto
  qed
  ultimately show ?thesis
    using count_run_sums(3,6) [of rs no_runs] count_check_sums(4) [of cs no_checks] len q
    by (simp add: no_runs_def no_checks_def)
qed

theorem summarize_runs_quality_partition_witness:
  "rc_ok (rq_counts (projr (summarize_runs_quality
      [[(''derived_window_metrics'', VDict [(''cache_hit_ratio_window'', VFloat (Fin 1))])], []]))) +
   rc_stale (rq_counts (projr (summarize_runs_quality
      [[(''derived_window_metrics'', VDict [(''cache_hit_ratio_window'', VFloat (Fin 1))])], []]))) +
   rc_missing (rq_counts (projr (summarize_runs_quality
      [[(''derived_window_metrics'', VDict [(''cache_hit_ratio_window'', VFloat (Fin 1))])], []]))) = 2"
proof -
  let ?es = "[[(''derived_window_metrics'', VDict [(''cache_hit_ratio_window'', VFloat (Fin 1))])], []] :: pydict list"
  have "\<exists>q. summarize_runs_quality ?es = Inr q"
    by (simp add: summarize_runs_quality_def get_entry_hit_ratio_quality_and_source_def dget_def dget_or_def
        run_fraction_def float_of_int_def float_simps fdiv_def summarize_prefix_metric_checks_def
        get_entry_prefix_metric_check_def get_entry_evidence_quality_def exporter_evidence_quality_def
        summarize_evidence_quality_def is_one_def Let_def count_run_def no_runs_def count_check_def no_checks_def
        at_least_half_def dhas_def)
  then obtain q where q: "summarize_runs_quality ?es = Inr q" by blast
  show ?thesis unfolding q using summarize_runs_quality_partition [OF q] by simp
qed

end
