(* ===== verification/Policy.thy ===== *)
theory Policy
  imports WindowMetrics PyStats
begin

text \<open>
  \<open>planner/policy.py\<close> and the comparison of \<open>planner/compare_baseline.py\<close>: the throughput that the
  measured runs support under the hard limits (latency, success rate) and, when a minimum hit ratio
  is given, under the cache limit too.  A run is read from its JSON dictionary; a missing or
  malformed part raises where the code's attribute access or conversion raises.
\<close>

section \<open>Reading a run\<close>

record run_obs =
  ob_success_rate :: pyfloat
  ob_e2e :: pyfloat
  ob_req_s :: pyfloat
  ob_hit :: "pyfloat option \<times> string \<times> string"
  ob_check :: string
  ob_evidence :: string

definition policy_success_rate :: "pyval \<Rightarrow> pyfloat res" where
  "policy_success_rate req =
     bindR (vget req ''total'' (VInt 0)) (\<lambda>tv. bindR (float_or0 tv) (\<lambda>total_v.
     bindR (vget req ''ok'' (VInt 0)) (\<lambda>kv. bindR (float_or0 kv) (\<lambda>ok.
     if flt (Fin 0) total_v then fdiv ok total_v else Inr (Fin 0)))))"

text \<open>\<open>float(s.get(part, {}).get(key, 0.0) or 0.0)\<close>.\<close>

definition summary_number :: "pyval \<Rightarrow> string \<Rightarrow> string \<Rightarrow> pyfloat res" where
  "summary_number s part key =
     bindR (vget s part (VDict [])) (\<lambda>p. bindR (vget p key (VFloat (Fin 0))) float_or0)"

definition observe_run :: "pydict \<Rightarrow> run_obs res" where
  "observe_run entry =
     (let s = dget_or entry ''summary'' (VDict []) in
     bindR (vget s ''requests'' (VDict [])) (\<lambda>req.
     bindR (policy_success_rate req) (\<lambda>success_rate.
     bindR (summary_number s ''latency'' ''e2e_latency_p95_ms'') (\<lambda>e2e.
     bindR (summary_number s ''throughput'' ''req_s'') (\<lambda>req_s.
     bindR (get_entry_hit_ratio_quality_and_source entry) (\<lambda>hit.
     bindR (get_entry_prefix_metric_check entry) (\<lambda>check.
     bindR (get_entry_evidence_quality entry) (\<lambda>evidence.
     Inr \<lparr>ob_success_rate = success_rate, ob_e2e = e2e, ob_req_s = req_s, ob_hit = hit, ob_check = check,
          ob_evidence = evidence\<rparr>))))))))"

section \<open>The gates\<close>

record policy =
  po_slo_ms :: pyfloat
  po_min_success :: pyfloat
  po_safety :: pyfloat

definition hard_ok :: "policy \<Rightarrow> run_obs \<Rightarrow> bool" where
  "hard_ok p ob \<longleftrightarrow> fle (ob_e2e ob) (po_slo_ms p) \<and> fle (po_min_success p) (ob_success_rate ob)"

definition hot_ok :: "pyfloat option \<Rightarrow> run_obs \<Rightarrow> bool" where
  "hot_ok min_hit ob =
     (case min_hit of
        None \<Rightarrow> True
      | Some h \<Rightarrow> (case ob_hit ob of (v, quality, _) \<Rightarrow>
                    quality = ''ok'' \<and> (case v of None \<Rightarrow> False | Some x \<Rightarrow> fle h x)))"

section \<open>Counting\<close>

record policy_counts =
  pl_missing :: int
  pl_stale :: int
  pl_ok :: int
  pl_window :: int
  pl_snapshot :: int

definition no_policy_counts :: policy_counts where
  "no_policy_counts = \<lparr>pl_missing = 0, pl_stale = 0, pl_ok = 0, pl_window = 0, pl_snapshot = 0\<rparr>"

definition count_policy :: "run_obs \<Rightarrow> policy_counts \<Rightarrow> policy_counts" where
  "count_policy ob c =
     (case ob_hit ob of (_, quality, source) \<Rightarrow>
        let c1 = (if quality = ''missing'' then c\<lparr>pl_missing := pl_missing c + 1\<rparr>
                  else if quality = ''stale'' then c\<lparr>pl_stale := pl_stale c + 1\<rparr>
                  else c\<lparr>pl_ok := pl_ok c + 1\<rparr>)
        in if source = ''window'' then c1\<lparr>pl_window := pl_window c1 + 1\<rparr>
           else if source = ''snapshot_fallback'' then c1\<lparr>pl_snapshot := pl_snapshot c1 + 1\<rparr>
           else c1)"

definition evidence_names :: "string list" where
  "evidence_names = [''strict'', ''estimated'', ''fallback'', ''missing'']"

definition evidence_counts :: "string list \<Rightarrow> (string \<times> int) list" where
  "evidence_counts es = map (\<lambda>q. (q, int (length (filter (\<lambda>e. (if e \<in> set evidence_names then e else ''missing'') = q) es))))
     evidence_names"

definition evidence_summary :: "int \<Rightarrow> (string \<times> int) list \<Rightarrow> string" where
  "evidence_summary n counts =
     (if n = 0 \<or> dget_or counts ''missing'' 0 = n then ''missing''
      else (case find (\<lambda>q. dget_or counts q 0 = n) [''strict'', ''estimated'', ''fallback''] of
              Some q \<Rightarrow> q | None \<Rightarrow> ''mixed''))"

record recommendation =
  re_rps :: pyfloat
  re_num_runs :: int
  re_counts :: policy_counts
  re_metric_quality :: string
  re_hit_ratio_source :: string
  re_ok_fraction :: pyfloat
  re_comparable :: bool
  re_prefix :: prefix_checks
  re_prefix_check :: string
  re_evidence :: string
  re_evidence_counts :: "(string \<times> int) list"

definition best_rps :: "pyfloat \<Rightarrow> pyfloat list \<Rightarrow> pyfloat res" where
  "best_rps safety passed =
     (if passed = [] then Inr (Fin 0) else bindR (py_max_list passed) (\<lambda>m. Inr (fmul m safety)))"

definition passed_rps :: "policy \<Rightarrow> pyfloat option \<Rightarrow> run_obs list \<Rightarrow> pyfloat list" where
  "passed_rps p min_hit obs = map ob_req_s (filter (\<lambda>ob. hard_ok p ob \<and> hot_ok min_hit ob) obs)"

definition recommend_runs :: "policy \<Rightarrow> pyfloat option \<Rightarrow> pydict list \<Rightarrow> recommendation res" where
  "recommend_runs p min_hit runs =
     bindR (mapR observe_run runs) (\<lambda>obs.
     let n = int (length runs); c = fold count_policy obs no_policy_counts;
         pc = fold count_check (map ob_check obs) no_checks; ec = evidence_counts (map ob_evidence obs);
         quality = summarize_metric_quality_counts n (pl_ok c) (pl_stale c) (pl_missing c);
         source = summarize_hit_ratio_source_counts (pl_window c) (pl_snapshot c)
                    (max 0 (n - pl_window c - pl_snapshot c)) in
     bindR (best_rps (po_safety p) (passed_rps p min_hit obs)) (\<lambda>rps.
     bindR (run_fraction (pl_ok c) n) (\<lambda>okf.
     Inr \<lparr>re_rps = rps, re_num_runs = n, re_counts = c, re_metric_quality = quality, re_hit_ratio_source = source,
          re_ok_fraction = okf, re_comparable = (quality = ''ok'' \<and> source \<noteq> ''mixed''), re_prefix = pc,
          re_prefix_check = check_summary n pc, re_evidence = evidence_summary n ec, re_evidence_counts = ec\<rparr>)))"

section \<open>The comparison of the hard-only baseline with the dual boundary\<close>

record comparison =
  cm_baseline_rps :: pyfloat
  cm_dual_rps :: pyfloat
  cm_delta :: pyfloat
  cm_dual :: recommendation

definition compare_runs :: "policy \<Rightarrow> pyfloat \<Rightarrow> pydict list \<Rightarrow> comparison res" where
  "compare_runs p min_hit runs =
     bindR (recommend_runs p None runs) (\<lambda>hard_only.
     bindR (recommend_runs p (Some min_hit) runs) (\<lambda>dual.
     Inr \<lparr>cm_baseline_rps = py_round 6 (re_rps hard_only), cm_dual_rps = py_round 6 (re_rps dual),
          cm_delta = py_round 6 (fsub (re_rps dual) (re_rps hard_only)), cm_dual = dual\<rparr>))"

text \<open>
  The runs a document holds for a scenario.  The scenario comparison is given their list: a list of
  dictionaries by the annotation of \<open>recommend_runs\<close>; any other content is an error.
\<close>

definition as_dict :: "pyval \<Rightarrow> pydict res" where
  "as_dict v = (case v of VDict d \<Rightarrow> Inr d | _ \<Rightarrow> Inl AttributeError)"

definition scenario_runs :: "pyval \<Rightarrow> string \<Rightarrow> pydict list res" where
  "scenario_runs document scenario =
     bindR (vget document ''runs'' (VDict [])) (\<lambda>runs. bindR (vget runs scenario (VList [])) (\<lambda>rs.
     bindR (py_iter rs) (mapR as_dict)))"

definition compare_baseline :: "policy \<Rightarrow> pyfloat \<Rightarrow> pyval \<Rightarrow> (string \<times> comparison) list res" where
  "compare_baseline p min_hit document =
     mapR (\<lambda>scenario. bindR (scenario_runs document scenario) (\<lambda>runs.
             bindR (compare_runs p min_hit runs) (\<lambda>c. Inr (scenario, c))))
       [''low_reuse'', ''high_reuse'']"

section \<open>Facts\<close>

lemma observe_runD:
  assumes "observe_run e = Inr ob"
  shows "get_entry_hit_ratio_quality_and_source e = Inr (ob_hit ob)"
    "get_entry_prefix_metric_check e = Inr (ob_check ob)" "get_entry_evidence_quality e = Inr (ob_evidence ob)"
  using assms by (auto simp: observe_run_def Let_def bindR_eq_Inr)

lemma mapR_observeD:
  assumes "mapR observe_run es = Inr obs"
  shows "mapR get_entry_hit_ratio_quality_and_source es = Inr (map ob_hit obs)"
    "mapR get_entry_prefix_metric_check es = Inr (map ob_check obs)"
    "mapR get_entry_evidence_quality es = Inr (map ob_evidence obs)"
  using assms by (induction es arbitrary: obs) (auto simp: bindR_eq_Inr observe_runD, metis prod_cases3)

lemma observed_quality: "observe_run e = Inr ob \<Longrightarrow> fst (snd (ob_hit ob)) \<in> {''ok'', ''stale'', ''missing''}"
  by (rule entries.quality_names [OF observe_runD(1)])

lemma exporter_evidence_cases: "exporter_evidence_quality e = Inr q \<Longrightarrow> q \<in> set evidence_names"
  by (auto simp: exporter_evidence_quality_def evidence_names_def bindR_eq_Inr split: pyval.splits if_splits)

lemma evidence_cases: "get_entry_evidence_quality e = Inr q \<Longrightarrow> q \<in> set evidence_names"
  using exporter_evidence_cases
  by (auto simp: get_entry_evidence_quality_def Let_def evidence_names_def split: pyval.splits if_splits)

text \<open>The counters of the policy are those of the run summary.\<close>

lemma count_policy_run:
  assumes "fst (snd (ob_hit ob)) \<in> {''ok'', ''stale'', ''missing''}" "pl_ok c = rc_ok d" "pl_stale c = rc_stale d"
    "pl_missing c = rc_missing d" "pl_window c = rc_window d" "pl_snapshot c = rc_snapshot_fallback d"
  shows "pl_ok (count_policy ob c) = rc_ok (count_run (ob_hit ob) d)"
    "pl_stale (count_policy ob c) = rc_stale (count_run (ob_hit ob) d)"
    "pl_missing (count_policy ob c) = rc_missing (count_run (ob_hit ob) d)"
    "pl_window (count_policy ob c) = rc_window (count_run (ob_hit ob) d)"
    "pl_snapshot (count_policy ob c) = rc_snapshot_fallback (count_run (ob_hit ob) d)"
  using assms by (auto simp: count_policy_def count_run_def Let_def split: prod.splits)

lemma fold_count_policy:
  assumes "list_all (\<lambda>ob. fst (snd (ob_hit ob)) \<in> {''ok'', ''stale'', ''missing''}) obs"
    "pl_ok c = rc_ok d" "pl_stale c = rc_stale d" "pl_missing c = rc_missing d" "pl_window c = rc_window d"
    "pl_snapshot c = rc_snapshot_fallback d"
  shows "pl_ok (fold count_policy obs c) = rc_ok (fold count_run (map ob_hit obs) d) \<and>
    pl_stale (fold count_policy obs c) = rc_stale (fold count_run (map ob_hit obs) d) \<and>
    pl_missing (fold count_policy obs c) = rc_missing (fold count_run (map ob_hit obs) d) \<and>
    pl_window (fold count_policy obs c) = rc_window (fold count_run (map ob_hit obs) d) \<and>
    pl_snapshot (fold count_policy obs c) = rc_snapshot_fallback (fold count_run (map ob_hit obs) d)"
  using assms
proof (induction obs arbitrary: c d)
  case (Cons ob obs)
  have q: "fst (snd (ob_hit ob)) \<in> {''ok'', ''stale'', ''missing''}" using Cons.prems(1) by simp
  show ?case using Cons.IH [OF _ count_policy_run [OF q Cons.prems(2-6)]] Cons.prems(1) by simp
qed simp

text \<open>The evidence summary over the counters is the summary over the set of names.\<close>

lemma remdups_single: "remdups qs = [x] \<longleftrightarrow> set qs = {x}"
proof
  assume x: "set qs = {x}"
  then have "length (remdups qs) = 1" by (simp add: length_remdups_card_conv)
  then obtain y where "remdups qs = [y]" by (auto simp: length_Suc_conv)
  with x set_remdups [of qs] show "remdups qs = [x]" by simp
qed (metis set_remdups list.simps(15) list.set(1))

lemma evidence_count:
  assumes "list_all (\<lambda>q. q \<in> set evidence_names) qs" "q \<in> set evidence_names" "qs \<noteq> []"
  shows "dget_or (evidence_counts qs) q 0 = int (length qs) \<longleftrightarrow> set qs = {q}"
proof -
  have "filter (\<lambda>e. (if e \<in> set evidence_names then e else ''missing'') = q) qs = filter (\<lambda>e. e = q) qs"
    using assms(1) by (intro filter_cong) (auto simp: list_all_iff)
  then have "dget_or (evidence_counts qs) q 0 = int (length (filter (\<lambda>e. e = q) qs))"
    using assms(2) by (simp add: dget_or_def dget_def evidence_counts_def map_of_map_restrict restrict_map_def)
  then show ?thesis using length_filter_all [of "\<lambda>e. e = q" qs] assms(3) by (cases qs) (auto simp: list_all_iff)
qed

lemma evidence_summary_eq:
  assumes "list_all (\<lambda>q. q \<in> set evidence_names) qs"
  shows "evidence_summary (int (length qs)) (evidence_counts qs) = single_or_mixed qs"
proof (cases "qs = []")
  case False
  have c: "dget_or (evidence_counts qs) q 0 = int (length qs) \<longleftrightarrow> set qs = {q}"
    if "q \<in> {''strict'', ''estimated'', ''fallback'', ''missing''}" for q
    using evidence_count [OF assms _ False] that by (simp add: evidence_names_def)
  show ?thesis
  proof (cases "\<exists>q \<in> set evidence_names. set qs = {q}")
    case True
    then obtain q where q: "q \<in> set evidence_names" "set qs = {q}" by blast
    then have "single_or_mixed qs = q" by (simp add: single_or_mixed_def remdups_single [THEN iffD2])
    moreover have "evidence_summary (int (length qs)) (evidence_counts qs) = q"
      using q c False by (auto simp: evidence_summary_def evidence_names_def)
    ultimately show ?thesis by simp
  next
    case no: False
    have "1 < card (set qs)"
    proof (rule ccontr)
      assume "\<not> 1 < card (set qs)"
      with False have "card (set qs) = 1" by (cases "card (set qs)") auto
      then obtain q where "set qs = {q}" by (auto simp: card_1_singleton_iff)
      with no assms show False by (auto simp: list_all_iff)
    qed
    then have "1 < length (remdups qs)" by (simp add: length_remdups_card_conv)
    then have "single_or_mixed qs = ''mixed''" by (auto simp: single_or_mixed_def split: list.splits)
    moreover have "evidence_summary (int (length qs)) (evidence_counts qs) = ''mixed''"
      using no c False by (auto simp: evidence_summary_def evidence_names_def)
    ultimately show ?thesis by simp
  qed
qed (simp add: single_or_mixed_def evidence_summary_def)

lemma count_run_source_le:
  "int (length (filter (\<lambda>r. snd (snd r) = ''window'') rs)) +
   int (length (filter (\<lambda>r. snd (snd r) = ''snapshot_fallback'') rs)) \<le> int (length rs)"
  by (induction rs) auto

lemma prefix_fraction:
  assumes "length cs \<le> 2 ^ 53"
  shows "\<exists>x. run_fraction (pc_strict (fold count_check cs no_checks)) (int (length cs)) = Inr x"
    "\<exists>x. run_fraction (pc_token_fallback (fold count_check cs no_checks)) (int (length cs)) = Inr x"
proof -
  have l: "int (length cs) \<le> 2 ^ 53" using assms by simp
  have "count_list cs x \<le> length cs" for x by (rule count_le_length)
  with l show "\<exists>x. run_fraction (pc_strict (fold count_check cs no_checks)) (int (length cs)) = Inr x"
    "\<exists>x. run_fraction (pc_token_fallback (fold count_check cs no_checks)) (int (length cs)) = Inr x"
    using run_fraction_unit [of "pc_strict (fold count_check cs no_checks)" "int (length cs)"]
      run_fraction_unit [of "pc_token_fallback (fold count_check cs no_checks)" "int (length cs)"]
    by (auto simp: count_check_sums no_checks_def)
qed

section \<open>Properties\<close>

text \<open>
  The policy classifies runs as the run summary does: whenever a recommendation is made,
  the summary of the same runs exists and has the same number of runs, metric quality, hit ratio
  source, share of good runs, comparability, prefix counts, prefix check and evidence quality, although
  the two modules count in different ways.
\<close>

theorem policy_counts_agree:
  assumes "recommend_runs p min_hit entries = Inr r" and "length entries \<le> 2 ^ 53"
  shows "\<exists>q. summarize_runs_quality entries = Inr q \<and>
     rq_total q = re_num_runs r \<and> rq_metric_quality q = re_metric_quality r \<and>
     rq_hit_ratio_source q = re_hit_ratio_source r \<and> rq_ok_fraction q = re_ok_fraction r \<and>
     rq_comparable q = re_comparable r \<and> ps_counts (rq_prefix q) = re_prefix r \<and>
     ps_check (rq_prefix q) = re_prefix_check r \<and> rq_evidence q = re_evidence r"
proof -
  from assms(1) obtain obs where obs: "mapR observe_run entries = Inr obs"
    by (auto simp: recommend_runs_def bindR_eq_Inr Let_def)
  note len = mapR_Inr_length [OF obs] and parts = mapR_observeD [OF obs]
  let ?n = "int (length entries)" and ?c = "fold count_policy obs no_policy_counts"
  let ?d = "fold count_run (map ob_hit obs) no_runs" and ?pc = "fold count_check (map ob_check obs) no_checks"
  have qs: "list_all (\<lambda>ob. fst (snd (ob_hit ob)) \<in> {''ok'', ''stale'', ''missing''}) obs"
    by (rule mapR_Inr_all [OF obs]) (rule observed_quality)
  have c: "pl_ok ?c = rc_ok ?d" "pl_stale ?c = rc_stale ?d" "pl_missing ?c = rc_missing ?d"
    "pl_window ?c = rc_window ?d" "pl_snapshot ?c = rc_snapshot_fallback ?d"
    using fold_count_policy [OF qs, of no_policy_counts no_runs] by (simp_all add: no_policy_counts_def no_runs_def)
  have "rc_window ?d + rc_snapshot_fallback ?d + rc_missing_source ?d = ?n"
    using count_run_sums(6) [of "map ob_hit obs" no_runs] len by (simp add: no_runs_def)
  moreover have "0 \<le> rc_missing_source ?d"
    using count_run_sums(4,5,6) [of "map ob_hit obs" no_runs] len count_run_source_le [of "map ob_hit obs"]
    by (simp add: no_runs_def)
  ultimately have m: "max 0 (?n - pl_window ?c - pl_snapshot ?c) = rc_missing_source ?d" using c by simp
  have es: "list_all (\<lambda>q. q \<in> set evidence_names) (map ob_evidence obs)"
    by (rule mapR_Inr_all [OF parts(3)]) (rule evidence_cases)
  have e: "evidence_summary ?n (evidence_counts (map ob_evidence obs)) = single_or_mixed (map ob_evidence obs)"
    using evidence_summary_eq [OF es] len by simp
  obtain f1 where f1: "run_fraction (pc_strict ?pc) ?n = Inr f1" using prefix_fraction(1) [of "map ob_check obs"] assms(2) len by auto
  obtain f2 where f2: "run_fraction (pc_token_fallback ?pc) ?n = Inr f2" using prefix_fraction(2) [of "map ob_check obs"] assms(2) len by auto
  have "summarize_prefix_metric_checks entries = Inr \<lparr>ps_counts = ?pc, ps_check = check_summary ?n ?pc,
      ps_strict_fraction = f1, ps_fallback_fraction = f2\<rparr>"
    using parts(2) f1 f2 by (simp add: summarize_prefix_metric_checks_def Let_def)
  moreover have "summarize_evidence_quality entries = Inr (single_or_mixed (map ob_evidence obs))"
    using parts(3) by (simp add: summarize_evidence_quality_def)
  ultimately show ?thesis
    using assms(1) obs parts(1) c m e
    by (auto simp: recommend_runs_def summarize_runs_quality_def bindR_eq_Inr Let_def)
qed

lemma recommend_rps:
  assumes "recommend_runs p min_hit runs = Inr r"
  shows "\<exists>obs. mapR observe_run runs = Inr obs \<and> best_rps (po_safety p) (passed_rps p min_hit obs) = Inr (re_rps r)"
  using assms by (auto simp: recommend_runs_def bindR_eq_Inr Let_def)

text \<open>A run whose throughput is a finite nonnegative double.\<close>

definition sane_run :: "pydict \<Rightarrow> bool" where
  "sane_run e = (case observe_run e of
     Inr ob \<Rightarrow> is_f64 (ob_req_s ob) \<and> isfinite (ob_req_s ob) \<and> fle (Fin 0) (ob_req_s ob) | Inl _ \<Rightarrow> True)"

lemma sane_obs:
  assumes "mapR observe_run runs = Inr obs" "list_all sane_run runs"
  shows "list_all (\<lambda>ob. is_f64 (ob_req_s ob) \<and> isfinite (ob_req_s ob) \<and> fle (Fin 0) (ob_req_s ob)) obs"
  using assms by (induction runs arbitrary: obs) (auto simp: bindR_eq_Inr sane_run_def)

lemma best_rps_mem:
  assumes "best_rps s xs = Inr m" "xs \<noteq> []"
  shows "\<exists>x \<in> set xs. m = fmul x s"
proof -
  obtain y ys where xs: "xs = y # ys" using assms(2) by (cases xs) auto
  with assms have "m = fmul (foldl py_max y ys) s" by (simp add: best_rps_def)
  then show ?thesis using foldl_py_max_mem [of y ys] xs by auto
qed

lemma best_rps_max:
  assumes "best_rps s xs = Inr m" "xs \<noteq> []" "list_all (\<lambda>x. x \<noteq> NaN) xs"
  shows "\<exists>x \<in> set xs. m = fmul x s \<and> (\<forall>y \<in> set xs. fle y x)"
proof -
  obtain y ys where xs: "xs = y # ys" using assms(2) by (cases xs) auto
  with assms have "m = fmul (foldl py_max y ys) s" by (simp add: best_rps_def)
  then show ?thesis using foldl_py_max_mem [of y ys] foldl_py_max_ge [of y ys] xs assms(3)
    by (auto simp: list_all_iff)
qed

lemma best_rps_subset:
  assumes "best_rps (Fin c) xs = Inr a" "best_rps (Fin c) ys = Inr b" "set xs \<subseteq> set ys" "0 \<le> c"
    and "list_all (\<lambda>x. isfinite x \<and> fle (Fin 0) x) ys"
  shows "fle a b"
proof (cases "ys = []")
  case False
  have nn: "list_all (\<lambda>x. x \<noteq> NaN) ys" using assms(5) by (auto simp: list_all_iff)
  obtain y where y: "y \<in> set ys" "b = fmul y (Fin c)" "\<forall>z \<in> set ys. fle z y"
    using best_rps_max [OF assms(2) False nn] by blast
  have fin: "isfinite z \<and> fle (Fin 0) z" if "z \<in> set ys" for z using assms(5) that by (auto simp: list_all_iff)
  show ?thesis
  proof (cases "xs = []")
    case True
    then have a: "a = Fin 0" using assms(1) by (simp add: best_rps_def)
    show ?thesis unfolding a using fmul_mono0 [of "Fin 0" y c] fin [OF y(1)] y(2) assms(4) by simp
  next
    case ne: False
    obtain x where x: "x \<in> set xs" "a = fmul x (Fin c)" using best_rps_mem [OF assms(1) ne] by blast
    then have "x \<in> set ys" using assms(3) by blast
    then show ?thesis using fmul_mono0 [of x y c] fin y x(2) assms(4) by simp
  qed
next
  case True
  then have "a = Fin 0" "b = Fin 0" using assms(1,2,3) by (simp_all add: best_rps_def)
  then show ?thesis by simp
qed

text \<open>A laxer limit never lowers the rate.\<close>

lemma recommended_subset:
  assumes "recommend_runs p h1 runs = Inr a" "recommend_runs p h2 runs = Inr b" "po_safety p = Fin s" "0 \<le> s"
    "list_all sane_run runs" "\<And>ob. hot_ok h1 ob \<Longrightarrow> hot_ok h2 ob"
  shows "fle (re_rps a) (re_rps b)"
proof -
  obtain obs where obs: "mapR observe_run runs = Inr obs" using recommend_rps [OF assms(1)] by blast
  have best: "best_rps (Fin s) (passed_rps p h1 obs) = Inr (re_rps a)" "best_rps (Fin s) (passed_rps p h2 obs) = Inr (re_rps b)"
    using recommend_rps [OF assms(1)] recommend_rps [OF assms(2)] obs assms(3) by auto
  have "list_all (\<lambda>x. isfinite x \<and> fle (Fin 0) x) (passed_rps p h2 obs)"
    using sane_obs [OF obs assms(5)] by (auto simp: passed_rps_def list_all_iff)
  moreover have "set (passed_rps p h1 obs) \<subseteq> set (passed_rps p h2 obs)" using assms(6) by (auto simp: passed_rps_def)
  ultimately show ?thesis using best_rps_subset [OF best _ assms(4)] by blast
qed

lemma hot_falls: "fle h1 h2 \<Longrightarrow> hot_ok (Some h2) ob \<Longrightarrow> hot_ok (Some h1) ob"
  using fle_trans by (auto simp: hot_ok_def split: option.splits prod.splits)

lemma dual_rate_falls:
  assumes "compare_runs p h1 runs = Inr c1" "compare_runs p h2 runs = Inr c2"
    and "po_safety p = Fin s" "0 \<le> s" and "list_all sane_run runs" and "fle h1 h2"
  shows "fle (re_rps (cm_dual c2)) (re_rps (cm_dual c1))" "fle (cm_dual_rps c2) (cm_dual_rps c1)"
  using assms(1,2) recommended_subset [OF _ _ assms(3,4,5) hot_falls [OF assms(6)]]
  by (auto simp: compare_runs_def bindR_eq_Inr intro!: py_round_mono)

text \<open>
  Property C20.  The dual boundary is conservative: with a finite nonnegative safety factor and runs
  whose throughput is a finite nonnegative number, the rate recommended under a minimum hit ratio
  never exceeds the rate recommended without one, also after rounding to six places, and a higher
  minimum never raises the rate.
\<close>

theorem dual_boundary_conservative:
  assumes "compare_runs p h1 runs = Inr c1" "compare_runs p h2 runs = Inr c2"
    and "po_safety p = Fin s" "0 \<le> s" and "list_all sane_run runs" and "fle h1 h2"
  shows "fle (cm_dual_rps c1) (cm_baseline_rps c1) \<and> fle (re_rps (cm_dual c2)) (re_rps (cm_dual c1)) \<and>
    fle (cm_dual_rps c2) (cm_dual_rps c1)"
proof -
  from assms(1) obtain b d where r: "recommend_runs p None runs = Inr b" "recommend_runs p (Some h1) runs = Inr d"
    and c: "cm_baseline_rps c1 = py_round 6 (re_rps b)" "cm_dual_rps c1 = py_round 6 (re_rps d)"
    by (auto simp: compare_runs_def bindR_eq_Inr)
  have "fle (re_rps d) (re_rps b)"
    using recommended_subset [OF r(2,1) assms(3,4,5)] by (simp add: hot_ok_def)
  then show ?thesis using c py_round_mono dual_rate_falls [OF assms] by simp
qed

text \<open>The runs a recommendation rests on.\<close>

definition admissible :: "policy \<Rightarrow> pyfloat option \<Rightarrow> pydict \<Rightarrow> bool" where
  "admissible p min_hit e = (case observe_run e of Inr ob \<Rightarrow> hard_ok p ob \<and> hot_ok min_hit ob | Inl _ \<Rightarrow> False)"

definition run_rps :: "pydict \<Rightarrow> pyfloat" where
  "run_rps e = (case observe_run e of Inr ob \<Rightarrow> ob_req_s ob | Inl _ \<Rightarrow> Fin 0)"

lemma passed_admissible:
  "mapR observe_run runs = Inr obs \<Longrightarrow> passed_rps p h obs = map run_rps (filter (admissible p h) runs)"
  by (induction runs arbitrary: obs) (auto simp: bindR_eq_Inr passed_rps_def admissible_def run_rps_def)

text \<open>
  Property C21.  A recommended rate is earned: it is the safety factor times the throughput of a
  measured run that meets the latency limit, the success rate and the minimum hit ratio, and that
  run is the fastest of all runs that do; without any such run the rate is zero.
\<close>

theorem recommendation_is_best_admissible:
  assumes "recommend_runs p min_hit runs = Inr r" and "list_all (\<lambda>e. run_rps e \<noteq> NaN) runs"
  shows "if list_ex (admissible p min_hit) runs
         then \<exists>e \<in> set runs. admissible p min_hit e \<and> re_rps r = fmul (run_rps e) (po_safety p) \<and>
                (\<forall>e' \<in> set runs. admissible p min_hit e' \<longrightarrow> fle (run_rps e') (run_rps e))
         else re_rps r = Fin 0"
proof -
  obtain obs where obs: "mapR observe_run runs = Inr obs"
    and best: "best_rps (po_safety p) (map run_rps (filter (admissible p min_hit) runs)) = Inr (re_rps r)"
    using recommend_rps [OF assms(1)] passed_admissible by metis
  show ?thesis
  proof (cases "list_ex (admissible p min_hit) runs")
    case True
    then have "map run_rps (filter (admissible p min_hit) runs) \<noteq> []" by (auto simp: list_ex_iff filter_empty_conv)
    from best_rps_max [OF best this] assms(2) True show ?thesis by (auto simp: list_all_iff)
  next
    case False
    then have "filter (admissible p min_hit) runs = []" by (auto simp: list_ex_iff filter_empty_conv)
    with best False show ?thesis by (simp add: best_rps_def)
  qed
qed

section \<open>Witnesses\<close>

text \<open>A measured run with ten successful requests, a latency of 100 ms and a given throughput and hit ratio.\<close>

definition sample_run :: "rat \<Rightarrow> pyfloat option \<Rightarrow> pydict" where
  "sample_run rps hit =
     [(''summary'', VDict [(''requests'', VDict [(''ok'', VInt 10), (''total'', VInt 10)]),
        (''latency'', VDict [(''e2e_latency_p95_ms'', VFloat (Fin 100))]),
        (''throughput'', VDict [(''req_s'', VFloat (Fin rps))])]),
      (''exporter_metrics'', VDict []),
      (''derived_window_metrics'', VDict [(''cache_hit_ratio_window'', opt_v hit)])]"

definition sample_policy :: policy where
  "sample_policy = \<lparr>po_slo_ms = Fin 1500, po_min_success = Fin 1, po_safety = Fin 1\<rparr>"

lemma observe_sample:
  "rps \<noteq> 0 \<Longrightarrow> observe_run (sample_run rps (Some (Fin h))) =
     Inr \<lparr>ob_success_rate = Fin 1, ob_e2e = Fin 100, ob_req_s = Fin rps, ob_hit = (Some (Fin h), ''ok'', ''window''),
          ob_check = ''missing'', ob_evidence = ''missing''\<rparr>"
  "rps \<noteq> 0 \<Longrightarrow> observe_run (sample_run rps None) =
     Inr \<lparr>ob_success_rate = Fin 1, ob_e2e = Fin 100, ob_req_s = Fin rps, ob_hit = (None, ''missing'', ''window''),
          ob_check = ''missing'', ob_evidence = ''missing''\<rparr>"
  by (simp_all add: observe_run_def sample_run_def dget_or_def dget_def Let_def policy_success_rate_def float_or0_def
      float_of_int_def float_simps fdiv_def summary_number_def get_entry_hit_ratio_quality_and_source_def opt_v_def
      get_entry_prefix_metric_check_def get_entry_evidence_quality_def exporter_evidence_quality_def is_one_def
      at_least_half_def dhas_def)

lemma recommend_sample_ok:
  "\<exists>r. recommend_runs sample_policy min_hit [sample_run 10 None, sample_run 8 (Some (Fin 1))] = Inr r"
proof -
  let ?obs = "[projr (observe_run (sample_run 10 None)), projr (observe_run (sample_run 8 (Some (Fin 1))))]"
  have "mapR observe_run [sample_run 10 None, sample_run 8 (Some (Fin 1))] = Inr ?obs"
    by (simp add: observe_sample)
  moreover have "\<exists>x. best_rps (po_safety sample_policy) (passed_rps sample_policy min_hit ?obs) = Inr x"
    by (cases "passed_rps sample_policy min_hit ?obs") (auto simp: best_rps_def)
  moreover have "pl_ok (fold count_policy ?obs no_policy_counts) = 1"
    by (simp add: observe_sample count_policy_def no_policy_counts_def)
  ultimately show ?thesis
    using run_fraction_unit [of 1 2] by (auto simp: recommend_runs_def Let_def)
qed

theorem policy_counts_agree_witness:
  "\<exists>q. summarize_runs_quality [sample_run 10 None, sample_run 8 (Some (Fin 1))] = Inr q \<and> rq_total q = 2"
proof -
  obtain r where r: "recommend_runs sample_policy None [sample_run 10 None, sample_run 8 (Some (Fin 1))] = Inr r"
    using recommend_sample_ok by blast
  moreover have "re_num_runs r = 2" using r by (auto simp: recommend_runs_def bindR_eq_Inr Let_def)
  ultimately show ?thesis using policy_counts_agree [OF r] by auto
qed

theorem dual_boundary_conservative_witness:
  "\<exists>c1 c2. compare_runs sample_policy (Fin 0) [sample_run 10 None, sample_run 8 (Some (Fin 1))] = Inr c1 \<and>
     compare_runs sample_policy (Fin 1) [sample_run 10 None, sample_run 8 (Some (Fin 1))] = Inr c2 \<and>
     fle (cm_dual_rps c1) (cm_baseline_rps c1) \<and> fle (cm_dual_rps c2) (cm_dual_rps c1)"
proof -
  let ?runs = "[sample_run 10 None, sample_run 8 (Some (Fin 1))]"
  obtain c1 c2 where c: "compare_runs sample_policy (Fin 0) ?runs = Inr c1" "compare_runs sample_policy (Fin 1) ?runs = Inr c2"
    using recommend_sample_ok [of None] recommend_sample_ok [of "Some (Fin 0)"] recommend_sample_ok [of "Some (Fin 1)"]
    by (auto simp: compare_runs_def)
  have "is_f64 (Fin 10)" "is_f64 (Fin 8)" 
    using fl_is_f64 [of 10] fl_is_f64 [of 8] by (simp_all add: float_simps del: is_f64.simps fl_is_f64)
  then have "list_all sane_run ?runs" by (simp add: sane_run_def observe_sample)
  from dual_boundary_conservative [OF c _ _ this, of 1] c show ?thesis by (simp add: sample_policy_def)
qed

theorem recommendation_is_best_admissible_witness:
  "\<exists>r. recommend_runs sample_policy (Some (Fin 1)) [sample_run 10 None, sample_run 8 (Some (Fin 1))] = Inr r \<and>
     list_ex (\<lambda>e. re_rps r = fmul (run_rps e) (po_safety sample_policy)) [sample_run 10 None, sample_run 8 (Some (Fin 1))]"
proof -
  let ?runs = "[sample_run 10 None, sample_run 8 (Some (Fin 1))]"
  obtain r where r: "recommend_runs sample_policy (Some (Fin 1)) ?runs = Inr r" using recommend_sample_ok by blast
  have n: "list_all (\<lambda>e. run_rps e \<noteq> NaN) ?runs" by (simp add: run_rps_def observe_sample)
  have "list_ex (admissible sample_policy (Some (Fin 1))) ?runs"
    by (simp add: admissible_def observe_sample hard_ok_def hot_ok_def sample_policy_def)
  with recommendation_is_best_admissible [OF r n] r show ?thesis by auto
qed

end
