(* ===== verification/Runner.thy ===== *)
theory Runner
  imports PyJson PyStats
begin

text \<open>
  \<open>benchmark/runner.py\<close>: the deterministic workload of a benchmark run and the summary of its measured
  requests.  The pseudo-random generator is a parameter: \<open>choice seed i\<close> is the i-th letter and
  \<open>unit seed\<close> the first number that \<open>random.Random(seed)\<close> draws.  The outcomes of a batch, the pairs of
  duration and success in the order the requests complete, and the clock are arguments.
\<close>

section \<open>The workload\<close>

record workload =
  wl_ratio :: pyfloat
  wl_prefix_len :: int
  wl_suffix_len :: int
  wl_input_len :: int
  wl_output_len :: int
  wl_concurrency :: int
  wl_requests :: int
  wl_warmup :: int

fun hex_value :: "nat \<Rightarrow> string \<Rightarrow> nat" where
  "hex_value acc [] = acc"
| "hex_value acc (c # s) = (let n = (of_char c :: nat) in hex_value (16 * acc + (if n < 58 then n - 48 else n - 87)) s)"

definition deterministic_request_seed :: "int \<Rightarrow> int \<Rightarrow> int" where
  "deterministic_request_seed base_seed request_id =
     int (hex_value 0 (take 16 (sha256_hex (utf8 (int_str base_seed @ '':'' @ int_str request_id)))))"

definition build_prompt :: "(int \<Rightarrow> nat \<Rightarrow> char) \<Rightarrow> int \<Rightarrow> int \<Rightarrow> string" where
  "build_prompt choice seed input_len = map (choice seed) [0..<nat (max input_len 1)]"

definition use_shared_prefix :: "(int \<Rightarrow> pyfloat) \<Rightarrow> int \<Rightarrow> pyfloat \<Rightarrow> bool" where
  "use_shared_prefix unit_draw seed ratio = flt (unit_draw (seed XOR 0x5A5A5A5A)) (py_max (Fin 0) (py_min (Fin 1) ratio))"

definition build_prompt_with_reuse ::
  "(int \<Rightarrow> nat \<Rightarrow> char) \<Rightarrow> (int \<Rightarrow> pyfloat) \<Rightarrow> int \<Rightarrow> workload \<Rightarrow> string" where
  "build_prompt_with_reuse choice unit_draw seed w =
     (let shared_len = (if use_shared_prefix unit_draw seed (wl_ratio w) then wl_prefix_len w else 0);
          shared = replicate (nat (max 0 shared_len)) (CHR ''S'');
          unique_target = max 1 (max (wl_input_len w - shared_len) (wl_suffix_len w));
          unique = build_prompt choice (seed + 1) unique_target;
          prompt = (if shared \<noteq> [] then shared @ [CHR 0x0A] @ unique else unique)
      in if wl_input_len w < int (length prompt) then slice_to (wl_input_len w) prompt
         else if int (length prompt) < wl_input_len w
           then prompt @ replicate (nat (wl_input_len w - int (length prompt))) (CHR ''x'')
         else prompt)"

definition request_digest :: "string list \<Rightarrow> string" where
  "request_digest prompts = sha256_hex (concat (map (\<lambda>p. utf8 p @ [CHR 0x0A]) prompts))"

section \<open>Measured requests\<close>

definition runner_percentile :: "pyfloat list \<Rightarrow> pyfloat \<Rightarrow> pyfloat res" where
  "runner_percentile values_of_run q =
     (case py_sorted values_of_run of
        [] \<Rightarrow> Inr (Fin 0)
      | [x] \<Rightarrow> Inr x
      | xs \<Rightarrow>
          let idx = fmul q (Fin (of_nat (length xs - 1))) in
          bindR (int_of_float idx) (\<lambda>lo.
          let hi = min (lo + 1) (int (length xs) - 1); frac = fsub idx (Fin (of_int lo)) in
          bindR (py_nth xs lo) (\<lambda>a. bindR (py_nth xs hi) (\<lambda>b.
          Inr (fadd (fmul a (fsub (Fin 1) frac)) (fmul b frac))))))"

record batch =
  bt_latencies :: "pyfloat list"
  bt_ok :: int
  bt_total :: int
  bt_failed :: int
  bt_elapsed :: pyfloat

definition run_request_batch :: "(pyfloat \<times> bool) list \<Rightarrow> pyfloat \<Rightarrow> batch" where
  "run_request_batch results elapsed =
     (let ok = int (length (filter snd results)) in
      \<lparr>bt_latencies = map fst results, bt_ok = ok, bt_total = int (length results),
       bt_failed = int (length results) - ok, bt_elapsed = py_max (fl (1 / 10 ^ 9)) elapsed\<rparr>)"

record run_clock =
  ck_started :: pyfloat
  ck_warmup_end :: pyfloat
  ck_finished :: pyfloat

definition run_summary :: "workload \<Rightarrow> int \<Rightarrow> string list \<Rightarrow> run_clock \<Rightarrow> nat \<Rightarrow> batch \<Rightarrow> batch \<Rightarrow> pydict res" where
  "run_summary w base_seed prompts ck n_warmup warmup measured =
     bindR (runner_percentile (bt_latencies measured) (fl (95 / 100))) (\<lambda>p95.
     bindR (if bt_latencies measured = [] then Inr (Fin 0)
            else bindR (stat_mean (bt_latencies measured)) (\<lambda>m. Inr (fmul m (Fin 1000)))) (\<lambda>mean.
     bindR (fdiv (Fin (of_int (bt_ok measured))) (bt_elapsed measured)) (\<lambda>req_s.
     Inr [(''requests'', VDict [(''total'', VInt (bt_total measured)), (''ok'', VInt (bt_ok measured)),
            (''failed'', VInt (bt_failed measured))]),
          (''latency'', VDict [(''e2e_latency_p95_ms'', VFloat (fmul p95 (Fin 1000))), (''e2e_latency_mean_ms'', VFloat mean),
            (''ttft_p95_ms'', VNone), (''tpot_p95_ms'', VNone)]),
          (''warmup'', VDict [(''requests'', VInt (int n_warmup)), (''completed'', VInt (bt_total warmup)),
            (''ok'', VInt (bt_ok warmup)), (''failed'', VInt (bt_failed warmup)), (''elapsed_s'', VFloat (bt_elapsed warmup))]),
          (''timing'', VDict [(''run_started_ts'', VFloat (ck_started ck)), (''warmup_end_ts'', VFloat (ck_warmup_end ck)),
            (''run_finished_ts'', VFloat (ck_finished ck))]),
          (''throughput'', VDict [(''req_s'', VFloat req_s), (''elapsed_s'', VFloat (bt_elapsed measured))]),
          (''workload'', VDict [(''shared_prefix_ratio'', VFloat (wl_ratio w)), (''shared_prefix_len'', VInt (wl_prefix_len w)),
            (''unique_suffix_len'', VInt (wl_suffix_len w)), (''input_len'', VInt (wl_input_len w)),
            (''output_len'', VInt (wl_output_len w)), (''concurrency'', VInt (wl_concurrency w)),
            (''num_requests'', VInt (wl_requests w)), (''warmup_requests'', VInt (int n_warmup))]),
          (''reproducibility'', VDict [(''base_seed'', VInt base_seed),
            (''request_seed_strategy'', VStr ''sha256(base_seed:request_id)''),
            (''prompt_digest_sha256'', VStr (request_digest prompts))])])))"

text \<open>
  \<open>run_custom_http\<close>: \<open>send\<close> performs a batch for the given seeds and returns the completed requests with
  the elapsed time; the warm-up batch goes first.
\<close>

definition run_custom_http ::
  "(int \<Rightarrow> nat \<Rightarrow> char) \<Rightarrow> (int \<Rightarrow> pyfloat) \<Rightarrow> (int list \<Rightarrow> (pyfloat \<times> bool) list \<times> pyfloat) \<Rightarrow> run_clock \<Rightarrow> int \<Rightarrow>
   workload \<Rightarrow> pydict res" where
  "run_custom_http choice unit_draw send ck base_seed w =
     (let req_seeds = map (\<lambda>i. deterministic_request_seed base_seed (int i)) [0..<nat (max 0 (wl_requests w))];
          warmup_seeds = map (\<lambda>i. deterministic_request_seed (base_seed XOR 0xA5A5A5A5) (int i)) [0..<nat (max 0 (wl_warmup w))];
          prompts = map (\<lambda>s. build_prompt_with_reuse choice unit_draw s w) req_seeds;
          warmup = (case send warmup_seeds of (rs, t) \<Rightarrow> run_request_batch rs t);
          measured = (case send req_seeds of (rs, t) \<Rightarrow> run_request_batch rs t)
      in run_summary w base_seed prompts ck (length warmup_seeds) warmup measured)"

section \<open>Facts\<close>

text \<open>A prompt has exactly the requested length: its body is cut or filled.\<close>

lemma build_prompt_length: "length (build_prompt choice seed n) = nat (max n 1)"
  by (simp add: build_prompt_def)

definition prompt_body :: "(int \<Rightarrow> nat \<Rightarrow> char) \<Rightarrow> (int \<Rightarrow> pyfloat) \<Rightarrow> int \<Rightarrow> workload \<Rightarrow> string" where
  "prompt_body choice unit_draw seed w =
     (let shared_len = (if use_shared_prefix unit_draw seed (wl_ratio w) then wl_prefix_len w else 0);
          shared = replicate (nat (max 0 shared_len)) (CHR ''S'');
          unique = build_prompt choice (seed + 1) (max 1 (max (wl_input_len w - shared_len) (wl_suffix_len w)))
      in if shared \<noteq> [] then shared @ [CHR 0x0A] @ unique else unique)"

lemma prompt_of_body:
  assumes "0 \<le> wl_input_len w"
  shows "build_prompt_with_reuse choice unit_draw seed w =
     take (nat (wl_input_len w)) (prompt_body choice unit_draw seed w @
       replicate (nat (wl_input_len w) - length (prompt_body choice unit_draw seed w)) (CHR ''x''))"
proof -
  define b where "b = prompt_body choice unit_draw seed w"
  define n where "n = nat (wl_input_len w)"
  have n: "wl_input_len w = int n" using assms by (simp add: n_def)
  have "build_prompt_with_reuse choice unit_draw seed w =
     (if wl_input_len w < int (length b) then slice_to (wl_input_len w) b
      else if int (length b) < wl_input_len w then b @ replicate (nat (wl_input_len w - int (length b))) (CHR ''x'') else b)"
    by (simp only: build_prompt_with_reuse_def b_def prompt_body_def Let_def)
  also have "\<dots> = take n (b @ replicate (n - length b) (CHR ''x''))"
    by (auto simp: n slice_to_def nat_diff_distrib)
  finally show ?thesis by (simp add: b_def n_def)
qed

lemma prompt_length:
  "0 \<le> wl_input_len w \<Longrightarrow> length (build_prompt_with_reuse choice unit_draw seed w) = nat (wl_input_len w)"
  by (simp add: prompt_of_body)

lemma shared_prompt:
  assumes "use_shared_prefix unit_draw seed (wl_ratio w)" "0 < wl_prefix_len w" "wl_prefix_len w \<le> wl_input_len w"
  shows "take (nat (wl_prefix_len w)) (build_prompt_with_reuse choice unit_draw seed w) =
         replicate (nat (wl_prefix_len w)) (CHR ''S'')"
proof -
  have "\<exists>r. prompt_body choice unit_draw seed w = replicate (nat (wl_prefix_len w)) (CHR ''S'') @ r"
    using assms by (auto simp: prompt_body_def Let_def max_def)
  then obtain r where "prompt_body choice unit_draw seed w = replicate (nat (wl_prefix_len w)) (CHR ''S'') @ r" ..
  moreover have "nat (wl_prefix_len w) \<le> nat (wl_input_len w)" using assms(3) by simp
  ultimately show ?thesis using assms by (simp add: prompt_of_body take_take min_def)
qed

text \<open>Prompts that use the shared prefix agree on it, whatever their seeds.\<close>

lemma shared_prompts_agree:
  assumes "use_shared_prefix unit_draw s (wl_ratio w)" "use_shared_prefix unit_draw t (wl_ratio w)"
    "0 < wl_prefix_len w" "wl_prefix_len w \<le> wl_input_len w"
  shows "take (nat (wl_prefix_len w)) (build_prompt_with_reuse choice unit_draw s w) =
         take (nat (wl_prefix_len w)) (build_prompt_with_reuse choice unit_draw t w)"
  using assms by (simp add: shared_prompt)

text \<open>The summary's request counts.\<close>

lemma run_summary_requests:
  assumes "run_custom_http choice unit_draw send ck base_seed w = Inr s"
  shows "\<exists>total_n ok failed. dget s ''requests'' =
      Some (VDict [(''total'', VInt total_n), (''ok'', VInt ok), (''failed'', VInt failed)]) \<and>
     ok + failed = total_n \<and> 0 \<le> ok \<and> 0 \<le> failed"
  using assms length_filter_le [of snd]
  by (auto simp: run_custom_http_def run_summary_def run_request_batch_def bindR_eq_Inr Let_def dget_def
      split: prod.splits)

end
