(* ===== verification/Experiment.thy ===== *)
theory Experiment
  imports PromParse Policy Runner
begin

text \<open>
  \<open>benchmark/collect.py\<close> and \<open>benchmark/experiment.py\<close>: one measured run takes a snapshot of the backend's
  and the exporter's metrics before and after the load, derives the window metrics from the backend's
  two snapshots and records the quality of the run; the runs of a point are then aggregated.  What the
  HTTP client returns or raises, the text of an exception (\<open>str(exc)\<close>) and the clock are arguments.
\<close>

section \<open>Collecting metrics\<close>

definition float_dict :: "metrics \<Rightarrow> pydict" where
  "float_dict m = map (\<lambda>(k, x). (k, VFloat x)) m"

text \<open>\<open>resp\<close> is the text of the response, or what the client or \<open>raise_for_status\<close> raised.\<close>

definition fetch_metrics_snapshot ::
  "(string \<Rightarrow> metric_family list res) \<Rightarrow> string option \<Rightarrow> labels option \<Rightarrow> string res \<Rightarrow> pyfloat \<Rightarrow> pydict res" where
  "fetch_metrics_snapshot families env label_filter resp now =
     (let filt = (case label_filter of Some f \<Rightarrow> Some f | None \<Rightarrow> parse_label_filter_from_env env) in
      bindR resp (\<lambda>t.
      make_metric_snapshot now (Some (float_dict (aggregate_prometheus_text families env t filt))) (Some now) []))"

text \<open>The \<open>try\<close> around a fetch: the snapshot and the error text, empty for a success.\<close>

definition try_fetch ::
  "(string \<Rightarrow> metric_family list res) \<Rightarrow> string option \<Rightarrow> (pyerr \<Rightarrow> string) \<Rightarrow> string res \<Rightarrow> pyfloat \<Rightarrow> pyfloat \<Rightarrow>
   (pydict \<times> string) res" where
  "try_fetch families env err_text resp now later =
     (case fetch_metrics_snapshot families env None resp now of
        Inr s \<Rightarrow> Inr (s, [])
      | Inl e \<Rightarrow> bindR (make_metric_snapshot later (Some []) (Some later) (err_text e)) (\<lambda>s. Inr (s, err_text e)))"

section \<open>A run\<close>

definition scenario_config :: "string \<Rightarrow> pyfloat \<times> int \<times> int" where
  "scenario_config name = (if name = ''high_reuse'' then (fl (95 / 100), 256, 64) else (Fin 0, 0, 256))"

text \<open>
  The outside world of a run: the readings of the clock (\<open>rp_clock i\<close> for the i-th call site), the four
  responses and the summary the load generator returns.
\<close>

record run_probe =
  rp_clock :: "nat \<Rightarrow> pyfloat"
  rp_backend_before :: "string res"
  rp_exporter_before :: "string res"
  rp_summary :: "pydict res"
  rp_backend_after :: "string res"
  rp_exporter_after :: "string res"

definition opt_number :: "pyval \<Rightarrow> pyfloat option res" where
  "opt_number v = (if v = VNone then Inr None else bindR (py_float v) (\<lambda>x. Inr (Some x)))"

definition set_missing :: "bool \<Rightarrow> pydict \<Rightarrow> pydict" where
  "set_missing failed w =
     dset (dset w ''metrics_missing'' (VBool (failed \<or> truthy (dget_or w ''metrics_missing'' VNone))))
       ''metrics_stale'' (VBool False)"

text \<open>The entry with its snapshots and window metrics, before its quality is added.\<close>

definition run_document ::
  "int \<Rightarrow> string \<Rightarrow> pydict \<Rightarrow> pyfloat \<Rightarrow> pyfloat option \<Rightarrow> pyfloat \<Rightarrow> pydict \<Rightarrow> pydict \<Rightarrow> pydict \<Rightarrow> pydict \<Rightarrow> pydict \<Rightarrow> pydict" where
  "run_document rep point_label summary start_ts warmup_ts end_ts bb ba eb ea window =
     (let exporter_metrics = (case dget_or ea ''metrics'' (VDict []) of VDict m \<Rightarrow> m | _ \<Rightarrow> []);
          entry = make_run_entry rep summary exporter_metrics (Some start_ts) warmup_ts (Some end_ts) ''backend'';
          versioned = dset entry ''schema_version'' (VInt 3);
          labelled = (if point_label \<noteq> [] then dset versioned ''point_label'' (VStr point_label) else versioned);
          snapshots = fold (\<lambda>(k, s) d. dset d k (VDict s))
            [(''backend_before'', bb), (''backend_after'', ba), (''exporter_before'', eb), (''exporter_after'', ea)]
            empty_metric_snapshots
      in dset (dset labelled ''metric_snapshots'' (VDict snapshots)) ''derived_window_metrics'' (VDict window))"

definition run_windowed_experiment ::
  "(string \<Rightarrow> metric_family list res) \<Rightarrow> string option \<Rightarrow> (pyerr \<Rightarrow> string) \<Rightarrow> int \<Rightarrow> string \<Rightarrow> run_probe \<Rightarrow> pydict res" where
  "run_windowed_experiment families env err_text rep point_label p =
     bindR (try_fetch families env err_text (rp_backend_before p) (rp_clock p 1) (rp_clock p 2)) (\<lambda>(bb, bb_error).
     bindR (try_fetch families env err_text (rp_exporter_before p) (rp_clock p 3) (rp_clock p 4)) (\<lambda>(eb, _).
     bindR (rp_summary p) (\<lambda>summary.
     bindR (vget (dget_or summary ''timing'' (VDict [])) ''warmup_end_ts'' VNone) (\<lambda>warmup_end.
     bindR (bindR (vget (dget_or summary ''timing'' (VDict [])) ''run_finished_ts'' (VFloat (rp_clock p 5))) py_float) (\<lambda>end_ts.
     bindR (try_fetch families env err_text (rp_backend_after p) (rp_clock p 6) (rp_clock p 7)) (\<lambda>(ba, ba_error).
     bindR (try_fetch families env err_text (rp_exporter_after p) (rp_clock p 8) (rp_clock p 9)) (\<lambda>(ea, _).
     bindR (opt_number warmup_end) (\<lambda>warmup_ts.
     bindR (derive_window_metrics (Some bb) (Some ba) default_prefix_hits_keys default_prefix_queries_keys ''backend'') (\<lambda>w.
     let doc = run_document rep point_label summary (rp_clock p 0) warmup_ts end_ts bb ba eb ea
           (set_missing (bb_error \<noteq> [] \<or> ba_error \<noteq> []) w) in
     bindR (summarize_entry_quality doc) (\<lambda>q. Inr (dset doc ''quality'' (VDict q))))))))))))"

section \<open>The runs of a point\<close>

record run_aggregates =
  ag_repeats :: nat
  ag_req_s :: "pyfloat option"
  ag_e2e :: "pyfloat option"
  ag_hit :: "pyfloat option"
  ag_hidden :: "pyfloat option"
  ag_goodput :: "pyfloat option"
  ag_gpu :: "pyfloat option"
  ag_quality :: runs_quality

text \<open>\<open>float(e[part]...[key])\<close>.\<close>

fun item_path :: "string list \<Rightarrow> pyval \<Rightarrow> pyval res" where
  "item_path [] v = Inr v"
| "item_path (k # ks) v = bindR (vitem v k) (item_path ks)"

definition path_number :: "string list \<Rightarrow> pydict \<Rightarrow> pyfloat res" where
  "path_number ks e = bindR (item_path ks (VDict e)) py_float"

text \<open>The numbers a key of a part holds where it is present and not \<open>None\<close>.\<close>

definition present_numbers :: "(pydict \<Rightarrow> pyval res) \<Rightarrow> string \<Rightarrow> pydict list \<Rightarrow> pyfloat list res" where
  "present_numbers part key es =
     bindR (mapR (\<lambda>e. bindR (part e) (\<lambda>v. bindR (vget v key VNone) opt_number)) es) (\<lambda>xs. Inr (List.map_filter id xs))"

definition ok_hit_ratios :: "pydict list \<Rightarrow> pyfloat list res" where
  "ok_hit_ratios es =
     bindR (mapR get_entry_hit_ratio_and_quality es) (\<lambda>rs.
     Inr (List.map_filter (\<lambda>(v, q). if q = ''ok'' then v else None) rs))"

definition mean_or_none :: "pyfloat list \<Rightarrow> pyfloat option res" where
  "mean_or_none xs = (if xs = [] then Inr None else bindR (float_mean xs) (\<lambda>m. Inr (Some m)))"

definition aggregate_run_entries :: "pydict list \<Rightarrow> run_aggregates res" where
  "aggregate_run_entries entries =
     (if entries = [] then
        bindR (summarize_runs_quality entries) (\<lambda>q.
        Inr \<lparr>ag_repeats = 0, ag_req_s = None, ag_e2e = None, ag_hit = None, ag_hidden = None, ag_goodput = None,
             ag_gpu = None, ag_quality = q\<rparr>)
      else
        bindR (mapR (path_number [''summary'', ''throughput'', ''req_s'']) entries) (\<lambda>req_s.
        bindR (mapR (path_number [''summary'', ''latency'', ''e2e_latency_p95_ms'']) entries) (\<lambda>e2e.
        bindR (ok_hit_ratios entries) (\<lambda>hits.
        bindR (mapR (\<lambda>e. bindR (vget (dget_or e ''exporter_metrics'' (VDict [])) ''kvcache_kv_hidden_reuse_ready_perc''
            (VFloat (Fin 0))) py_float) entries) (\<lambda>hidden.
        bindR (present_numbers (\<lambda>e. vitem (VDict e) ''summary'') ''goodput_req_s'' entries) (\<lambda>goodput.
        bindR (present_numbers (\<lambda>e. Inr (dget_or e ''resource'' (VDict []))) ''gpu_seconds'' entries) (\<lambda>gpu.
        bindR (summarize_runs_quality entries) (\<lambda>q.
        bindR (float_mean req_s) (\<lambda>m1. bindR (float_mean e2e) (\<lambda>m2. bindR (mean_or_none hits) (\<lambda>m3.
        bindR (float_mean hidden) (\<lambda>m4. bindR (mean_or_none goodput) (\<lambda>m5. bindR (mean_or_none gpu) (\<lambda>m6.
        Inr \<lparr>ag_repeats = length entries, ag_req_s = Some m1, ag_e2e = Some m2, ag_hit = m3, ag_hidden = Some m4,
             ag_goodput = m5, ag_gpu = m6, ag_quality = q\<rparr>))))))))))))))"

section \<open>Facts\<close>

text \<open>Snapshots of floats are always made.\<close>

lemma snapshot_made:
  "make_metric_snapshot now (Some (float_dict m)) (Some ts) err =
     Inr [(''ts'', VFloat ts), (''metrics'', VDict (float_dict m)), (''error'', VStr err)]"
proof -
  have "mapR (\<lambda>(k, v). bindR (py_float v) (\<lambda>x. Inr (k, VFloat x))) (float_dict m) = Inr (float_dict m)"
    by (induction m) (auto simp: float_dict_def)
  then show ?thesis by (simp add: make_metric_snapshot_def)
qed

lemma empty_snapshot_made:
  "make_metric_snapshot now (Some []) (Some ts) err = Inr [(''ts'', VFloat ts), (''metrics'', VDict []), (''error'', VStr err)]"
  using snapshot_made [of now "[]"] by (simp add: float_dict_def)

text \<open>A fetch fails exactly when the response does; its snapshot is then empty and carries the error text.\<close>

lemma try_fetch_failed:
  "try_fetch families env err_text (Inl e) now later =
     Inr ([(''ts'', VFloat later), (''metrics'', VDict []), (''error'', VStr (err_text e))], err_text e)"
  by (simp add: try_fetch_def fetch_metrics_snapshot_def empty_snapshot_made)

lemma try_fetch_ok:
  "\<exists>m. try_fetch families env err_text (Inr t) now later =
     Inr ([(''ts'', VFloat now), (''metrics'', VDict (float_dict m)), (''error'', VStr [])], [])"
  by (auto simp: try_fetch_def fetch_metrics_snapshot_def snapshot_made Let_def)

lemma pick_from_empty: "pick_from (VDict []) keys = Inr (None, [])"
  by (induction keys) (auto simp: pick_from_def pick_metric_with_name_def dhas_def split: if_splits)

text \<open>Without a reading on one side, or with a failed scrape before, there is no ratio.\<close>

lemma window_without_ratio:
  assumes "derive_window_metrics (Some b) (Some a) hk qk src = Inr w"
    and "dget_or a ''metrics'' (VDict []) = VDict [] \<or>
         dget_or b ''metrics'' (VDict []) = VDict [] \<and> snapshot_has_error (Some b)"
  shows "dget w ''cache_hit_ratio_window'' = Some VNone"
proof -
  have none: "compute_hit_ratio_from_deltas None q = Inr None" for q by (simp add: compute_hit_ratio_from_deltas_def)
  from assms(2) show ?thesis
  proof
    assume "dget_or a ''metrics'' (VDict []) = VDict []"
    with assms(1) show ?thesis
      by (auto simp: derive_window_metrics_def snapshot_metrics_def pick_from_empty bindR_eq_Inr compute_counter_delta_def
          default_before_def none opt_v_def dget_def Let_def split: option.split_asm)
  next
    assume "dget_or b ''metrics'' (VDict []) = VDict [] \<and> snapshot_has_error (Some b)"
    with assms(1) show ?thesis
      by (auto simp: derive_window_metrics_def snapshot_metrics_def pick_from_empty bindR_eq_Inr compute_counter_delta_def
          default_before_def none opt_v_def dget_def Let_def)
  qed
qed

text \<open>The document of a run: its window metrics come from the backend's two snapshots.\<close>

lemma run_document_window:
  "dget (dset (run_document rep label summary t0 t1 t2 bb ba eb ea window) ''quality'' q) ''derived_window_metrics'' =
   Some (VDict window)"
  by (simp add: run_document_def Let_def dget_dset)

lemma run_entryD:
  assumes "run_windowed_experiment families env err_text rep label p = Inr entry"
  shows "\<exists>bb bb_error ba ba_error w.
    try_fetch families env err_text (rp_backend_before p) (rp_clock p 1) (rp_clock p 2) = Inr (bb, bb_error) \<and>
    try_fetch families env err_text (rp_backend_after p) (rp_clock p 6) (rp_clock p 7) = Inr (ba, ba_error) \<and>
    derive_window_metrics (Some bb) (Some ba) default_prefix_hits_keys default_prefix_queries_keys ''backend'' = Inr w \<and>
    dget entry ''derived_window_metrics'' = Some (VDict (set_missing (bb_error \<noteq> [] \<or> ba_error \<noteq> []) w))"
  using assms
  by (auto simp: run_windowed_experiment_def bindR_eq_Inr Let_def run_document_window simp del: vget.simps)

lemma entry_of_window:
  assumes "dget entry ''derived_window_metrics'' = Some (VDict (set_missing f w))" "dget w ''cache_hit_ratio_window'' = Some VNone"
  shows "get_entry_hit_ratio_quality_and_source entry = Inr (None, ''missing'', ''window'')"
  using assms
  by (simp add: get_entry_hit_ratio_quality_and_source_def set_missing_def dget_or_def dget_dset)

section \<open>Properties\<close>

text \<open>
  Property C19.  When the backend scrape after the load failed, or the one before it failed with an exception that has a
  text, the run has no hit ratio, its window says the metrics are missing, and the policy, when it can read the run at all,
  rejects it under every minimum hit ratio.  A scrape before the load that fails with an exception without a text is not
  covered: it leaves no error behind, and theorem \<open>silent_failure_counts_as_evidence\<close> below shows that such a run counts
  as strict evidence.
\<close>

theorem failed_scrape_no_evidence:
  assumes "run_windowed_experiment families env err_text rep label p = Inr entry"
    and "(\<exists>e. rp_backend_after p = Inl e) \<or> (\<exists>e. rp_backend_before p = Inl e \<and> err_text e \<noteq> [])"
  shows "get_entry_hit_ratio_quality_and_source entry = Inr (None, ''missing'', ''window'') \<and>
     (\<exists>w. dget entry ''derived_window_metrics'' = Some (VDict w) \<and> dget w ''metrics_missing'' = Some (VBool True)) \<and>
     (case observe_run entry of Inl _ \<Rightarrow> True | Inr ob \<Rightarrow> \<not> hot_ok (Some h) ob)"
proof -
  from run_entryD [OF assms(1)] obtain bb bb_error ba ba_error w where
    bb: "try_fetch families env err_text (rp_backend_before p) (rp_clock p 1) (rp_clock p 2) = Inr (bb, bb_error)"
    and ba: "try_fetch families env err_text (rp_backend_after p) (rp_clock p 6) (rp_clock p 7) = Inr (ba, ba_error)"
    and w: "derive_window_metrics (Some bb) (Some ba) default_prefix_hits_keys default_prefix_queries_keys ''backend'' = Inr w"
    and entry: "dget entry ''derived_window_metrics'' = Some (VDict (set_missing (bb_error \<noteq> [] \<or> ba_error \<noteq> []) w))"
    by blast
  have "dget_or ba ''metrics'' (VDict []) = VDict [] \<or>
      dget_or bb ''metrics'' (VDict []) = VDict [] \<and> snapshot_has_error (Some bb)"
    using assms(2) bb ba by (auto simp: try_fetch_failed snapshot_has_error_def dget_or_def dget_def)
  then have none: "dget w ''cache_hit_ratio_window'' = Some VNone" by (rule window_without_ratio [OF w])
  from derive_window_metricsD [OF w] none have m: "dget w ''metrics_missing'' = Some (VBool True)"
    by (auto simp: opt_v_def split: option.split_asm)
  have hit: "get_entry_hit_ratio_quality_and_source entry = Inr (None, ''missing'', ''window'')"
    by (rule entry_of_window [OF entry none])
  have "\<not> hot_ok (Some h) ob" if "observe_run entry = Inr ob" for ob
  proof -
    have "ob_hit ob = (None, ''missing'', ''window'')" using observe_runD(1) [OF that] hit by simp
    then show ?thesis by (simp add: hot_ok_def)
  qed
  with hit entry m show ?thesis by (auto simp: set_missing_def dget_or_def dget_dset split: sum.split)
qed

section \<open>Instances\<close>

text \<open>A backend that reports ten hits in ten queries, and a run of ten good requests.\<close>

definition probe_families :: "string \<Rightarrow> metric_family list res" where
  "probe_families t = Inr [\<lparr>mf_type = ''counter'', mf_samples =
     [\<lparr>sm_name = ''vllm:prefix_cache_hits_total'', sm_labels = [], sm_value = Fin 10\<rparr>,
      \<lparr>sm_name = ''vllm:prefix_cache_queries_total'', sm_labels = [], sm_value = Fin 10\<rparr>]\<rparr>]"

definition probe_summary :: pydict where
  "probe_summary = [(''requests'', VDict [(''ok'', VInt 10), (''total'', VInt 10)]),
     (''latency'', VDict [(''e2e_latency_p95_ms'', VFloat (Fin 100))]), (''throughput'', VDict [(''req_s'', VFloat (Fin 8))]),
     (''timing'', VDict [])]"

definition probe_run :: "string res \<Rightarrow> string res \<Rightarrow> run_probe" where
  "probe_run before after = \<lparr>rp_clock = (\<lambda>_. Fin 0), rp_backend_before = before, rp_exporter_before = Inl HTTPError,
     rp_summary = Inr probe_summary, rp_backend_after = after, rp_exporter_after = Inl HTTPError\<rparr>"

definition probe_metrics :: pydict where
  "probe_metrics = [(''vllm:prefix_cache_hits_total'', VFloat (Fin 10)), (''vllm:prefix_cache_queries_total'', VFloat (Fin 10))]"

lemma probe_fetch:
  "try_fetch probe_families None err_text (Inr t) (Fin 0) (Fin 0) =
     Inr ([(''ts'', VFloat (Fin 0)), (''metrics'', VDict probe_metrics), (''error'', VStr [])], [])"
  by (simp add: try_fetch_def fetch_metrics_snapshot_def parse_label_filter_from_env_def aggregate_prometheus_text_def
      probe_families_def add_family_def aggregatable_def add_sample_def passes_def add_metric_def dget_or_def dget_def dset_def
      float_simps float_dict_def make_metric_snapshot_def probe_metrics_def Let_def)

lemma probe_window:
  "\<exists>w. derive_window_metrics (Some [(''ts'', VFloat (Fin 0)), (''metrics'', VDict []), (''error'', VStr err)])
     (Some [(''ts'', VFloat (Fin 0)), (''metrics'', VDict probe_metrics), (''error'', VStr [])])
     default_prefix_hits_keys default_prefix_queries_keys ''backend'' = Inr w \<and>
     (err = [] \<longrightarrow> dget w ''cache_hit_ratio_window'' = Some (VFloat (Fin 1)) \<and> dget w ''evidence_quality'' = Some (VStr ''strict''))"
  by (simp add: derive_window_metrics_def default_prefix_hits_keys_def default_prefix_queries_keys_def probe_metrics_def
      pick_from_def snapshot_metrics_def dget_or_def dget_def pick_metric_with_name_def dhas_def float_of_int_def
      float_simps default_before_def snapshot_has_error_def compute_counter_delta_def compute_hit_ratio_from_deltas_def fsub_def fdiv_def
      py_max_def py_min_def opt_v_def window_evidence_def token_fallback_names_def)

lemma entry_quality_made:
  assumes "dget e ''derived_window_metrics'' = Some (VDict (set_missing f w))"
    "dget w ''cache_hit_ratio_window'' = Some (opt_v ratio)" "dget_or e ''exporter_metrics'' (VDict []) = VDict []"
  shows "\<exists>q. summarize_entry_quality e = Inr q"
proof -
  have "exporter_evidence_quality e = Inr ''missing''"
    using assms(3) by (simp add: exporter_evidence_quality_def dget_or_def dget_def is_one_def)
  then have ev: "\<exists>x. get_entry_evidence_quality e = Inr x"
    using assms(1) by (simp add: get_entry_evidence_quality_def dget_or_def Let_def)
  have "coerce_finite_float (opt_v ratio) = Inr (case ratio of Some x \<Rightarrow> if isfinite x then Some x else None | None \<Rightarrow> None)"
    by (simp add: opt_v_def split: option.split)
  then obtain r where r: "coerce_finite_float (opt_v ratio) = Inr r" by blast
  have "dget (set_missing f w) ''cache_hit_ratio_window'' = Some (opt_v ratio)"
    using assms(2) by (simp add: set_missing_def dget_dset)
  with assms(1) r have "\<exists>x. get_entry_hit_ratio_quality_and_source e = Inr x"
    by (simp add: get_entry_hit_ratio_quality_and_source_def dget_or_def Let_def)
  with ev show ?thesis by (auto simp: summarize_entry_quality_def)
qed

lemma probe_entry:
  "\<exists>entry. run_windowed_experiment probe_families None err_text 1 [] (probe_run (Inl HTTPError) (Inr [])) = Inr entry \<and>
     (err_text HTTPError = [] \<longrightarrow> get_entry_hit_ratio_quality_and_source entry = Inr (Some (Fin 1), ''ok'', ''window'') \<and>
        get_entry_evidence_quality entry = Inr ''strict'')"
proof -
  obtain w where w: "derive_window_metrics (Some [(''ts'', VFloat (Fin 0)), (''metrics'', VDict []), (''error'', VStr (err_text HTTPError))])
     (Some [(''ts'', VFloat (Fin 0)), (''metrics'', VDict probe_metrics), (''error'', VStr [])])
     default_prefix_hits_keys default_prefix_queries_keys ''backend'' = Inr w"
    "err_text HTTPError = [] \<Longrightarrow> dget w ''cache_hit_ratio_window'' = Some (VFloat (Fin 1))"
    "err_text HTTPError = [] \<Longrightarrow> dget w ''evidence_quality'' = Some (VStr ''strict'')"
    using probe_window [of "err_text HTTPError"] by blast
  let ?w = "set_missing (err_text HTTPError \<noteq> []) w"
  obtain ratio where ratio: "dget w ''cache_hit_ratio_window'' = Some (opt_v ratio)"
    using derive_window_metricsD [OF w(1)] by blast
  define doc where "doc = run_document 1 [] probe_summary (Fin 0) None (Fin 0)
     [(''ts'', VFloat (Fin 0)), (''metrics'', VDict []), (''error'', VStr (err_text HTTPError))]
     [(''ts'', VFloat (Fin 0)), (''metrics'', VDict probe_metrics), (''error'', VStr [])]
     [(''ts'', VFloat (Fin 0)), (''metrics'', VDict []), (''error'', VStr (err_text HTTPError))]
     [(''ts'', VFloat (Fin 0)), (''metrics'', VDict []), (''error'', VStr (err_text HTTPError))] ?w"
  have e: "dget_or [(''ts'', VFloat (Fin 0)), (''metrics'', VDict []), (''error'', VStr t)] ''metrics'' (VDict []) = VDict []" for t
    by (simp add: dget_or_def dget_def)
  have m: "dget (make_run_entry 1 s [] t0 t1 t2 src) ''exporter_metrics'' = Some (VDict [])" for s t0 t1 t2 src
    by (simp add: make_run_entry_def dget_def)
  have "dget doc ''derived_window_metrics'' = Some (VDict ?w)" "dget_or doc ''exporter_metrics'' (VDict []) = VDict []"
    unfolding doc_def run_document_def Let_def e by (simp_all add: dget_dset m dget_or_def)
  then obtain q where q: "summarize_entry_quality doc = Inr q" using entry_quality_made [OF _ ratio] by blast
  have run: "run_windowed_experiment probe_families None err_text 1 [] (probe_run (Inl HTTPError) (Inr [])) =
      Inr (dset doc ''quality'' (VDict q))"
    using w(1) q
    by (simp add: run_windowed_experiment_def probe_run_def try_fetch_failed probe_fetch opt_number_def probe_summary_def
        dget_or_def dget_def doc_def [unfolded probe_summary_def, symmetric])
  have d: "dget (dset doc ''quality'' (VDict q)) ''derived_window_metrics'' = Some (VDict ?w)"
    unfolding doc_def by (rule run_document_window)
  show ?thesis
  proof (intro exI conjI impI)
    assume e: "err_text HTTPError = []"
    show "get_entry_hit_ratio_quality_and_source (dset doc ''quality'' (VDict q)) = Inr (Some (Fin 1), ''ok'', ''window'')"
      using d w(2) [OF e] by (simp add: get_entry_hit_ratio_quality_and_source_def set_missing_def dget_or_def dget_dset)
    show "get_entry_evidence_quality (dset doc ''quality'' (VDict q)) = Inr ''strict''"
      using d w(3) [OF e] by (simp add: get_entry_evidence_quality_def set_missing_def dget_or_def dget_dset)
  qed (rule run)
qed

text \<open>
  The message matters: an exception whose text is empty leaves a snapshot that looks like a successful one
  without counters, the counters then start from zero, and the run counts as strict evidence.
\<close>

theorem silent_failure_counts_as_evidence:
  "\<exists>entry. run_windowed_experiment probe_families None (\<lambda>_. []) 1 [] (probe_run (Inl HTTPError) (Inr [])) = Inr entry \<and>
     get_entry_hit_ratio_quality_and_source entry = Inr (Some (Fin 1), ''ok'', ''window'') \<and>
     get_entry_evidence_quality entry = Inr ''strict''"
  using probe_entry [of "\<lambda>_. []"] by simp

theorem failed_scrape_no_evidence_witness:
  "\<exists>entry. run_windowed_experiment probe_families None (\<lambda>_. ''refused'') 1 [] (probe_run (Inl HTTPError) (Inr [])) = Inr entry \<and>
     get_entry_hit_ratio_quality_and_source entry = Inr (None, ''missing'', ''window'')"
proof -
  obtain entry where e: "run_windowed_experiment probe_families None (\<lambda>_. ''refused'') 1 [] (probe_run (Inl HTTPError) (Inr [])) = Inr entry"
    using probe_entry [of "\<lambda>_. ''refused''"] by blast
  from failed_scrape_no_evidence [OF e] e show ?thesis by (simp add: probe_run_def)
qed

end
