(* ===== verification/Calibrator.thy ===== *)
theory Calibrator
  imports WindowMetrics PyStats
begin

text \<open>
  \<open>planner/auto_calibrator.py\<close>: every pair of a measured sweep point and a hit-ratio threshold is a
  candidate; a candidate keeps the runs that pass all gates, gets a robust score from their
  throughputs, and the best candidate with enough runs is recommended.  Candidates are objects the
  code mutates after it has put them into two lists; here they are addressed by their index.
\<close>

section \<open>Constants and parameters\<close>

definition default_thresholds :: "pyfloat list" where
  "default_thresholds = map (\<lambda>i. py_round 2 (fmul (Fin (of_nat i)) (fl (5 / 100)))) [0..<21]"

definition evidence_uncertainty_of :: "(string \<times> pyfloat) list" where
  "evidence_uncertainty_of =
     [(''strict'', Fin 0), (''estimated'', Fin (1 / 4)), (''fallback'', fl (6 / 10)), (''missing'', Fin 1)]"

record constraints =
  cs_slo_ms :: pyfloat
  cs_min_success :: pyfloat
  cs_min_runs :: int

record weights =
  wt_instability :: pyfloat
  wt_uncertainty :: pyfloat
  wt_safety :: pyfloat

definition default_weights :: weights where
  "default_weights = \<lparr>wt_instability = Fin (3 / 4), wt_uncertainty = Fin (3 / 4), wt_safety = fl (9 / 10)\<rparr>"

section \<open>Reading a run\<close>

definition calib_success_rate :: "pydict \<Rightarrow> pyfloat res" where
  "calib_success_rate run =
     bindR (vget (dget_or run ''summary'' (VDict [])) ''requests'' (VDict [])) (\<lambda>requests.
     bindR (vget requests ''total'' (VInt 0)) (\<lambda>tv. bindR (float_or0 tv) (\<lambda>total_v.
     if flt (Fin 0) total_v
     then bindR (vget requests ''ok'' (VInt 0)) (\<lambda>kv. bindR (float_or0 kv) (\<lambda>ok. fdiv ok total_v))
     else Inr (Fin 0))))"

definition path_step :: "string \<Rightarrow> pyval \<Rightarrow> pyval" where
  "path_step key v = (case v of VDict d \<Rightarrow> dget_or d key (VDict []) | _ \<Rightarrow> VDict [])"

definition calib_number :: "pydict \<Rightarrow> string list \<Rightarrow> pyfloat res" where
  "calib_number run path =
     bindR (catch_tv (float_or0 (fold path_step path (VDict run)))) (\<lambda>x.
     Inr (case x of Some y \<Rightarrow> if isfinite y then y else Fin 0 | None \<Rightarrow> Fin 0))"

section \<open>The gates of a candidate\<close>

record rejected_counts =
  rj_slo :: int
  rj_success_rate :: int
  rj_hit_ratio :: int
  rj_metric_quality :: int
  rj_evidence_missing :: int

record feasible_run =
  fr_rps :: pyfloat
  fr_hit :: pyfloat
  fr_evidence :: string

datatype verdict =
    Slo | SuccessRate | MetricQuality | HitRatio | EvidenceMissing
  | Feasible feasible_run

definition judge_run :: "constraints \<Rightarrow> pyfloat \<Rightarrow> pydict \<Rightarrow> verdict res" where
  "judge_run cs threshold run =
     bindR (get_entry_hit_ratio_quality_and_source run) (\<lambda>(hit, quality, _).
     bindR (get_entry_evidence_quality run) (\<lambda>evidence.
     bindR (calib_number run [''summary'', ''latency'', ''e2e_latency_p95_ms'']) (\<lambda>e2e.
     bindR (calib_success_rate run) (\<lambda>success_rate.
     if flt (cs_slo_ms cs) e2e then Inr Slo
     else if flt success_rate (cs_min_success cs) then Inr SuccessRate
     else if quality \<noteq> ''ok'' then Inr MetricQuality
     else (case hit of
        None \<Rightarrow> Inr HitRatio
      | Some h \<Rightarrow>
          if flt h threshold then Inr HitRatio
          else if evidence = ''missing'' then Inr EvidenceMissing
          else bindR (calib_number run [''summary'', ''throughput'', ''req_s'']) (\<lambda>rps.
               Inr (Feasible \<lparr>fr_rps = rps, fr_hit = h, fr_evidence = evidence\<rparr>)))))))"

definition count_rejected :: "verdict \<Rightarrow> rejected_counts \<Rightarrow> rejected_counts" where
  "count_rejected v c =
     (case v of
        Slo \<Rightarrow> c\<lparr>rj_slo := rj_slo c + 1\<rparr>
      | SuccessRate \<Rightarrow> c\<lparr>rj_success_rate := rj_success_rate c + 1\<rparr>
      | MetricQuality \<Rightarrow> c\<lparr>rj_metric_quality := rj_metric_quality c + 1\<rparr>
      | HitRatio \<Rightarrow> c\<lparr>rj_hit_ratio := rj_hit_ratio c + 1\<rparr>
      | EvidenceMissing \<Rightarrow> c\<lparr>rj_evidence_missing := rj_evidence_missing c + 1\<rparr>
      | Feasible _ \<Rightarrow> c)"

definition none_rejected :: rejected_counts where
  "none_rejected = \<lparr>rj_slo = 0, rj_success_rate = 0, rj_hit_ratio = 0, rj_metric_quality = 0, rj_evidence_missing = 0\<rparr>"

fun feasible_of :: "verdict list \<Rightarrow> feasible_run list" where
  "feasible_of [] = []"
| "feasible_of (Feasible f # vs) = f # feasible_of vs"
| "feasible_of (_ # vs) = feasible_of vs"

section \<open>The score of a candidate\<close>

record candidate =
  cd_scenario :: pyval
  cd_concurrency :: int
  cd_threshold :: pyfloat
  cd_feasible_runs :: int
  cd_total_runs :: int
  cd_mean :: "pyfloat option"
  cd_lower :: pyfloat
  cd_expected :: pyfloat
  cd_instability :: pyfloat
  cd_uncertainty :: pyfloat
  cd_quality :: string
  cd_score :: "pyfloat option"
  cd_reasons :: "string list"
  cd_rejected :: rejected_counts
  cd_selected :: bool

record run_stats =
  rs_mean :: pyfloat
  rs_lower :: pyfloat
  rs_instability :: pyfloat
  rs_uncertainty :: pyfloat
  rs_score :: pyfloat

definition uncertainty_values :: "feasible_run list \<Rightarrow> pyfloat list res" where
  "uncertainty_values fs =
     mapR (\<lambda>f. case dget evidence_uncertainty_of (fr_evidence f) of Some x \<Rightarrow> Inr x | None \<Rightarrow> Inl KeyError) fs"

definition robust_score :: "weights \<Rightarrow> pyfloat \<Rightarrow> pyfloat \<Rightarrow> pyfloat \<Rightarrow> pyfloat \<Rightarrow> pyfloat" where
  "robust_score w lo mean instability uncertainty =
     fsub (fsub lo (fmul (fmul (wt_instability w) mean) instability)) (fmul (fmul (wt_uncertainty w) mean) uncertainty)"

definition candidate_stats :: "weights \<Rightarrow> feasible_run list \<Rightarrow> run_stats res" where
  "candidate_stats w fs =
     (let rps = map fr_rps fs in
     bindR (stat_mean rps) (\<lambda>mean.
     bindR (if 1 < length rps then stat_stdev rps else Inr (Fin 0)) (\<lambda>stddev.
     bindR (fdiv stddev (Fin (sqrt64 (of_nat (length rps))))) (\<lambda>standard_error.
     let lo = py_max (Fin 0) (fsub mean (fmul (fl (196 / 100)) standard_error)) in
     bindR (if flt (Fin 0) mean then fdiv stddev mean else Inr (Fin 1)) (\<lambda>instability.
     bindR (uncertainty_values fs) (\<lambda>us. bindR (stat_mean us) (\<lambda>uncertainty.
     Inr \<lparr>rs_mean = mean, rs_lower = lo, rs_instability = instability, rs_uncertainty = uncertainty,
          rs_score = robust_score w lo mean instability uncertainty\<rparr>)))))))"

definition point_runs :: "pydict \<Rightarrow> pydict list res" where
  "point_runs point = bindR (py_iter (dget_or point ''runs'' (VList [])))
     (mapR (\<lambda>v. case v of VDict d \<Rightarrow> Inr d | _ \<Rightarrow> Inl AttributeError))"

definition candidate_of ::
  "pydict \<Rightarrow> pyfloat \<Rightarrow> constraints \<Rightarrow> weights \<Rightarrow> int \<Rightarrow> rejected_counts \<Rightarrow> feasible_run list \<Rightarrow> candidate res" where
  "candidate_of point threshold cs w n_runs rejected fs =
     (let few = (if int (length fs) < cs_min_runs cs then [''insufficient_feasible_runs''] else []);
          scenario = dget_or point ''scenario'' (VStr ''unknown'') in
      if fs = [] then
        bindR (py_int (dget_or point ''concurrency'' (VInt 0))) (\<lambda>concurrency.
        Inr \<lparr>cd_scenario = scenario, cd_concurrency = concurrency, cd_threshold = threshold, cd_feasible_runs = 0,
          cd_total_runs = n_runs, cd_mean = None, cd_lower = Fin 0, cd_expected = Fin 0, cd_instability = Fin 1,
          cd_uncertainty = Fin 1, cd_quality = ''missing'', cd_score = None, cd_reasons = few, cd_rejected = rejected,
          cd_selected = False\<rparr>)
      else
        bindR (candidate_stats w fs) (\<lambda>s.
        bindR (py_int (dget_or point ''concurrency'' (VInt 0))) (\<lambda>concurrency.
        Inr \<lparr>cd_scenario = scenario, cd_concurrency = concurrency, cd_threshold = threshold,
          cd_feasible_runs = int (length fs), cd_total_runs = n_runs, cd_mean = Some (rs_mean s), cd_lower = rs_lower s,
          cd_expected = fmul (rs_lower s) (wt_safety w), cd_instability = rs_instability s,
          cd_uncertainty = rs_uncertainty s, cd_quality = single_or_mixed (map fr_evidence fs),
          cd_score = Some (rs_score s),
          cd_reasons = few @ (if flt (Fin 0) (rs_uncertainty s) then [''evidence_uncertainty''] else []),
          cd_rejected = rejected, cd_selected = False\<rparr>)))"

definition evaluate_candidate :: "constraints \<Rightarrow> weights \<Rightarrow> pydict \<Rightarrow> pyfloat \<Rightarrow> candidate res" where
  "evaluate_candidate cs w point threshold =
     bindR (point_runs point) (\<lambda>runs.
     bindR (mapR (judge_run cs threshold) runs) (\<lambda>vs.
     candidate_of point threshold cs w (int (length runs)) (fold count_rejected vs none_rejected) (feasible_of vs)))"

section \<open>The choice\<close>

definition num_opt :: "pyfloat option \<Rightarrow> pyfloat" where
  "num_opt x = (case x of Some v \<Rightarrow> v | None \<Rightarrow> NaN)"

definition selectable :: "constraints \<Rightarrow> candidate \<Rightarrow> bool" where
  "selectable cs c \<longleftrightarrow> cd_score c \<noteq> None \<and> cs_min_runs cs \<le> cd_feasible_runs c"

definition candidate_key :: "candidate \<Rightarrow> pyfloat list" where
  "candidate_key c = [num_opt (cd_score c), fneg (cd_uncertainty c), cd_threshold c, Fin (of_int (- cd_concurrency c))]"

definition select_index :: "constraints \<Rightarrow> candidate list \<Rightarrow> nat option" where
  "select_index cs cands =
     (case sort_desc (\<lambda>i. candidate_key (cands ! i)) (filter (\<lambda>i. selectable cs (cands ! i)) [0..<length cands]) of
        [] \<Rightarrow> None | i # _ \<Rightarrow> Some i)"

definition mark_selected :: "nat option \<Rightarrow> candidate list \<Rightarrow> candidate list" where
  "mark_selected sel cands =
     (case sel of None \<Rightarrow> cands | Some i \<Rightarrow> cands[i := (cands ! i)\<lparr>cd_selected := True, cd_reasons := []\<rparr>])"

definition mark_lower :: "constraints \<Rightarrow> candidate \<Rightarrow> candidate" where
  "mark_lower cs c =
     (if \<not> cd_selected c \<and> selectable cs c \<and> ''lower_robust_score'' \<notin> set (cd_reasons c)
      then c\<lparr>cd_reasons := cd_reasons c @ [''lower_robust_score'']\<rparr> else c)"

definition baseline_rps :: "candidate list \<Rightarrow> pyfloat" where
  "baseline_rps cands =
     (case map cd_expected (filter (\<lambda>c. feq (cd_threshold c) (Fin 0) \<and> cd_score c \<noteq> None) cands) of
        [] \<Rightarrow> Fin 0 | x # xs \<Rightarrow> foldl py_max x xs)"

record calibration_advice =
  ca_threshold :: pyfloat
  ca_concurrency :: int
  ca_expected :: pyfloat
  ca_confidence :: pyfloat
  ca_quality :: string
  ca_scenario :: pyval

record calibration =
  cl_recommendation :: "calibration_advice option"
  cl_reason :: "string list"
  cl_status :: string
  cl_action :: string
  cl_canary :: "pyfloat list"
  cl_alternatives :: "candidate list"

definition confidence_of :: "constraints \<Rightarrow> candidate \<Rightarrow> pyfloat" where
  "confidence_of cs c =
     (let sample = py_min (Fin 1) (fl (of_int (cd_feasible_runs c) / of_int (max (cs_min_runs cs * 2) 1)))
      in fmul (fmul sample (py_max (Fin 0) (fsub (Fin 1) (cd_instability c))))
              (py_max (Fin 0) (fsub (Fin 1) (cd_uncertainty c))))"

definition advantage_of :: "pyfloat \<Rightarrow> pyfloat \<Rightarrow> pyfloat res" where
  "advantage_of expected baseline =
     (if flt (Fin 0) baseline then bindR (fdiv expected baseline) (\<lambda>q. Inr (fsub q (Fin 1))) else Inr (Fin 0))"

definition reason_lines :: "candidate \<Rightarrow> pyfloat \<Rightarrow> string list" where
  "reason_lines c advantage =
     [int_str (cd_feasible_runs c) @ '' feasible experiment runs'',
      cd_quality c @ '' cache evidence'',
      ''RPS lower-bound '' @ fixed_str 3 (cd_lower c) @ ''; robust score '' @ fixed_str 3 (num_opt (cd_score c)) @
        '' after instability and evidence penalties'',
      fixed_str 1 (fmul advantage (Fin 100)) @ ''% expected throughput advantage over the threshold-free baseline'']"

definition decide :: "constraints \<Rightarrow> candidate list \<Rightarrow> calibration res" where
  "decide cs cands =
     (let sel = select_index cs cands; alts = map (mark_lower cs) (mark_selected sel cands) in
      case sel of
        None \<Rightarrow>
          Inr \<lparr>cl_recommendation = None,
            cl_reason = [''no threshold/concurrency pair met the SLO, success-rate, evidence, and minimum-run gates''],
            cl_status = ''blocked'', cl_action = ''collect_more_evidence'', cl_canary = [], cl_alternatives = alts\<rparr>
      | Some i \<Rightarrow>
          let c = cands ! i in
          bindR (advantage_of (cd_expected c) (baseline_rps alts)) (\<lambda>advantage.
          Inr \<lparr>cl_recommendation = Some \<lparr>ca_threshold = cd_threshold c, ca_concurrency = cd_concurrency c,
                 ca_expected = py_round 6 (cd_expected c), ca_confidence = py_round 6 (confidence_of cs c),
                 ca_quality = cd_quality c, ca_scenario = cd_scenario c\<rparr>,
            cl_reason = reason_lines c advantage,
            cl_status = ''human_approval_required'', cl_action = ''replay_then_canary'',
            cl_canary = [fl (5 / 100), Fin (1 / 4), Fin (1 / 2), Fin 1], cl_alternatives = alts\<rparr>))"

definition calibrate :: "constraints \<Rightarrow> weights option \<Rightarrow> pyfloat list \<Rightarrow> pydict list \<Rightarrow> calibration res" where
  "calibrate cs w thresholds points =
     (let w' = (case w of Some x \<Rightarrow> x | None \<Rightarrow> default_weights) in
      bindR (mapR (\<lambda>(point, threshold). evaluate_candidate cs w' point threshold)
               (concat (map (\<lambda>point. map (\<lambda>t. (point, t)) thresholds) points))) (decide cs))"

section \<open>Facts about a candidate\<close>

fun is_feasible :: "verdict \<Rightarrow> bool" where
  "is_feasible (Feasible f) = True"
| "is_feasible _ = False"

lemma length_feasible_of: "length (feasible_of vs) = length (filter is_feasible vs)"
  by (induction vs rule: feasible_of.induct) auto

lemma count_rejected_sum:
  "int (length (feasible_of vs)) + rj_slo (fold count_rejected vs c) + rj_success_rate (fold count_rejected vs c) +
   rj_hit_ratio (fold count_rejected vs c) + rj_metric_quality (fold count_rejected vs c) +
   rj_evidence_missing (fold count_rejected vs c) =
   int (length vs) + rj_slo c + rj_success_rate c + rj_hit_ratio c + rj_metric_quality c + rj_evidence_missing c"
proof (induction vs arbitrary: c)
  case (Cons v vs)
  from Cons.IH [of "count_rejected v c"] show ?case by (cases v) (simp_all add: count_rejected_def)
qed simp

lemma candidate_ofD:
  assumes "candidate_of point threshold cs w n rejected fs = Inr c"
  shows "cd_feasible_runs c = int (length fs)" "cd_total_runs c = n" "cd_rejected c = rejected" "cd_threshold c = threshold"
    "\<not> cd_selected c" "cd_score c = None \<longleftrightarrow> fs = []" "''lower_robust_score'' \<notin> set (cd_reasons c)"
    "fs \<noteq> [] \<Longrightarrow> \<exists>s. candidate_stats w fs = Inr s \<and> cd_lower c = rs_lower s \<and> cd_instability c = rs_instability s \<and>
       cd_uncertainty c = rs_uncertainty s \<and> cd_score c = Some (rs_score s) \<and>
       cd_expected c = fmul (rs_lower s) (wt_safety w)"
  using assms by (auto simp: candidate_of_def bindR_eq_Inr Let_def split: if_splits)

lemma evaluate_candidateD:
  assumes "evaluate_candidate cs w point threshold = Inr c"
  shows "\<exists>runs vs. point_runs point = Inr runs \<and> mapR (judge_run cs threshold) runs = Inr vs \<and>
     candidate_of point threshold cs w (int (length runs)) (fold count_rejected vs none_rejected) (feasible_of vs) = Inr c"
  using assms by (auto simp: evaluate_candidate_def bindR_eq_Inr)

lemma judge_feasible_mono:
  assumes "judge_run cs t1 run = Inr v1" "judge_run cs t2 run = Inr v2" "fle t1 t2" "is_feasible v2"
  shows "is_feasible v1"
  using assms flt_fle_trans [of _ t1 t2]
  by (auto simp: judge_run_def bindR_eq_Inr split: if_splits option.splits)

lemma feasible_runs_mono:
  assumes "mapR (judge_run cs t1) runs = Inr vs1" "mapR (judge_run cs t2) runs = Inr vs2" "fle t1 t2"
  shows "length (feasible_of vs2) \<le> length (feasible_of vs1)"
  using assms(1,2)
proof (induction runs arbitrary: vs1 vs2)
  case (Cons run runs)
  then obtain v1 us1 v2 us2 where v: "vs1 = v1 # us1" "vs2 = v2 # us2" "judge_run cs t1 run = Inr v1"
      "judge_run cs t2 run = Inr v2" "mapR (judge_run cs t1) runs = Inr us1" "mapR (judge_run cs t2) runs = Inr us2"
    by (auto simp: bindR_eq_Inr)
  with Cons.IH [OF v(5,6)] judge_feasible_mono [OF v(3,4) assms(3)] show ?case by (simp add: length_feasible_of)
qed simp

lemma uncertainty_values_unit:
  "uncertainty_values fs = Inr us \<Longrightarrow> list_all (\<lambda>x. isfinite x \<and> fle (Fin 0) x \<and> fle x (Fin 1)) us"
proof -
  have f: "fle (Fin 0) (fl (6 / 10))" "fle (fl (6 / 10)) (Fin 1)" by (auto intro: fl_nonneg fl_le_1)
  then have "isfinite (fl (6 / 10))" by (cases "fl (6 / 10)") auto
  with f show "uncertainty_values fs = Inr us \<Longrightarrow> ?thesis" unfolding uncertainty_values_def
    by (elim mapR_Inr_all) (auto simp: evidence_uncertainty_of_def dget_def split: option.splits if_splits)
qed

lemma candidate_stats_bounds:
  assumes "candidate_stats w fs = Inr s"
  shows "fle (Fin 0) (rs_lower s)" "in_unit (rs_uncertainty s)" "fle (Fin 0) (rs_instability s)"
proof -
  from assms obtain mean sd se us where
    sd: "(if 1 < length fs then stat_stdev (map fr_rps fs) else Inr (Fin 0)) = Inr sd"
    and lo: "rs_lower s = py_max (Fin 0) (fsub mean (fmul (fl (196 / 100)) se))"
    and inst: "(if flt (Fin 0) mean then fdiv sd mean else Inr (Fin 1)) = Inr (rs_instability s)"
    and us: "uncertainty_values fs = Inr us" "stat_mean us = Inr (rs_uncertainty s)"
    by (auto simp: candidate_stats_def bindR_eq_Inr Let_def)
  show "fle (Fin 0) (rs_lower s)" unfolding lo by (auto simp: py_max_def flt_imp_fle)
  have "is_f64 (Fin 0)" "is_f64 (Fin 1)" using fl_is_f64 [of 0] fl_is_f64 [of 1] by (simp_all del: fl_is_f64 is_f64.simps)
  then show "in_unit (rs_uncertainty s)"
    using stat_mean_bounds [OF us(2) uncertainty_values_unit [OF us(1)]] by (simp add: in_unit_def)
  obtain q where q: "sd = Fin q" "0 \<le> q" using sd sqrt64_nonneg by (auto simp: stat_stdev_def Let_def split: if_splits)
  show "fle (Fin 0) (rs_instability s)"
  proof (cases "flt (Fin 0) mean")
    case True
    then have "rs_instability s = fquot sd mean" using inst by (auto simp: fdiv_def split: if_splits)
    then show ?thesis using True q by (cases mean) (auto intro!: fl_nonneg)
  next
    case False
    then have "rs_instability s = Fin 1" using inst by simp
    then show ?thesis by simp
  qed
qed

text \<open>Products and complements stay in the unit interval.\<close>

lemma in_unit_mul: "in_unit a \<Longrightarrow> in_unit b \<Longrightarrow> in_unit (fmul a b)"
  by (cases a; cases b) (auto simp: in_unit_def mult_le_one intro!: fl_nonneg fl_le_1)

lemma in_unit_complement: "fle (Fin 0) x \<Longrightarrow> in_unit (py_max (Fin 0) (fsub (Fin 1) x))"
proof (cases x)
  case (Fin a)
  moreover assume "fle (Fin 0) x"
  ultimately have "fle (fl (1 + - a)) (Fin 1)" by (intro fl_le_1) simp
  then show ?thesis using Fin by (auto simp: in_unit_def py_max_def fsub_def flt_imp_fle)
qed (auto simp: in_unit_def py_max_def fsub_def)

lemma in_unit_round: "in_unit x \<Longrightarrow> in_unit (py_round n x)"
proof -
  have "py_round n (Fin 1) = Fin 1"
  proof -
    have "rne (1 * 10 ^ n) = 10 ^ n" using rne_of_int [of "10 ^ n"] by simp
    then show ?thesis by (simp add: py_round_def)
  qed
  then show "in_unit x \<Longrightarrow> in_unit (py_round n x)"
    using py_round_mono [of "Fin 0" x n] py_round_mono [of x "Fin 1" n] by (simp add: in_unit_def)
qed

section \<open>Facts about the choice\<close>

lemma select_index_Some:
  assumes "select_index cs cands = Some i"
  shows "i < length cands" "selectable cs (cands ! i)"
    "\<forall>j<length cands. selectable cs (cands ! j) \<longrightarrow> key_ok (candidate_key (cands ! j)) \<Longrightarrow>
     \<forall>j<length cands. selectable cs (cands ! j) \<longrightarrow> \<not> key_lt (candidate_key (cands ! i)) (candidate_key (cands ! j))"
proof -
  let ?k = "\<lambda>i. candidate_key (cands ! i)" and ?is = "filter (\<lambda>i. selectable cs (cands ! i)) [0..<length cands]"
  from assms(1) obtain js where s: "sort_desc ?k ?is = i # js" by (auto simp: select_index_def split: list.splits)
  then have i: "i \<in> set ?is" and hd: "hd (sort_desc ?k ?is) = i" by (metis list.set_intros(1) set_sort_desc, simp)
  then show "i < length cands" "selectable cs (cands ! i)" by auto
  assume "\<forall>j<length cands. selectable cs (cands ! j) \<longrightarrow> key_ok (candidate_key (cands ! j))"
  then have ok: "\<forall>j\<in>set ?is. key_ok (?k j)" by auto
  have "\<not> key_lt (?k i) (?k j)" if "j \<in> set ?is" for j using sort_desc_hd [OF ok that] hd by simp
  then show "\<forall>j<length cands. selectable cs (cands ! j) \<longrightarrow> \<not> key_lt (?k i) (?k j)" by simp
qed

lemma select_index_None: "select_index cs cands = None \<longleftrightarrow> \<not> list_ex (selectable cs) cands"
proof -
  let ?is = "filter (\<lambda>i. selectable cs (cands ! i)) [0..<length cands]"
  have "select_index cs cands = None \<longleftrightarrow> ?is = []"
  proof (cases "sort_desc (\<lambda>i. candidate_key (cands ! i)) ?is")
    case Nil
    then show ?thesis using sort_desc_Nil_iff [THEN iffD1, OF Nil] by (simp add: select_index_def)
  next
    case (Cons i is')
    then have "?is \<noteq> []" by auto
    with Cons show ?thesis by (simp add: select_index_def)
  qed
  also have "\<dots> \<longleftrightarrow> \<not> list_ex (selectable cs) cands"
    by (auto simp: filter_empty_conv list_ex_length)
  finally show ?thesis .
qed

text \<open>Marking changes the flags and reasons only.\<close>

lemma mark_lower_same:
  "cd_score (mark_lower cs c) = cd_score c" "cd_feasible_runs (mark_lower cs c) = cd_feasible_runs c"
  "candidate_key (mark_lower cs c) = candidate_key c" "selectable cs (mark_lower cs c) = selectable cs c"
  "cd_selected (mark_lower cs c) = cd_selected c" "cd_threshold (mark_lower cs c) = cd_threshold c"
  by (simp_all add: mark_lower_def candidate_key_def selectable_def)

lemma mark_selected_nth:
  "j < length cands \<Longrightarrow> mark_selected sel cands ! j =
     (if sel = Some j then (cands ! j)\<lparr>cd_selected := True, cd_reasons := []\<rparr> else cands ! j)"
  by (auto simp: mark_selected_def split: option.splits)

lemma length_mark_selected [simp]: "length (mark_selected sel cands) = length cands"
  by (simp add: mark_selected_def split: option.splits)

lemma update_flags_same:
  "candidate_key (c\<lparr>cd_selected := b, cd_reasons := rs\<rparr>) = candidate_key c"
  "selectable cs (c\<lparr>cd_selected := b, cd_reasons := rs\<rparr>) = selectable cs c"
  by (simp_all add: candidate_key_def selectable_def)

definition alternatives_of :: "constraints \<Rightarrow> candidate list \<Rightarrow> candidate list" where
  "alternatives_of cs cands = map (mark_lower cs) (mark_selected (select_index cs cands) cands)"

lemma alternatives_nth:
  assumes "j < length cands"
  shows "candidate_key (alternatives_of cs cands ! j) = candidate_key (cands ! j)"
    "selectable cs (alternatives_of cs cands ! j) = selectable cs (cands ! j)"
    "\<not> cd_selected (cands ! j) \<Longrightarrow> cd_selected (alternatives_of cs cands ! j) \<longleftrightarrow> select_index cs cands = Some j"
  using assms
  by (simp_all add: alternatives_of_def mark_selected_nth mark_lower_same update_flags_same)

lemma alternatives_reasons:
  assumes "j < length cands" "\<not> cd_selected (cands ! j)"
  shows "select_index cs cands = Some j \<Longrightarrow> cd_reasons (alternatives_of cs cands ! j) = []"
    "selectable cs (cands ! j) \<Longrightarrow> select_index cs cands \<noteq> Some j \<Longrightarrow>
       ''lower_robust_score'' \<in> set (cd_reasons (alternatives_of cs cands ! j))"
  using assms by (auto simp: alternatives_of_def mark_selected_nth mark_lower_def)

lemma length_alternatives [simp]: "length (alternatives_of cs cands) = length cands"
  by (simp add: alternatives_of_def)

lemma decideD:
  assumes "decide cs cands = Inr r"
  shows "cl_alternatives r = alternatives_of cs cands \<and>
    (case select_index cs cands of
       None \<Rightarrow> cl_recommendation r = None \<and> cl_status r = ''blocked''
     | Some i \<Rightarrow> cl_status r = ''human_approval_required'' \<and>
         cl_recommendation r = Some \<lparr>ca_threshold = cd_threshold (cands ! i), ca_concurrency = cd_concurrency (cands ! i),
                 ca_expected = py_round 6 (cd_expected (cands ! i)), ca_confidence = py_round 6 (confidence_of cs (cands ! i)),
                 ca_quality = cd_quality (cands ! i), ca_scenario = cd_scenario (cands ! i)\<rparr>)"
  using assms by (cases "select_index cs cands") (auto simp: decide_def alternatives_of_def bindR_eq_Inr Let_def)

text \<open>What a candidate measures, without the marks of the choice.\<close>

abbreviation unmarked :: "candidate \<Rightarrow> candidate" where
  "unmarked c \<equiv> c\<lparr>cd_reasons := [], cd_selected := False\<rparr>"

lemma alternatives_unmarked: "j < length cands \<Longrightarrow> unmarked (alternatives_of cs cands ! j) = unmarked (cands ! j)"
  by (simp add: alternatives_of_def mark_selected_nth mark_lower_def)

text \<open>The pairs of a point and a threshold, in the order they are evaluated.\<close>

abbreviation calibration_pairs :: "pydict list \<Rightarrow> pyfloat list \<Rightarrow> (pydict \<times> pyfloat) list" where
  "calibration_pairs points thresholds \<equiv> concat (map (\<lambda>point. map (\<lambda>t. (point, t)) thresholds) points)"

lemma calibrateD:
  assumes "calibrate cs w ts points = Inr r"
  shows "\<exists>cands. decide cs cands = Inr r \<and>
    list_all2 (\<lambda>(point, t) c. evaluate_candidate cs (case w of Some x \<Rightarrow> x | None \<Rightarrow> default_weights) point t = Inr c)
      (calibration_pairs points ts) cands"
proof -
  from assms obtain cands where m: "mapR (\<lambda>(point, threshold).
      evaluate_candidate cs (case w of Some x \<Rightarrow> x | None \<Rightarrow> default_weights) point threshold)
               (calibration_pairs points ts) = Inr cands" and d: "decide cs cands = Inr r"
    by (auto simp: calibrate_def bindR_eq_Inr Let_def)
  have "list_all2 (\<lambda>(point, t) c. evaluate_candidate cs (case w of Some x \<Rightarrow> x | None \<Rightarrow> default_weights) point t = Inr c)
      (calibration_pairs points ts) cands"
    using mapR_Inr_length [OF m] mapR_Inr_nth [OF m] by (simp add: list_all2_conv_all_nth case_prod_beta)
  with d show ?thesis by blast
qed

lemma evaluated_all:
  assumes "list_all2 (\<lambda>(point, t) c. evaluate_candidate cs w point t = Inr c) ps cands"
  shows "list_all (\<lambda>c. \<exists>point t. evaluate_candidate cs w point t = Inr c) cands"
proof -
  have "\<exists>point t. evaluate_candidate cs w point t = Inr (cands ! j)" if "j < length cands" for j
    using assms that by (cases "ps ! j") (force simp: list_all2_conv_all_nth case_prod_beta)
  then show ?thesis by (simp add: list_all_length)
qed

lemma evaluated_unselected:
  assumes "list_all2 (\<lambda>(point, t) c. evaluate_candidate cs w point t = Inr c) ps cands" "j < length cands"
  shows "\<not> cd_selected (cands ! j)"
proof -
  obtain point t where "evaluate_candidate cs w point t = Inr (cands ! j)"
    using evaluated_all [OF assms(1)] assms(2) by (auto simp: list_all_length)
  then show ?thesis using evaluate_candidateD candidate_ofD(5) by blast
qed

section \<open>Properties\<close>

text \<open>
  A candidate accounts for every run of its point: each run is feasible or counted under
  exactly one rejection reason, and raising the hit-ratio threshold never makes more runs feasible.
\<close>

theorem candidate_accounts:
  assumes "evaluate_candidate cs w point t1 = Inr c1" "evaluate_candidate cs w point t2 = Inr c2" "fle t1 t2"
  shows "cd_feasible_runs c1 + rj_slo (cd_rejected c1) + rj_success_rate (cd_rejected c1) +
      rj_hit_ratio (cd_rejected c1) + rj_metric_quality (cd_rejected c1) + rj_evidence_missing (cd_rejected c1) =
      cd_total_runs c1 \<and>
    cd_total_runs c2 = cd_total_runs c1 \<and> cd_feasible_runs c2 \<le> cd_feasible_runs c1"
proof -
  obtain runs vs1 where r1: "point_runs point = Inr runs" "mapR (judge_run cs t1) runs = Inr vs1"
      "candidate_of point t1 cs w (int (length runs)) (fold count_rejected vs1 none_rejected) (feasible_of vs1) = Inr c1"
    using evaluate_candidateD [OF assms(1)] by blast
  obtain vs2 where r2: "mapR (judge_run cs t2) runs = Inr vs2"
      "candidate_of point t2 cs w (int (length runs)) (fold count_rejected vs2 none_rejected) (feasible_of vs2) = Inr c2"
    using evaluate_candidateD [OF assms(2)] r1(1) by auto
  show ?thesis
    using candidate_ofD(1-3) [OF r1(3)] candidate_ofD(1,2) [OF r2(2)] feasible_runs_mono [OF r1(2) r2(1) assms(3)]
      count_rejected_sum [of vs1 none_rejected] mapR_Inr_length [OF r1(2)]
    by (simp add: none_rejected_def)
qed

text \<open>
  Property C26.  The calibrator recommends the best candidate or blocks.  Its alternatives are the evaluations of every
  pair of a point and a threshold, in order, marked.  It blocks exactly when none of them has a score and enough feasible
  runs; otherwise exactly one is marked selected, it is selectable and carries no rejection reason, the recommendation is
  that alternative's threshold, concurrency, scenario, evidence quality, rounded rate and rounded confidence, no selectable
  alternative has a larger key (score, certainty, threshold, lower concurrency), and every other selectable alternative
  says \<open>lower_robust_score\<close>.  The keys of the selectable alternatives are assumed free of NaN, by which nothing can be
  ordered.
\<close>

theorem calibration_selects_best:
  assumes "calibrate cs w ts points = Inr r"
    and "\<forall>j<length (cl_alternatives r). selectable cs (cl_alternatives r ! j) \<longrightarrow> key_ok (candidate_key (cl_alternatives r ! j))"
  shows "list_all2 (\<lambda>(point, t) c. \<exists>c0.
        evaluate_candidate cs (case w of Some x \<Rightarrow> x | None \<Rightarrow> default_weights) point t = Inr c0 \<and>
        unmarked c = unmarked c0) (calibration_pairs points ts) (cl_alternatives r) \<and>
    (case cl_recommendation r of
      None \<Rightarrow> cl_status r = ''blocked'' \<and> \<not> list_ex (selectable cs) (cl_alternatives r)
    | Some a \<Rightarrow> cl_status r = ''human_approval_required'' \<and>
        (\<exists>i<length (cl_alternatives r). cd_selected (cl_alternatives r ! i) \<and> selectable cs (cl_alternatives r ! i) \<and>
          cd_reasons (cl_alternatives r ! i) = [] \<and>
          (let c = cl_alternatives r ! i in
           a = \<lparr>ca_threshold = cd_threshold c, ca_concurrency = cd_concurrency c, ca_expected = py_round 6 (cd_expected c),
                ca_confidence = py_round 6 (confidence_of cs c), ca_quality = cd_quality c, ca_scenario = cd_scenario c\<rparr>) \<and>
          (\<forall>j<length (cl_alternatives r). selectable cs (cl_alternatives r ! j) \<longrightarrow>
             \<not> key_lt (candidate_key (cl_alternatives r ! i)) (candidate_key (cl_alternatives r ! j))) \<and>
          (\<forall>j<length (cl_alternatives r). j \<noteq> i \<longrightarrow> \<not> cd_selected (cl_alternatives r ! j) \<and>
             (selectable cs (cl_alternatives r ! j) \<longrightarrow>
              ''lower_robust_score'' \<in> set (cd_reasons (cl_alternatives r ! j))))))"
proof -
  obtain cands where d: "decide cs cands = Inr r"
    and ev: "list_all2 (\<lambda>(point, t) c. evaluate_candidate cs (case w of Some x \<Rightarrow> x | None \<Rightarrow> default_weights) point t = Inr c)
      (calibration_pairs points ts) cands"
    using calibrateD [OF assms(1)] by blast
  note ns = evaluated_unselected [OF ev]
  have alts: "cl_alternatives r = alternatives_of cs cands" using decideD [OF d] by blast
  have evaluated: "list_all2 (\<lambda>(point, t) c. \<exists>c0.
      evaluate_candidate cs (case w of Some x \<Rightarrow> x | None \<Rightarrow> default_weights) point t = Inr c0 \<and>
      unmarked c = unmarked c0) (calibration_pairs points ts) (cl_alternatives r)"
    using ev by (auto simp: alts list_all2_conv_all_nth alternatives_unmarked split: prod.splits)
  show ?thesis
  proof (cases "select_index cs cands")
    case None
    then have "\<not> list_ex (selectable cs) (cl_alternatives r)"
      using select_index_None [of cs cands] alts alternatives_nth(2)
      by (simp add: list_ex_length)
    with None decideD [OF d] evaluated show ?thesis by simp
  next
    case (Some i)
    note sel = select_index_Some [OF Some]
    have ok: "\<forall>j<length cands. selectable cs (cands ! j) \<longrightarrow> key_ok (candidate_key (cands ! j))"
      using assms(2) alts by (simp add: alternatives_nth)
    have same: "cd_threshold (alternatives_of cs cands ! i) = cd_threshold (cands ! i)"
      "cd_concurrency (alternatives_of cs cands ! i) = cd_concurrency (cands ! i)"
      "cd_expected (alternatives_of cs cands ! i) = cd_expected (cands ! i)"
      "confidence_of cs (alternatives_of cs cands ! i) = confidence_of cs (cands ! i)"
      "cd_quality (alternatives_of cs cands ! i) = cd_quality (cands ! i)"
      "cd_scenario (alternatives_of cs cands ! i) = cd_scenario (cands ! i)"
      using sel(1) by (simp_all add: alternatives_of_def mark_selected_nth mark_lower_def confidence_of_def)
    have "cd_selected (alternatives_of cs cands ! i) \<and> selectable cs (alternatives_of cs cands ! i) \<and>
        cd_reasons (alternatives_of cs cands ! i) = []"
      using sel(1,2) ns Some by (simp add: alternatives_nth alternatives_reasons)
    moreover have "\<forall>j<length cands. selectable cs (alternatives_of cs cands ! j) \<longrightarrow>
        \<not> key_lt (candidate_key (alternatives_of cs cands ! i)) (candidate_key (alternatives_of cs cands ! j))"
      using sel(3) [OF ok] sel(1) by (simp add: alternatives_nth)
    moreover have "\<forall>j<length cands. j \<noteq> i \<longrightarrow> \<not> cd_selected (alternatives_of cs cands ! j) \<and>
        (selectable cs (alternatives_of cs cands ! j) \<longrightarrow>
         ''lower_robust_score'' \<in> set (cd_reasons (alternatives_of cs cands ! j)))"
      using ns Some by (simp add: alternatives_nth alternatives_reasons)
    ultimately have "\<exists>i<length (cl_alternatives r). cd_selected (cl_alternatives r ! i) \<and>
        selectable cs (cl_alternatives r ! i) \<and> cd_reasons (cl_alternatives r ! i) = [] \<and>
        (let c = cl_alternatives r ! i in
           the (cl_recommendation r) = \<lparr>ca_threshold = cd_threshold c, ca_concurrency = cd_concurrency c, ca_expected = py_round 6 (cd_expected c),
                ca_confidence = py_round 6 (confidence_of cs c), ca_quality = cd_quality c, ca_scenario = cd_scenario c\<rparr>) \<and>
        (\<forall>j<length (cl_alternatives r). selectable cs (cl_alternatives r ! j) \<longrightarrow>
           \<not> key_lt (candidate_key (cl_alternatives r ! i)) (candidate_key (cl_alternatives r ! j))) \<and>
        (\<forall>j<length (cl_alternatives r). j \<noteq> i \<longrightarrow> \<not> cd_selected (cl_alternatives r ! j) \<and>
           (selectable cs (cl_alternatives r ! j) \<longrightarrow>
            ''lower_robust_score'' \<in> set (cd_reasons (cl_alternatives r ! j))))"
      using sel(1) decideD [OF d] Some unfolding alts by (intro exI [of _ i]) (simp add: same Let_def)
    with decideD [OF d] Some evaluated show ?thesis by simp
  qed
qed

text \<open>
  Property C27.  A recommendation's numbers are in range: with a positive safety factor the confidence
  lies in the unit interval and the expected rate is not negative.
\<close>

theorem calibration_bounds:
  assumes "calibrate cs (Some w) ts points = Inr r" "cl_recommendation r = Some a" "wt_safety w = Fin s" "0 < s"
    and "0 \<le> cs_min_runs cs"
  shows "in_unit (ca_confidence a) \<and> fle (Fin 0) (ca_expected a)"
proof -
  obtain cands where d: "decide cs cands = Inr r"
    and ev: "list_all2 (\<lambda>(point, t) c. evaluate_candidate cs w point t = Inr c) (calibration_pairs points ts) cands"
    using calibrateD [OF assms(1)] by auto
  from decideD [OF d] assms(2) obtain i where i: "select_index cs cands = Some i"
    and a: "ca_confidence a = py_round 6 (confidence_of cs (cands ! i))" "ca_expected a = py_round 6 (cd_expected (cands ! i))"
    by (auto split: option.splits)
  let ?c = "cands ! i"
  from evaluated_all [OF ev] select_index_Some(1) [OF i] obtain point threshold where
    e: "evaluate_candidate cs w point threshold = Inr ?c" by (auto simp: list_all_length)
  from evaluate_candidateD [OF e] obtain runs :: "pydict list" and vs where c: "candidate_of point threshold cs w (int (length runs)) (fold count_rejected vs none_rejected)
      (feasible_of vs) = Inr ?c" by blast
  have "feasible_of vs \<noteq> []" using candidate_ofD(6) [OF c] select_index_Some(2) [OF i] by (auto simp: selectable_def)
  then obtain st where st: "candidate_stats w (feasible_of vs) = Inr st" "cd_instability ?c = rs_instability st"
      "cd_uncertainty ?c = rs_uncertainty st" "cd_expected ?c = fmul (rs_lower st) (Fin s)"
    using candidate_ofD(8) [OF c] assms(3) by auto
  note b = candidate_stats_bounds [OF st(1)]
  have "in_unit (py_min (Fin 1) (fl (of_int (cd_feasible_runs ?c) / of_int (max (cs_min_runs cs * 2) 1))))"
    using candidate_ofD(1) [OF c] by (auto simp: in_unit_def py_min_def flt_imp_fle intro!: fl_nonneg)
  moreover have "fle (Fin 0) (rs_uncertainty st)" using b(2) by (simp add: in_unit_def)
  ultimately have "in_unit (confidence_of cs ?c)"
    using b st by (auto simp: confidence_of_def Let_def intro!: in_unit_mul in_unit_complement)
  moreover have "fle (Fin 0) (cd_expected ?c)" using fmul_nonneg [OF b(1) assms(4)] st(4) by simp
  ultimately show ?thesis using a in_unit_round py_round_mono [of "Fin 0" "cd_expected ?c" 6] by simp
qed

section \<open>Witnesses\<close>

definition calib_run :: pydict where
  "calib_run =
     [(''summary'', VDict [(''requests'', VDict [(''ok'', VInt 10), (''total'', VInt 10)]),
        (''latency'', VDict [(''e2e_latency_p95_ms'', VFloat (Fin 100))]),
        (''throughput'', VDict [(''req_s'', VFloat (Fin 8))])]),
      (''derived_window_metrics'', VDict [(''cache_hit_ratio_window'', VFloat (Fin 1)), (''evidence_quality'', VStr ''strict'')])]"

definition calib_point :: pydict where
  "calib_point = [(''scenario'', VStr ''high_reuse''), (''concurrency'', VInt 4), (''runs'', VList [VDict calib_run])]"

definition calib_limits :: constraints where
  "calib_limits = \<lparr>cs_slo_ms = Fin 1500, cs_min_success = Fin 1, cs_min_runs = 1\<rparr>"

definition calib_weights :: weights where
  "calib_weights = \<lparr>wt_instability = Fin 1, wt_uncertainty = Fin 1, wt_safety = Fin 1\<rparr>"

lemma calib_simps [simp]: "cs_min_runs calib_limits = 1" "wt_safety calib_weights = Fin 1"
  by (simp_all add: calib_limits_def calib_weights_def)

lemma judge_calib_run:
  "t \<le> 1 \<Longrightarrow> judge_run calib_limits (Fin t) calib_run = Inr (Feasible \<lparr>fr_rps = Fin 8, fr_hit = Fin 1, fr_evidence = ''strict''\<rparr>)"
  by (simp add: judge_run_def calib_run_def calib_limits_def get_entry_hit_ratio_quality_and_source_def dget_def dget_or_def
      get_entry_evidence_quality_def calib_number_def path_step_def float_or0_def calib_success_rate_def float_of_int_def
      float_simps fdiv_def)

lemma sqrt64_1: "sqrt64 1 = 1"
proof -
  have "ilog2 1 = 0" by (rule ilog2_unique) auto
  moreover have "isqrt (4 ^ 60) = 2 ^ 60" by (simp add: isqrt.simps)
  ultimately show ?thesis using rnd64_int_exact [of 1] by (simp add: sqrt64_def Let_def power_int_minus)
qed

lemma calib_stats:
  "candidate_stats calib_weights [\<lparr>fr_rps = Fin 8, fr_hit = Fin 1, fr_evidence = ''strict''\<rparr>] =
     Inr \<lparr>rs_mean = Fin 8, rs_lower = Fin 8, rs_instability = Fin 0, rs_uncertainty = Fin 0, rs_score = Fin 8\<rparr>"
proof -
  have m: "fmul (fl (49 / 25)) (Fin 0) = Fin 0"
  proof -
    have "fle (Fin 0) (fl (49 / 25))" by (rule fl_nonneg) simp
    moreover have "fle (fl (49 / 25)) (Fin 2)" using fl_mono [of "49 / 25" 2] by (simp add: float_simps)
    ultimately show ?thesis by (cases "fl (49 / 25)") auto
  qed
  show ?thesis
    by (simp add: candidate_stats_def stat_mean_def finite_part_def float_simps sqrt64_1 fdiv_def fsub_def py_max_def m
        uncertainty_values_def evidence_uncertainty_of_def dget_def robust_score_def calib_weights_def Let_def)
qed

lemma calib_candidate:
  "t \<le> 1 \<Longrightarrow> \<exists>c. evaluate_candidate calib_limits calib_weights calib_point (Fin t) = Inr c \<and> cd_score c = Some (Fin 8) \<and>
     cd_feasible_runs c = 1 \<and> cd_uncertainty c = Fin 0 \<and> cd_threshold c = Fin t \<and> cd_expected c = Fin 8"
  by (simp add: evaluate_candidate_def point_runs_def calib_point_def dget_or_def dget_def judge_calib_run candidate_of_def
      calib_stats float_simps)

lemma calib_example:
  "\<exists>r a. calibrate calib_limits (Some calib_weights) [Fin 0] [calib_point] = Inr r \<and> cl_recommendation r = Some a \<and>
     (\<forall>j<length (cl_alternatives r). selectable calib_limits (cl_alternatives r ! j) \<longrightarrow>
        key_ok (candidate_key (cl_alternatives r ! j)))"
proof -
  obtain c where c: "evaluate_candidate calib_limits calib_weights calib_point (Fin 0) = Inr c" "cd_score c = Some (Fin 8)"
      "cd_feasible_runs c = 1" "cd_uncertainty c = Fin 0" "cd_threshold c = Fin 0"
    using calib_candidate [of 0] by auto
  then have sel: "selectable calib_limits c" and k: "key_ok (candidate_key c)"
    by (simp_all add: selectable_def candidate_key_def key_ok_def num_opt_def)
  then have i: "select_index calib_limits [c] = Some 0" by (simp add: select_index_def sort_desc_def)
  have adv: "\<exists>x. advantage_of e b = Inr x" for e b
    by (cases "flt (Fin 0) b") (auto simp: advantage_of_def fdiv_def feq_iff)
  obtain r where d: "decide calib_limits [c] = Inr r"
    using adv by (simp add: decide_def Let_def i) (metis bindR_simps(2))
  then have "calibrate calib_limits (Some calib_weights) [Fin 0] [calib_point] = Inr r"
    using c(1) by (simp add: calibrate_def)
  moreover have "\<exists>a. cl_recommendation r = Some a" using decideD [OF d] i by simp
  moreover have "cl_alternatives r = alternatives_of calib_limits [c]" using decideD [OF d] by simp
  ultimately show ?thesis using k alternatives_nth(1) [of _ "[c]"] by (auto simp: less_Suc_eq)
qed

theorem candidate_accounts_witness:
  "\<exists>c1 c2. evaluate_candidate calib_limits calib_weights calib_point (Fin 0) = Inr c1 \<and>
     evaluate_candidate calib_limits calib_weights calib_point (Fin 1) = Inr c2 \<and> cd_feasible_runs c2 \<le> cd_feasible_runs c1"
proof -
  obtain c1 c2 where c: "evaluate_candidate calib_limits calib_weights calib_point (Fin 0) = Inr c1"
      "evaluate_candidate calib_limits calib_weights calib_point (Fin 1) = Inr c2"
    using calib_candidate [of 0] calib_candidate [of 1] by auto
  with candidate_accounts [OF c] show ?thesis by simp
qed

theorem calibration_selects_best_witness:
  "\<exists>r. calibrate calib_limits (Some calib_weights) [Fin 0] [calib_point] = Inr r \<and> list_ex cd_selected (cl_alternatives r)"
proof -
  obtain r a where r: "calibrate calib_limits (Some calib_weights) [Fin 0] [calib_point] = Inr r"
      "cl_recommendation r = Some a"
    and ok: "\<forall>j<length (cl_alternatives r). selectable calib_limits (cl_alternatives r ! j) \<longrightarrow>
        key_ok (candidate_key (cl_alternatives r ! j))"
    using calib_example by blast
  from calibration_selects_best [OF r(1) ok, THEN conjunct2] r(2)
  have "\<exists>i<length (cl_alternatives r). cd_selected (cl_alternatives r ! i)" by auto
  with r show ?thesis by (auto simp: list_ex_length)
qed

theorem calibration_bounds_witness:
  "\<exists>r a. calibrate calib_limits (Some calib_weights) [Fin 0] [calib_point] = Inr r \<and> cl_recommendation r = Some a \<and>
     in_unit (ca_confidence a)"
proof -
  obtain r a where r: "calibrate calib_limits (Some calib_weights) [Fin 0] [calib_point] = Inr r"
      "cl_recommendation r = Some a"
    using calib_example by blast
  with calibration_bounds [OF r, of 1] show ?thesis by simp
qed

end
