(* ===== verification/Sweep.thy ===== *)
theory Sweep
  imports Experiment Calibrator "HOL-Library.List_Lexorder" "HOL-Library.Char_ord"
begin

text \<open>
  \<open>scripts/run_capacity_sweep.py\<close> and the loop of \<open>scripts/run_reuse_experiment.py\<close>: the load generator, the
  metric collection, the policy and the calibrator put together.  Each pair of a scenario and a concurrency
  is measured a number of times; the points are ranked per scenario and handed to the calibrator.  The
  restart of the serving stack is not modelled; the files a sweep writes are in theory SweepReport.
\<close>

section \<open>Arguments\<close>

definition parse_csv_ints :: "string \<Rightarrow> int list res" where
  "parse_csv_ints raw =
     bindR (mapR (\<lambda>part. str_to_int (strip part)) (filter (\<lambda>part. strip part \<noteq> []) (split_on (CHR '','') raw))) (\<lambda>vals.
     guardR (vals = []) (ValueError ''expected at least one integer value'') (Inr vals))"

definition parse_scenarios :: "string \<Rightarrow> string list" where
  "parse_scenarios raw = map strip (filter (\<lambda>part. strip part \<noteq> []) (split_on (CHR '','') raw))"

text \<open>
  The environment of a restart.  \<open>urlparse\<close> is an argument: the host name and the port of a URL, where the URL
  has them; reading a malformed port raises.
\<close>

definition url_host_port :: "(string \<Rightarrow> (string option \<times> int option) res) \<Rightarrow> string \<Rightarrow> int \<Rightarrow> (string \<times> int) res" where
  "url_host_port urlparse url default_port =
     bindR (urlparse url) (\<lambda>(host, port).
     Inr (case host of Some h \<Rightarrow> (if h = [] then ''localhost'' else h) | None \<Rightarrow> ''localhost'',
          case port of Some n \<Rightarrow> (if n = 0 then default_port else n) | None \<Rightarrow> default_port))"

definition build_stack_restart_env ::
  "(string \<Rightarrow> (string option \<times> int option) res) \<Rightarrow> (string \<times> string) list \<Rightarrow> string \<Rightarrow> string \<Rightarrow> string \<Rightarrow> string \<Rightarrow>
   string \<Rightarrow> string \<Rightarrow> (string \<times> string) list res" where
  "build_stack_restart_env urlparse environ backend base_url exporter_metrics_url results_dir served_model_name
     stack_model_path =
     bindR (url_host_port urlparse base_url (if backend = ''sglang'' then 30000 else 8000)) (\<lambda>(backend_host, backend_port).
     bindR (url_host_port urlparse exporter_metrics_url 9108) (\<lambda>(exporter_host, exporter_port).
     Inr (fold (\<lambda>(k, v) d. dset d k v)
       [(''RESULTS_DIR'', results_dir), (''ONE_CLICK_BACKEND'', backend), (''START_EXPORTER'', ''true''),
        (''SERVED_MODEL_NAME'', served_model_name), (''MODEL'', stack_model_path), (''HOST'', backend_host),
        (''PORT'', int_str backend_port), (''SGLANG_HOST'', backend_host), (''SGLANG_PORT'', int_str backend_port),
        (''EXPORTER_HOST'', exporter_host), (''EXPORTER_PORT'', int_str exporter_port)] environ)))"

record sweep_args =
  sa_scenarios :: "string list"
  sa_concurrency :: "int list"
  sa_repeats :: int
  sa_requests :: int
  sa_input_len :: int
  sa_output_len :: int
  sa_warmup :: int
  sa_base_seed :: int
  sa_policy :: policy
  sa_min_hit :: pyfloat

text \<open>
  The outside world: the metric parser, the environment variable, the text of exceptions, the random
  generator, and for the i-th run of the process the probe (its summary is the load generator's), the
  client and the load generator's clock.
\<close>

record sweep_world =
  sw_families :: "string \<Rightarrow> metric_family list res"
  sw_env :: "string option"
  sw_err_text :: "pyerr \<Rightarrow> string"
  sw_choice :: "int \<Rightarrow> nat \<Rightarrow> char"
  sw_unit :: "int \<Rightarrow> pyfloat"
  sw_send :: "nat \<Rightarrow> int list \<Rightarrow> (pyfloat \<times> bool) list \<times> pyfloat"
  sw_load_clock :: "nat \<Rightarrow> run_clock"
  sw_probe :: "nat \<Rightarrow> run_probe"

definition sweep_workload :: "sweep_args \<Rightarrow> string \<Rightarrow> int \<Rightarrow> workload" where
  "sweep_workload args scenario concurrency =
     (case scenario_config scenario of (ratio, prefix_len, suffix_len) \<Rightarrow>
       \<lparr>wl_ratio = ratio, wl_prefix_len = prefix_len, wl_suffix_len = suffix_len, wl_input_len = sa_input_len args,
        wl_output_len = sa_output_len args, wl_concurrency = concurrency, wl_requests = sa_requests args,
        wl_warmup = sa_warmup args\<rparr>)"

definition measure_run ::
  "sweep_world \<Rightarrow> sweep_args \<Rightarrow> string \<Rightarrow> int \<Rightarrow> string \<Rightarrow> nat \<Rightarrow> int \<Rightarrow> int \<Rightarrow> pydict res" where
  "measure_run wd args scenario concurrency point_label i rep seed =
     run_windowed_experiment (sw_families wd) (sw_env wd) (sw_err_text wd) rep point_label
       ((sw_probe wd i)\<lparr>rp_summary := run_custom_http (sw_choice wd) (sw_unit wd) (sw_send wd i) (sw_load_clock wd i) seed
          (sweep_workload args scenario concurrency)\<rparr>)"

section \<open>Points\<close>

record point_recommendation =
  pn_baseline :: pyfloat
  pn_dual :: pyfloat
  pn_delta :: pyfloat
  pn_metric_quality :: string
  pn_source :: string
  pn_num_runs :: int
  pn_ok :: int
  pn_missing :: int
  pn_stale :: int
  pn_comparable :: bool
  pn_evidence :: string

definition build_point_recommendation :: "policy \<Rightarrow> pyfloat \<Rightarrow> pydict list \<Rightarrow> point_recommendation res" where
  "build_point_recommendation p min_hit runs =
     bindR (recommend_runs p None runs) (\<lambda>hard_only.
     bindR (recommend_runs p (Some min_hit) runs) (\<lambda>dual.
     Inr \<lparr>pn_baseline = py_round 6 (re_rps hard_only), pn_dual = py_round 6 (re_rps dual),
          pn_delta = py_round 6 (fsub (re_rps dual) (re_rps hard_only)), pn_metric_quality = re_metric_quality dual,
          pn_source = re_hit_ratio_source dual, pn_num_runs = re_num_runs dual, pn_ok = pl_ok (re_counts dual),
          pn_missing = pl_missing (re_counts dual), pn_stale = pl_stale (re_counts dual),
          pn_comparable = re_comparable dual, pn_evidence = re_evidence dual\<rparr>))"

record sweep_point =
  sp_scenario :: string
  sp_concurrency :: int
  sp_requests :: int
  sp_runs :: "pydict list"
  sp_aggregates :: run_aggregates
  sp_recommendation :: point_recommendation

text \<open>\<open>first\<close> is the number of runs measured before the point; a run's seed is offset by its number.\<close>

definition measure_point :: "sweep_world \<Rightarrow> sweep_args \<Rightarrow> nat \<Rightarrow> string \<Rightarrow> int \<Rightarrow> sweep_point res" where
  "measure_point wd args first scenario concurrency =
     bindR (mapR (\<lambda>r. measure_run wd args scenario concurrency (scenario @ '':c'' @ int_str concurrency) (first + r) (int r)
                        (sa_base_seed args + int (first + r) * 1000)) [1..<nat (sa_repeats args) + 1]) (\<lambda>runs.
     bindR (aggregate_run_entries runs) (\<lambda>aggregates.
     bindR (build_point_recommendation (sa_policy args) (sa_min_hit args) runs) (\<lambda>advice.
     Inr \<lparr>sp_scenario = scenario, sp_concurrency = concurrency, sp_requests = sa_requests args, sp_runs = runs,
          sp_aggregates = aggregates, sp_recommendation = advice\<rparr>)))"

definition sweep_pairs :: "sweep_args \<Rightarrow> (string \<times> int) list" where
  "sweep_pairs args = concat (map (\<lambda>s. map (\<lambda>c. (s, c)) (sa_concurrency args)) (sa_scenarios args))"

definition measure_points :: "sweep_world \<Rightarrow> sweep_args \<Rightarrow> sweep_point list res" where
  "measure_points wd args =
     mapR (\<lambda>(k, scenario, concurrency). measure_point wd args (k * nat (sa_repeats args)) scenario concurrency)
       (enumerate 0 (sweep_pairs args))"

section \<open>Ranking\<close>

record rank_record =
  rk_scenario :: string
  rk_concurrency :: int
  rk_req_s :: pyfloat
  rk_e2e :: pyfloat
  rk_hit :: "pyfloat option"
  rk_metric_quality :: string
  rk_source :: string
  rk_ok_runs :: int
  rk_total_runs :: int
  rk_comparable :: bool
  rk_baseline :: pyfloat
  rk_dual :: pyfloat
  rk_feasible :: bool
  rk_safe :: bool

definition point_rank_record :: "sweep_point \<Rightarrow> rank_record" where
  "point_rank_record pt =
     (let a = sp_aggregates pt; q = ag_quality a; r = sp_recommendation pt in
      \<lparr>rk_scenario = sp_scenario pt, rk_concurrency = sp_concurrency pt, rk_req_s = or_zero (ag_req_s a),
       rk_e2e = or_zero (ag_e2e a), rk_hit = ag_hit a, rk_metric_quality = rq_metric_quality q,
       rk_source = rq_hit_ratio_source q, rk_ok_runs = rc_ok (rq_counts q), rk_total_runs = rq_total q,
       rk_comparable = pn_comparable r, rk_baseline = pn_baseline r, rk_dual = pn_dual r,
       rk_feasible = flt (Fin 0) (pn_baseline r), rk_safe = (flt (Fin 0) (pn_dual r) \<and> pn_comparable r)\<rparr>)"

definition rank_key :: "rank_record \<Rightarrow> pyfloat list" where
  "rank_key r = [rk_req_s r, fneg (rk_e2e r), Fin (of_int (- rk_concurrency r))]"

record scenario_ranking =
  sr_ranked :: "rank_record list"
  sr_feasible :: "rank_record list"
  sr_best_safe :: "rank_record option"
  sr_highest :: "rank_record option"

fun first_of :: "'a list \<Rightarrow> 'a option" where
  "first_of [] = None"
| "first_of (x # xs) = Some x"

definition scenario_ranking_of :: "sweep_point list \<Rightarrow> string \<Rightarrow> scenario_ranking" where
  "scenario_ranking_of points scenario =
     (let ranked = sort_desc rank_key (map point_rank_record (filter (\<lambda>pt. sp_scenario pt = scenario) points));
          feasible = filter rk_feasible ranked; safe = filter rk_safe ranked
      in \<lparr>sr_ranked = ranked, sr_feasible = feasible, sr_best_safe = first_of safe, sr_highest = first_of feasible\<rparr>)"

definition build_sweep_ranking :: "sweep_point list \<Rightarrow> (string \<times> scenario_ranking) list" where
  "build_sweep_ranking points =
     map (\<lambda>s. (s, scenario_ranking_of points s)) (sort (remdups (map sp_scenario points)))"

record plot_series =
  ps_x :: "int list"
  ps_y :: "pyfloat list"
  ps_highest :: "rank_record option"
  ps_best_safe :: "rank_record option"

definition build_plot_series :: "(string \<times> scenario_ranking) list \<Rightarrow> (string \<times> plot_series) list" where
  "build_plot_series ranking =
     map (\<lambda>(s, r). (s, \<lparr>ps_x = map rk_concurrency (sr_ranked r), ps_y = map rk_req_s (sr_ranked r),
                      ps_highest = sr_highest r, ps_best_safe = sr_best_safe r\<rparr>)) ranking"

section \<open>The sweep\<close>

record sweep_doc =
  sd_points :: "sweep_point list"
  sd_ranking :: "(string \<times> scenario_ranking) list"
  sd_records :: "rank_record list"
  sd_calibration :: calibration

text \<open>The keys of a point that the calibrator reads.\<close>

definition point_doc :: "sweep_point \<Rightarrow> pydict" where
  "point_doc pt = [(''scenario'', VStr (sp_scenario pt)), (''concurrency'', VInt (sp_concurrency pt)),
     (''num_requests'', VInt (sp_requests pt)), (''runs'', VList (map VDict (sp_runs pt)))]"

definition sweep_constraints :: "sweep_args \<Rightarrow> constraints" where
  "sweep_constraints args = \<lparr>cs_slo_ms = po_slo_ms (sa_policy args), cs_min_success = po_min_success (sa_policy args),
     cs_min_runs = sa_repeats args\<rparr>"

definition run_sweep :: "sweep_world \<Rightarrow> sweep_args \<Rightarrow> sweep_doc res" where
  "run_sweep wd args =
     bindR (measure_points wd args) (\<lambda>points.
     bindR (calibrate (sweep_constraints args) (Some (default_weights\<lparr>wt_safety := po_safety (sa_policy args)\<rparr>))
              default_thresholds (map point_doc points)) (\<lambda>c.
     Inr \<lparr>sd_points = points, sd_ranking = build_sweep_ranking points, sd_records = map point_rank_record points,
          sd_calibration = c\<rparr>))"

section \<open>The reuse experiment\<close>

record reuse_report =
  ru_runs :: "(string \<times> pydict list) list"
  ru_aggregates :: "(string \<times> run_aggregates) list"

definition run_reuse :: "sweep_world \<Rightarrow> sweep_args \<Rightarrow> int \<Rightarrow> reuse_report res" where
  "run_reuse wd args concurrency =
     bindR (mapR (\<lambda>(k, scenario).
         bindR (mapR (\<lambda>r. measure_run wd args scenario concurrency [] (k * nat (sa_repeats args) + r) (int r)
                            (sa_base_seed args + int r * 1000)) [1..<nat (sa_repeats args) + 1]) (\<lambda>runs.
         Inr (scenario, runs)))
       (enumerate 0 [''low_reuse'', ''high_reuse''])) (\<lambda>runs.
     bindR (mapR (\<lambda>(scenario, rs). bindR (aggregate_run_entries rs) (\<lambda>a. Inr (scenario, a))) runs) (\<lambda>as.
     Inr \<lparr>ru_runs = runs, ru_aggregates = as\<rparr>))"

section \<open>Facts\<close>

text \<open>The seeds of a sweep's runs are distinct: run \<open>n\<close> of the process has its own offset.\<close>

lemma run_seeds_distinct: "distinct (map (\<lambda>n. sa_base_seed args + int n * 1000) [1..<m])"
  by (simp add: distinct_map inj_on_def)

definition run_ok :: "pydict \<Rightarrow> bool" where
  "run_ok e \<longleftrightarrow> (case get_entry_hit_ratio_quality_and_source e of Inr (_, q, _) \<Rightarrow> q = ''ok'' | Inl _ \<Rightarrow> False)"

lemma comparable_all_ok:
  assumes "recommend_runs p h runs = Inr r" "re_comparable r"
  shows "runs \<noteq> [] \<and> list_all run_ok runs"
proof -
  from assms obtain obs where obs: "mapR observe_run runs = Inr obs"
    and q: "summarize_metric_quality_counts (int (length runs)) (pl_ok (fold count_policy obs no_policy_counts))
      (pl_stale (fold count_policy obs no_policy_counts)) (pl_missing (fold count_policy obs no_policy_counts)) = ''ok''"
    by (auto simp: recommend_runs_def bindR_eq_Inr Let_def)
  note hits = mapR_observeD(1) [OF obs]
  have "list_all (\<lambda>ob. fst (snd (ob_hit ob)) \<in> {''ok'', ''stale'', ''missing''}) obs"
    by (rule mapR_Inr_all [OF obs]) (rule observed_quality)
  then have "pl_ok (fold count_policy obs no_policy_counts) = rc_ok (fold count_run (map ob_hit obs) no_runs)"
    using fold_count_policy [of obs no_policy_counts no_runs] by (simp add: no_policy_counts_def no_runs_def)
  with q entries.summary_ok [OF hits] have
    "runs \<noteq> [] \<and> list_all (\<lambda>e. \<exists>v s. get_entry_hit_ratio_quality_and_source e = Inr (Some v, ''ok'', s)) runs" by simp
  then show ?thesis by (auto simp: list_all_iff run_ok_def dest!: bspec)
qed

lemma measured_points:
  assumes "measure_points wd args = Inr points" "pt \<in> set points"
  shows "\<exists>r. recommend_runs (sa_policy args) (Some (sa_min_hit args)) (sp_runs pt) = Inr r \<and>
     pn_comparable (sp_recommendation pt) = re_comparable r"
proof -
  obtain k sc c where "measure_point wd args k sc c = Inr pt"
    using mapR_Inr_set [OF assms(1) [unfolded measure_points_def] assms(2)] by auto
  then show ?thesis by (auto simp: measure_point_def build_point_recommendation_def bindR_eq_Inr)
qed

text \<open>The first of the records that satisfy a test, in a list sorted by falling key, has the largest throughput.\<close>

definition is_best :: "(rank_record \<Rightarrow> bool) \<Rightarrow> rank_record list \<Rightarrow> rank_record option \<Rightarrow> bool" where
  "is_best P xs b \<longleftrightarrow>
     (case b of
        None \<Rightarrow> list_all (\<lambda>x. \<not> P x) xs
      | Some y \<Rightarrow> y \<in> set xs \<and> P y \<and> list_all (\<lambda>x. P x \<longrightarrow> fle (rk_req_s x) (rk_req_s y)) xs)"

lemma key_first: "key_ok (rank_key x) \<Longrightarrow> key_ok (rank_key y) \<Longrightarrow> \<not> key_lt (rank_key y) (rank_key x) \<Longrightarrow>
    fle (rk_req_s x) (rk_req_s y)"
  by (auto simp: rank_key_def key_ok_def fle_iff_not_flt feq_iff split: if_splits)

lemma first_is_best:
  assumes "sorted_wrt (\<lambda>a b. \<not> key_lt (rank_key a) (rank_key b)) xs" "list_all (\<lambda>x. key_ok (rank_key x)) xs"
  shows "is_best P xs (first_of (filter P xs))"
proof (cases "filter P xs")
  case Nil
  then show ?thesis by (auto simp: is_best_def filter_empty_conv list_all_iff)
next
  case (Cons y ys)
  have "sorted_wrt (\<lambda>a b. \<not> key_lt (rank_key a) (rank_key b)) (y # ys)"
    using sorted_wrt_filter [OF assms(1), of P] Cons by simp
  moreover have set: "set (y # ys) = {x \<in> set xs. P x}" using Cons by (metis set_filter)
  moreover have "rk_req_s y \<noteq> NaN" using assms(2) set by (auto simp: list_all_iff rank_key_def key_ok_def)
  ultimately have "fle (rk_req_s x) (rk_req_s y)" if "x \<in> set xs" "P x" for x
    using assms(2) that key_first [of x y] fle_refl by (cases "x = y") (auto simp: list_all_iff)
  then show ?thesis using Cons set by (auto simp: is_best_def list_all_iff)
qed

section \<open>Property\<close>

text \<open>
  Property C28.  The ranking of a measured sweep: a scenario's records are exactly those of its points, sorted by
  falling throughput (then rising latency and concurrency); the highest feasible and the best safe point
  are the feasible and the safe record with the most throughput, or none when there is none; and every
  run of a best safe point was measured with a sound hit ratio.
\<close>

theorem sweep_ranking_sound:
  assumes "measure_points wd args = Inr points" and "(s, r) \<in> set (build_sweep_ranking points)"
    and "list_all (\<lambda>pt. key_ok (rank_key (point_rank_record pt))) points"
  shows "mset (sr_ranked r) = mset (map point_rank_record (filter (\<lambda>pt. sp_scenario pt = s) points)) \<and>
     sorted_wrt (\<lambda>a b. \<not> key_lt (rank_key a) (rank_key b)) (sr_ranked r) \<and>
     is_best rk_feasible (sr_ranked r) (sr_highest r) \<and> is_best rk_safe (sr_ranked r) (sr_best_safe r) \<and>
     (case sr_best_safe r of
        None \<Rightarrow> True
      | Some b \<Rightarrow> \<exists>pt \<in> set points. point_rank_record pt = b \<and> sp_scenario pt = s \<and> sp_runs pt \<noteq> [] \<and>
                    list_all run_ok (sp_runs pt))"
proof -
  let ?rs = "map point_rank_record (filter (\<lambda>pt. sp_scenario pt = s) points)"
  have r: "r = scenario_ranking_of points s" using assms(2) by (auto simp: build_sweep_ranking_def)
  then have eq: "sr_ranked r = sort_desc rank_key ?rs" "sr_highest r = first_of (filter rk_feasible (sr_ranked r))"
      "sr_best_safe r = first_of (filter rk_safe (sr_ranked r))"
    by (simp_all add: scenario_ranking_of_def Let_def)
  have ok: "\<forall>x\<in>set ?rs. key_ok (rank_key x)" using assms(3) by (auto simp: list_all_iff)
  then have so: "sorted_wrt (\<lambda>a b. \<not> key_lt (rank_key a) (rank_key b)) (sr_ranked r)"
    unfolding eq(1) by (rule sort_desc_sorted)
  have oks: "list_all (\<lambda>x. key_ok (rank_key x)) (sr_ranked r)" using ok by (simp add: eq(1) list_all_iff)
  have best: "is_best rk_safe (sr_ranked r) (sr_best_safe r)" unfolding eq(3) by (rule first_is_best [OF so oks])
  have "\<exists>pt \<in> set points. point_rank_record pt = b \<and> sp_scenario pt = s \<and> sp_runs pt \<noteq> [] \<and> list_all run_ok (sp_runs pt)"
    if b: "sr_best_safe r = Some b" for b
  proof -
    have "b \<in> set ?rs" "rk_safe b" using best b by (simp_all add: is_best_def eq(1))
    then obtain pt where pt: "pt \<in> set points" "point_rank_record pt = b" "sp_scenario pt = s" by auto
    then have "pn_comparable (sp_recommendation pt)" using \<open>rk_safe b\<close> by (auto simp: point_rank_record_def Let_def)
    with measured_points [OF assms(1) pt(1)] comparable_all_ok pt show ?thesis by metis
  qed
  then show ?thesis using so best first_is_best [OF so oks, of rk_feasible]
    by (simp add: eq(1,2) split: option.split)
qed

section \<open>Witness\<close>

text \<open>
  One run of one request: the backend shows no counters before the load and ten hits in ten queries after it,
  the request takes a second.
\<close>

definition sweep_demo :: sweep_world where
  "sweep_demo = \<lparr>sw_families = (\<lambda>t. if t = [] then Inr [] else probe_families t), sw_env = None, sw_err_text = (\<lambda>_. ''x''),
     sw_choice = (\<lambda>_ _. CHR ''a''), sw_unit = (\<lambda>_. Fin 0), sw_send = (\<lambda>_ _. ([(Fin 1, True)], Fin 1)),
     sw_load_clock = (\<lambda>_. \<lparr>ck_started = Fin 0, ck_warmup_end = Fin 0, ck_finished = Fin 0\<rparr>),
     sw_probe = (\<lambda>_. \<lparr>rp_clock = (\<lambda>_. Fin 0), rp_backend_before = Inr [], rp_exporter_before = Inl HTTPError,
       rp_summary = Inl KeyError, rp_backend_after = Inr ''m'', rp_exporter_after = Inl HTTPError\<rparr>)\<rparr>"

definition demo_args :: sweep_args where
  "demo_args = \<lparr>sa_scenarios = [''low_reuse''], sa_concurrency = [1], sa_repeats = 1, sa_requests = 1, sa_input_len = 1,
     sa_output_len = 1, sa_warmup = 0, sa_base_seed = 0, sa_policy = sample_policy, sa_min_hit = Fin 1\<rparr>"

lemma demo_elapsed: "py_max (fl (1 / 10 ^ 9)) (Fin 1) = Fin 1"
  using fl_le_1 [of "1 / 10 ^ 9"] by (auto simp: py_max_def fle_def feq_iff)

lemma demo_summary:
  "\<exists>sm. run_custom_http (sw_choice sweep_demo) (sw_unit sweep_demo) (sw_send sweep_demo i) (sw_load_clock sweep_demo i) seed w = Inr sm \<and>
     dget sm ''requests'' = Some (VDict [(''total'', VInt 1), (''ok'', VInt 1), (''failed'', VInt 0)]) \<and>
     (\<exists>x y. dget sm ''latency'' = Some (VDict ((''e2e_latency_p95_ms'', VFloat (Fin 1000)) # x)) \<and>
            dget sm ''throughput'' = Some (VDict ((''req_s'', VFloat (Fin 1)) # y))) \<and>
     dget sm ''timing'' = Some (VDict [(''run_started_ts'', VFloat (Fin 0)), (''warmup_end_ts'', VFloat (Fin 0)),
            (''run_finished_ts'', VFloat (Fin 0))]) \<and> dget sm ''goodput_req_s'' = None"
  using demo_elapsed
  by (simp add: run_custom_http_def run_summary_def run_request_batch_def sweep_demo_def runner_percentile_def
      py_sorted_def stat_mean_def finite_part_def fdiv_def float_simps Let_def dget_def del: One_nat_def)

definition window_found :: "pydict \<Rightarrow> bool" where
  "window_found w \<longleftrightarrow> dget w ''cache_hit_ratio_window'' = Some (VFloat (Fin 1)) \<and> dget w ''evidence_quality'' = Some (VStr ''strict'')"

lemma demo_fetch:
  "try_fetch (sw_families sweep_demo) (sw_env sweep_demo) (sw_err_text sweep_demo) (Inr []) (Fin 0) (Fin 0) =
     Inr ([(''ts'', VFloat (Fin 0)), (''metrics'', VDict []), (''error'', VStr [])], [])"
  "try_fetch (sw_families sweep_demo) (sw_env sweep_demo) (sw_err_text sweep_demo) (Inr ''m'') (Fin 0) (Fin 0) =
     Inr ([(''ts'', VFloat (Fin 0)), (''metrics'', VDict probe_metrics), (''error'', VStr [])], [])"
proof -
  show "try_fetch (sw_families sweep_demo) (sw_env sweep_demo) (sw_err_text sweep_demo) (Inr []) (Fin 0) (Fin 0) =
     Inr ([(''ts'', VFloat (Fin 0)), (''metrics'', VDict []), (''error'', VStr [])], [])"
    by (simp add: try_fetch_def fetch_metrics_snapshot_def parse_label_filter_from_env_def aggregate_prometheus_text_def
        sweep_demo_def float_dict_def empty_snapshot_made)
  show "try_fetch (sw_families sweep_demo) (sw_env sweep_demo) (sw_err_text sweep_demo) (Inr ''m'') (Fin 0) (Fin 0) =
     Inr ([(''ts'', VFloat (Fin 0)), (''metrics'', VDict probe_metrics), (''error'', VStr [])], [])"
    using probe_fetch [of "\<lambda>_. ''x''" "''m''"]
    by (simp add: try_fetch_def fetch_metrics_snapshot_def aggregate_prometheus_text_def sweep_demo_def)
qed

lemma demo_run:
  "\<exists>e sm w. measure_run sweep_demo demo_args sc c label i r seed = Inr e \<and> window_found w \<and>
     dget e ''derived_window_metrics'' = Some (VDict (set_missing False w)) \<and>
     dget e ''summary'' = Some (VDict sm) \<and> dget e ''exporter_metrics'' = Some (VDict []) \<and> dget e ''resource'' = None \<and>
     dget sm ''requests'' = Some (VDict [(''total'', VInt 1), (''ok'', VInt 1), (''failed'', VInt 0)]) \<and>
     (\<exists>x y. dget sm ''latency'' = Some (VDict ((''e2e_latency_p95_ms'', VFloat (Fin 1000)) # x)) \<and>
            dget sm ''throughput'' = Some (VDict ((''req_s'', VFloat (Fin 1)) # y))) \<and> dget sm ''goodput_req_s'' = None"
proof -
  obtain sm where sm: "run_custom_http (sw_choice sweep_demo) (sw_unit sweep_demo) (sw_send sweep_demo i) (sw_load_clock sweep_demo i)
       seed (sweep_workload demo_args sc c) = Inr sm"
    and parts: "dget sm ''requests'' = Some (VDict [(''total'', VInt 1), (''ok'', VInt 1), (''failed'', VInt 0)])"
     "\<exists>x y. dget sm ''latency'' = Some (VDict ((''e2e_latency_p95_ms'', VFloat (Fin 1000)) # x)) \<and>
            dget sm ''throughput'' = Some (VDict ((''req_s'', VFloat (Fin 1)) # y))" "dget sm ''goodput_req_s'' = None"
    and timing: "dget sm ''timing'' = Some (VDict [(''run_started_ts'', VFloat (Fin 0)), (''warmup_end_ts'', VFloat (Fin 0)),
            (''run_finished_ts'', VFloat (Fin 0))])"
    using demo_summary by blast
  obtain w where w: "derive_window_metrics (Some [(''ts'', VFloat (Fin 0)), (''metrics'', VDict []), (''error'', VStr [])])
     (Some [(''ts'', VFloat (Fin 0)), (''metrics'', VDict probe_metrics), (''error'', VStr [])])
     default_prefix_hits_keys default_prefix_queries_keys ''backend'' = Inr w" "window_found w"
    using probe_window [of "[]"] by (auto simp: window_found_def)
  define doc where "doc = run_document r label sm (Fin 0) (Some (Fin 0)) (Fin 0)
     [(''ts'', VFloat (Fin 0)), (''metrics'', VDict []), (''error'', VStr [])]
     [(''ts'', VFloat (Fin 0)), (''metrics'', VDict probe_metrics), (''error'', VStr [])]
     [(''ts'', VFloat (Fin 0)), (''metrics'', VDict []), (''error'', VStr ''x'')]
     [(''ts'', VFloat (Fin 0)), (''metrics'', VDict []), (''error'', VStr ''x'')] (set_missing False w)"
  have e: "dget_or [(''ts'', VFloat (Fin 0)), (''metrics'', VDict []), (''error'', VStr t)] ''metrics'' (VDict []) = VDict []" for t
    by (simp add: dget_or_def dget_def)
  have m: "dget (make_run_entry r s [] t0 t1 t2 src) ''exporter_metrics'' = Some (VDict [])"
    "dget (make_run_entry r s [] t0 t1 t2 src) ''summary'' = Some (VDict s)"
    "dget (make_run_entry r s [] t0 t1 t2 src) ''resource'' = None" for s t0 t1 t2 src
    by (simp_all add: make_run_entry_def dget_def)
  have d: "dget doc ''derived_window_metrics'' = Some (VDict (set_missing False w))" "dget doc ''exporter_metrics'' = Some (VDict [])"
    "dget doc ''summary'' = Some (VDict sm)" "dget doc ''resource'' = None"
    unfolding doc_def run_document_def Let_def e by (simp_all add: dget_dset m)
  then obtain q where q: "summarize_entry_quality doc = Inr q"
    using entry_quality_made [of doc False w "Some (Fin 1)"] w(2) by (auto simp: window_found_def opt_v_def dget_or_def)
  have t: "vget (dget_or sm ''timing'' (VDict [])) ''warmup_end_ts'' v = Inr (VFloat (Fin 0))"
    "vget (dget_or sm ''timing'' (VDict [])) ''run_finished_ts'' v = Inr (VFloat (Fin 0))" for v
    using timing by (simp_all add: dget_or_def dget_def)
  have fl_x: "try_fetch (sw_families sweep_demo) (sw_env sweep_demo) (sw_err_text sweep_demo) (Inl HTTPError) (Fin 0) (Fin 0) =
      Inr ([(''ts'', VFloat (Fin 0)), (''metrics'', VDict []), (''error'', VStr ''x'')], ''x'')"
    by (simp add: try_fetch_failed sweep_demo_def)
  have p: "sw_probe sweep_demo i = \<lparr>rp_clock = (\<lambda>_. Fin 0), rp_backend_before = Inr [], rp_exporter_before = Inl HTTPError,
       rp_summary = Inl KeyError, rp_backend_after = Inr ''m'', rp_exporter_after = Inl HTTPError\<rparr>" by (simp add: sweep_demo_def)
  have "measure_run sweep_demo demo_args sc c label i r seed = Inr (dset doc ''quality'' (VDict q))"
    unfolding measure_run_def run_windowed_experiment_def p sm
    by (simp add: demo_fetch fl_x t w(1) opt_number_def doc_def [symmetric] q)
  then show ?thesis using d w(2) parts
    by (intro exI [of _ "dset doc ''quality'' (VDict q)"] exI [of _ sm] exI [of _ w]) (simp add: dget_dset)
qed

lemma dget_first: "dget ((k, v) # l) k = Some v" "dget [] k = None"
  by (simp_all add: dget_def)

lemma demo_observed:
  assumes "dget e ''derived_window_metrics'' = Some (VDict (set_missing False w))" "window_found w"
    "dget e ''summary'' = Some (VDict sm)" "dget sm ''requests'' = Some (VDict [(''total'', VInt 1), (''ok'', VInt 1), (''failed'', VInt 0)])"
    "dget sm ''latency'' = Some (VDict ((''e2e_latency_p95_ms'', VFloat (Fin 1000)) # x))"
    "dget sm ''throughput'' = Some (VDict ((''req_s'', VFloat (Fin 1)) # y))"
  shows "observe_run e = Inr \<lparr>ob_success_rate = Fin 1, ob_e2e = Fin 1000, ob_req_s = Fin 1, ob_hit = (Some (Fin 1), ''ok'', ''window''),
     ob_check = ''strict'', ob_evidence = ''strict''\<rparr>"
proof -
  have ev: "get_entry_evidence_quality e = Inr ''strict''"
    using assms(1,2) by (simp add: get_entry_evidence_quality_def window_found_def set_missing_def dget_or_def dget_dset)
  have "get_entry_hit_ratio_quality_and_source e = Inr (Some (Fin 1), ''ok'', ''window'')"
    using assms(1,2) by (simp add: get_entry_hit_ratio_quality_and_source_def window_found_def set_missing_def dget_or_def dget_dset)
  moreover have "get_entry_prefix_metric_check e = Inr ''strict''" using ev by (simp add: get_entry_prefix_metric_check_def)
  moreover have "policy_success_rate (VDict [(''total'', VInt 1), (''ok'', VInt 1), (''failed'', VInt 0)]) = Inr (Fin 1)"
    by (simp add: policy_success_rate_def dget_or_def dget_def float_or0_def float_of_int_def fdiv_def)
  ultimately show ?thesis using assms(3-) ev
    by (simp add: observe_run_def dget_or_def summary_number_def float_or0_def dget_first)
qed

lemma demo_point:
  "\<exists>pt. measure_point sweep_demo demo_args k sc c = Inr pt \<and> sp_scenario pt = sc \<and>
     rk_req_s (point_rank_record pt) = Fin 1 \<and> rk_e2e (point_rank_record pt) = Fin 1000 \<and> rk_safe (point_rank_record pt)"
proof -
  obtain e sm w x y where e: "measure_run sweep_demo demo_args sc c (sc @ '':c'' @ int_str c) (k + 1) (int 1)
        (sa_base_seed demo_args + int (k + 1) * 1000) = Inr e"
    and w: "window_found w" "dget e ''derived_window_metrics'' = Some (VDict (set_missing False w))"
    and d: "dget e ''summary'' = Some (VDict sm)" "dget e ''exporter_metrics'' = Some (VDict [])" "dget e ''resource'' = None"
    and sm: "dget sm ''requests'' = Some (VDict [(''total'', VInt 1), (''ok'', VInt 1), (''failed'', VInt 0)])"
      "dget sm ''latency'' = Some (VDict ((''e2e_latency_p95_ms'', VFloat (Fin 1000)) # x))"
      "dget sm ''throughput'' = Some (VDict ((''req_s'', VFloat (Fin 1)) # y))" "dget sm ''goodput_req_s'' = None"
    using demo_run by blast
  note ob = demo_observed [OF w(2,1) d(1) sm(1-3)]
  let ?ob = "\<lparr>ob_success_rate = Fin 1, ob_e2e = Fin 1000, ob_req_s = Fin 1, ob_hit = (Some (Fin 1), ''ok'', ''window''),
     ob_check = ''strict'', ob_evidence = ''strict''\<rparr>"
  note parts = observe_runD [OF ob, simplified]
  have rec: "\<exists>r. recommend_runs sample_policy h [e] = Inr r \<and> re_rps r = Fin 1 \<and> re_comparable r" if "h = None \<or> h = Some (Fin 1)" for h
    using that ob run_fraction_unit [of 1 1]
    by (auto simp: recommend_runs_def Let_def best_rps_def passed_rps_def hard_ok_def hot_ok_def sample_policy_def count_policy_def
        no_policy_counts_def summarize_metric_quality_counts_def summarize_hit_ratio_source_counts_def fl_const)
  have q: "\<exists>q. summarize_runs_quality [e] = Inr q"
    using parts run_fraction_unit [of 1 1] run_fraction_unit [of 0 1]
    by (auto simp: summarize_runs_quality_def summarize_prefix_metric_checks_def summarize_evidence_quality_def count_run_def
        no_runs_def count_check_def no_checks_def Let_def)
  have one: "float_mean [Fin a] = Inr (Fin a)" if "fl a = Fin a" for a
    using that by (simp add: float_mean_def py_sum_def sum_step_def fabs_def fsub_def fdiv_def Let_def)
  have "\<exists>a. aggregate_run_entries [e] = Inr a \<and> ag_req_s a = Some (Fin 1) \<and> ag_e2e a = Some (Fin 1000)"
    using q d sm parts(1) one [of 1] one [of 1000] one [of 0]
    by (auto simp: aggregate_run_entries_def path_number_def ok_hit_ratios_def get_entry_hit_ratio_and_quality_def
        present_numbers_def opt_number_def dget_or_def dget_first mean_or_none_def map_filter_def float_simps)
  then obtain a where a: "aggregate_run_entries [e] = Inr a" "ag_req_s a = Some (Fin 1)" "ag_e2e a = Some (Fin 1000)" by blast
  obtain r1 r2 where r: "recommend_runs sample_policy None [e] = Inr r1" "recommend_runs sample_policy (Some (Fin 1)) [e] = Inr r2"
    "re_rps r1 = Fin 1" "re_rps r2 = Fin 1" "re_comparable r2" using rec by blast
  have pa: "sa_policy demo_args = sample_policy" "sa_min_hit demo_args = Fin 1" by (simp_all add: demo_args_def)
  have list: "[1..<nat (sa_repeats demo_args) + 1] = [1]" by (simp add: demo_args_def upt_rec)
  have round: "py_round 6 (Fin 1) = Fin 1" using rne_of_int [of 1000000] by (simp add: py_round_def)
  have advice: "\<exists>v. build_point_recommendation sample_policy (Fin 1) [e] = Inr v \<and> pn_dual v = Fin 1 \<and> pn_comparable v"
    using r round by (simp add: build_point_recommendation_def)
  then obtain v where v: "build_point_recommendation sample_policy (Fin 1) [e] = Inr v" "pn_dual v = Fin 1" "pn_comparable v" by blast
  show ?thesis
    unfolding measure_point_def list pa mapR.simps e bindR_simps a(1) v(1)
    using a(2,3) v(2,3) by (simp add: point_rank_record_def or_zero_def Let_def)
qed

lemma demo_points:
  "\<exists>pt. measure_points sweep_demo demo_args = Inr [pt] \<and> sp_scenario pt = ''low_reuse'' \<and>
     rk_req_s (point_rank_record pt) = Fin 1 \<and> rk_e2e (point_rank_record pt) = Fin 1000 \<and> rk_safe (point_rank_record pt)"
proof -
  have "sweep_pairs demo_args = [(''low_reuse'', 1)]" by (simp add: sweep_pairs_def demo_args_def)
  then show ?thesis using demo_point [of 0 "''low_reuse''" 1] by (auto simp: measure_points_def)
qed

theorem sweep_ranking_sound_witness:
  "\<exists>points r b. measure_points sweep_demo demo_args = Inr points \<and> (''low_reuse'', r) \<in> set (build_sweep_ranking points) \<and>
     sr_best_safe r = Some b \<and> list_ex (\<lambda>pt. point_rank_record pt = b \<and> list_all run_ok (sp_runs pt)) points"
proof -
  obtain pt where pt: "measure_points sweep_demo demo_args = Inr [pt]" "sp_scenario pt = ''low_reuse''"
    "rk_req_s (point_rank_record pt) = Fin 1" "rk_e2e (point_rank_record pt) = Fin 1000" "rk_safe (point_rank_record pt)"
    using demo_points by blast
  let ?r = "scenario_ranking_of [pt] ''low_reuse''"
  have m: "(''low_reuse'', ?r) \<in> set (build_sweep_ranking [pt])" by (simp add: build_sweep_ranking_def pt(2))
  have k: "list_all (\<lambda>pt. key_ok (rank_key (point_rank_record pt))) [pt]" using pt(3,4) by (simp add: rank_key_def key_ok_def)
  have "sr_best_safe ?r \<noteq> None"
  proof
    assume "sr_best_safe ?r = None"
    with sweep_ranking_sound [OF pt(1) m k] pt(2,5) show False by (auto simp: is_best_def)
  qed
  then obtain b where b: "sr_best_safe ?r = Some b" by blast
  with sweep_ranking_sound [OF pt(1) m k] have "point_rank_record pt = b" "list_all run_ok (sp_runs pt)" by auto
  with pt(1) m b show ?thesis by (intro exI [of _ "[pt]"] exI [of _ ?r] exI [of _ b]) simp
qed

end
