(* ===== verification/Markdown.thy ===== *)
theory Markdown
  imports PyStats
begin

text \<open>
  What the programs that render Markdown share: formatted fields of a document, templates and table rows, and the rules by which
  a rendering is shown to return.
\<close>

section \<open>Fields\<close>

text \<open>\<open>str(item.get(key, default))\<close>, \<open>str(item[key])\<close>.\<close>

definition text_field :: "pyval \<Rightarrow> string \<Rightarrow> string \<Rightarrow> string res" where
  "text_field item key d = bindR (vget item key (VStr d)) (\<lambda>v. Inr (py_str v))"

definition item_text :: "pyval \<Rightarrow> string \<Rightarrow> string res" where
  "item_text item key = bindR (vitem item key) (\<lambda>v. Inr (py_str v))"

text \<open>\<open>f"{value:.nf}"\<close> of a value: numbers have fixed digits, a text refuses the format and so does anything else.\<close>

definition py_fixed :: "nat \<Rightarrow> pyval \<Rightarrow> string res" where
  "py_fixed n v =
     (case v of
        VFloat x \<Rightarrow> Inr (fixed_str n x)
      | VInt i \<Rightarrow> bindR (float_of_int i) (\<lambda>x. Inr (fixed_str n x))
      | VBool b \<Rightarrow> Inr (fixed_str n (Fin (of_bool b)))
      | VStr s \<Rightarrow> Inl (ValueError (''Unknown format code '' @ repr_str ''f'' @ '' for object of type '' @ repr_str ''str''))
      | _ \<Rightarrow> Inl TypeError)"

definition fixed_or_na :: "nat \<Rightarrow> pyval \<Rightarrow> string res" where
  "fixed_or_na digits v = (if v = VNone then Inr ''n/a'' else py_fixed digits v)"

section \<open>Templates\<close>

definition newline :: string where "newline = [CHR 0x0A]"

text \<open>A template: literal pieces with the fields between them, evaluated in their order; a row of a table.\<close>

fun fill :: "string list \<Rightarrow> string res list \<Rightarrow> string res" where
  "fill (l # ls) (f # fs) = bindR f (\<lambda>s. bindR (fill ls fs) (\<lambda>t. Inr (l @ s @ t)))"
| "fill ls _ = Inr (concat ls)"

definition table_row :: "string res list \<Rightarrow> string res" where
  "table_row cells = bindR (mapR id cells) (\<lambda>cs. Inr (''| '' @ join '' | '' cs @ '' |''))"

text \<open>\<open>", ".join(xs)\<close> takes texts only.\<close>

definition join_texts :: "string \<Rightarrow> pyval list \<Rightarrow> string res" where
  "join_texts sep xs = bindR (mapR (\<lambda>v. case v of VStr s \<Rightarrow> Inr s | _ \<Rightarrow> Inl TypeError) xs) (\<lambda>ts. Inr (join sep ts))"

text \<open>A line of a list, \<open>- name: `text`\<close>.\<close>

definition labelled :: "string \<Rightarrow> string res \<Rightarrow> string res" where
  "labelled name text = fill [''- '' @ name @ '': `'', ''`''] [text]"

section \<open>Renderings that return\<close>

definition returns :: "'a res \<Rightarrow> bool" where
  "returns m = (case m of Inr _ \<Rightarrow> True | Inl _ \<Rightarrow> False)"

lemma returns_Inr [simp]: "returns (Inr x)"
  by (simp add: returns_def)

lemma returns_bind: "returns m \<Longrightarrow> (\<And>x. m = Inr x \<Longrightarrow> returns (f x)) \<Longrightarrow> returns (bindR m f)"
  by (cases m) (simp_all add: returns_def)

lemma returnsD: "returns m \<Longrightarrow> \<exists>x. m = Inr x"
  by (cases m) (simp_all add: returns_def)

lemma returns_mapR: "(\<And>x. x \<in> set xs \<Longrightarrow> returns (f x)) \<Longrightarrow> returns (mapR f xs)"
  by (induction xs) (auto intro!: returns_bind)

lemma returns_fill: "length ls = Suc (length fs) \<Longrightarrow> list_all returns fs \<Longrightarrow> returns (fill ls fs)"
proof (induction ls fs rule: fill.induct)
  case (1 l ls f fs)
  then show ?case by (auto intro!: returns_bind)
qed auto

lemma returns_row: "list_all returns cells \<Longrightarrow> returns (table_row cells)"
  by (auto simp: table_row_def list_all_iff intro!: returns_bind returns_mapR)

lemma returns_text: "returns (text_field (VDict d) k x)"
  by (simp add: text_field_def)

lemma returns_item: "dhas d k \<Longrightarrow> returns (item_text (VDict d) k)"
  by (auto simp: item_text_def dhas_dget split: option.splits)

lemma returns_labelled: "returns t \<Longrightarrow> returns (labelled name t)"
  by (simp add: labelled_def returns_bind)

lemma returns_py_fixed [simp]: "returns (py_fixed n (VFloat x))"
  by (simp add: py_fixed_def)

lemma join_texts_eq: "join_texts sep (map (\<lambda>x. VStr (f x)) xs) = Inr (join sep (map f xs))"
proof -
  have "mapR (\<lambda>v. case v of VStr s \<Rightarrow> Inr s | _ \<Rightarrow> Inl TypeError) (map (\<lambda>x. VStr (f x)) xs) = Inr (map f xs)"
    by (induction xs) auto
  then show ?thesis by (simp add: join_texts_def)
qed

lemma returns_join: "list_all (\<lambda>v. \<exists>t. v = VStr t) vs \<Longrightarrow> returns (join_texts sep vs)"
  by (auto simp: join_texts_def list_all_iff intro!: returns_bind returns_mapR)

lemma returns_all: "list_all returns ms \<Longrightarrow> returns (mapR id ms)"
  by (auto simp: list_all_iff intro!: returns_mapR)

lemma returns_boundary [simp]: "returns (join_texts sep [VStr t])"
  by (rule returns_join) simp

text \<open>Subscripts of a written-out dictionary.\<close>

lemma vitem_Cons: "vitem (VDict ((k, v) # d)) k' = (if k = k' then Inr v else vitem (VDict d) k')"
  by (simp add: dget_def)

lemma item_text_Cons: "item_text (VDict ((k, v) # d)) k' = (if k = k' then Inr (py_str v) else item_text (VDict d) k')"
  by (simp add: item_text_def vitem_Cons del: vitem.simps)

lemma dget_or_Cons: "dget_or ((k, v) # d) k' x = (if k = k' then v else dget_or d k' x)"
  by (simp add: dget_or_def dget_def)

lemmas subscripts = vitem_Cons item_text_Cons dget_or_Cons

section \<open>Digits\<close>

lemma fixed_str_no_slash: "CHR ''/'' \<notin> set (fixed_str n x)"
proof -
  have "\<not> is_digit (CHR ''/'')" by (simp add: is_digit_def)
  then have "CHR ''/'' \<notin> set (pad_left w (CHR ''0'') (nat_str k))" for w k
    using nat_str_digits [of "CHR ''/''" k] by (auto simp: pad_left_def)
  then show ?thesis
    by (cases x) (auto simp: fixed_str_def Let_def dest: in_set_takeD in_set_dropD split: if_splits)
qed

end
