(* ===== verification/SweepReport.thy ===== *)
theory SweepReport
  imports Sweep Markdown
begin

text \<open>
  What \<open>scripts/run_capacity_sweep.py\<close> writes: the document of a sweep as the dictionaries that go to
  \<open>summary.json\<close>, the Markdown report \<open>summary.md\<close> and the name of the plot.  The drawing itself is
  matplotlib's; of it only the pairing of panels and scenarios is kept, which raises without a scenario.
\<close>

section \<open>The target of a sweep\<close>

record sweep_target =
  tg_base_url :: string
  tg_endpoint :: string
  tg_model :: string
  tg_backend_metrics :: string
  tg_exporter_metrics :: string
  tg_timeout :: pyfloat
  tg_plot :: string

definition backend_metrics_url :: "sweep_target \<Rightarrow> string" where
  "backend_metrics_url tg =
     (if tg_backend_metrics tg = [] then rstrip_slash (tg_base_url tg) @ ''/metrics'' else tg_backend_metrics tg)"

section \<open>Documents\<close>

definition quality_doc :: "runs_quality \<Rightarrow> pydict" where
  "quality_doc q =
     (let c = rq_counts q; p = rq_prefix q; pc = ps_counts p in
      [(''total_runs'', VInt (rq_total q)), (''num_runs_ok_metrics'', VInt (rc_ok c)),
       (''num_runs_missing_hit_ratio'', VInt (rc_missing c)), (''num_runs_stale_metrics'', VInt (rc_stale c)),
       (''num_runs_window_hit_ratio'', VInt (rc_window c)),
       (''num_runs_snapshot_fallback_hit_ratio'', VInt (rc_snapshot_fallback c)),
       (''num_runs_missing_hit_ratio_source'', VInt (rc_missing_source c)),
       (''metric_quality'', VStr (rq_metric_quality q)), (''hit_ratio_source'', VStr (rq_hit_ratio_source q)),
       (''ok_metric_run_fraction'', VFloat (rq_ok_fraction q)), (''hit_ratio_comparable'', VBool (rq_comparable q)),
       (''num_runs_prefix_metric_strict'', VInt (pc_strict pc)),
       (''num_runs_prefix_metric_token_fallback'', VInt (pc_token_fallback pc)),
       (''num_runs_prefix_metric_other'', VInt (pc_other pc)),
       (''num_runs_prefix_metric_missing'', VInt (pc_missing pc)), (''prefix_metric_check'', VStr (ps_check p)),
       (''prefix_metric_strict_run_fraction'', VFloat (ps_strict_fraction p)),
       (''prefix_metric_token_fallback_run_fraction'', VFloat (ps_fallback_fraction p)),
       (''evidence_quality'', VStr (rq_evidence q))])"

definition aggregates_doc :: "run_aggregates \<Rightarrow> pydict" where
  "aggregates_doc a =
     (let q = (''quality_summary'', VDict (quality_doc (ag_quality a))) in
      if ag_repeats a = 0 then [(''repeats'', VInt 0), q]
      else [(''repeats'', VInt (int (ag_repeats a))), (''req_s_mean'', opt_v (ag_req_s a)),
            (''e2e_p95_ms_mean'', opt_v (ag_e2e a)), (''hit_ratio_mean'', opt_v (ag_hit a)),
            (''hidden_reuse_mean'', opt_v (ag_hidden a)), (''goodput_req_s_mean'', opt_v (ag_goodput a)),
            (''gpu_seconds_mean'', opt_v (ag_gpu a)), q,
            (''hit_ratio_missing_count'', VInt (rc_missing (rq_counts (ag_quality a)))),
            (''hit_ratio_stale_count'', VInt (rc_stale (rq_counts (ag_quality a))))])"

definition recommendation_doc :: "point_recommendation \<Rightarrow> pydict" where
  "recommendation_doc r =
     [(''baseline_hard_only_recommended_rps'', VFloat (pn_baseline r)),
      (''dual_boundary_recommended_rps'', VFloat (pn_dual r)), (''delta_dual_minus_baseline'', VFloat (pn_delta r)),
      (''metric_quality'', VStr (pn_metric_quality r)), (''hit_ratio_source'', VStr (pn_source r)),
      (''num_runs'', VInt (pn_num_runs r)), (''num_runs_ok_metrics'', VInt (pn_ok r)),
      (''num_runs_missing_hit_ratio'', VInt (pn_missing r)), (''num_runs_stale_metrics'', VInt (pn_stale r)),
      (''hit_ratio_comparable'', VBool (pn_comparable r)), (''evidence_quality'', VStr (pn_evidence r))]"

definition rank_doc :: "rank_record \<Rightarrow> pydict" where
  "rank_doc k =
     [(''scenario'', VStr (rk_scenario k)), (''concurrency'', VInt (rk_concurrency k)),
      (''req_s_mean'', VFloat (rk_req_s k)), (''e2e_p95_ms_mean'', VFloat (rk_e2e k)),
      (''hit_ratio_mean'', opt_v (rk_hit k)), (''metric_quality'', VStr (rk_metric_quality k)),
      (''hit_ratio_source'', VStr (rk_source k)), (''num_runs_ok_metrics'', VInt (rk_ok_runs k)),
      (''total_runs'', VInt (rk_total_runs k)), (''hit_ratio_comparable'', VBool (rk_comparable k)),
      (''baseline_hard_only_recommended_rps'', VFloat (rk_baseline k)),
      (''dual_boundary_recommended_rps'', VFloat (rk_dual k)), (''is_feasible'', VBool (rk_feasible k)),
      (''is_best_safe_candidate'', VBool (rk_safe k))]"

definition opt_rank_doc :: "rank_record option \<Rightarrow> pyval" where
  "opt_rank_doc k = (case k of None \<Rightarrow> VNone | Some r \<Rightarrow> VDict (rank_doc r))"

definition scenario_doc :: "scenario_ranking \<Rightarrow> pydict" where
  "scenario_doc s =
     [(''ranked_points'', VList (map (\<lambda>k. VDict (rank_doc k)) (sr_ranked s))),
      (''feasible_points'', VList (map (\<lambda>k. VDict (rank_doc k)) (sr_feasible s))),
      (''best_safe_point'', opt_rank_doc (sr_best_safe s)), (''highest_feasible_point'', opt_rank_doc (sr_highest s))]"

definition ranking_doc :: "(string \<times> scenario_ranking) list \<Rightarrow> pydict" where
  "ranking_doc ranking = [(''by_scenario'', VDict (map (\<lambda>(s, r). (s, VDict (scenario_doc r))) ranking))]"

text \<open>A candidate without a feasible run has its own keys.\<close>

definition rejected_doc :: "rejected_counts \<Rightarrow> pydict" where
  "rejected_doc r =
     [(''slo'', VInt (rj_slo r)), (''success_rate'', VInt (rj_success_rate r)), (''hit_ratio'', VInt (rj_hit_ratio r)),
      (''metric_quality'', VInt (rj_metric_quality r)), (''evidence_missing'', VInt (rj_evidence_missing r))]"

definition candidate_doc :: "candidate \<Rightarrow> pydict" where
  "candidate_doc c =
     (let front = [(''scenario'', cd_scenario c), (''concurrency'', VInt (cd_concurrency c)),
                   (''min_hit_ratio'', VFloat (cd_threshold c)), (''feasible_runs'', VInt (cd_feasible_runs c)),
                   (''total_runs'', VInt (cd_total_runs c))];
          rest = [(''rejection_reasons'', VList (map VStr (cd_reasons c))), (''rejected_counts'', VDict (rejected_doc (cd_rejected c))),
                  (''selected'', VBool (cd_selected c))] in
      case cd_score c of
        None \<Rightarrow> front @ [(''score'', VNone), (''expected_rps'', VFloat (cd_expected c)),
           (''rps_lower_bound'', VFloat (cd_lower c)), (''instability'', VFloat (cd_instability c)),
           (''evidence_uncertainty'', VFloat (cd_uncertainty c)), (''evidence_quality'', VStr (cd_quality c))] @ rest
      | Some x \<Rightarrow> front @ [(''mean_rps'', opt_v (cd_mean c)), (''rps_lower_bound'', VFloat (cd_lower c)),
           (''expected_rps'', VFloat (cd_expected c)), (''instability'', VFloat (cd_instability c)),
           (''evidence_uncertainty'', VFloat (cd_uncertainty c)), (''evidence_quality'', VStr (cd_quality c)),
           (''score'', VFloat x)] @ rest)"

definition advice_doc :: "calibration_advice \<Rightarrow> pydict" where
  "advice_doc a =
     [(''min_hit_ratio'', VFloat (ca_threshold a)), (''max_concurrency'', VInt (ca_concurrency a)),
      (''expected_rps'', VFloat (ca_expected a)), (''confidence'', VFloat (ca_confidence a)),
      (''evidence_quality'', VStr (ca_quality a)), (''scenario'', ca_scenario a)]"

definition calibration_doc :: "constraints \<Rightarrow> weights \<Rightarrow> calibration \<Rightarrow> pydict" where
  "calibration_doc cs w c =
     [(''schema_version'', VStr ''kavora-auto-calibration/v1''),
      (''recommendation'', case cl_recommendation c of None \<Rightarrow> VNone | Some a \<Rightarrow> VDict (advice_doc a)),
      (''constraints'', VDict [(''e2e_p95_ms'', VFloat (cs_slo_ms cs)), (''success_rate'', VFloat (cs_min_success cs)),
         (''min_feasible_runs'', VInt (cs_min_runs cs))]),
      (''weights'', VDict [(''instability'', VFloat (wt_instability w)), (''evidence_uncertainty'', VFloat (wt_uncertainty w)),
         (''safety_factor'', VFloat (wt_safety w))]),
      (''reason'', VList (map VStr (cl_reason c))),
      (''deployment'', VDict [(''status'', VStr (cl_status c)), (''recommended_action'', VStr (cl_action c)),
         (''canary_steps'', VList (map VFloat (cl_canary c)))]),
      (''alternatives'', VList (map (\<lambda>d. VDict (candidate_doc d)) (cl_alternatives c))),
      (''claim_boundary'', VStr (''Calibration ranks measured sweep runs and requires human approval. It does not '' @
         ''mutate production configuration or establish performance beyond the supplied experiment artifact.''))]"

definition policy_doc :: "sweep_args \<Rightarrow> pydict" where
  "policy_doc args =
     [(''e2e_p95_slo_ms'', VFloat (po_slo_ms (sa_policy args))), (''min_success_rate'', VFloat (po_min_success (sa_policy args))),
      (''min_hit_ratio'', VFloat (sa_min_hit args)), (''safety_factor'', VFloat (po_safety (sa_policy args)))]"

definition meta_doc :: "sweep_target \<Rightarrow> sweep_args \<Rightarrow> pydict" where
  "meta_doc tg args =
     [(''experiment_schema_version'', VInt 3), (''run_entry_schema_version'', VInt 3), (''sweep_type'', VStr ''concurrency''),
      (''base_url'', VStr (tg_base_url tg)), (''endpoint'', VStr (tg_endpoint tg)), (''model'', VStr (tg_model tg)),
      (''backend_metrics_url'', VStr (backend_metrics_url tg)), (''exporter_metrics_url'', VStr (tg_exporter_metrics tg)),
      (''scenarios'', VList (map VStr (sa_scenarios args))), (''concurrency_values'', VList (map VInt (sa_concurrency args))),
      (''repeats'', VInt (sa_repeats args)), (''num_requests'', VInt (sa_requests args)),
      (''input_len'', VInt (sa_input_len args)), (''output_len'', VInt (sa_output_len args)),
      (''warmup_requests'', VInt (sa_warmup args)), (''timeout_s'', VFloat (tg_timeout tg)),
      (''policy'', VDict (policy_doc args))]"

definition full_point_doc :: "sweep_point \<Rightarrow> pydict" where
  "full_point_doc pt =
     point_doc pt @ [(''aggregates'', VDict (aggregates_doc (sp_aggregates pt))),
       (''recommendation'', VDict (recommendation_doc (sp_recommendation pt))),
       (''ranking'', VDict (rank_doc (point_rank_record pt)))]"

definition sweep_json :: "sweep_target \<Rightarrow> sweep_args \<Rightarrow> sweep_doc \<Rightarrow> pydict" where
  "sweep_json tg args d =
     [(''meta'', VDict (meta_doc tg args)), (''points'', VList (map (\<lambda>pt. VDict (full_point_doc pt)) (sd_points d))),
      (''ranking'', VDict (ranking_doc (sd_ranking d))),
      (''calibration'', VDict (calibration_doc (sweep_constraints args)
         (default_weights\<lparr>wt_safety := po_safety (sa_policy args)\<rparr>) (sd_calibration d)))]"

section \<open>The report\<close>

definition yes_no :: "bool \<Rightarrow> string" where
  "yes_no b = (if b then ''yes'' else ''no'')"

definition report_head :: "sweep_target \<Rightarrow> sweep_args \<Rightarrow> string list" where
  "report_head tg args =
     [''# Capacity Sweep Report'', [],
      ''- base_url: `'' @ tg_base_url tg @ ''`'', ''- model: `'' @ tg_model tg @ ''`'',
      ''- repeats_per_point: `'' @ int_str (sa_repeats args) @ ''`'', [],
      ''## Ranking Plot'', [],
      ''![capacity_sweep_ranking]('' @ tg_plot tg @ '')'', [],
      ''| Scenario | Concurrency | req/s mean | e2e p95 mean(ms) | hit_ratio mean | metric_quality | '' @
        ''ok_metric_runs | hit_ratio_source | feasible | best_safe | baseline_rps | dual_rps |'',
      ''|---|---:|---:|---:|---:|---|---:|---|---|---|---:|---:|'']"

text \<open>Without runs the aggregates have no mean hit ratio and the subscription raises.\<close>

definition report_row :: "sweep_point \<Rightarrow> string res" where
  "report_row pt =
     (let a = sp_aggregates pt; q = ag_quality a; k = point_rank_record pt; r = sp_recommendation pt in
      guardR (ag_repeats a = 0) KeyError (Inr (
        ''| '' @ sp_scenario pt @ '' | '' @ int_str (sp_concurrency pt) @ '' | '' @ fixed_str 4 (or_zero (ag_req_s a)) @
        '' | '' @ fixed_str 2 (or_zero (ag_e2e a)) @ '' | '' @ (case ag_hit a of None \<Rightarrow> ''NA'' | Some h \<Rightarrow> fixed_str 4 h) @
        '' | '' @ rq_metric_quality q @ '' | '' @ int_str (rc_ok (rq_counts q)) @ ''/'' @ int_str (rq_total q) @
        '' | '' @ rq_hit_ratio_source q @ '' | '' @ yes_no (rk_feasible k) @ '' | '' @ yes_no (rk_safe k) @
        '' | '' @ fixed_str 4 (pn_baseline r) @ '' | '' @ fixed_str 4 (pn_dual r) @ '' |'')))"

definition report_scenario :: "string \<times> scenario_ranking \<Rightarrow> string list" where
  "report_scenario x = (case x of (s, r) \<Rightarrow>
     [''- '' @ s @ (case sr_highest r of
         None \<Rightarrow> '': no feasible point under the hard constraints.''
       | Some k \<Rightarrow> '': highest feasible point is concurrency='' @ int_str (rk_concurrency k) @ '' req/s_mean='' @
           fixed_str 4 (rk_req_s k) @ ''.''),
      ''- '' @ s @ (case sr_best_safe r of
         None \<Rightarrow> '': no best safe point passed the dual boundary constraints.''
       | Some k \<Rightarrow> '': best safe point is concurrency='' @ int_str (rk_concurrency k) @ '' dual_rps='' @
           fixed_str 4 (rk_dual k) @ ''.'')])"

definition report_calibration :: "calibration \<Rightarrow> string list" where
  "report_calibration c =
     (case cl_recommendation c of
        None \<Rightarrow> [''- calibration blocked: no point passed all evidence and SLO gates.'']
      | Some a \<Rightarrow>
          [''- threshold='' @ fixed_str 2 (ca_threshold a) @ '', max_concurrency='' @ int_str (ca_concurrency a) @
             '', expected_rps='' @ fixed_str 3 (ca_expected a) @ '', confidence='' @ fixed_str 3 (ca_confidence a) @
             '', evidence='' @ ca_quality a @ ''.'',
           ''- deployment: '' @ cl_status c @ '' -> '' @ cl_action c @ ''.''])"

definition sweep_markdown :: "sweep_target \<Rightarrow> sweep_args \<Rightarrow> sweep_doc \<Rightarrow> string res" where
  "sweep_markdown tg args d =
     bindR (mapR report_row (sd_points d)) (\<lambda>rows.
     Inr (join newline (report_head tg args @ rows @ [[], ''## Recommendations'', []] @
       concat (map report_scenario (sd_ranking d)) @ [[], ''## Auto Calibration'', []] @
       report_calibration (sd_calibration d) @ [[]])))"

text \<open>The panels of the plot and the scenarios are paired with \<open>zip(strict=True)\<close>.\<close>

definition plot_panels :: "sweep_doc \<Rightarrow> unit res" where
  "plot_panels d =
     (let n = length (build_plot_series (sd_ranking d)) in
      guardR (max 1 n \<noteq> n) (ValueError ''zip() argument 2 is shorter than argument 1'') (Inr ()))"

record sweep_files =
  sf_json :: pydict
  sf_report :: string

definition sweep_main :: "sweep_world \<Rightarrow> sweep_target \<Rightarrow> sweep_args \<Rightarrow> sweep_files res" where
  "sweep_main wd tg args =
     bindR (run_sweep wd args) (\<lambda>d.
     bindR (plot_panels d) (\<lambda>_.
     bindR (sweep_markdown tg args d) (\<lambda>r. Inr \<lparr>sf_json = sweep_json tg args d, sf_report = r\<rparr>)))"

end
