(* ===== verification/PlannerReports.thy ===== *)
theory PlannerReports
  imports Envelope PolicyEval Ttft SweepReport
begin

text \<open>
  The documents of the planners and the Markdown reports they print of them: the operating envelope, the calibration, the policy
  evaluation and the validation of the latency predictor.
\<close>

section \<open>The operating envelope\<close>

definition envelope_point_doc :: "envelope_point \<Rightarrow> pydict" where
  "envelope_point_doc q =
     [(''scenario'', ep_scenario q), (''concurrency'', VInt (ep_concurrency q)), (''goodput_req_s_mean'', opt_v (ep_mean q)),
      (''goodput_req_s_lcb'', opt_v (ep_lcb q)), (''e2e_p95_ms_mean'', opt_v (ep_e2e q)), (''success_rate_mean'', opt_v (ep_success q)),
      (''gpu_seconds_mean'', opt_v (ep_gpu q)), (''evidence_quality'', ep_quality q), (''feasible'', VBool (ep_feasible q)),
      (''rejection_reasons'', VList (map VStr (ep_reasons q)))]"

definition envelope_doc :: "envelope_result \<Rightarrow> pydict" where
  "envelope_doc r =
     [(''schema_version'', VStr ''kavora-operating-envelope/v1''),
      (''constraints'', VDict
        [(''e2e_p95_slo_ms'', VFloat (el_slo_ms (er_limits r))), (''min_success_rate'', VFloat (el_min_success (er_limits r))),
         (''resource_budget_gpu_seconds'', opt_v (el_budget (er_limits r))), (''safety_factor'', VFloat (el_safety (er_limits r)))]),
      (''points'', VList (map (\<lambda>q. VDict (envelope_point_doc q)) (er_points r))),
      (''pareto_points'', VList (map (\<lambda>q. VDict (envelope_point_doc q)) (er_pareto r))),
      (''recommendation'', case er_recommendation r of
          None \<Rightarrow> VNone
        | Some (q, x) \<Rightarrow> VDict (envelope_point_doc q @ [(''recommended_goodput_req_s'', VFloat x)])),
      (''status'', VStr (er_status r)),
      (''claim_boundary'', VStr ''Recommendations are valid only for the supplied model, hardware, workload, pool, SLO, and resource evidence window. Missing goodput or resource evidence is not imputed.'')]"

text \<open>\<open>v if v is not None else "..."\<close> inside a template.\<close>

definition text_or :: "string \<Rightarrow> pyval \<Rightarrow> string res" where
  "text_or d v = Inr (if v = VNone then d else py_str v)"

definition envelope_row :: "pyval \<Rightarrow> string res" where
  "envelope_row point =
     fill [''| '', '' | '', '' | '', '' | '', '' | '', '' |'']
       [item_text point ''scenario'', item_text point ''concurrency'', bindR (vitem point ''goodput_req_s_lcb'') (py_fixed 4),
        bindR (vitem point ''gpu_seconds_mean'') (text_or ''missing''), bindR (vitem point ''e2e_p95_ms_mean'') (py_fixed 2)]"

definition envelope_markdown :: "pydict \<Rightarrow> string res" where
  "envelope_markdown result =
     bindR (vitem (VDict result) ''constraints'') (\<lambda>constraints.
     bindR (mapR id
       [fill [''- Status: **'', ''**''] [item_text (VDict result) ''status''],
        fill [''- SLO: `'', '' ms` e2e p95''] [item_text constraints ''e2e_p95_slo_ms''],
        fill [''- Resource budget: `'', ''` GPU-seconds'']
          [bindR (vitem constraints ''resource_budget_gpu_seconds'') (text_or ''not configured'')]]) (\<lambda>head.
     let recommendation = dget_or result ''recommendation'' VNone in
     bindR (if truthy recommendation
            then fill [''- scenario `'', ''`, concurrency `'', ''`, recommended goodput `'', ''` req/s.'']
                   [item_text recommendation ''scenario'', item_text recommendation ''concurrency'',
                    bindR (vitem recommendation ''recommended_goodput_req_s'') (py_fixed 4)]
            else Inr ''- No point passed goodput, SLO, evidence, and resource gates.'') (\<lambda>advice.
     bindR (bindR (vitem (VDict result) ''pareto_points'') py_iter) (\<lambda>points. bindR (mapR envelope_row points) (\<lambda>rows.
     bindR (bindR (vitem (VDict result) ''claim_boundary'') (\<lambda>v. join_texts newline [v])) (\<lambda>boundary.
     Inr (join newline
       ([''# Kavora Operating Envelope'', []] @ head @ [[], ''## Recommendation'', [], advice, [], ''## Pareto Points'', [],
         ''| Scenario | Concurrency | Goodput LCB | GPU-seconds | E2E p95 |'', ''|---|---:|---:|---:|---:|''] @ rows @
        [[], ''## Claim Boundary'', [], boundary, []]))))))))"

section \<open>The calibration\<close>

definition calibration_markdown :: "pydict \<Rightarrow> string res" where
  "calibration_markdown result =
     (let recommendation = dget_or result ''recommendation'' VNone; field = vitem recommendation in
     bindR (if truthy recommendation
            then mapR id
              [labelled ''Minimum hit ratio'' (bindR (field ''min_hit_ratio'') (py_fixed 2)),
               labelled ''Maximum concurrency'' (item_text recommendation ''max_concurrency''),
               labelled ''Expected safe RPS'' (bindR (field ''expected_rps'') (py_fixed 3)),
               labelled ''Confidence'' (bindR (field ''confidence'') (py_fixed 3)),
               labelled ''Evidence quality'' (item_text recommendation ''evidence_quality'')]
            else Inr [''- Recommendation: `BLOCKED`'']) (\<lambda>advice.
     bindR (bindR (vitem (VDict result) ''reason'') py_iter) (\<lambda>reasons.
     bindR (vitem (VDict result) ''deployment'') (\<lambda>deployment.
     bindR (mapR id [labelled ''Status'' (item_text deployment ''status''),
                     labelled ''Next action'' (item_text deployment ''recommended_action'')]) (\<lambda>next.
     bindR (bindR (vitem (VDict result) ''claim_boundary'') (\<lambda>v. join_texts newline [v])) (\<lambda>boundary.
     Inr (join newline
       ([''# Kavora Automatic Operating-Envelope Calibration'', []] @ advice @ [[], ''## Reasons'', []] @
        map (\<lambda>v. ''- '' @ py_str v) reasons @ [[], ''## Deployment'', []] @ next @ [[], ''## Claim Boundary'', [], boundary, []]))))))))"

section \<open>The policy evaluation\<close>

definition counted_doc :: "(string \<times> nat) list \<Rightarrow> pydict" where
  "counted_doc d = map (\<lambda>(k, n). (k, VInt (int n))) d"

definition goodput_definition :: "slo \<Rightarrow> string" where
  "goodput_definition s =
     ''success and ttft <= ttft_slo_ms'' @ (if sl_tpot s = None then [] else '' and tpot <= tpot_slo_ms'') @
     (if sl_gap s = None then [] else '' and stream_gap_p95 <= stream_gap_slo_ms'')"

definition arm_doc :: "slo \<Rightarrow> arm_metrics \<Rightarrow> pydict" where
  "arm_doc s m =
     [(''requests'', VInt (int (am_requests m))), (''successful_requests'', VInt (int (am_successful m))),
      (''ttft_samples'', VInt (int (am_ttft_samples m))), (''ttft_mean_ms'', opt_v (am_ttft_mean m)), (''ttft_p95_ms'', opt_v (am_ttft_p95 m)),
      (''slo_violation_rate'', opt_v (am_slo_violation_rate m)), (''slo_qualified_requests'', VInt (int (am_qualified m))),
      (''slo_qualified_rate'', opt_v (am_qualified_rate m)), (''goodput_req_s'', opt_v (am_goodput m)),
      (''goodput_definition'', VStr (goodput_definition s)), (''qualification_reasons'', VDict (counted_doc (am_reasons m))),
      (''tpot_samples'', VInt (int (am_tpot_samples m))), (''tpot_p95_ms'', opt_v (am_tpot_p95 m)),
      (''stream_gap_samples'', VInt (int (am_gap_samples m))), (''stream_gap_p95_ms'', opt_v (am_gap_p95 m)),
      (''throughput_req_s'', opt_v (am_throughput m)), (''error_rate'', opt_v (am_error_rate m)),
      (''fallback_rate'', opt_v (am_fallback_rate m)), (''prediction_mae_ms'', opt_v (am_prediction_mae m))]"

definition stratum_doc :: "stratum \<Rightarrow> pydict" where
  "stratum_doc s =
     [(''stratum'', VStr (st_name s)), (''control_requests'', VInt (int (st_control_requests s))),
      (''treatment_requests'', VInt (int (st_treatment_requests s))), (''ttft_mean_difference_ms'', opt_v (st_difference s)),
      (''control_slo_violation_rate'', opt_v (st_control_rate s)), (''treatment_slo_violation_rate'', opt_v (st_treatment_rate s))]"

definition effect_doc :: "evaluation \<Rightarrow> pydict" where
  "effect_doc e =
     [(''ttft_mean_difference_ms'', VFloat (ev_difference e)), (''ttft_relative_percent'', VFloat (ev_relative_percent e)),
      (''ci95_low_ms'', VFloat (fst (ev_ci e))), (''ci95_high_ms'', VFloat (snd (ev_ci e))),
      (''ci_method'', VStr (if ev_clustered e then ''window_cluster_bootstrap'' else ''request_bootstrap'')),
      (''slo_violation_delta_percentage_points'', VFloat (ev_slo_delta e)), (''goodput_difference_req_s'', VFloat (ev_goodput_difference e)),
      (''goodput_relative_percent'', opt_v (ev_goodput_percent e))]"

definition verdict_text :: "bool \<Rightarrow> pyval" where
  "verdict_text b = VStr (if b then ''PASS'' else ''FAIL'')"

definition gates_doc :: "safety_gates \<Rightarrow> pydict" where
  "gates_doc g =
     [(''errors'', verdict_text (sg_errors g)), (''fallback'', verdict_text (sg_fallback g)), (''p95_ttft'', verdict_text (sg_p95_ttft g)),
      (''prediction_drift'', verdict_text (sg_prediction_drift g))]"

definition integrity_doc :: "evaluation \<Rightarrow> pydict" where
  "integrity_doc e =
     [(''assignment'', verdict_text (ev_assignment e)), (''warmup_excluded'', VInt (int (ev_guarded e))),
      (''window_balance'', verdict_text (ev_window_balance e)), (''joined_outcomes'', VInt (int (length (ev_joined e)))),
      (''contaminated_windows'', VList (map VStr (ev_contaminated e)))]"

definition slo_doc :: "trial \<Rightarrow> evaluation \<Rightarrow> pydict" where
  "slo_doc ex e =
     (let both = \<lambda>f. VBool (f (ev_control e) \<noteq> (0 :: nat) \<and> f (ev_treatment e) \<noteq> 0) in
      [(''ttft_ms'', VFloat (sl_ttft (ex_slo ex))), (''tpot_ms'', opt_v (sl_tpot (ex_slo ex))),
       (''stream_gap_p95_ms'', opt_v (sl_gap (ex_slo ex))),
       (''measured_fields'', VDict [(''ttft'', both am_ttft_samples), (''tpot'', both am_tpot_samples), (''stream_gap'', both am_gap_samples)])])"

definition policy_evaluation_doc :: "trial \<Rightarrow> evaluation \<Rightarrow> pydict" where
  "policy_evaluation_doc ex e =
     [(''schema_version'', VStr ''kavora-policy-evaluation/v1''), (''experiment_id'', VStr (ex_id ex)),
      (''control_policy'', VStr (ex_control ex)), (''treatment_policy'', VStr (ex_treatment ex)),
      (''control'', VDict (arm_doc (ex_slo ex) (ev_control e))), (''treatment'', VDict (arm_doc (ex_slo ex) (ev_treatment e))),
      (''effect'', VDict (effect_doc e)), (''safety'', VDict (gates_doc (ev_safety e))), (''integrity'', VDict (integrity_doc e)),
      (''strata'', VList (map (\<lambda>s. VDict (stratum_doc s)) (ev_strata e))), (''promotion_eligible'', VBool (ev_promotion e)),
      (''verdict'', VStr (if ev_promotion e then ''PROMOTION_ELIGIBLE'' else ''NOT_ELIGIBLE'')),
      (''claim_boundary'', VStr ''This report estimates policy effects from outcome-grounded randomized assignments. Shared-resource interference is reduced by switchback or isolated pools but is not assumed to be eliminated.''),
      (''slo'', VDict (slo_doc ex e))]"

text \<open>\<open>d.items()\<close> as lines; anything but a dictionary has no \<open>items\<close>.\<close>

definition item_lines :: "pyval \<Rightarrow> string list res" where
  "item_lines v = (case v of VDict d \<Rightarrow> Inr (map (\<lambda>(k, x). ''- '' @ k @ '': `'' @ py_str x @ ''`'') d) | _ \<Rightarrow> Inl AttributeError)"

definition policy_markdown :: "pydict \<Rightarrow> string res" where
  "policy_markdown report =
     (let top = VDict report in
     bindR (vitem top ''effect'') (\<lambda>effect. bindR (vitem top ''control'') (\<lambda>control. bindR (vitem top ''treatment'') (\<lambda>treatment.
     let fixed = \<lambda>n k. bindR (vitem effect k) (py_fixed n); goodput = \<lambda>arm. bindR (vitem arm ''goodput_req_s'') (text_or ''NA'') in
     bindR (mapR id
       [labelled ''Experiment'' (item_text top ''experiment_id''),
        fill [''- Control: `'', ''` ('', '' requests)''] [item_text top ''control_policy'', item_text control ''requests''],
        fill [''- Treatment: `'', ''` ('', '' requests)''] [item_text top ''treatment_policy'', item_text treatment ''requests''],
        fill [''- Verdict: **'', ''**''] [item_text top ''verdict'']]) (\<lambda>head.
     bindR (mapR id
       [fill [''- Mean TTFT difference: `'', '' ms`''] [fixed 2 ''ttft_mean_difference_ms''],
        fill [''- Relative TTFT difference: `'', ''%`''] [fixed 2 ''ttft_relative_percent''],
        fill [''- Bootstrap 95% CI: `['', '', '', ''] ms`''] [fixed 2 ''ci95_low_ms'', fixed 2 ''ci95_high_ms''],
        labelled ''CI method'' (item_text effect ''ci_method''),
        fill [''- SLO violation delta: `'', '' pp`''] [fixed 2 ''slo_violation_delta_percentage_points''],
        fill [''- Goodput difference: `'', '' req/s` ('', ''%)'']
          [fixed 4 ''goodput_difference_req_s'', bindR (vitem effect ''goodput_relative_percent'') (text_or ''NA'')],
        fill [''- Control goodput: `'', '' req/s`; treatment goodput: `'', '' req/s`''] [goodput control, goodput treatment],
        labelled ''Goodput definition'' (item_text control ''goodput_definition'')]) (\<lambda>effects.
     bindR (bindR (vitem top ''safety'') item_lines) (\<lambda>safety. bindR (bindR (vitem top ''integrity'') item_lines) (\<lambda>integrity.
     bindR (bindR (vitem top ''claim_boundary'') (\<lambda>v. join_texts newline [v])) (\<lambda>boundary.
     Inr (join newline
       ([''# Kavora Policy Evaluation'', []] @ head @ [[], ''## Effect'', []] @ effects @ [[], ''## Safety'', []] @ safety @
        [[], ''## Integrity'', []] @ integrity @ [[], ''## Claim Boundary'', [], boundary, []])))))))))))"

section \<open>The validation of the predictor\<close>

definition validation_doc :: "pyfloat \<Rightarrow> pyfloat \<Rightarrow> validation \<Rightarrow> pydict" where
  "validation_doc max_mae max_p95 v =
     [(''schema_version'', VStr ''kavora-ttft-validation/v1''), (''predictor_version'', va_version v),
      (''samples'', VInt (int (va_samples v))), (''skipped_samples'', VInt (int (va_skipped v))), (''mae_ms'', VFloat (va_mae v)),
      (''p95_absolute_error_ms'', VFloat (va_p95 v)), (''mean_signed_error_ms'', VFloat (va_signed v)),
      (''thresholds'', VDict [(''max_mae_ms'', VFloat max_mae), (''max_p95_absolute_error_ms'', VFloat max_p95)]),
      (''status'', VStr (va_status v)),
      (''claim_boundary'', VStr ''Validation uses an independent journal directory and does not reuse the fitting samples. Production generalization remains scoped to the recorded model, GPU, engine, and backend version.'')]"

definition validation_markdown :: "pydict \<Rightarrow> string res" where
  "validation_markdown report =
     (let top = VDict report; ms = \<lambda>k. bindR (bindR (vitem top k) (py_fixed 2)) (\<lambda>t. Inr (t @ '' ms'')) in
     bindR (mapR id
       [labelled ''Predictor'' (item_text top ''predictor_version''), fill [''- Status: **'', ''**''] [item_text top ''status''],
        labelled ''Samples'' (item_text top ''samples''), labelled ''MAE'' (ms ''mae_ms''),
        labelled ''P95 absolute error'' (ms ''p95_absolute_error_ms''), labelled ''Mean signed error'' (ms ''mean_signed_error_ms'')]) (\<lambda>facts.
     bindR (bindR (vitem top ''claim_boundary'') (\<lambda>v. join_texts newline [v])) (\<lambda>boundary.
     Inr (join newline
       ([''# Kavora Held-Out TTFT Predictor Validation'', []] @ facts @ [[], ''## Claim Boundary'', [], boundary, []])))))"

section \<open>Facts\<close>

lemma returns_text_or [simp]: "returns (text_or d v)"
  by (simp add: text_or_def)

lemma feasible_numbers:
  assumes "evaluate_point l d = Inr q" "ep_feasible q"
  shows "\<exists>x y. ep_lcb q = Some x \<and> ep_e2e q = Some y"
  using evaluate_pointD [OF assms(1)] assms(2) by (auto simp: ep_feasible_def rejection_reasons_Nil)

lemma envelope_row_returns:
  assumes "ep_lcb q = Some x" "ep_e2e q = Some y"
  shows "returns (envelope_row (VDict (envelope_point_doc q)))"
  using assms
  by (auto simp: envelope_row_def envelope_point_doc_def subscripts opt_v_def simp del: vitem.simps fill.simps
      intro!: returns_fill)

lemma envelope_markdown_returns:
  assumes "recommend_operating_point l document = Inr r"
  shows "returns (envelope_markdown (envelope_doc r))"
proof -
  obtain ds es where es: "mapR (evaluate_point l) ds = Inr es" "r = select_point l es" using recommendD [OF assms] by blast
  have numbers: "\<exists>x y. ep_lcb q = Some x \<and> ep_e2e q = Some y" if "q \<in> set (er_pareto r)" for q
  proof -
    have "q \<in> set es" "ep_feasible q" using that es(2) by (auto simp: select_point_def Let_def pareto_mem)
    then show ?thesis using mapR_Inr_set [OF es(1)] feasible_numbers by blast
  qed
  have rows: "returns (mapR envelope_row (map (\<lambda>q. VDict (envelope_point_doc q)) (er_pareto r)))"
    using numbers envelope_row_returns by (intro returns_mapR) fastforce
  show ?thesis
    unfolding envelope_markdown_def envelope_doc_def Let_def subscripts
    by (cases "er_recommendation r")
      (auto simp: subscripts returns_fill rows [unfolded envelope_point_doc_def] envelope_point_doc_def simp del: vitem.simps fill.simps intro!: returns_bind returns_all)
qed

lemma calibration_markdown_returns: "returns (calibration_markdown (calibration_doc cs w c))"
  unfolding calibration_markdown_def calibration_doc_def Let_def subscripts
  by (cases "cl_recommendation c")
    (auto simp: subscripts returns_labelled advice_doc_def simp del: vitem.simps intro!: returns_bind returns_all)

lemma item_lines_return: "returns (item_lines (VDict d))"
  by (simp add: item_lines_def)

lemma policy_markdown_returns: "returns (policy_markdown (policy_evaluation_doc ex e))"
  unfolding policy_markdown_def policy_evaluation_doc_def Let_def subscripts
  by (auto simp: subscripts returns_labelled returns_fill effect_doc_def arm_doc_def item_lines_return
      simp del: vitem.simps fill.simps intro!: returns_bind returns_all)

lemma validation_markdown_returns: "returns (validation_markdown (validation_doc a b v))"
  unfolding validation_markdown_def validation_doc_def Let_def subscripts
  by (auto simp: subscripts returns_fill simp del: vitem.simps fill.simps intro!: returns_bind returns_all returns_labelled)

text \<open>
  Every planner can print what it found: the envelope's report is made from whatever points were supplied, because
  a point that reaches it has the numbers it prints, and so are the reports of a calibration, of a policy evaluation and of a
  validation, from the documents these planners write.
\<close>

theorem planner_reports_made:
  assumes "recommend_operating_point l document = Inr r"
  shows "(\<exists>t. envelope_markdown (envelope_doc r) = Inr t) \<and> (\<exists>t. calibration_markdown (calibration_doc cs w c) = Inr t) \<and>
    (\<exists>t. policy_markdown (policy_evaluation_doc ex e) = Inr t) \<and> (\<exists>t. validation_markdown (validation_doc max_mae max_p95 v) = Inr t)"
  using returnsD [OF envelope_markdown_returns [OF assms]] returnsD [OF calibration_markdown_returns]
    returnsD [OF policy_markdown_returns] returnsD [OF validation_markdown_returns] by blast

theorem planner_reports_made_witness:
  "\<exists>r t. recommend_operating_point sample_limits [(''points'', VList [sample_point 8 900 50 4, sample_point 9 1900 60 8])] = Inr r \<and>
     envelope_markdown (envelope_doc r) = Inr t"
  using sample_envelope planner_reports_made by blast

end
