(* ===== verification/Stage2Config.thy ===== *)
theory Stage2Config
  imports PyJson PyStats
begin

text \<open>
  The configuration of the routing evaluation (\<open>load_config\<close> of \<open>benchmark/stage2_evaluation.py\<close>), its hash and
  the order of the targets.  \<open>yaml.safe_load\<close> is not part of the repository: the loaded document is an argument, a
  value without dates and with text keys.  \<open>urlparse\<close> is an argument that gives the scheme and the network location
  of a URL.  Reading the file is not modelled.
\<close>

section \<open>The data\<close>

definition required_strategies :: "string list" where
  "required_strategies = [''direct'', ''static'', ''load-aware'', ''kv-aware-shadow'', ''kv-aware-enforced'']"

definition default_workloads :: "string list" where
  "default_workloads = [''random'', ''repeated-system'', ''long-shared-prefix'', ''tenant-affinity'']"

record target_spec =
  ts_strategy :: string
  ts_url :: string
  ts_api_key :: string

record backend_spec =
  bs_id :: string
  bs_metrics_url :: string

record evaluation_config =
  ec_model :: string
  ec_model_revision :: string
  ec_backend_version :: string
  ec_repetitions :: int
  ec_requests :: int
  ec_concurrency :: int
  ec_timeout_s :: pyfloat
  ec_max_tokens :: int
  ec_seed :: int
  ec_workloads :: "string list"
  ec_targets :: "target_spec list"
  ec_backends :: "backend_spec list"
  ec_source :: pydict

section \<open>Loading\<close>

definition absolute_http_url :: "(string \<Rightarrow> (string \<times> string) res) \<Rightarrow> pyval \<Rightarrow> string \<Rightarrow> string res" where
  "absolute_http_url urlparse v field =
     (let t = strip (py_str (py_or v (VStr [])))
      in bindR (urlparse t) (\<lambda>(scheme, netloc).
         guardR (scheme \<notin> {''http'', ''https''} \<or> netloc = []) (ValueError (field @ '' must be an absolute HTTP URL''))
           (Inr (rstrip_slash t))))"

text \<open>\<open>int(source.get(k, default))\<close> and \<open>str(source.get(k, default)).strip()\<close>.\<close>

definition int_setting :: "pydict \<Rightarrow> string \<Rightarrow> int \<Rightarrow> int res" where
  "int_setting d k x = py_int (dget_or d k (VInt x))"

definition text_setting :: "pydict \<Rightarrow> string \<Rightarrow> string" where
  "text_setting d k = strip (py_str (dget_or d k (VStr [])))"

definition required_text :: "pydict \<Rightarrow> string \<Rightarrow> string res" where
  "required_text d k = (let t = text_setting d k in guardR (t = []) (ValueError (k @ '' is required'')) (Inr t))"

definition load_target ::
  "(string \<Rightarrow> (string \<times> string) res) \<Rightarrow> (string \<times> string) list \<Rightarrow> pyval \<Rightarrow> target_spec res" where
  "load_target urlparse environ item =
     (case item of
        VDict d \<Rightarrow>
          let strategy = text_setting d ''strategy''; env_name = text_setting d ''api_key_env'';
              api_key = (if env_name \<noteq> [] then dget_or environ env_name [] else py_str (dget_or d ''api_key'' (VStr [])))
          in bindR (absolute_http_url urlparse (dget_or d ''url'' VNone) (''target '' @ strategy @ '' url'')) (\<lambda>url.
             Inr \<lparr>ts_strategy = strategy, ts_url = url, ts_api_key = api_key\<rparr>)
      | _ \<Rightarrow> Inl (ValueError ''each target must be a mapping''))"

definition load_backend :: "(string \<Rightarrow> (string \<times> string) res) \<Rightarrow> pyval \<Rightarrow> backend_spec res" where
  "load_backend urlparse item =
     (case item of
        VDict d \<Rightarrow>
          let backend_id = text_setting d ''id''
          in guardR (backend_id = []) (ValueError ''backend id is required'')
               (bindR (absolute_http_url urlparse (dget_or d ''metrics_url'' VNone)
                         (''backend '' @ backend_id @ '' metrics_url'')) (\<lambda>url.
                Inr \<lparr>bs_id = backend_id, bs_metrics_url = url\<rparr>))
      | _ \<Rightarrow> Inl (ValueError ''each backend must be a mapping''))"

text \<open>The two checks "exactly these names": what is missing and what is extra, in the order of the lists.\<close>

definition names_or_none :: "string list \<Rightarrow> string" where
  "names_or_none xs = (if xs = [] then ''none'' else py_repr (VList (map VStr xs)))"

definition exactly :: "string \<Rightarrow> string list \<Rightarrow> string list \<Rightarrow> 'a res \<Rightarrow> 'a res" where
  "exactly what required names k =
     (let missing = filter (\<lambda>n. n \<notin> set names) required; extra = filter (\<lambda>n. n \<notin> set required) names
      in guardR (missing \<noteq> [] \<or> extra \<noteq> [])
           (ValueError (what @ '' must contain exactly '' @ join '', '' required @ ''; missing='' @ names_or_none missing @
              '' extra='' @ names_or_none extra)) k)"

definition unique :: "string list \<Rightarrow> string \<Rightarrow> 'a res \<Rightarrow> 'a res" where
  "unique xs message k = guardR (\<not> distinct xs) (ValueError message) k"

definition load_targets :: "(string \<Rightarrow> (string \<times> string) res) \<Rightarrow> (string \<times> string) list \<Rightarrow> pydict \<Rightarrow> target_spec list res" where
  "load_targets urlparse environ source =
     bindR (py_iter (dget_or source ''targets'' (VList []))) (\<lambda>items.
     bindR (mapR (load_target urlparse environ) items) (\<lambda>targets.
     unique (map ts_strategy targets) ''target strategies must be unique''
       (unique (map ts_url targets) ''target URLs must be unique independent endpoints''
          (exactly ''targets'' required_strategies (map ts_strategy targets) (Inr targets)))))"

definition load_backends :: "(string \<Rightarrow> (string \<times> string) res) \<Rightarrow> pydict \<Rightarrow> backend_spec list res" where
  "load_backends urlparse source =
     bindR (py_iter (dget_or source ''backends'' (VList []))) (\<lambda>items.
     bindR (mapR (load_backend urlparse) items) (\<lambda>backends.
     guardR (length backends < 2) (ValueError ''Stage 2 evidence requires at least two backend metrics endpoints'')
       (unique (map bs_id backends) ''backend ids must be unique''
          (unique (map bs_metrics_url backends) ''backend metrics URLs must be unique independent endpoints''
             (Inr backends)))))"

definition load_workloads :: "pydict \<Rightarrow> string list res" where
  "load_workloads source =
     bindR (py_iter (dget_or source ''workloads'' (VList (map VStr default_workloads)))) (\<lambda>items.
     let workloads = map py_str items
     in unique workloads ''workloads must be unique''
          (exactly ''workloads'' default_workloads workloads (Inr workloads)))"

definition load_config ::
  "(string \<Rightarrow> (string \<times> string) res) \<Rightarrow> (string \<times> string) list \<Rightarrow> pyval \<Rightarrow> evaluation_config res" where
  "load_config urlparse environ loaded =
     (case py_or loaded (VDict []) of
        VDict source \<Rightarrow>
          bindR (int_setting source ''repetitions'' 10) (\<lambda>repetitions.
          guardR (repetitions < 10) (ValueError ''Stage 2 evidence requires at least 10 repetitions'')
         (bindR (int_setting source ''requests_per_repetition'' 24) (\<lambda>requests.
          bindR (int_setting source ''concurrency'' 2) (\<lambda>concurrency.
          guardR (requests \<le> 0 \<or> concurrency \<le> 0) (ValueError ''requests_per_repetition and concurrency must be positive'')
         (bindR (required_text source ''model'') (\<lambda>model.
          bindR (required_text source ''model_revision'') (\<lambda>model_revision.
          bindR (required_text source ''backend_version'') (\<lambda>backend_version.
          bindR (load_targets urlparse environ source) (\<lambda>targets.
          bindR (load_backends urlparse source) (\<lambda>backends.
          bindR (load_workloads source) (\<lambda>workloads.
          bindR (py_float (dget_or source ''timeout_s'' (VFloat (Fin 120)))) (\<lambda>timeout_s.
          bindR (int_setting source ''max_tokens'' 32) (\<lambda>max_tokens.
          guardR (fle timeout_s (Fin 0) \<or> max_tokens \<le> 0) (ValueError ''timeout_s and max_tokens must be positive'')
         (bindR (int_setting source ''seed'' 7) (\<lambda>seed.
          Inr \<lparr>ec_model = model, ec_model_revision = model_revision, ec_backend_version = backend_version,
               ec_repetitions = repetitions, ec_requests = requests, ec_concurrency = concurrency,
               ec_timeout_s = timeout_s, ec_max_tokens = max_tokens, ec_seed = seed, ec_workloads = workloads,
               ec_targets = targets, ec_backends = backends, ec_source = source\<rparr>)))))))))))))))
      | _ \<Rightarrow> Inl (ValueError ''configuration root must be a mapping''))"

section \<open>The hash of a configuration\<close>

text \<open>
  \<open>json.loads(json.dumps(source))\<close> is the document itself when it can be written at all; \<open>pop\<close> of a value that is
  no dictionary raises.
\<close>

definition drop_api_key :: "pyval \<Rightarrow> pyval res" where
  "drop_api_key v = (case v of VDict d \<Rightarrow> Inr (VDict (ddel d ''api_key'')) | VList _ \<Rightarrow> Inl TypeError | _ \<Rightarrow> Inl AttributeError)"

definition sanitized :: "pydict \<Rightarrow> pydict res" where
  "sanitized source =
     (case dget source ''targets'' of
        None \<Rightarrow> Inr source
      | Some (VList ts) \<Rightarrow> bindR (mapR drop_api_key ts) (\<lambda>ts'. Inr (dset source ''targets'' (VList ts')))
      | Some v \<Rightarrow> bindR (py_iter v) (\<lambda>xs. if xs = [] then Inr source else Inl AttributeError))"

definition config_hash :: "pydict \<Rightarrow> string res" where
  "config_hash source =
     bindR (json_dumps (VDict source)) (\<lambda>_. bindR (sanitized source) (\<lambda>d. bindR (json_dumps (VDict d)) (\<lambda>t.
     Inr (sha256_hex (utf8 t)))))"

section \<open>The order of the targets\<close>

definition balanced_target_order :: "'t list \<Rightarrow> nat \<Rightarrow> 't list" where
  "balanced_target_order targets repetition =
     (if targets = [] then []
      else let offset = repetition mod length targets in drop offset targets @ take offset targets)"

section \<open>Facts\<close>

lemma guarded: "unique xs m k = Inr y \<longleftrightarrow> distinct xs \<and> k = Inr y"
  "exactly w r ns k = Inr y \<longleftrightarrow> set ns = set r \<and> k = Inr y"
  by (auto simp: unique_def exactly_def guardR_eq_Inr Let_def filter_empty_conv)

text \<open>What an accepted URL is: the text of the value, absolute, without slashes at the end.\<close>

definition http_url :: "(string \<Rightarrow> (string \<times> string) res) \<Rightarrow> string \<Rightarrow> bool" where
  "http_url urlparse url \<longleftrightarrow> (\<exists>t scheme netloc. url = rstrip_slash t \<and> urlparse t = Inr (scheme, netloc) \<and>
     (scheme = ''http'' \<or> scheme = ''https'') \<and> netloc \<noteq> [])"

lemma absolute_http_urlD: "absolute_http_url urlparse v f = Inr url \<Longrightarrow> http_url urlparse url"
  unfolding absolute_http_url_def http_url_def by (auto simp: Let_def bindR_eq_Inr guardR_eq_Inr)

lemma load_targetD: "load_target urlparse environ item = Inr t \<Longrightarrow> http_url urlparse (ts_url t)"
  by (auto simp: load_target_def Let_def bindR_eq_Inr split: pyval.splits dest: absolute_http_urlD)

lemma load_backendD: "load_backend urlparse item = Inr b \<Longrightarrow> http_url urlparse (bs_metrics_url b) \<and> bs_id b \<noteq> []"
  by (auto simp: load_backend_def Let_def bindR_eq_Inr guardR_eq_Inr split: pyval.splits dest: absolute_http_urlD)

lemma load_targetsD:
  assumes "load_targets urlparse environ source = Inr ts"
  shows "distinct (map ts_strategy ts)" "set (map ts_strategy ts) = set required_strategies" "distinct (map ts_url ts)"
    "list_all (\<lambda>t. http_url urlparse (ts_url t)) ts"
  using assms by (auto simp: load_targets_def bindR_eq_Inr guarded elim!: mapR_Inr_all dest: load_targetD)

lemma load_backendsD:
  assumes "load_backends urlparse source = Inr bs"
  shows "2 \<le> length bs" "distinct (map bs_id bs)" "distinct (map bs_metrics_url bs)"
    "list_all (\<lambda>b. http_url urlparse (bs_metrics_url b) \<and> bs_id b \<noteq> []) bs"
  using assms by (auto simp: load_backends_def bindR_eq_Inr guarded guardR_eq_Inr not_less elim!: mapR_Inr_all dest: load_backendD)

lemma load_workloadsD:
  "load_workloads source = Inr ws \<Longrightarrow> distinct ws \<and> set ws = set default_workloads"
  by (auto simp: load_workloads_def Let_def bindR_eq_Inr guarded)

lemma load_configD:
  assumes "load_config urlparse environ loaded = Inr c"
  shows "load_targets urlparse environ (ec_source c) = Inr (ec_targets c)" "load_backends urlparse (ec_source c) = Inr (ec_backends c)"
    "load_workloads (ec_source c) = Inr (ec_workloads c)" "10 \<le> ec_repetitions c" "0 < ec_requests c" "0 < ec_concurrency c"
    "0 < ec_max_tokens c" "\<not> fle (ec_timeout_s c) (Fin 0)" "ec_model c \<noteq> []" "ec_model_revision c \<noteq> []" "ec_backend_version c \<noteq> []"
  using assms unfolding load_config_def
  by (auto simp: bindR_eq_Inr guardR_eq_Inr required_text_def Let_def split: pyval.splits)

subsection \<open>Rotation\<close>

lemma balanced_target_order_rotate: "balanced_target_order ts r = rotate r ts"
  by (simp add: balanced_target_order_def Let_def rotate_drop_take)

lemma ordered_nth:
  "p < length ts \<Longrightarrow> balanced_target_order ts r ! p = ts ! ((r + p) mod length ts)"
  by (simp add: balanced_target_order_rotate nth_rotate)

lemma mod_once: "x < 2 * n \<Longrightarrow> x mod n = (if x < n then x else x - n)" for x n :: nat
  by (simp add: le_mod_geq)

text \<open>How often a residue occurs below a bound.\<close>

lemma residue_count:
  assumes "k < (n::nat)"
  shows "length (filter (\<lambda>r. r mod n = k) [0..<m]) = (m + (n - 1 - k)) div n"
proof (induction m)
  case 0
  then show ?case using assms by simp
next
  case (Suc m)
  have "Suc (m + (n - 1 - k)) mod n = 0 \<longleftrightarrow> m mod n = k"
  proof -
    have "Suc (m + (n - 1 - k)) = m + (n - k)" using assms by simp
    then have "Suc (m + (n - 1 - k)) mod n = (m mod n + (n - k)) mod n" by (simp only: mod_add_left_eq)
    moreover have "m mod n < n" using assms by simp
    then have "m mod n + (n - k) < 2 * n" by linarith
    then have "(m mod n + (n - k)) mod n = 0 \<longleftrightarrow> m mod n = k"
      using assms by (simp add: mod_once) auto
    ultimately show ?thesis by simp
  qed
  then show ?case using Suc by (simp add: div_Suc)
qed

lemma shifted_residue:
  assumes "p < (n::nat)" "k < n"
  shows "(r + p) mod n = k \<longleftrightarrow> r mod n = (k + (n - p)) mod n"
proof -
  have n: "r mod n < n" using assms by simp
  have 1: "(r + p) mod n = (if r mod n + p < n then r mod n + p else r mod n + p - n)"
    using n assms by (subst mod_add_left_eq [symmetric], intro mod_once) linarith
  have 2: "(k + (n - p)) mod n = (if k + (n - p) < n then k + (n - p) else k + (n - p) - n)"
    using assms by (intro mod_once) linarith
  show ?thesis unfolding 1 2 using n assms by auto
qed

text \<open>A target has each place of the order about equally often, and equally often over whole rounds.\<close>

lemma place_count:
  assumes "distinct ts" "t \<in> set ts" "p < length ts"
  shows "length (filter (\<lambda>r. balanced_target_order ts r ! p = t) [0..<m]) \<in> {m div length ts, Suc (m div length ts)}"
    "length ts dvd m \<Longrightarrow> length (filter (\<lambda>r. balanced_target_order ts r ! p = t) [0..<m]) = m div length ts"
proof -
  let ?n = "length ts"
  obtain k where k: "k < ?n" "t = ts ! k" using assms(2) by (auto simp: in_set_conv_nth)
  have n: "0 < ?n" using assms(3) by linarith
  have "balanced_target_order ts r ! p = t \<longleftrightarrow> (r + p) mod ?n = k" for r
    using k n assms by (simp add: ordered_nth nth_eq_iff_index_eq)
  then have iff: "balanced_target_order ts r ! p = t \<longleftrightarrow> r mod ?n = (k + (?n - p)) mod ?n" for r
    using shifted_residue [OF assms(3) k(1)] by simp
  let ?k = "(k + (?n - p)) mod ?n"
  have eq: "length (filter (\<lambda>r. balanced_target_order ts r ! p = t) [0..<m]) = (m + (?n - 1 - ?k)) div ?n"
    unfolding iff by (rule residue_count) (use n in simp)
  have small: "?n - 1 - ?k < ?n" using n by simp
  have "m div ?n \<le> (m + (?n - 1 - ?k)) div ?n" by (rule div_le_mono) simp
  moreover have "(m + (?n - 1 - ?k)) div ?n \<le> (m + ?n) div ?n" using small by (intro div_le_mono) simp
  ultimately show "length (filter (\<lambda>r. balanced_target_order ts r ! p = t) [0..<m]) \<in> {m div ?n, Suc (m div ?n)}"
    unfolding eq using n by auto
  show "length (filter (\<lambda>r. balanced_target_order ts r ! p = t) [0..<m]) = m div ?n" if "?n dvd m"
    unfolding eq using that small by auto
qed

section \<open>Properties\<close>

text \<open>
  Property C37.  The hash in an evaluation's document does not depend on the secrets of the configuration: writing
  any key into the entry of a target, whether the entry had one or not, leaves the hash as it is.
\<close>

theorem config_hash_ignores_keys:
  assumes "dget source ''targets'' = Some (VList ts)" "i < length ts" "ts ! i = VDict d" "json_dumps (VDict source) = Inr t"
  shows "config_hash (dset source ''targets'' (VList (ts[i := VDict (dset d ''api_key'' (VStr secret))]))) = config_hash source"
proof -
  let ?t = "VDict (dset d ''api_key'' (VStr secret))" and ?s = "dset source ''targets'' (VList (ts[i := VDict (dset d ''api_key'' (VStr secret))]))"
  have w: "writable (VDict source)" using assms(4) by (auto simp: writable_def)
  then have ts: "writable (VList ts)" using dget_mem [OF assms(1)] by (auto simp: writable_simps)
  then have "writable (VDict d)" using nth_mem [OF assms(2)] by (simp add: writable_simps(1) assms(3))
  then have "writable ?t" by (rule writable_dset) (rule writable_simps)
  then have "writable (VList (ts[i := ?t]))"
    using ts set_update_subset_insert [of ts i ?t] by (auto simp: writable_simps(1))
  then obtain u where u: "json_dumps (VDict ?s) = Inr u" using writable_dset [OF w] unfolding writable_def by blast
  have "mapR drop_api_key (ts[i := ?t]) = mapR drop_api_key ts"
    using assms(2,3) by (intro mapR_update) (simp_all add: drop_api_key_def ddel_dset)
  then have "sanitized ?s = sanitized source"
    using assms(1) by (simp add: sanitized_def dict_simps dset_dset)
  then show ?thesis unfolding config_hash_def assms(4) u bindR_simps by (rule arg_cong)
qed

text \<open>
  Property C31.  An accepted configuration is fit for the evidence it is meant to give: each of the five strategies once,
  each of the four workloads once, independent absolute endpoints, at least two backends and ten repetitions, positive
  counts; and the rotation of the targets is balanced, each strategy having each place of the order in as many repetitions
  as any other, up to one.
\<close>

theorem loaded_config_sound:
  assumes "load_config urlparse environ loaded = Inr c"
  shows "mset (map ts_strategy (ec_targets c)) = mset required_strategies \<and> mset (ec_workloads c) = mset default_workloads \<and>
    distinct (map ts_url (ec_targets c)) \<and> list_all (\<lambda>t. http_url urlparse (ts_url t)) (ec_targets c) \<and>
    2 \<le> length (ec_backends c) \<and> distinct (map bs_id (ec_backends c)) \<and> distinct (map bs_metrics_url (ec_backends c)) \<and>
    list_all (\<lambda>b. http_url urlparse (bs_metrics_url b) \<and> bs_id b \<noteq> []) (ec_backends c) \<and>
    10 \<le> ec_repetitions c \<and> 0 < ec_requests c \<and> 0 < ec_concurrency c \<and> 0 < ec_max_tokens c \<and>
    (\<forall>t \<in> set (ec_targets c). \<forall>p < 5.
       length (filter (\<lambda>r. balanced_target_order (ec_targets c) r ! p = t) [0..<nat (ec_repetitions c)])
         \<in> {nat (ec_repetitions c) div 5, Suc (nat (ec_repetitions c) div 5)})"
proof -
  note c = load_configD [OF assms]
  note t = load_targetsD [OF c(1)] and b = load_backendsD [OF c(2)] and w = load_workloadsD [OF c(3)]
  have d: "distinct required_strategies" "distinct default_workloads" "length required_strategies = 5"
    by (simp_all add: required_strategies_def default_workloads_def)
  have strategies: "mset (map ts_strategy (ec_targets c)) = mset required_strategies"
    using t(1,2) d by (simp only: set_eq_iff_mset_eq_distinct)
  moreover have "mset (ec_workloads c) = mset default_workloads"
    using w d(2) set_eq_iff_mset_eq_distinct by blast
  moreover have len: "length (ec_targets c) = 5"
    using arg_cong [OF strategies, of size] d(3) by simp
  moreover have "distinct (ec_targets c)" using t(1) by (simp add: distinct_map)
  then have "length (filter (\<lambda>r. balanced_target_order (ec_targets c) r ! p = x) [0..<m]) \<in> {m div 5, Suc (m div 5)}"
    if "x \<in> set (ec_targets c)" "p < 5" for x p m
    using place_count(1) [of "ec_targets c" x p m] that unfolding len by simp
  ultimately show ?thesis using t(3,4) b c(4-7) by auto
qed

section \<open>Instances\<close>

text \<open>A configuration with an empty entry for the model passes: the missing value is read as the text \<open>None\<close>.\<close>

lemma empty_model_accepted: "required_text [(''model'', VNone)] ''model'' = Inr ''None''"
  by code_simp

definition sample_urlparse :: "string \<Rightarrow> (string \<times> string) res" where
  "sample_urlparse t = Inr (if startswith t ''http://'' then (''http'', drop 7 t) else ([], []))"

definition sample_target :: "string \<Rightarrow> pyval" where
  "sample_target s = VDict [(''strategy'', VStr s), (''url'', VStr (''http://'' @ s @ ''/'')), (''api_key'', VStr ''k'')]"

definition sample_source :: pydict where
  "sample_source =
     [(''model'', VStr ''m''), (''model_revision'', VStr ''r''), (''backend_version'', VStr ''v''),
      (''targets'', VList (map sample_target required_strategies)),
      (''backends'', VList [VDict [(''id'', VStr ''a''), (''metrics_url'', VStr ''http://a'')],
                            VDict [(''id'', VStr ''b''), (''metrics_url'', VStr ''http://b'')]])]"

lemma sample_config:
  "\<exists>c. load_config sample_urlparse [] (VDict sample_source) = Inr c \<and> ec_repetitions c = 10 \<and> ec_requests c = 24 \<and>
     ec_source c = sample_source"
proof -
  have "(case load_config sample_urlparse [] (VDict sample_source) of Inl _ \<Rightarrow> False
         | Inr c \<Rightarrow> ec_repetitions c = 10 \<and> ec_requests c = 24 \<and> ec_source c = sample_source)"
    by code_simp
  then show ?thesis by (auto split: sum.splits)
qed

theorem loaded_config_sound_witness:
  "\<exists>c. load_config sample_urlparse [] (VDict sample_source) = Inr c \<and>
     (\<forall>t \<in> set (ec_targets c). \<forall>p < 5. length (filter (\<lambda>r. balanced_target_order (ec_targets c) r ! p = t) [0..<10]) \<in> {2, 3})"
  using sample_config loaded_config_sound by fastforce

lemma sample_writable: "\<exists>t. json_dumps (VDict sample_source) = Inr t"
  unfolding writable_def [symmetric] by (simp add: writable_simps sample_source_def sample_target_def)

lemma sanitized_writable:
  assumes "writable (VDict source)" "sanitized source = Inr d"
  shows "writable (VDict d)"
proof -
  have drop: "writable v \<Longrightarrow> drop_api_key v = Inr v' \<Longrightarrow> writable v'" for v v'
    by (auto simp: drop_api_key_def writable_simps ddel_def AList.delete_eq split: pyval.splits)
  have "writable (VList ts')" if "dget source ''targets'' = Some (VList ts)" "mapR drop_api_key ts = Inr ts'" for ts ts'
  proof -
    have "writable (VList ts)" using dget_mem [OF that(1)] assms(1) by (auto simp: writable_simps)
    then show ?thesis using mapR_Inr_set [OF that(2)] drop by (auto simp: writable_simps(1)) blast
  qed
  then show ?thesis
    using assms by (auto simp: sanitized_def bindR_eq_Inr split: option.splits pyval.splits if_splits intro: writable_dset)
qed

lemma sample_hash: "\<exists>h. config_hash sample_source = Inr h"
proof -
  have "(case sanitized sample_source of Inl _ \<Rightarrow> False | Inr _ \<Rightarrow> True)" by code_simp
  then obtain d where d: "sanitized sample_source = Inr d" by (auto split: sum.splits)
  then have "writable (VDict d)" using sanitized_writable sample_writable unfolding writable_def by blast
  then obtain u where u: "json_dumps (VDict d) = Inr u" unfolding writable_def by blast
  obtain t where t: "json_dumps (VDict sample_source) = Inr t" using sample_writable ..
  show ?thesis unfolding config_hash_def t d u bindR_simps by blast
qed

theorem config_hash_ignores_keys_witness:
  "config_hash (dset sample_source ''targets''
     (VList ((map sample_target required_strategies)[0 := VDict (dset [(''strategy'', VStr ''direct''),
        (''url'', VStr ''http://direct/''), (''api_key'', VStr ''k'')] ''api_key'' (VStr ''secret''))]))) = config_hash sample_source"
proof -
  obtain t where t: "json_dumps (VDict sample_source) = Inr t" using sample_writable ..
  show ?thesis
    by (rule config_hash_ignores_keys [OF _ _ _ t]) (code_simp, code_simp, code_simp)
qed

end
