(* ===== verification/Stage2.thy ===== *)
theory Stage2
  imports Stage2Config PromParse
begin

text \<open>
  The routing evaluation of \<open>benchmark/stage2_evaluation.py\<close>: each strategy is measured against each workload a
  number of times; a repetition scrapes the backends, sends the requests and scrapes again; the repetitions of a case
  are aggregated with confidence intervals and compared with the direct strategy.  What an exchange returns, the
  clock, the random words and the output of commands are arguments; the concurrency of the requests only decides
  when an exchange happens.  The results are records; the documents made of them are in theory EvaluationDoc.
\<close>

section \<open>Workloads\<close>

text \<open>\<open>draw seed i\<close> is the i-th \<open>randrange(100000)\<close> of \<open>random.Random(seed)\<close>.\<close>

definition deterministic_text :: "(int \<Rightarrow> nat \<Rightarrow> int) \<Rightarrow> int \<Rightarrow> int \<Rightarrow> string" where
  "deterministic_text draw seed len =
     join '' '' (map (\<lambda>i. ''token'' @ pad_left 5 (CHR ''0'') (int_str (draw seed i))) [0..<nat (max 1 (len div 11))])"

definition shared_prefix_text :: string where
  "shared_prefix_text =
     strip (concat (replicate 80 ''Kavora evaluates prefix-local inference routing under controlled load. ''))"

text \<open>A message is its role and its content.\<close>

definition build_workload_messages :: "(int \<Rightarrow> nat \<Rightarrow> int) \<Rightarrow> string \<Rightarrow> int \<Rightarrow> int \<Rightarrow> (string \<times> string) list res" where
  "build_workload_messages draw workload request_index seed =
     (let unique = deterministic_text draw (seed * 100003 + request_index) 256; n = int_str request_index in
      if workload = ''random'' then Inr [(''user'', ''Analyze this independent input: '' @ unique)]
      else if workload = ''repeated-system'' then
        Inr [(''system'', ''You are Kavora's deterministic routing benchmark assistant. Answer concisely and preserve the supplied identifier.''),
             (''user'', ''Identifier '' @ n @ '': '' @ unique)]
      else if workload = ''long-shared-prefix'' then
        Inr [(''system'', shared_prefix_text), (''user'', ''Request '' @ n @ '': summarize '' @ unique)]
      else if workload = ''tenant-affinity'' then
        Inr [(''system'', ''Continue this tenant-scoped conversation while retaining its shared context.''),
             (''user'', ''We are measuring whether related turns remain local to a reusable backend.''),
             (''assistant'', ''Understood. I will retain the shared experiment context.''),
             (''user'', ''Turn '' @ n @ '': give one observation about '' @ unique)]
      else Inl (ValueError (''unknown workload: '' @ workload)))"

section \<open>Requests\<close>

record chat_request =
  cr_url :: string
  cr_model :: string
  cr_messages :: "(string \<times> string) list"
  cr_max_tokens :: int
  cr_workload :: string
  cr_authorization :: "string option"

text \<open>
  An exchange fails before there is a response, or gives a status, headers, the chunks with the clock after each, and
  perhaps an exception while reading; an exception is the name of its class and its text.
\<close>

datatype chat_response =
    Refused "string \<times> string"
  | Answered int "string \<Rightarrow> string option" "(string \<times> pyfloat) list" "(string \<times> string) option"

record exchange =
  xc_started :: pyfloat
  xc_response :: chat_response
  xc_finished :: pyfloat

record bench_sample =
  sm_index :: int
  sm_ok :: bool
  sm_status :: int
  sm_error :: string
  sm_latency_ms :: pyfloat
  sm_ttft_ms :: "pyfloat option"
  sm_bytes :: int
  sm_backend :: string
  sm_fallback :: bool
  sm_request_id :: string

definition exception_text :: "string \<times> string \<Rightarrow> string" where
  "exception_text e = fst e @ '': '' @ snd e"

definition elapsed_ms :: "pyfloat \<Rightarrow> pyfloat \<Rightarrow> pyfloat" where
  "elapsed_ms later earlier = fmul (fsub later earlier) (Fin 1000)"

definition header_or :: "(string \<Rightarrow> string option) \<Rightarrow> string \<Rightarrow> string \<Rightarrow> string" where
  "header_or h k x = (case h k of None \<Rightarrow> x | Some v \<Rightarrow> v)"

definition sample_of :: "int \<Rightarrow> exchange \<Rightarrow> bench_sample" where
  "sample_of index x =
     (let latency = elapsed_ms (xc_finished x) (xc_started x) in
      case xc_response x of
        Refused e \<Rightarrow>
          \<lparr>sm_index = index, sm_ok = False, sm_status = 0, sm_error = exception_text e, sm_latency_ms = latency,
           sm_ttft_ms = None, sm_bytes = 0, sm_backend = [], sm_fallback = False, sm_request_id = []\<rparr>
      | Answered status h parts failure \<Rightarrow>
          let error = (case failure of Some e \<Rightarrow> exception_text e
                       | None \<Rightarrow> if status < 200 \<or> 300 \<le> status then ''HTTP '' @ int_str status else [])
          in \<lparr>sm_index = index, sm_ok = (error = [] \<and> 200 \<le> status \<and> status < 300), sm_status = status, sm_error = error,
              sm_latency_ms = latency,
              sm_ttft_ms = map_option (\<lambda>(_, t). elapsed_ms t (xc_started x)) (find (\<lambda>(c, _). c \<noteq> []) parts),
              sm_bytes = sum_list (map (\<lambda>(c, _). int (length c)) parts), sm_backend = header_or h ''X-Kavora-Backend'' [],
              sm_fallback = (lower (header_or h ''X-Kavora-Routing-Fallback'' ''false'') = ''true''),
              sm_request_id = header_or h ''X-Request-ID'' []\<rparr>)"

definition run_one ::
  "(int \<Rightarrow> nat \<Rightarrow> int) \<Rightarrow> (chat_request \<Rightarrow> exchange) \<Rightarrow> target_spec \<Rightarrow> evaluation_config \<Rightarrow> string \<Rightarrow> int \<Rightarrow> bench_sample res" where
  "run_one draw send target c workload index =
     bindR (build_workload_messages draw workload index (ec_seed c)) (\<lambda>messages.
     Inr (sample_of index (send
       \<lparr>cr_url = ts_url target @ ''/v1/chat/completions'', cr_model = ec_model c, cr_messages = messages,
        cr_max_tokens = ec_max_tokens c, cr_workload = workload,
        cr_authorization = (if ts_api_key target \<noteq> [] then Some (''Bearer '' @ ts_api_key target) else None)\<rparr>)))"

section \<open>The summary of a repetition\<close>

text \<open>\<open>percentile\<close> of \<open>benchmark/gateway_runner.py\<close>: a float position, its integer part and the two neighbours.\<close>

definition gateway_percentile :: "pyfloat list \<Rightarrow> pyfloat \<Rightarrow> pyfloat option res" where
  "gateway_percentile xs quantile =
     (if xs = [] then Inr None
      else let ordered = py_sorted xs; position = fmul quantile (Fin (of_int (int (length ordered) - 1)))
        in bindR (int_of_float position) (\<lambda>lower.
           let upper = min (lower + 1) (int (length ordered) - 1); fraction = fsub position (Fin (of_int lower))
           in bindR (py_nth ordered lower) (\<lambda>a. bindR (py_nth ordered upper) (\<lambda>b.
              Inr (Some (fadd (fmul a (fsub (Fin 1) fraction)) (fmul b fraction)))))))"

record quantiles =
  qs_p50 :: "pyfloat option"
  qs_p95 :: "pyfloat option"
  qs_p99 :: "pyfloat option"

definition quantiles_of :: "pyfloat list \<Rightarrow> quantiles res" where
  "quantiles_of xs =
     bindR (gateway_percentile xs (fl (50 / 100))) (\<lambda>a. bindR (gateway_percentile xs (fl (95 / 100))) (\<lambda>b.
     bindR (gateway_percentile xs (fl (99 / 100))) (\<lambda>c. Inr \<lparr>qs_p50 = a, qs_p95 = b, qs_p99 = c\<rparr>)))"

record sample_summary =
  ss_requests :: int
  ss_ok :: int
  ss_failed :: int
  ss_error_rate :: pyfloat
  ss_throughput :: pyfloat
  ss_latency :: quantiles
  ss_ttft :: quantiles
  ss_routing :: "(string \<times> int) list"
  ss_switches :: int
  ss_fallbacks :: int
  ss_errors :: "string list"
  ss_elapsed :: pyfloat

text \<open>\<open>Counter.update\<close> with counts, and \<open>dict(sorted(counter.items()))\<close>.\<close>

definition add_count :: "string \<times> int \<Rightarrow> (string \<times> int) list \<Rightarrow> (string \<times> int) list" where
  "add_count kn d = dset d (fst kn) (dget_or d (fst kn) 0 + snd kn)"

definition sorted_counts :: "(string \<times> int) list \<Rightarrow> (string \<times> int) list" where
  "sorted_counts d = sort_lt (\<lambda>a b. str_lt (fst a) (fst b)) d"

definition routing_distribution :: "string list \<Rightarrow> (string \<times> int) list" where
  "routing_distribution routes = sorted_counts (fold (\<lambda>r. add_count (r, 1)) routes [])"

definition route_switches :: "string list \<Rightarrow> int" where
  "route_switches routes = int (length (filter (\<lambda>(l, r). l \<noteq> r) (zip routes (tl routes))))"

definition summarize_samples :: "bench_sample list \<Rightarrow> pyfloat \<Rightarrow> sample_summary res" where
  "summarize_samples samples elapsed_s =
     (let successful = filter sm_ok samples; total = int (length samples); ok = int (length successful);
          routes = filter (\<lambda>b. b \<noteq> []) (map sm_backend successful) in
      bindR (fdiv (Fin (of_int ok)) (py_max elapsed_s (fl (1 / 10 ^ 9)))) (\<lambda>throughput.
      bindR (quantiles_of (map sm_latency_ms successful)) (\<lambda>latency.
      bindR (quantiles_of (List.map_filter sm_ttft_ms successful)) (\<lambda>ttft.
      Inr \<lparr>ss_requests = total, ss_ok = ok, ss_failed = total - ok,
           ss_error_rate = fl (of_int (total - ok) / of_int (max total 1)), ss_throughput = throughput,
           ss_latency = latency, ss_ttft = ttft, ss_routing = routing_distribution routes,
           ss_switches = route_switches routes, ss_fallbacks = int (length (filter sm_fallback samples)),
           ss_errors = take 5 (filter (\<lambda>e. e \<noteq> []) (map sm_error samples)), ss_elapsed = elapsed_s\<rparr>))))"

section \<open>The window of the backends' metrics\<close>

definition first_metric :: "metrics \<Rightarrow> string list \<Rightarrow> pyfloat option" where
  "first_metric m names = (case filter (dhas m) names of [] \<Rightarrow> None | n # _ \<Rightarrow> dget m n)"

definition hits_of :: "metrics \<Rightarrow> pyfloat option" where
  "hits_of m = first_metric m [''vllm:prefix_cache_hits_total'', ''vllm:prefix_cache_hits'']"

definition queries_of :: "metrics \<Rightarrow> pyfloat option" where
  "queries_of m = first_metric m [''vllm:prefix_cache_queries_total'', ''vllm:prefix_cache_queries'']"

record window_sums =
  ws_hits :: pyfloat
  ws_queries :: pyfloat
  ws_complete :: nat
  ws_resets :: nat
  ws_usage :: "pyfloat list"
  ws_queues :: "pyfloat list"

definition add_counters :: "metrics \<Rightarrow> metrics \<Rightarrow> window_sums \<Rightarrow> window_sums" where
  "add_counters before_metrics after_metrics w =
     (case (hits_of after_metrics, queries_of after_metrics, hits_of before_metrics, queries_of before_metrics) of
        (Some ha, Some qa, Some hb, Some qb) \<Rightarrow>
          if flt ha hb \<or> flt qa qb then w\<lparr>ws_resets := ws_resets w + 1\<rparr>
          else w\<lparr>ws_hits := fadd (ws_hits w) (fsub ha hb), ws_queries := fadd (ws_queries w) (fsub qa qb),
                 ws_complete := ws_complete w + 1\<rparr>
      | _ \<Rightarrow> w)"

definition add_gauges :: "metrics \<Rightarrow> window_sums \<Rightarrow> window_sums" where
  "add_gauges after_metrics w =
     w\<lparr>ws_usage := ws_usage w @ (case first_metric after_metrics [''vllm:kv_cache_usage_perc''] of None \<Rightarrow> [] | Some x \<Rightarrow> [x]),
       ws_queues := ws_queues w @ (case first_metric after_metrics [''vllm:num_requests_waiting'', ''vllm:num_requests_waiting_total'']
                                   of None \<Rightarrow> [] | Some x \<Rightarrow> [x])\<rparr>"

definition add_backend :: "(string \<times> metrics) list \<Rightarrow> string \<times> metrics \<Rightarrow> window_sums \<Rightarrow> window_sums" where
  "add_backend before x w = add_gauges (snd x) (add_counters (dget_or before (fst x) []) (snd x) w)"

definition no_sums :: window_sums where
  "no_sums = \<lparr>ws_hits = Fin 0, ws_queries = Fin 0, ws_complete = 0, ws_resets = 0, ws_usage = [], ws_queues = []\<rparr>"

definition window_sums_of :: "(string \<times> metrics) list \<Rightarrow> (string \<times> metrics) list \<Rightarrow> window_sums" where
  "window_sums_of before after = fold (add_backend before) after no_sums"

record backend_window =
  bw_hits_delta :: "pyfloat option"
  bw_queries_delta :: "pyfloat option"
  bw_kv_reuse_rate :: "pyfloat option"
  bw_gpu_kv_utilization :: "pyfloat option"
  bw_queue_depth :: "pyfloat option"
  bw_metric_quality :: string

definition mean_if_any :: "pyfloat list \<Rightarrow> pyfloat option res" where
  "mean_if_any xs = (if xs = [] then Inr None else bindR (stat_mean xs) (\<lambda>m. Inr (Some m)))"

definition summarize_vllm_window :: "(string \<times> metrics) list \<Rightarrow> (string \<times> metrics) list \<Rightarrow> backend_window res" where
  "summarize_vllm_window before after =
     (let w = window_sums_of before after; any = 0 < ws_complete w in
      bindR (if any \<and> flt (Fin 0) (ws_queries w) then bindR (fdiv (ws_hits w) (ws_queries w)) (\<lambda>x. Inr (Some x))
             else Inr None) (\<lambda>rate.
      bindR (mean_if_any (ws_usage w)) (\<lambda>usage. bindR (mean_if_any (ws_queues w)) (\<lambda>queues.
      Inr \<lparr>bw_hits_delta = (if any then Some (ws_hits w) else None), bw_queries_delta = (if any then Some (ws_queries w) else None),
           bw_kv_reuse_rate = rate, bw_gpu_kv_utilization = usage, bw_queue_depth = queues,
           bw_metric_quality = (if ws_resets w \<noteq> 0 then ''counter_reset''
                                else if ws_complete w = length after \<and> after \<noteq> [] then ''ok'' else ''missing'')\<rparr>))))"

section \<open>A repetition\<close>

text \<open>A scrape gives the text of the response or the exception.\<close>

type_synonym scrape = "string \<times> string + string"

definition scrape_metrics ::
  "(string \<Rightarrow> metric_family list res) \<Rightarrow> string option \<Rightarrow> backend_spec list \<Rightarrow> (backend_spec \<Rightarrow> scrape) \<Rightarrow>
   (string \<times> metrics) list \<times> (string \<times> string) list" where
  "scrape_metrics families env backends fetch =
     fold (\<lambda>b (out, errors).
         case fetch b of
           Inr t \<Rightarrow> (dset out (bs_id b) (aggregate_prometheus_text families env t None), errors)
         | Inl e \<Rightarrow> (dset out (bs_id b) [], dset errors (bs_id b) (exception_text e)))
       backends ([], [])"

record repetition_probe =
  pb_before :: "backend_spec \<Rightarrow> scrape"
  pb_send :: "int \<Rightarrow> chat_request \<Rightarrow> exchange"
  pb_elapsed :: pyfloat
  pb_after :: "backend_spec \<Rightarrow> scrape"

record eval_world =
  ew_families :: "string \<Rightarrow> metric_family list res"
  ew_env :: "string option"
  ew_draw :: "int \<Rightarrow> nat \<Rightarrow> int"
  ew_probe :: "string \<Rightarrow> string \<Rightarrow> nat \<Rightarrow> repetition_probe"

record repetition =
  rt_repetition :: int
  rt_summary :: sample_summary
  rt_window :: backend_window
  rt_errors_before :: "(string \<times> string) list"
  rt_errors_after :: "(string \<times> string) list"
  rt_samples :: "bench_sample list"

definition run_repetition ::
  "eval_world \<Rightarrow> evaluation_config \<Rightarrow> target_spec \<Rightarrow> string \<Rightarrow> nat \<Rightarrow> repetition res" where
  "run_repetition wd c target workload r =
     (let pb = ew_probe wd (ts_strategy target) workload r;
          (before, errors_before) = scrape_metrics (ew_families wd) (ew_env wd) (ec_backends c) (pb_before pb) in
      bindR (mapR (\<lambda>i. let index = int r * ec_requests c + int i
                       in run_one (ew_draw wd) (pb_send pb index) target c workload index) [0..<nat (ec_requests c)]) (\<lambda>samples.
      let (after, errors_after) = scrape_metrics (ew_families wd) (ew_env wd) (ec_backends c) (pb_after pb) in
      bindR (summarize_samples samples (pb_elapsed pb)) (\<lambda>summary.
      bindR (summarize_vllm_window before after) (\<lambda>window.
      Inr \<lparr>rt_repetition = int r + 1, rt_summary = summary, rt_window = window, rt_errors_before = errors_before,
           rt_errors_after = errors_after, rt_samples = samples\<rparr>))))"

section \<open>The aggregate of a case\<close>

record estimate =
  es_mean :: "pyfloat option"
  es_low :: "pyfloat option"
  es_high :: "pyfloat option"
  es_n :: int

text \<open>
  \<open>statistics.stdev\<close> of Python 3.12: a NaN or an infinity has no numerator to take the root of, and a deviation
  beyond the largest float overflows.
\<close>

definition checked_stdev :: "pyfloat list \<Rightarrow> pyfloat res" where
  "checked_stdev xs =
     (if 2 \<le> length xs \<and> \<not> list_all isfinite xs then Inl AttributeError
      else bindR (stat_stdev xs) (\<lambda>s. case fl (finite_part s) of Fin y \<Rightarrow> Inr (Fin y) | _ \<Rightarrow> Inl OverflowError))"

definition mean_ci95 :: "pyfloat list \<Rightarrow> estimate res" where
  "mean_ci95 xs =
     (if xs = [] then Inr \<lparr>es_mean = None, es_low = None, es_high = None, es_n = 0\<rparr>
      else bindR (stat_mean xs) (\<lambda>mean.
        if length xs < 2 then Inr \<lparr>es_mean = Some mean, es_low = None, es_high = None, es_n = int (length xs)\<rparr>
        else bindR (checked_stdev xs) (\<lambda>sd.
             bindR (fdiv (fmul (fl (196 / 100)) sd) (Fin (sqrt64 (of_nat (length xs))))) (\<lambda>margin.
             Inr \<lparr>es_mean = Some mean, es_low = Some (fsub mean margin), es_high = Some (fadd mean margin),
                  es_n = int (length xs)\<rparr>))))"

record case_aggregate =
  cg_repetitions :: int
  cg_throughput :: estimate
  cg_error_rate :: estimate
  cg_latency_p50 :: estimate
  cg_latency_p95 :: estimate
  cg_latency_p99 :: estimate
  cg_ttft_p50 :: estimate
  cg_ttft_p95 :: estimate
  cg_ttft_p99 :: estimate
  cg_kv_reuse_rate :: estimate
  cg_gpu_kv_utilization :: estimate
  cg_queue_depth :: estimate
  cg_switches :: int
  cg_fallbacks :: int
  cg_routing :: "(string \<times> int) list"
  cg_metric_quality :: string

definition estimate_of :: "(repetition \<Rightarrow> pyfloat option) \<Rightarrow> repetition list \<Rightarrow> estimate res" where
  "estimate_of f reps = mean_ci95 (List.map_filter f reps)"

definition aggregate_repetitions :: "repetition list \<Rightarrow> case_aggregate res" where
  "aggregate_repetitions reps =
     (let lat = \<lambda>q r. q (ss_latency (rt_summary r)); ttft = \<lambda>q r. q (ss_ttft (rt_summary r)) in
      bindR (estimate_of (\<lambda>r. Some (ss_throughput (rt_summary r))) reps) (\<lambda>throughput.
      bindR (estimate_of (\<lambda>r. Some (ss_error_rate (rt_summary r))) reps) (\<lambda>error_rate.
      bindR (estimate_of (lat qs_p50) reps) (\<lambda>l50. bindR (estimate_of (lat qs_p95) reps) (\<lambda>l95.
      bindR (estimate_of (lat qs_p99) reps) (\<lambda>l99. bindR (estimate_of (ttft qs_p50) reps) (\<lambda>t50.
      bindR (estimate_of (ttft qs_p95) reps) (\<lambda>t95. bindR (estimate_of (ttft qs_p99) reps) (\<lambda>t99.
      bindR (estimate_of (\<lambda>r. bw_kv_reuse_rate (rt_window r)) reps) (\<lambda>reuse.
      bindR (estimate_of (\<lambda>r. bw_gpu_kv_utilization (rt_window r)) reps) (\<lambda>usage.
      bindR (estimate_of (\<lambda>r. bw_queue_depth (rt_window r)) reps) (\<lambda>queue.
      Inr \<lparr>cg_repetitions = int (length reps), cg_throughput = throughput, cg_error_rate = error_rate, cg_latency_p50 = l50,
           cg_latency_p95 = l95, cg_latency_p99 = l99, cg_ttft_p50 = t50, cg_ttft_p95 = t95, cg_ttft_p99 = t99,
           cg_kv_reuse_rate = reuse, cg_gpu_kv_utilization = usage, cg_queue_depth = queue,
           cg_switches = sum_list (map (\<lambda>r. ss_switches (rt_summary r)) reps),
           cg_fallbacks = sum_list (map (\<lambda>r. ss_fallbacks (rt_summary r)) reps),
           cg_routing = sorted_counts (fold add_count (concat (map (\<lambda>r. ss_routing (rt_summary r)) reps)) []),
           cg_metric_quality = (if reps \<noteq> [] \<and> list_all (\<lambda>r. bw_metric_quality (rt_window r) = ''ok'') reps
                                then ''ok'' else ''mixed_or_missing'')\<rparr>))))))))))))"

section \<open>The evaluation\<close>

record case_result =
  cs_strategy :: string
  cs_workload :: string
  cs_repetitions :: "repetition list"
  cs_aggregate :: case_aggregate

record overhead =
  oh_strategy :: string
  oh_workload :: string
  oh_ttft_p95 :: "pyfloat option"
  oh_latency_p95 :: "pyfloat option"

definition difference :: "pyfloat option \<Rightarrow> pyfloat option \<Rightarrow> pyfloat option" where
  "difference a b = (case (a, b) of (Some x, Some y) \<Rightarrow> Some (fsub x y) | _ \<Rightarrow> None)"

definition comparisons_of :: "case_result list \<Rightarrow> overhead list" where
  "comparisons_of results =
     (let by_workload = fold (\<lambda>r d. if cs_strategy r = ''direct'' then dset d (cs_workload r) r else d) results [] in
      List.map_filter (\<lambda>r.
        if cs_strategy r = ''direct'' then None
        else case dget by_workload (cs_workload r) of
               None \<Rightarrow> None
             | Some direct \<Rightarrow>
                 let d = cs_aggregate direct; a = cs_aggregate r
                 in Some \<lparr>oh_strategy = cs_strategy r, oh_workload = cs_workload r,
                      oh_ttft_p95 = difference (es_mean (cg_ttft_p95 a)) (es_mean (cg_ttft_p95 d)),
                      oh_latency_p95 = difference (es_mean (cg_latency_p95 a)) (es_mean (cg_latency_p95 d))\<rparr>) results)"

type_synonym cases = "((string \<times> string) \<times> repetition list) list"

definition evaluation_turns :: "evaluation_config \<Rightarrow> (string \<times> nat \<times> target_spec) list" where
  "evaluation_turns c =
     concat (map (\<lambda>w. concat (map (\<lambda>r. map (\<lambda>t. (w, r, t)) (balanced_target_order (ec_targets c) r)) [0..<nat (ec_repetitions c)]))
       (ec_workloads c))"

definition execution_schedule :: "evaluation_config \<Rightarrow> (string \<times> int \<times> string list) list" where
  "execution_schedule c =
     concat (map (\<lambda>w. map (\<lambda>r. (w, int r + 1, map ts_strategy (balanced_target_order (ec_targets c) r))) [0..<nat (ec_repetitions c)])
       (ec_workloads c))"

definition case_keys :: "evaluation_config \<Rightarrow> (string \<times> string) list" where
  "case_keys c = concat (map (\<lambda>t. map (\<lambda>w. (ts_strategy t, w)) (ec_workloads c)) (ec_targets c))"

definition evaluation_turn :: "eval_world \<Rightarrow> evaluation_config \<Rightarrow> string \<times> nat \<times> target_spec \<Rightarrow> cases \<Rightarrow> cases res" where
  "evaluation_turn wd c turn d =
     (case turn of (workload, r, target) \<Rightarrow>
        bindR (run_repetition wd c target workload r) (\<lambda>rep.
        case dget d (ts_strategy target, workload) of
          None \<Rightarrow> Inl KeyError
        | Some reps \<Rightarrow> Inr (dset d (ts_strategy target, workload) (reps @ [rep]))))"

definition case_result_of :: "cases \<Rightarrow> string \<times> string \<Rightarrow> case_result res" where
  "case_result_of d k =
     (case dget d k of
        None \<Rightarrow> Inl KeyError
      | Some reps \<Rightarrow>
          bindR (aggregate_repetitions reps) (\<lambda>a.
          Inr \<lparr>cs_strategy = fst k, cs_workload = snd k, cs_repetitions = reps, cs_aggregate = a\<rparr>))"

record evaluation_outcome =
  eo_config_hash :: string
  eo_results :: "case_result list"
  eo_schedule :: "(string \<times> int \<times> string list) list"
  eo_comparisons :: "overhead list"

definition run_evaluation :: "eval_world \<Rightarrow> evaluation_config \<Rightarrow> evaluation_outcome res" where
  "run_evaluation wd c =
     bindR (foldR (evaluation_turn wd c) (evaluation_turns c) (fold (\<lambda>k d. dset d k []) (case_keys c) [])) (\<lambda>d.
     bindR (mapR (case_result_of d) (case_keys c)) (\<lambda>results.
     bindR (config_hash (ec_source c)) (\<lambda>h.
     Inr \<lparr>eo_config_hash = h, eo_results = results, eo_schedule = execution_schedule c,
          eo_comparisons = comparisons_of results\<rparr>)))"

section \<open>Facts\<close>

subsection \<open>Samples\<close>

text \<open>A sample is a failure exactly when it says why.\<close>

lemma sample_error_iff: "sm_ok (sample_of i x) \<longleftrightarrow> sm_error (sample_of i x) = []"
  by (auto simp: sample_of_def exception_text_def Let_def split: chat_response.split option.split)

lemma sample_index: "sm_index (sample_of i x) = i"
  by (simp add: sample_of_def Let_def split: chat_response.split)

text \<open>
  What a measurement has to be, said without the functions that take it: the sample of the \<open>i\<close>-th request of a repetition
  is what came back for the request with its own index, sent to the target's own address with the target's own key and
  the messages of the workload.
\<close>

definition measured_sample ::
  "eval_world \<Rightarrow> evaluation_config \<Rightarrow> target_spec \<Rightarrow> string \<Rightarrow> nat \<Rightarrow> nat \<Rightarrow> bench_sample \<Rightarrow> bool" where
  "measured_sample wd c t w k i s \<longleftrightarrow>
     (let index = int k * ec_requests c + int i in
      \<exists>messages. build_workload_messages (ew_draw wd) w index (ec_seed c) = Inr messages \<and>
        s = sample_of index (pb_send (ew_probe wd (ts_strategy t) w k) index
              \<lparr>cr_url = ts_url t @ ''/v1/chat/completions'', cr_model = ec_model c, cr_messages = messages,
               cr_max_tokens = ec_max_tokens c, cr_workload = w,
               cr_authorization = (if ts_api_key t = [] then None else Some (''Bearer '' @ ts_api_key t))\<rparr>))"

lemma run_oneD:
  "run_one (ew_draw wd) (pb_send (ew_probe wd (ts_strategy t) w k) (int k * ec_requests c + int i)) t c w
     (int k * ec_requests c + int i) = Inr s \<Longrightarrow> measured_sample wd c t w k i s"
  by (auto simp: run_one_def bindR_eq_Inr measured_sample_def Let_def)

lemma measured_error: "measured_sample wd c t w k i s \<Longrightarrow> sm_ok s \<longleftrightarrow> sm_error s = []"
  by (auto simp: measured_sample_def Let_def sample_error_iff)

lemma summarize_samplesD:
  assumes "summarize_samples samples elapsed = Inr s"
  shows "ss_requests s = int (length samples)" "ss_ok s = int (length (filter sm_ok samples))"
    "ss_failed s = ss_requests s - ss_ok s"
  using assms by (auto simp: summarize_samples_def Let_def bindR_eq_Inr)

text \<open>A scrape reads every backend, in order: its metrics, empty after an exception, whose text is then kept.\<close>

definition scraped ::
  "eval_world \<Rightarrow> evaluation_config \<Rightarrow> (backend_spec \<Rightarrow> scrape) \<Rightarrow> (string \<times> metrics) list" where
  "scraped wd c fetch = map (\<lambda>b. (bs_id b,
     case fetch b of Inr t \<Rightarrow> aggregate_prometheus_text (ew_families wd) (ew_env wd) t None | Inl _ \<Rightarrow> [])) (ec_backends c)"

definition scrape_errors :: "evaluation_config \<Rightarrow> (backend_spec \<Rightarrow> scrape) \<Rightarrow> (string \<times> string) list" where
  "scrape_errors c fetch = List.map_filter (\<lambda>b.
     case fetch b of Inr _ \<Rightarrow> None | Inl e \<Rightarrow> Some (bs_id b, exception_text e)) (ec_backends c)"

lemma dset_new: "k \<notin> fst ` set d \<Longrightarrow> dset d k v = d @ [(k, v)]"
  by (induction d) (auto simp: dset_def)

lemma scrape_metrics_eq:
  assumes "distinct (map bs_id (ec_backends c))"
  shows "scrape_metrics (ew_families wd) (ew_env wd) (ec_backends c) fetch = (scraped wd c fetch, scrape_errors c fetch)"
proof -
  let ?step = "\<lambda>b (out, errors). case fetch b of
      Inr t \<Rightarrow> (dset out (bs_id b) (aggregate_prometheus_text (ew_families wd) (ew_env wd) t None), errors)
    | Inl e \<Rightarrow> (dset out (bs_id b) [], dset errors (bs_id b) (exception_text e))"
  let ?m = "\<lambda>b. (bs_id b, case fetch b of
      Inr t \<Rightarrow> aggregate_prometheus_text (ew_families wd) (ew_env wd) t None | Inl _ \<Rightarrow> [])"
  let ?e = "\<lambda>b. case fetch b of Inr _ \<Rightarrow> None | Inl e \<Rightarrow> Some (bs_id b, exception_text e)"
  have "fold ?step bs (out, er) = (out @ map ?m bs, er @ List.map_filter ?e bs)"
    if "distinct (map bs_id bs)" "\<forall>b\<in>set bs. bs_id b \<notin> fst ` set out \<and> bs_id b \<notin> fst ` set er" for bs out er
    using that
  proof (induction bs arbitrary: out er)
    case (Cons b bs)
    have new: "dset out (bs_id b) m = out @ [(bs_id b, m)]" "dset er (bs_id b) x = er @ [(bs_id b, x)]" for m x
      using Cons.prems(2) by (simp_all add: dset_new)
    have "bs_id b' \<noteq> bs_id b" if "b' \<in> set bs" for b'
      using Cons.prems(1) imageI [OF that, of bs_id] by auto
    then have apart: "\<forall>b'\<in>set bs. bs_id b' \<notin> fst ` set (out @ [(bs_id b, m)]) \<and> bs_id b' \<notin> fst ` set er \<and>
        bs_id b' \<notin> fst ` set (er @ [(bs_id b, x)])" for m x
      using Cons.prems by auto
    have d: "distinct (map bs_id bs)" using Cons.prems(1) by simp
    show ?case
    proof (cases "fetch b")
      case (Inl e)
      have "fold ?step bs (out @ [(bs_id b, [])], er @ [(bs_id b, exception_text e)]) =
          ((out @ [(bs_id b, [])]) @ map ?m bs, (er @ [(bs_id b, exception_text e)]) @ List.map_filter ?e bs)"
        using apart by (intro Cons.IH [OF d]) blast
      then show ?thesis by (simp add: Inl new List.map_filter_simps del: set_append)
    next
      case (Inr t)
      have "fold ?step bs (out @ [(bs_id b, aggregate_prometheus_text (ew_families wd) (ew_env wd) t None)], er) =
          ((out @ [(bs_id b, aggregate_prometheus_text (ew_families wd) (ew_env wd) t None)]) @ map ?m bs,
           er @ List.map_filter ?e bs)"
        using apart by (intro Cons.IH [OF d]) blast
      then show ?thesis by (simp add: Inr new List.map_filter_simps del: set_append)
    qed
  qed (simp add: List.map_filter_simps)
  from this [of "ec_backends c" "[]" "[]"] assms show ?thesis
    by (simp add: scrape_metrics_def scraped_def scrape_errors_def)
qed

text \<open>
  A repetition is measured: one sample for each request, in order; its summary counts them and the ones with an error, and
  is made from nothing else but the time they took; its window is the one between the two scrapes of all backends.
\<close>

definition measured_repetition ::
  "eval_world \<Rightarrow> evaluation_config \<Rightarrow> target_spec \<Rightarrow> string \<Rightarrow> nat \<Rightarrow> repetition \<Rightarrow> bool" where
  "measured_repetition wd c t w k rep \<longleftrightarrow>
     (let pb = ew_probe wd (ts_strategy t) w k in
      rt_repetition rep = int k + 1 \<and>
      list_all2 (measured_sample wd c t w k) [0..<nat (ec_requests c)] (rt_samples rep) \<and>
      summarize_samples (rt_samples rep) (pb_elapsed pb) = Inr (rt_summary rep) \<and>
      ss_requests (rt_summary rep) = int (length (rt_samples rep)) \<and>
      ss_ok (rt_summary rep) + ss_failed (rt_summary rep) = ss_requests (rt_summary rep) \<and>
      ss_failed (rt_summary rep) = int (length (filter (\<lambda>s. sm_error s \<noteq> []) (rt_samples rep))) \<and>
      summarize_vllm_window (scraped wd c (pb_before pb)) (scraped wd c (pb_after pb)) = Inr (rt_window rep) \<and>
      rt_errors_before rep = scrape_errors c (pb_before pb) \<and> rt_errors_after rep = scrape_errors c (pb_after pb))"

lemma run_repetitionD:
  assumes "run_repetition wd c t w k = Inr rep" "distinct (map bs_id (ec_backends c))"
  shows "measured_repetition wd c t w k rep"
proof -
  let ?pb = "ew_probe wd (ts_strategy t) w k"
  obtain samples where m: "mapR (\<lambda>i. run_one (ew_draw wd) (pb_send ?pb (int k * ec_requests c + int i)) t c w
        (int k * ec_requests c + int i)) [0..<nat (ec_requests c)] = Inr samples"
    and s: "summarize_samples samples (pb_elapsed ?pb) = Inr (rt_summary rep)"
    and n: "rt_repetition rep = int k + 1" "rt_samples rep = samples" "rt_errors_before rep = scrape_errors c (pb_before ?pb)"
      "rt_errors_after rep = scrape_errors c (pb_after ?pb)"
      "summarize_vllm_window (scraped wd c (pb_before ?pb)) (scraped wd c (pb_after ?pb)) = Inr (rt_window rep)"
    using assms(1) unfolding run_repetition_def scrape_metrics_eq [OF assms(2)] by (auto simp: Let_def bindR_eq_Inr)
  have all: "list_all2 (measured_sample wd c t w k) [0..<nat (ec_requests c)] samples"
    using mapR_Inr_length [OF m] mapR_Inr_nth [OF m] run_oneD by (simp add: list_all2_conv_all_nth)
  then have "list_all (\<lambda>s. sm_ok s \<longleftrightarrow> sm_error s = []) samples"
    using measured_error by (fastforce simp: list_all2_conv_all_nth list_all_length)
  then have "filter (\<lambda>s. \<not> sm_ok s) samples = filter (\<lambda>s. sm_error s \<noteq> []) samples"
    by (auto simp: list_all_iff intro: filter_cong)
  moreover have "length (filter sm_ok samples) + length (filter (\<lambda>s. \<not> sm_ok s) samples) = length samples"
    by (rule sum_length_filter_compl)
  ultimately show ?thesis
    using summarize_samplesD [OF s] all s n by (simp add: measured_repetition_def Let_def)
qed

subsection \<open>The turns of an evaluation\<close>

lemma filter_single: "distinct (map f xs) \<Longrightarrow> x \<in> set xs \<Longrightarrow> filter (\<lambda>y. f y = f x) xs = [x]"
proof (induction xs)
  case (Cons y ys)
  then have "x = y \<longrightarrow> filter (\<lambda>y. f y = f x) ys = []" by (auto simp: filter_empty_conv) (metis imageI)
  with Cons show ?case by (auto simp: image_iff)
qed simp

lemma concat_single: "distinct xs \<Longrightarrow> x \<in> set xs \<Longrightarrow> concat (map (\<lambda>y. if y = x then f y else []) xs) = f x"
proof (induction xs)
  case (Cons y ys)
  then show ?case by (cases "x = y") (auto intro!: concat_eq_Nil_conv [THEN iffD2])
qed simp

lemma turns_of_case:
  assumes "distinct (map ts_strategy (ec_targets c))" "distinct (ec_workloads c)" "t \<in> set (ec_targets c)" "w \<in> set (ec_workloads c)"
  shows "filter (\<lambda>(w', r, t'). (ts_strategy t', w') = (ts_strategy t, w)) (evaluation_turns c) =
    map (\<lambda>r. (w, r, t)) [0..<nat (ec_repetitions c)]"
proof -
  have order: "filter (\<lambda>t'. ts_strategy t' = ts_strategy t) (balanced_target_order (ec_targets c) r) = [t]" for r
    using assms(1,3) by (intro filter_single) (simp_all add: balanced_target_order_rotate flip: rotate_map)
  have "filter (\<lambda>(w', r, t'). (ts_strategy t', w') = (ts_strategy t, w))
      (map (\<lambda>t. (v, r, t)) (balanced_target_order (ec_targets c) r)) = (if v = w then [(w, r, t)] else [])" for v r
    using order [of r] by (simp add: filter_map comp_def)
  then have "filter (\<lambda>(w', r, t'). (ts_strategy t', w') = (ts_strategy t, w))
      (concat (map (\<lambda>r. map (\<lambda>t. (v, r, t)) (balanced_target_order (ec_targets c) r)) rs)) = (if v = w then map (\<lambda>r. (w, r, t)) rs else [])" for v rs
    by (induction rs) auto
  then show ?thesis
    unfolding evaluation_turns_def filter_concat map_map comp_def using concat_single [OF assms(2,4)] by simp
qed

lemma turns_collect:
  assumes "foldR (evaluation_turn wd c) turns d = Inr d'" "dget d k = Some reps"
  shows "\<exists>new. dget d' k = Some (reps @ new) \<and>
    mapR (\<lambda>(w, r, t). run_repetition wd c t w r) (filter (\<lambda>(w, r, t). (ts_strategy t, w) = k) turns) = Inr new"
  using assms
proof (induction turns arbitrary: d reps)
  case (Cons x turns)
  obtain w r t where x: "x = (w, r, t)" by (cases x)
  obtain e where e: "evaluation_turn wd c x d = Inr e" "foldR (evaluation_turn wd c) turns e = Inr d'"
    using Cons.prems(1) by (auto simp: bindR_eq_Inr)
  obtain rep rs where rep: "run_repetition wd c t w r = Inr rep" "dget d (ts_strategy t, w) = Some rs"
    "e = dset d (ts_strategy t, w) (rs @ [rep])"
    using e(1) by (auto simp: evaluation_turn_def x bindR_eq_Inr split: option.splits)
  show ?case
  proof (cases "(ts_strategy t, w) = k")
    case True
    then have "dget e k = Some (reps @ [rep])" using rep Cons.prems(2) by (simp add: dict_simps)
    from Cons.IH [OF e(2) this] show ?thesis using True rep(1) by (auto simp: x)
  next
    case False
    then have "dget e k = Some reps" using rep Cons.prems(2) by (simp add: dict_simps)
    from Cons.IH [OF e(2) this] show ?thesis using False by (auto simp: x)
  qed
qed simp

lemma empty_cases: "k \<in> set ks \<Longrightarrow> dget (fold (\<lambda>k d. dset d k []) ks d) k = Some []"
proof (induction ks arbitrary: d)
  case (Cons x ks)
  have "dget (fold (\<lambda>k d. dset d k []) ks d) x = Some []" if "dget d x = Some []" for d
    using that by (induction ks arbitrary: d) (simp_all add: dict_simps)
  from this [of "dset d x []"] Cons show ?case by (cases "k \<in> set ks") (auto simp: dict_simps)
qed simp

lemma case_result_ofD:
  assumes "case_result_of d k = Inr r"
  shows "(cs_strategy r, cs_workload r) = k" "dget d k = Some (cs_repetitions r)"
    "aggregate_repetitions (cs_repetitions r) = Inr (cs_aggregate r)"
  using assms by (auto simp: case_result_of_def bindR_eq_Inr split: option.splits)

text \<open>A comparison is with the direct strategy's result for the same workload.\<close>

definition compared_with_direct :: "case_result list \<Rightarrow> case_result \<Rightarrow> overhead \<Rightarrow> bool" where
  "compared_with_direct results r x \<longleftrightarrow>
     oh_strategy x = cs_strategy r \<and> oh_workload x = cs_workload r \<and>
     (\<exists>direct\<in>set results. cs_strategy direct = ''direct'' \<and> cs_workload direct = cs_workload r \<and>
        oh_ttft_p95 x = difference (es_mean (cg_ttft_p95 (cs_aggregate r))) (es_mean (cg_ttft_p95 (cs_aggregate direct))) \<and>
        oh_latency_p95 x = difference (es_mean (cg_latency_p95 (cs_aggregate r)))
          (es_mean (cg_latency_p95 (cs_aggregate direct))))"

lemma direct_found:
  assumes "\<exists>r \<in> set results. cs_strategy r = ''direct'' \<and> cs_workload r = w"
  shows "\<exists>q \<in> set results. cs_strategy q = ''direct'' \<and> cs_workload q = w \<and>
    dget (fold (\<lambda>r d. if cs_strategy r = ''direct'' then dset d (cs_workload r) r else d) results []) w = Some q"
proof -
  let ?f = "\<lambda>r d. if cs_strategy r = ''direct'' then dset d (cs_workload r) r else d"
  have "case dget (fold ?f rs []) w of
      None \<Rightarrow> \<not> (\<exists>r \<in> set rs. cs_strategy r = ''direct'' \<and> cs_workload r = w)
    | Some q \<Rightarrow> q \<in> set rs \<and> cs_strategy q = ''direct'' \<and> cs_workload q = w" for rs
  proof (induction rs rule: rev_induct)
    case (snoc r rs)
    then show ?case by (auto simp: dget_dset split: option.splits)
  qed (simp add: dget_def)
  from this [of results] assms show ?thesis by (auto split: option.splits)
qed

lemma comparisons_cases:
  assumes "\<And>r. r \<in> set results \<Longrightarrow> \<exists>q \<in> set results. cs_strategy q = ''direct'' \<and> cs_workload q = cs_workload r"
  shows "list_all2 (compared_with_direct results) (filter (\<lambda>r. cs_strategy r \<noteq> ''direct'') results) (comparisons_of results)"
proof -
  let ?by = "fold (\<lambda>r d. if cs_strategy r = ''direct'' then dset d (cs_workload r) r else d) results []"
  have "list_all2 (compared_with_direct results) (filter (\<lambda>r. cs_strategy r \<noteq> ''direct'') rs)
      (List.map_filter (\<lambda>r.
        if cs_strategy r = ''direct'' then None
        else case dget ?by (cs_workload r) of None \<Rightarrow> None
             | Some direct \<Rightarrow> let d = cs_aggregate direct; a = cs_aggregate r
                 in Some \<lparr>oh_strategy = cs_strategy r, oh_workload = cs_workload r,
                      oh_ttft_p95 = difference (es_mean (cg_ttft_p95 a)) (es_mean (cg_ttft_p95 d)),
                      oh_latency_p95 = difference (es_mean (cg_latency_p95 a)) (es_mean (cg_latency_p95 d))\<rparr>) rs)"
    if "set rs \<subseteq> set results" for rs
    using that
  proof (induction rs)
    case (Cons r rs)
    obtain q where q: "q \<in> set results" "cs_strategy q = ''direct''" "cs_workload q = cs_workload r"
      "dget ?by (cs_workload r) = Some q"
      using direct_found [OF assms, of r] Cons.prems by auto
    then show ?case using Cons by (auto simp: List.map_filter_simps Let_def compared_with_direct_def)
  qed (simp add: List.map_filter_simps)
  then show ?thesis unfolding comparisons_of_def Let_def by simp
qed

subsection \<open>Counters of the backends\<close>

text \<open>
  Both counters before and after the window, and counters that behave: finite, and not more new hits than new queries.
\<close>

definition counters :: "metrics \<Rightarrow> metrics \<Rightarrow> (pyfloat \<times> pyfloat \<times> pyfloat \<times> pyfloat) option" where
  "counters b a = (case (hits_of a, queries_of a, hits_of b, queries_of b) of
     (Some ha, Some qa, Some hb, Some qb) \<Rightarrow> Some (ha, qa, hb, qb) | _ \<Rightarrow> None)"

definition went_back :: "metrics \<Rightarrow> metrics \<Rightarrow> bool" where
  "went_back b a \<longleftrightarrow> (\<exists>ha qa hb qb. counters b a = Some (ha, qa, hb, qb) \<and> (flt ha hb \<or> flt qa qb))"

definition counted :: "metrics \<Rightarrow> metrics \<Rightarrow> bool" where
  "counted b a \<longleftrightarrow> counters b a \<noteq> None \<and> \<not> went_back b a"

definition sound_counters :: "metrics \<Rightarrow> metrics \<Rightarrow> bool" where
  "sound_counters b a \<longleftrightarrow> (\<forall>ha qa hb qb. counters b a = Some (ha, qa, hb, qb) \<longrightarrow>
     (\<exists>x y z u. ha = Fin x \<and> qa = Fin y \<and> hb = Fin z \<and> qb = Fin u \<and> x - z \<le> y - u))"

lemma add_countersE:
  obtains "went_back b a" "add_counters b a w = w\<lparr>ws_resets := ws_resets w + 1\<rparr>"
  | ha qa hb qb where "counted b a" "counters b a = Some (ha, qa, hb, qb)" "\<not> flt ha hb" "\<not> flt qa qb"
      "add_counters b a w = w\<lparr>ws_hits := fadd (ws_hits w) (fsub ha hb), ws_queries := fadd (ws_queries w) (fsub qa qb),
                              ws_complete := ws_complete w + 1\<rparr>"
  | "\<not> counted b a" "\<not> went_back b a" "add_counters b a w = w"
proof (cases "counters b a")
  case None
  then have "add_counters b a w = w" "\<not> counted b a" "\<not> went_back b a"
    by (auto simp: add_counters_def counters_def counted_def went_back_def split: option.splits)
  then show ?thesis by (intro that(3))
next
  case (Some x)
  obtain ha qa hb qb where x: "x = (ha, qa, hb, qb)" by (cases x)
  then have eq: "hits_of a = Some ha" "queries_of a = Some qa" "hits_of b = Some hb" "queries_of b = Some qb"
    using Some by (auto simp: counters_def split: option.splits)
  show ?thesis
  proof (cases "flt ha hb \<or> flt qa qb")
    case True
    then have "went_back b a" using Some x by (auto simp: went_back_def)
    then show ?thesis using True eq by (intro that(1)) (auto simp: add_counters_def)
  next
    case False
    then have "counted b a" using Some x by (auto simp: counted_def went_back_def)
    then show ?thesis using False eq Some x by (intro that(2)) (auto simp: add_counters_def)
  qed
qed

lemma gauges_frame [simp]:
  "ws_hits (add_gauges a w) = ws_hits w" "ws_queries (add_gauges a w) = ws_queries w"
  "ws_complete (add_gauges a w) = ws_complete w" "ws_resets (add_gauges a w) = ws_resets w"
  by (simp_all add: add_gauges_def)

lemma window_counts:
  "ws_complete (fold (add_backend before) after w) =
     ws_complete w + length (filter (\<lambda>(k, m). counted (dget_or before k []) m) after)"
  "ws_resets (fold (add_backend before) after w) =
     ws_resets w + length (filter (\<lambda>(k, m). went_back (dget_or before k []) m) after)"
proof (induction after arbitrary: w)
  case (Cons x after)
  obtain k m where x: "x = (k, m)" by (cases x)
  have step: "ws_complete (add_backend before x w) = ws_complete w + (if counted (dget_or before k []) m then 1 else 0)"
    "ws_resets (add_backend before x w) = ws_resets w + (if went_back (dget_or before k []) m then 1 else 0)" for w
    by (cases rule: add_countersE [of "dget_or before k []" m w]; auto simp: add_backend_def x counted_def)+
  {
    case 1
    show ?case using Cons(1) [of "add_backend before x w"] step(1) by (auto simp: x)
  next
    case 2
    show ?case using Cons(2) [of "add_backend before x w"] step(2) by (auto simp: x)
  }
qed simp_all

lemma fsub_sound:
  assumes "\<not> flt (Fin x) (Fin z)" "x - z \<le> y - u"
  shows "fle (Fin 0) (fsub (Fin x) (Fin z)) \<and> fle (fsub (Fin x) (Fin z)) (fsub (Fin y) (Fin u))"
  using assms fl_mono [of "x - z" "y - u"] fl_nonneg [of "x - z"] by (simp add: fsub_def)

lemma window_ordered:
  assumes "\<forall>(k, m) \<in> set after. sound_counters (dget_or before k []) m"
    and "fle (Fin 0) (ws_hits w)" "fle (ws_hits w) (ws_queries w)"
  shows "fle (Fin 0) (ws_hits (fold (add_backend before) after w)) \<and>
    fle (ws_hits (fold (add_backend before) after w)) (ws_queries (fold (add_backend before) after w))"
  using assms
proof (induction after arbitrary: w)
  case (Cons x after)
  obtain k m where x: "x = (k, m)" by (cases x)
  have "fle (Fin 0) (ws_hits (add_backend before x w)) \<and> fle (ws_hits (add_backend before x w)) (ws_queries (add_backend before x w))"
  proof (cases rule: add_countersE [of "dget_or before k []" m w])
    case (2 ha qa hb qb)
    then obtain p q r s where f: "ha = Fin p" "qa = Fin q" "hb = Fin r" "qb = Fin s" "p - r \<le> q - s"
      using Cons.prems(1) by (auto simp: x sound_counters_def)
    show ?thesis
      using fadd_nonneg_mono [OF Cons.prems(2,3), of "fsub ha hb" "fsub qa qb"] fsub_sound [of p r q s] 2(3,5) f
      by (simp add: add_backend_def x)
  qed (use Cons.prems in \<open>simp_all add: add_backend_def x\<close>)
  then show ?case using Cons.IH [of "add_backend before x w"] Cons.prems(1) by simp
qed simp

section \<open>Properties\<close>

text \<open>
  Property C33.  The metrics of a window are labelled and used as they should be: the quality is \<open>counter_reset\<close> exactly when
  some backend's counter went back, \<open>ok\<close> exactly when there is a backend and all of them have both counters before
  and after; there are deltas exactly when some backend was counted; and with counters that behave, the reuse rate, where
  the query delta is finite, is a number between 0 and 1.
\<close>

theorem window_evidence_sound:
  assumes "summarize_vllm_window before after = Inr w"
  shows "(bw_metric_quality w = ''counter_reset'' \<longleftrightarrow> list_ex (\<lambda>(k, m). went_back (dget_or before k []) m) after) \<and>
    (bw_metric_quality w = ''ok'' \<longleftrightarrow> after \<noteq> [] \<and> list_all (\<lambda>(k, m). counted (dget_or before k []) m) after) \<and>
    (bw_hits_delta w \<noteq> None \<longleftrightarrow> list_ex (\<lambda>(k, m). counted (dget_or before k []) m) after) \<and>
    (list_all (\<lambda>(k, m). sound_counters (dget_or before k []) m) after \<longrightarrow>
       (\<forall>q x. bw_queries_delta w = Some (Fin q) \<and> bw_kv_reuse_rate w = Some x \<longrightarrow> in_unit x))"
proof -
  let ?w = "window_sums_of before after"
  have n: "ws_complete ?w = length (filter (\<lambda>(k, m). counted (dget_or before k []) m) after)"
    "ws_resets ?w = length (filter (\<lambda>(k, m). went_back (dget_or before k []) m) after)"
    unfolding window_sums_of_def window_counts by (simp_all add: no_sums_def)
  have w: "bw_metric_quality w = (if ws_resets ?w \<noteq> 0 then ''counter_reset''
        else if ws_complete ?w = length after \<and> after \<noteq> [] then ''ok'' else ''missing'')"
    "bw_hits_delta w = (if 0 < ws_complete ?w then Some (ws_hits ?w) else None)"
    "bw_queries_delta w = (if 0 < ws_complete ?w then Some (ws_queries ?w) else None)"
    "(if 0 < ws_complete ?w \<and> flt (Fin 0) (ws_queries ?w) then bindR (fdiv (ws_hits ?w) (ws_queries ?w)) (\<lambda>x. Inr (Some x))
      else Inr None) = Inr (bw_kv_reuse_rate w)"
    using assms by (auto simp: summarize_vllm_window_def Let_def bindR_eq_Inr split: if_splits)
  have all: "length (filter P xs) = length xs \<longleftrightarrow> list_all P xs" for P and xs :: "(string \<times> metrics) list"
    by (metis list_all_iff filter_id_conv length_filter_less order_less_irrefl)
  have some: "filter P xs = [] \<longleftrightarrow> \<not> list_ex P xs" for P and xs :: "(string \<times> metrics) list"
    by (auto simp: filter_empty_conv list_ex_iff)
  have excl: "list_all (\<lambda>(k, m). counted (dget_or before k []) m) after \<Longrightarrow> \<not> list_ex (\<lambda>(k, m). went_back (dget_or before k []) m) after"
    by (auto simp: list_all_iff list_ex_iff counted_def)
  have "in_unit x" if "list_all (\<lambda>(k, m). sound_counters (dget_or before k []) m) after"
    "bw_queries_delta w = Some (Fin q)" "bw_kv_reuse_rate w = Some x" for q x
  proof -
    have q: "ws_queries ?w = Fin q" "0 < q" "fdiv (ws_hits ?w) (Fin q) = Inr x"
      using that(2,3) w(3,4) by (auto simp: bindR_eq_Inr split: if_splits)
    have "fle (Fin 0) (ws_hits ?w)" "fle (ws_hits ?w) (Fin q)"
      using window_ordered [of after before no_sums] that(1) unfolding q(1) [symmetric] window_sums_of_def
      by (auto simp: no_sums_def list_all_iff)
    then obtain h where h: "ws_hits ?w = Fin h" "0 \<le> h" "h \<le> q" by (cases "ws_hits ?w") auto
    then have "x = fl (h / q)" "0 \<le> h / q" "h / q \<le> 1" using q by (auto simp: fdiv_def)
    then show ?thesis using fl_nonneg fl_le_1 by (auto simp: in_unit_def)
  qed
  then show ?thesis
    unfolding w(1,2) n all length_0_conv length_greater_0_conv some using excl by auto
qed

lemma direct_case:
  assumes "load_config urlparse environ loaded = Inr c" "k \<in> set (case_keys c)"
  shows "(''direct'', snd k) \<in> set (case_keys c)"
proof -
  have "snd k \<in> set (ec_workloads c)" using assms(2) by (auto simp: case_keys_def)
  moreover have "''direct'' \<in> ts_strategy ` set (ec_targets c)"
    using load_targetsD(2) [OF load_configD(1) [OF assms(1)]] by (simp add: required_strategies_def)
  ultimately show ?thesis by (auto simp: case_keys_def)
qed

text \<open>
  A case is measured: its repetitions are all there, each of them measured, and its aggregate is made of them; the two
  estimates that are compared are those of the 95th percentiles of the repetitions.
\<close>

definition measured_case :: "eval_world \<Rightarrow> evaluation_config \<Rightarrow> target_spec \<Rightarrow> string \<Rightarrow> case_result \<Rightarrow> bool" where
  "measured_case wd c t w r \<longleftrightarrow>
     cs_strategy r = ts_strategy t \<and> cs_workload r = w \<and>
     list_all2 (measured_repetition wd c t w) [0..<nat (ec_repetitions c)] (cs_repetitions r) \<and>
     aggregate_repetitions (cs_repetitions r) = Inr (cs_aggregate r) \<and>
     mean_ci95 (List.map_filter (\<lambda>rep. qs_p95 (ss_ttft (rt_summary rep))) (cs_repetitions r)) =
       Inr (cg_ttft_p95 (cs_aggregate r)) \<and>
     mean_ci95 (List.map_filter (\<lambda>rep. qs_p95 (ss_latency (rt_summary rep))) (cs_repetitions r)) =
       Inr (cg_latency_p95 (cs_aggregate r))"

lemma compared_estimates:
  assumes "aggregate_repetitions reps = Inr a"
  shows "mean_ci95 (List.map_filter (\<lambda>rep. qs_p95 (ss_ttft (rt_summary rep))) reps) = Inr (cg_ttft_p95 a)"
    "mean_ci95 (List.map_filter (\<lambda>rep. qs_p95 (ss_latency (rt_summary rep))) reps) = Inr (cg_latency_p95 a)"
  using assms by (auto simp: aggregate_repetitions_def Let_def bindR_eq_Inr estimate_of_def)

lemma case_keys_product: "case_keys c = map (\<lambda>(t, w). (ts_strategy t, w)) (List.product (ec_targets c) (ec_workloads c))"
proof -
  have "concat (map (\<lambda>t. map (\<lambda>w. (ts_strategy t, w)) ws) ts) = map (\<lambda>(t, w). (ts_strategy t, w)) (List.product ts ws)" for ts ws
    by (induction ts) simp_all
  then show ?thesis by (simp add: case_keys_def)
qed

lemma case_repetitions:
  assumes "load_config urlparse environ loaded = Inr c" "x \<in> set (ec_targets c)" "v \<in> set (ec_workloads c)"
    and "case_result_of d (ts_strategy x, v) = Inr r"
    and "foldR (evaluation_turn wd c) (evaluation_turns c) (fold (\<lambda>k d. dset d k []) (case_keys c) []) = Inr d"
  shows "measured_case wd c x v r"
proof -
  note l = load_configD [OF assms(1)]
  note t = load_targetsD [OF l(1)] and w = load_workloadsD [OF l(3)] and b = load_backendsD(2) [OF l(2)]
  have k: "(ts_strategy x, v) \<in> set (case_keys c)" using assms(2,3) by (auto simp: case_keys_def)
  obtain new where new: "dget d (ts_strategy x, v) = Some new"
    "mapR (\<lambda>(w, r, t). run_repetition wd c t w r) (map (\<lambda>r. (v, r, x)) [0..<nat (ec_repetitions c)]) = Inr new"
    using turns_collect [OF assms(5) empty_cases [OF k]] turns_of_case [OF t(1) _ assms(2,3)] w by auto
  have reps: "cs_repetitions r = new" "aggregate_repetitions new = Inr (cs_aggregate r)"
    "cs_strategy r = ts_strategy x" "cs_workload r = v"
    using case_result_ofD [OF assms(4)] new(1) by simp_all
  have "list_all2 (measured_repetition wd c x v) [0..<nat (ec_repetitions c)] new"
    using mapR_Inr_length [OF new(2)] mapR_Inr_nth [OF new(2)] run_repetitionD [OF _ b]
    by (simp add: list_all2_conv_all_nth)
  then show ?thesis using reps compared_estimates [OF reps(2)] by (simp add: measured_case_def)
qed

text \<open>
  Property C32.  An evaluation measures what its configuration says.  It has one result for every target and workload, in
  order, twenty in all, made from exactly the configured number of repetitions, numbered from 1.  The samples of a
  repetition are what came back for its requests, each under an index of its own and sent to that target's address with
  that target's key and that workload's messages; the summary counts them and the ones with an error; the window is the
  one between the scrapes of all backends before and after.  Every strategy but the direct one is compared, for every
  workload, with the direct strategy's result for the same workload, by the differences of the mean 95th percentiles.
\<close>

theorem evaluation_accounts:
  assumes "load_config urlparse environ loaded = Inr c" "run_evaluation wd c = Inr e"
  shows "list_all2 (\<lambda>(t, w). measured_case wd c t w) (List.product (ec_targets c) (ec_workloads c)) (eo_results e) \<and>
    length (eo_results e) = 20 \<and>
    list_all2 (compared_with_direct (eo_results e)) (filter (\<lambda>r. cs_strategy r \<noteq> ''direct'') (eo_results e)) (eo_comparisons e)"
proof -
  note l = load_configD [OF assms(1)]
  note t = load_targetsD [OF l(1)] and w = load_workloadsD [OF l(3)]
  obtain d where d: "foldR (evaluation_turn wd c) (evaluation_turns c) (fold (\<lambda>k d. dset d k []) (case_keys c) []) = Inr d"
    "mapR (case_result_of d) (case_keys c) = Inr (eo_results e)" "eo_comparisons e = comparisons_of (eo_results e)"
    using assms(2) by (auto simp: run_evaluation_def bindR_eq_Inr)
  have keys: "map (\<lambda>r. (cs_strategy r, cs_workload r)) (eo_results e) = case_keys c"
    using mapR_map [OF d(2), of "\<lambda>r. (cs_strategy r, cs_workload r)" "\<lambda>k. k"] case_result_ofD(1) by simp
  have cases: "list_all2 (\<lambda>(t, w). measured_case wd c t w) (List.product (ec_targets c) (ec_workloads c)) (eo_results e)"
    unfolding list_all2_conv_all_nth
  proof (intro conjI allI impI)
    show len: "length (List.product (ec_targets c) (ec_workloads c)) = length (eo_results e)"
      using mapR_Inr_length [OF d(2)] by (simp add: case_keys_product)
    fix i assume i: "i < length (List.product (ec_targets c) (ec_workloads c))"
    obtain x v where x: "List.product (ec_targets c) (ec_workloads c) ! i = (x, v)" by force
    with nth_mem [OF i] have "x \<in> set (ec_targets c)" "v \<in> set (ec_workloads c)" by auto
    moreover have "case_result_of d (ts_strategy x, v) = Inr (eo_results e ! i)"
      using mapR_Inr_nth [OF d(2), of i] i x by (simp add: case_keys_product)
    ultimately show "(case List.product (ec_targets c) (ec_workloads c) ! i of (t, w) \<Rightarrow> measured_case wd c t w) (eo_results e ! i)"
      using case_repetitions [OF assms(1) _ _ _ d(1)] by (simp add: x)
  qed
  have "length (ec_targets c) = card (set required_strategies)" "length (ec_workloads c) = card (set default_workloads)"
    using t(1,2) w by (metis distinct_card length_map)+
  then have "length (eo_results e) = 20"
    using list_all2_lengthD [OF cases] by (simp add: required_strategies_def default_workloads_def)
  moreover have "\<exists>q \<in> set (eo_results e). cs_strategy q = ''direct'' \<and> cs_workload q = cs_workload r" if "r \<in> set (eo_results e)" for r
  proof -
    have "(cs_strategy r, cs_workload r) \<in> set (case_keys c)" using that unfolding keys [symmetric] by auto
    from direct_case [OF assms(1) this] show ?thesis unfolding keys [symmetric] by auto
  qed
  then have "list_all2 (compared_with_direct (eo_results e)) (filter (\<lambda>r. cs_strategy r \<noteq> ''direct'') (eo_results e)) (eo_comparisons e)"
    unfolding d(3) by (rule comparisons_cases)
  ultimately show ?thesis using cases by simp
qed

section \<open>Instances\<close>

definition counted_before :: "(string \<times> metrics) list" where
  "counted_before = [(''a'', [(''vllm:prefix_cache_hits_total'', Fin 1), (''vllm:prefix_cache_queries_total'', Fin 2)])]"

definition counted_after :: "(string \<times> metrics) list" where
  "counted_after = [(''a'', [(''vllm:prefix_cache_hits_total'', Fin 4), (''vllm:prefix_cache_queries_total'', Fin 8)])]"

theorem window_evidence_sound_witness:
  "\<exists>w. summarize_vllm_window counted_before counted_after = Inr w \<and> bw_metric_quality w = ''ok''"
proof -
  have sums: "ws_usage (window_sums_of counted_before counted_after) = []" "ws_queues (window_sums_of counted_before counted_after) = []"
    by (simp_all add: window_sums_of_def counted_after_def add_backend_def add_counters_def add_gauges_def first_metric_def dhas_def
        no_sums_def split: option.split)
  have "\<exists>w. summarize_vllm_window counted_before counted_after = Inr w"
    by (auto simp: summarize_vllm_window_def Let_def sums mean_if_any_def fdiv_positive)
  then obtain w where w: "summarize_vllm_window counted_before counted_after = Inr w" ..
  have "list_all (\<lambda>(k, m). counted (dget_or counted_before k []) m) counted_after"
    by (simp add: counted_after_def counted_before_def counted_def went_back_def counters_def hits_of_def queries_of_def
        first_metric_def dhas_def dget_or_def dget_def) (auto simp: image_iff)
  then show ?thesis using window_evidence_sound [OF w] w by (auto simp: counted_after_def)
qed

text \<open>A world where nothing answers: every exchange is refused and every scrape fails.\<close>

definition silent_probe :: repetition_probe where
  "silent_probe = \<lparr>pb_before = (\<lambda>_. Inl (''ConnectError'', [])),
     pb_send = (\<lambda>_ _. \<lparr>xc_started = Fin 0, xc_response = Refused (''ConnectError'', []), xc_finished = Fin 1\<rparr>),
     pb_elapsed = Fin 1, pb_after = (\<lambda>_. Inl (''ConnectError'', []))\<rparr>"

definition silent_world :: eval_world where
  "silent_world = \<lparr>ew_families = (\<lambda>_. Inr []), ew_env = None, ew_draw = (\<lambda>_ _. 0), ew_probe = (\<lambda>_ _ _. silent_probe)\<rparr>"

definition silent_repetition :: "repetition \<Rightarrow> bool" where
  "silent_repetition rep \<longleftrightarrow> ss_throughput (rt_summary rep) = Fin 0 \<and> ss_error_rate (rt_summary rep) = Fin 1 \<and>
     ss_latency (rt_summary rep) = \<lparr>qs_p50 = None, qs_p95 = None, qs_p99 = None\<rparr> \<and>
     ss_ttft (rt_summary rep) = \<lparr>qs_p50 = None, qs_p95 = None, qs_p99 = None\<rparr> \<and>
     bw_kv_reuse_rate (rt_window rep) = None \<and> bw_gpu_kv_utilization (rt_window rep) = None \<and>
     bw_queue_depth (rt_window rep) = None"

lemma silent_scrape:
  "list_all (\<lambda>x. snd x = []) (fst (scrape_metrics families env bs (\<lambda>_. Inl e)))"
proof -
  have "list_all (\<lambda>x. snd x = []) (fst (fold (\<lambda>b (out, errors).
      case Inl e :: scrape of Inr t \<Rightarrow> (dset out (bs_id b) (aggregate_prometheus_text families env t None), errors)
      | Inl e \<Rightarrow> (dset out (bs_id b) [], dset errors (bs_id b) (exception_text e))) bs (out, er)))"
    if "list_all (\<lambda>x. snd x = []) out" for out :: "(string \<times> metrics) list" and er
    using that
  proof (induction bs arbitrary: out er)
    case (Cons b bs)
    have "list_all (\<lambda>x. snd x = []) (dset out (bs_id b) [])"
      using Cons.prems set_dset [of out "bs_id b" "[]"] by (auto simp: list_all_iff)
    then show ?case using Cons.IH by simp
  qed simp
  then show ?thesis by (simp add: scrape_metrics_def)
qed

lemma silent_window:
  assumes "list_all (\<lambda>x. snd x = []) after"
  shows "\<exists>w. summarize_vllm_window before after = Inr w \<and> bw_kv_reuse_rate w = None \<and> bw_gpu_kv_utilization w = None \<and>
    bw_queue_depth w = None"
proof -
  have "window_sums_of before after = no_sums"
    using assms unfolding window_sums_of_def
    by (induction after) (auto simp: add_backend_def add_counters_def add_gauges_def hits_of_def first_metric_def dhas_def)
  then show ?thesis by (simp add: summarize_vllm_window_def no_sums_def mean_if_any_def)
qed

lemma silent_run:
  assumes "w \<in> set default_workloads" "ec_requests c = 24"
  shows "\<exists>rep. run_repetition silent_world c t w r = Inr rep \<and> silent_repetition rep"
proof -
  have one: "\<exists>s. run_one (ew_draw silent_world) (pb_send silent_probe i) t c w j = Inr s \<and> \<not> sm_ok s" for i j
    using assms(1) by (auto simp: run_one_def build_workload_messages_def default_workloads_def silent_probe_def sample_of_def Let_def)
  let ?run = "\<lambda>i. run_one (ew_draw silent_world) (pb_send silent_probe (int r * ec_requests c + int i)) t c w
    (int r * ec_requests c + int i)"
  obtain samples where s: "mapR ?run [0..<nat (ec_requests c)] = Inr samples"
    using mapR_returns [of ?run "[0..<nat (ec_requests c)]"] one by blast
  have "list_all (\<lambda>s. \<not> sm_ok s) samples"
    by (rule mapR_Inr_all [OF s]) (metis one sum.inject(2))
  then have none: "filter sm_ok samples = []" by (auto simp: list_all_iff filter_empty_conv)
  have len: "length samples = 24" using mapR_Inr_length [OF s] assms(2) by simp
  have "fle (fl (1 / 10 ^ 9)) (Fin 1)" by (rule fl_le_1) simp
  then have "\<not> flt (Fin 1) (fl (1 / 10 ^ 9))" using flt_fle_trans flt_irrefl by blast
  then obtain sm where sm: "summarize_samples samples (Fin 1) = Inr sm" "ss_throughput sm = Fin 0" "ss_error_rate sm = Fin 1"
    "ss_latency sm = \<lparr>qs_p50 = None, qs_p95 = None, qs_p99 = None\<rparr>" "ss_ttft sm = \<lparr>qs_p50 = None, qs_p95 = None, qs_p99 = None\<rparr>"
    by (auto simp: summarize_samples_def none len Let_def quantiles_of_def gateway_percentile_def List.map_filter_def py_max_def
        fdiv_def feq_iff)
  obtain b eb a ea where sc: "scrape_metrics (ew_families silent_world) (ew_env silent_world) (ec_backends c) (pb_before silent_probe) = (b, eb)"
    "scrape_metrics (ew_families silent_world) (ew_env silent_world) (ec_backends c) (pb_after silent_probe) = (a, ea)"
    by fastforce
  have "list_all (\<lambda>x. snd x = []) a"
    using silent_scrape [of "ew_families silent_world" "ew_env silent_world" "ec_backends c" "(''ConnectError'', [])"] sc(2)
    by (simp add: silent_probe_def)
  then obtain w where w: "summarize_vllm_window b a = Inr w" "bw_kv_reuse_rate w = None" "bw_gpu_kv_utilization w = None" "bw_queue_depth w = None"
    using silent_window by blast
  have p: "ew_probe silent_world x y z = silent_probe" for x y z by (simp add: silent_world_def)
  have e: "pb_elapsed silent_probe = Fin 1" by (simp add: silent_probe_def)
  show ?thesis
    unfolding run_repetition_def p Let_def sc prod.case s e bindR_simps sm(1) w(1) silent_repetition_def
    using sm w by simp
qed

lemma constant_estimates:
  assumes "q \<in> {0, 1}" shows "\<exists>e. mean_ci95 (replicate 10 (Fin q)) = Inr e"
proof -
  have l: "ilog2 10 = 3" by (rule ilog2_unique) auto
  have "1 \<le> sqrt64 10" by (rule sqrt64_ge_1) (simp_all add: l)
  then obtain y where "fdiv (fmul (fl (49 / 25)) (Fin 0)) (Fin (sqrt64 10)) = Inr y" by (simp add: fdiv_def feq_iff)
  moreover have "stat_mean (replicate 10 (Fin q)) = Inr (Fin q)" using assms
    by (auto simp: stat_mean_def sum_list_replicate finite_part_def list_all_iff)
  moreover have "sqrt64 0 = 0" by (simp add: sqrt64_def)
  then have "checked_stdev (replicate 10 (Fin q)) = Inr (Fin 0)"
    by (simp add: checked_stdev_def stat_stdev_def sum_list_replicate finite_part_def list_all_iff Let_def)
  ultimately show ?thesis by (auto simp: mean_ci95_def)
qed

lemma silent_aggregate:
  assumes "list_all silent_repetition reps" "length reps = 10"
  shows "\<exists>a. aggregate_repetitions reps = Inr a"
proof -
  have const: "List.map_filter f reps = (case x of None \<Rightarrow> [] | Some y \<Rightarrow> replicate 10 y)"
    if "\<And>rep. silent_repetition rep \<Longrightarrow> f rep = x" for f and x :: "pyfloat option"
    unfolding assms(2) [symmetric] using that assms(1)
    by (induction reps) (auto simp: List.map_filter_def split: option.split)
  have est: "\<exists>e. estimate_of f reps = Inr e" if "\<And>rep. silent_repetition rep \<Longrightarrow> f rep = x" "x = None \<or> (\<exists>q \<in> {0, 1}. x = Some (Fin q))" for f x
    using const [OF that(1)] that(2) constant_estimates by (auto simp: estimate_of_def) (auto simp: mean_ci95_def)
  have 1: "\<exists>e. estimate_of (\<lambda>r. Some (ss_throughput (rt_summary r))) reps = Inr e"
    "\<exists>e. estimate_of (\<lambda>r. Some (ss_error_rate (rt_summary r))) reps = Inr e"
    by (rule est [where x = "Some (Fin 0)"], simp add: silent_repetition_def, simp)
      (rule est [where x = "Some (Fin 1)"], simp add: silent_repetition_def, simp)
  have 2: "\<exists>e. estimate_of (\<lambda>r. q (ss_latency (rt_summary r))) reps = Inr e" "\<exists>e. estimate_of (\<lambda>r. q (ss_ttft (rt_summary r))) reps = Inr e"
    if "q \<in> {qs_p50, qs_p95, qs_p99}" for q
    using that by (auto intro!: est [where x = None] simp: silent_repetition_def)
  have 3: "\<exists>e. estimate_of (\<lambda>r. bw_kv_reuse_rate (rt_window r)) reps = Inr e"
    "\<exists>e. estimate_of (\<lambda>r. bw_gpu_kv_utilization (rt_window r)) reps = Inr e" "\<exists>e. estimate_of (\<lambda>r. bw_queue_depth (rt_window r)) reps = Inr e"
    by (rule est [where x = None]; simp add: silent_repetition_def)+
  have bind: "\<exists>y. bindR m f = Inr y" if "\<exists>x. m = Inr x" "\<And>x. \<exists>y. f x = Inr y" for m :: "'x res" and f :: "'x \<Rightarrow> 'y res"
    using that by auto
  show ?thesis unfolding aggregate_repetitions_def Let_def
    by (intro bind 1 2 3) simp_all
qed

lemma turns_return:
  assumes "\<forall>(w, r, t) \<in> set turns. dget d (ts_strategy t, w) \<noteq> None \<and> (\<exists>rep. run_repetition wd c t w r = Inr rep)"
  shows "\<exists>d'. foldR (evaluation_turn wd c) turns d = Inr d'"
  using assms
proof (induction turns arbitrary: d)
  case (Cons x turns)
  obtain w r t where x: "x = (w, r, t)" by (cases x)
  obtain reps rep where r: "dget d (ts_strategy t, w) = Some reps" "run_repetition wd c t w r = Inr rep"
    using Cons.prems by (auto simp: x)
  then have "evaluation_turn wd c x d = Inr (dset d (ts_strategy t, w) (reps @ [rep]))" by (simp add: evaluation_turn_def x)
  moreover have "\<exists>d'. foldR (evaluation_turn wd c) turns (dset d (ts_strategy t, w) (reps @ [rep])) = Inr d'"
    by (rule Cons.IH) (use Cons.prems in \<open>auto simp: dget_dset\<close>)
  ultimately show ?case by simp
qed simp

lemma silent_evaluation:
  assumes "load_config urlparse environ loaded = Inr c" "ec_repetitions c = 10" "ec_requests c = 24" "\<exists>h. config_hash (ec_source c) = Inr h"
  shows "\<exists>e. run_evaluation silent_world c = Inr e"
proof -
  note l = load_configD [OF assms(1)]
  note t = load_targetsD [OF l(1)] and w = load_workloadsD [OF l(3)]
  let ?d = "fold (\<lambda>k d. dset d k []) (case_keys c) []"
  have "dget ?d (ts_strategy x, v) \<noteq> None \<and> (\<exists>rep. run_repetition silent_world c x v r = Inr rep)"
    if "(v, r, x) \<in> set (evaluation_turns c)" for v r x
  proof -
    have x: "x \<in> set (ec_targets c)" "v \<in> set (ec_workloads c)"
      using that by (auto simp: evaluation_turns_def balanced_target_order_rotate)
    then have "(ts_strategy x, v) \<in> set (case_keys c)" by (auto simp: case_keys_def)
    then show ?thesis using empty_cases [of "(ts_strategy x, v)" "case_keys c"] silent_run [OF _ assms(3)] x w by force
  qed
  then obtain d where d: "foldR (evaluation_turn silent_world c) (evaluation_turns c) ?d = Inr d"
    using turns_return [of "evaluation_turns c" ?d silent_world c] by blast
  have "\<exists>r. case_result_of d k = Inr r" if k: "k \<in> set (case_keys c)" for k
  proof -
    obtain x v where x: "x \<in> set (ec_targets c)" "v \<in> set (ec_workloads c)" "k = (ts_strategy x, v)"
      using k by (auto simp: case_keys_def)
    obtain new where new: "dget d k = Some new"
      "mapR (\<lambda>(w, r, t). run_repetition silent_world c t w r) (map (\<lambda>r. (v, r, x)) [0..<nat (ec_repetitions c)]) = Inr new"
      using turns_collect [OF d empty_cases [OF k]] turns_of_case [OF t(1) _ x(1,2)] w unfolding x(3) by auto
    have "v \<in> set default_workloads" using x(2) w by simp
    have "silent_repetition rep" if rep: "rep \<in> set new" for rep
    proof -
      obtain r where r: "run_repetition silent_world c x v r = Inr rep" using mapR_Inr_set [OF new(2) rep] by auto
      then show ?thesis using silent_run [OF \<open>v \<in> set default_workloads\<close> assms(3), of x r] by simp
    qed
    then have "list_all silent_repetition new" by (simp add: list_all_iff)
    moreover have "length new = 10" using mapR_Inr_length [OF new(2)] assms(2) by simp
    ultimately obtain a where "aggregate_repetitions new = Inr a" using silent_aggregate by blast
    then show ?thesis using new(1) by (simp add: case_result_of_def)
  qed
  then obtain rs where rs: "mapR (case_result_of d) (case_keys c) = Inr rs" using mapR_returns [of "case_result_of d" "case_keys c"] by metis
  obtain h where h: "config_hash (ec_source c) = Inr h" using assms(4) ..
  show ?thesis unfolding run_evaluation_def d rs h bindR_simps by blast
qed

theorem evaluation_accounts_witness:
  "\<exists>c e. load_config sample_urlparse [] (VDict sample_source) = Inr c \<and> run_evaluation silent_world c = Inr e \<and>
     length (eo_results e) = 20 \<and> list_all (\<lambda>r. length (cs_repetitions r) = 10) (eo_results e)"
proof -
  obtain c where c: "load_config sample_urlparse [] (VDict sample_source) = Inr c" "ec_repetitions c = 10" "ec_requests c = 24"
    "ec_source c = sample_source" using sample_config by blast
  then obtain e where e: "run_evaluation silent_world c = Inr e" using silent_evaluation sample_hash by metis
  note a = evaluation_accounts [OF c(1) e]
  have "length (cs_repetitions r) = 10" if "measured_case silent_world c t w r" for t w r
    using that c(2) by (auto simp: measured_case_def dest: list_all2_lengthD)
  then have "list_all (\<lambda>r. length (cs_repetitions r) = 10) (eo_results e)"
    using a by (fastforce simp: list_all2_conv_all_nth list_all_length case_prod_beta)
  with c(1) e a show ?thesis by blast
qed

end
