(* ===== verification/Threshold.thy ===== *)
theory Threshold
  imports Policy
begin

text \<open>
  The scan of \<open>scripts/plot_threshold_curve.py\<close>: the list of thresholds, built by a loop that adds a
  floating-point step and that does not end for every step, and the comparison of the two policies at
  each threshold.  The CSV file and the series of the plots are in theory ThresholdFiles.
\<close>

section \<open>The thresholds\<close>

partial_function (option) frange_loop :: "pyfloat \<Rightarrow> pyfloat \<Rightarrow> pyfloat \<Rightarrow> pyfloat list \<Rightarrow> pyfloat list option" where
  "frange_loop limit step x vals =
     (if fle x limit then frange_loop limit step (fadd x step) (vals @ [py_round 2 x]) else Some vals)"

definition frange :: "pyfloat \<Rightarrow> pyfloat \<Rightarrow> pyfloat \<Rightarrow> pyfloat list option" where
  "frange start stop step = frange_loop (fadd stop (fl (1 / 10 ^ 9))) step start []"

section \<open>The rows\<close>

record threshold_row =
  tr_min_hit :: pyfloat
  tr_scenario :: string
  tr_comparison :: comparison

definition threshold_rows :: "policy \<Rightarrow> pyval \<Rightarrow> pyfloat list \<Rightarrow> threshold_row list res" where
  "threshold_rows p document thresholds =
     mapR (\<lambda>(t, scenario). bindR (scenario_runs document scenario) (\<lambda>runs. bindR (compare_runs p t runs) (\<lambda>c.
             Inr \<lparr>tr_min_hit = t, tr_scenario = scenario, tr_comparison = c\<rparr>)))
       (concat (map (\<lambda>t. map (\<lambda>s. (t, s)) [''low_reuse'', ''high_reuse'']) thresholds))"

text \<open>The whole scan; \<open>None\<close> when the loop never ends.\<close>

definition threshold_scan :: "policy \<Rightarrow> pyval \<Rightarrow> pyfloat \<Rightarrow> pyfloat \<Rightarrow> pyfloat \<Rightarrow> threshold_row list res option" where
  "threshold_scan p document start stop step = map_option (threshold_rows p document) (frange start stop step)"

section \<open>Progress of the loop\<close>

text \<open>A step that is not lost in the rounding moves \<open>x\<close> by at least half of it.\<close>

lemma fadd_progress:
  assumes "0 < d" "\<bar>x\<bar> + d \<le> 2 ^ 51 * d" "\<bar>x\<bar> + d \<le> 2 ^ 1000" "2 powi (- 1000) \<le> d"
  shows "\<exists>y. fadd (Fin x) (Fin d) = Fin y \<and> x + d / 2 \<le> y \<and> y \<le> x + 2 * d"
proof -
  have a: "\<bar>x + d\<bar> \<le> \<bar>x\<bar> + d" using assms(1) by simp
  have "\<bar>x + d\<bar> / 2 ^ 53 \<le> d / 4" using a assms(2) by simp
  moreover have "2 powi (- 1075) \<le> d / 4"
  proof -
    have "(2::rat) powi (- 1075) \<le> 2 powi (- 1002)" by (intro power_int_increasing) auto
    also have "\<dots> = 2 powi (- 1000) / 4" using power_int_diff [of "2::rat" "- 1000" 2] by simp
    finally show ?thesis using assms(4) by linarith
  qed
  ultimately have e: "\<bar>rnd64 (x + d) - (x + d)\<bar> \<le> d / 2" using rnd64_error [of "x + d"] by linarith
  have big: "2 * (2::rat) ^ 1000 < 2 ^ 1024" by simp
  have "\<bar>rnd64 (x + d)\<bar> \<le> \<bar>x + d\<bar> + d / 2" using e by linarith
  also have "\<dots> \<le> 2 * 2 ^ 1000" using a assms(1,3) by linarith
  finally have "\<bar>rnd64 (x + d)\<bar> < 2 ^ 1024" using big by (rule le_less_trans)
  then have "fadd (Fin x) (Fin d) = Fin (rnd64 (x + d))" by (simp add: fl_def Let_def abs_less_iff)
  moreover have "x + d / 2 \<le> rnd64 (x + d)" "rnd64 (x + d) \<le> x + 2 * d" using e assms(1) by linarith+
  ultimately show ?thesis by blast
qed

text \<open>From within \<open>n\<close> half steps of the limit the loop ends in at most \<open>n\<close> turns.\<close>

lemma frange_loop_ends:
  assumes "0 < d" "2 powi (- 1000) \<le> d" "\<bar>a\<bar> + \<bar>l\<bar> + d \<le> 2 ^ 51 * d" "\<bar>a\<bar> + \<bar>l\<bar> + d \<le> 2 ^ 1000"
  shows "a \<le> x \<Longrightarrow> l - x < of_nat n * (d / 2) \<Longrightarrow>
    \<exists>ys. frange_loop (Fin l) (Fin d) (Fin x) vals = Some (vals @ ys) \<and> length ys \<le> n"
proof (induction n arbitrary: x vals)
  case 0
  then show ?case by (subst frange_loop.simps) auto
next
  case (Suc n)
  show ?case
  proof (cases "x \<le> l")
    case True
    have "\<bar>x\<bar> \<le> \<bar>a\<bar> + \<bar>l\<bar>" using True Suc.prems(1) by linarith
    then obtain y where y: "fadd (Fin x) (Fin d) = Fin y" "x + d / 2 \<le> y"
      using fadd_progress [of d x] assms by force
    have "a \<le> y" using y(2) Suc.prems(1) assms(1) by linarith
    moreover have "l - y < of_nat n * (d / 2)" using y(2) Suc.prems(2) by (simp add: algebra_simps)
    ultimately obtain ys where "frange_loop (Fin l) (Fin d) (Fin y) (vals @ [py_round 2 (Fin x)]) =
        Some ((vals @ [py_round 2 (Fin x)]) @ ys)" "length ys \<le> n"
      using Suc.IH by blast
    then show ?thesis using True y(1)
      by (subst frange_loop.simps) (auto intro!: exI [of _ "py_round 2 (Fin x) # ys"])
  next
    case False
    then show ?thesis by (subst frange_loop.simps) auto
  qed
qed

text \<open>A step that the sum absorbs keeps the loop running: it has no result.\<close>

lemma frange_loop_stuck:
  "frange_loop limit step x vals = Some ys \<Longrightarrow> \<not> (fadd x step = x \<and> fle x limit)"
proof -
  define P where "P = (\<lambda>(limit :: pyfloat) step x (vals :: pyfloat list) (ys :: pyfloat list). \<not> (fadd x step = x \<and> fle x limit))"
  have turn: "P limit step x vals ys"
    if "\<And>limit step x vals ys. loop limit step x vals = Some ys \<Longrightarrow> P limit step x vals ys"
      "(if fle x limit then loop limit step (fadd x step) (vals @ [py_round 2 x]) else Some vals) = Some ys"
    for loop limit step x vals ys
    using that(2) that(1) [of limit step "fadd x step" "vals @ [py_round 2 x]" ys] by (auto simp: P_def split: if_splits)
  assume run: "frange_loop limit step x vals = Some ys"
  have "P limit step x vals ys"
    by (rule frange_loop.raw_induct [where P = P and xa = "(((limit, step), x), vals)" and y = ys, unfolded prod.case])
       (erule turn, assumption, rule run)
  then show ?thesis by (simp add: P_def)
qed

section \<open>Properties\<close>

text \<open>
  Property C40.  The scan's loop ends whenever its step is positive and not lost against the bounds in the
  rounding: it returns at most two thresholds per step between the bounds and one more.
\<close>

theorem frange_terminates:
  assumes "fadd stop (fl (1 / 10 ^ 9)) = Fin l" and "0 < d" and "2 powi (- 1000) \<le> d"
    and "\<bar>a\<bar> + \<bar>l\<bar> + d \<le> 2 ^ 51 * d" and "\<bar>a\<bar> + \<bar>l\<bar> + d \<le> 2 ^ 1000"
  shows "\<exists>ts. frange (Fin a) stop (Fin d) = Some ts \<and> length ts \<le> nat (\<lfloor>2 * (l - a) / d\<rfloor> + 1)"
proof -
  define n where "n = nat (\<lfloor>2 * (l - a) / d\<rfloor> + 1)"
  have "2 * (l - a) / d < of_int (\<lfloor>2 * (l - a) / d\<rfloor> + 1)" using floor_correct by blast
  also have "\<dots> \<le> of_nat n" unfolding n_def by (metis of_int_le_iff of_int_of_nat_eq int_nat_eq linorder_not_le nat_le_iff order.refl order_less_imp_le)
  finally have "l - a < of_nat n * (d / 2)" using assms(2) by (simp add: field_simps)
  from frange_loop_ends [OF assms(2-5) order_refl this, of "[]"] assms(1) show ?thesis
    by (auto simp: frange_def n_def)
qed

text \<open>A step of zero, which the command line accepts, makes it run for ever.\<close>

theorem frange_zero_step_diverges:
  assumes "is_f64 (Fin a)" and "fle (Fin a) (fadd stop (fl (1 / 10 ^ 9)))"
  shows "frange (Fin a) stop (Fin 0) = None"
proof -
  have "fadd (Fin a) (Fin 0) = Fin a" using fl_exact [OF assms(1)] by simp
  with assms(2) frange_loop_stuck show ?thesis unfolding frange_def by (metis not_None_eq)
qed

theorem frange_terminates_witness:
  "\<exists>ts. frange (Fin 0) (Fin 1) (Fin 1) = Some ts \<and> length ts \<le> 5"
proof -
  have "fle (Fin 1) (fl (1 + 1))" using fl_mono [of 1 "1 + 1"] by simp
  have e: "fle (Fin 0) (fl (1 / 10 ^ 9))" "fle (fl (1 / 10 ^ 9)) (Fin 1)"
    using fl_nonneg [of "1 / 10 ^ 9"] fl_le_1 [of "1 / 10 ^ 9"] by simp_all
  then obtain q where q: "fl (1 / 10 ^ 9) = Fin q" "0 \<le> q" "q \<le> 1" by (cases "fl (1 / 10 ^ 9)") auto
  have two: "fl 2 = Fin 2" by (simp add: float_simps)
  obtain l where l: "fl (1 + q) = Fin l" "1 \<le> l" "l \<le> 2"
    using fl_mono [of 1 "1 + q"] fl_mono [of "1 + q" 2] q two by (cases "fl (1 + q)") auto
  have "(2::rat) powi (- 1000) \<le> 2 powi 0" by (intro power_int_increasing) auto
  moreover have "fadd (Fin 1) (fl (1 / 10 ^ 9)) = Fin l" using q(1) l(1) by simp
  moreover have "\<bar>0\<bar> + \<bar>l\<bar> + 1 \<le> 2 ^ 1000" "\<bar>0\<bar> + \<bar>l\<bar> + 1 \<le> 2 ^ 51 * 1" using l by simp_all
  ultimately obtain ts where "frange (Fin 0) (Fin 1) (Fin 1) = Some ts" "length ts \<le> nat (\<lfloor>2 * (l - 0) / 1\<rfloor> + 1)"
    using frange_terminates [of "Fin 1" l 1 0] by auto
  moreover have "\<lfloor>2 * (l - 0) / 1\<rfloor> \<le> 4" using l by (simp add: floor_le_iff)
  then have "nat (\<lfloor>2 * (l - 0) / 1\<rfloor> + 1) \<le> nat 5" by (intro nat_mono) linarith
  ultimately show ?thesis by (intro exI [of _ ts]) linarith
qed

end
