(* ===== verification/FinalReport.thy ===== *)
theory FinalReport
  imports Threshold Markdown
begin

text \<open>
  \<open>scripts/generate_final_report.py\<close>: the final report of an experiment from the documents of the reuse
  experiment, the baseline comparison, the threshold scan and the capacity sweep, the last three optional.
  Only the English text (\<open>lang\<close> other than \<open>zh\<close>) is represented.  The documents are those
  \<open>json.loads\<close> returned.
\<close>

section \<open>Formatting\<close>

definition fmt_float :: "pyval \<Rightarrow> string res" where
  "fmt_float v = (if v = VNone then Inr ''NA'' else bindR (py_float v) (\<lambda>x. Inr (fixed_str 4 x)))"

definition fmt_count_coverage :: "pyval \<Rightarrow> string \<Rightarrow> string \<Rightarrow> string res" where
  "fmt_count_coverage item count_key total_key =
     bindR (vget item total_key VNone) (\<lambda>t. bindR (vget item count_key VNone) (\<lambda>c.
     if t = VNone \<or> c = VNone then Inr ''NA''
     else bindR (py_int t) (\<lambda>n.
       if n \<le> 0 then Inr ''NA'' else bindR (py_int c) (\<lambda>k. Inr (int_str k @ ''/'' @ int_str n)))))"

definition fmt_metric_coverage :: "pyval \<Rightarrow> string \<Rightarrow> string res" where
  "fmt_metric_coverage item total_key = fmt_count_coverage item ''num_runs_ok_metrics'' total_key"

text \<open>\<open>_fmt_float(item.get(key))\<close>.\<close>

definition float_field :: "pyval \<Rightarrow> string \<Rightarrow> string res" where
  "float_field item key = bindR (vget item key VNone) fmt_float"

text \<open>\<open>doc.get(k1, {}).get(k2, {})...\<close>.\<close>

fun get_path :: "string list \<Rightarrow> pyval \<Rightarrow> pyval res" where
  "get_path [] v = Inr v"
| "get_path (k # ks) v = bindR (vget v k (VDict [])) (get_path ks)"

definition both_scenarios :: "string list" where
  "both_scenarios = [''low_reuse'', ''high_reuse'']"

section \<open>The threshold that keeps the dual capacity\<close>

definition threshold_doc_rows :: "pydict \<Rightarrow> pyval list res" where
  "threshold_doc_rows d = py_iter (dget_or d ''rows'' (VList []))"

definition rows_of_scenario :: "string \<Rightarrow> pyval list \<Rightarrow> pyval list res" where
  "rows_of_scenario scenario = filterR (\<lambda>row. bindR (vget row ''scenario'' VNone) (\<lambda>v. Inr (py_str v = scenario)))"

definition max_or_none :: "pyfloat list \<Rightarrow> pyval" where
  "max_or_none xs = (case xs of [] \<Rightarrow> VNone | y # ys \<Rightarrow> VFloat (foldl py_max y ys))"

definition positive_threshold :: "pyval list \<Rightarrow> pyval res" where
  "positive_threshold rows =
     bindR (filterR (\<lambda>row. bindR (vget row ''dual_rps'' (VFloat (Fin 0))) (\<lambda>v. bindR (py_float v) (\<lambda>x. Inr (flt (Fin 0) x)))) rows)
     (\<lambda>dual_positive.
     bindR (mapR (\<lambda>row. bindR (vitem row ''min_hit_ratio'') py_float) dual_positive) (\<lambda>xs. Inr (max_or_none xs)))"

definition kept_threshold :: "pydict \<Rightarrow> string \<Rightarrow> pyval res" where
  "kept_threshold d scenario =
     bindR (threshold_doc_rows d) (\<lambda>rows. bindR (rows_of_scenario scenario rows) positive_threshold)"

section \<open>The points of a capacity sweep\<close>

definition capacity_scenario :: "pydict \<Rightarrow> string \<Rightarrow> pyval res" where
  "capacity_scenario d scenario = get_path [''ranking'', ''by_scenario'', scenario] (VDict d)"

definition concurrency_of :: "pyval \<Rightarrow> string res" where
  "concurrency_of point =
     (if point = VNone then Inr ''NA''
      else bindR (vitem point ''concurrency'') (\<lambda>v. bindR (py_int v) (\<lambda>n. Inr (int_str n))))"

definition point_float :: "pyval \<Rightarrow> string \<Rightarrow> string res" where
  "point_float point key = (if point = VNone then fmt_float VNone else float_field point key)"

definition with_points :: "pyval \<Rightarrow> (pyval \<Rightarrow> pyval \<Rightarrow> 'a res) \<Rightarrow> 'a res" where
  "with_points item f =
     bindR (vget item ''highest_feasible_point'' VNone) (\<lambda>highest. bindR (vget item ''best_safe_point'' VNone) (f highest))"

section \<open>Decision summary\<close>

definition decision_baseline :: "pydict option \<Rightarrow> string res" where
  "decision_baseline baseline_doc =
     (case baseline_doc of
        None \<Rightarrow> Inr (''- Near-term recommendation: use this report to compare baseline throughput and '' @
                  ''cache-aware safety margins before setting a serving default.'')
      | Some d \<Rightarrow>
          bindR (get_path [''scenarios'', ''high_reuse''] (VDict d)) (\<lambda>high.
          fill [''- Near-term recommendation: prioritize the high_reuse operating region, where baseline capacity is `'',
                ''` and dual-boundary capacity is `'', ''`.'']
            [float_field high ''baseline_hard_only_recommended_rps'', float_field high ''dual_boundary_recommended_rps'']))"

definition decision_capacity :: "pydict \<Rightarrow> string res" where
  "decision_capacity d =
     bindR (capacity_scenario d ''high_reuse'') (\<lambda>high. with_points high (\<lambda>highest best_safe.
     fill [''- Capacity decision: treat concurrency `'', ''` as the highest feasible target and concurrency `'',
           ''` as the safer operating point for high_reuse.'']
       [concurrency_of highest, concurrency_of best_safe]))"

definition decision_threshold :: "pydict \<Rightarrow> string res" where
  "decision_threshold d =
     bindR (kept_threshold d ''high_reuse'') (\<lambda>m.
     fill [''- Policy decision: keep `min_hit_ratio` at or below `'',
           ''` if you want cache-aware policy constraints without collapsing dual capacity in high_reuse.''] [fmt_float m])"

definition opt_line :: "('a \<Rightarrow> string res) \<Rightarrow> 'a option \<Rightarrow> string list res" where
  "opt_line f d = (case d of None \<Rightarrow> Inr [] | Some x \<Rightarrow> bindR (f x) (\<lambda>s. Inr [s]))"

definition decision_summary :: "pydict option \<Rightarrow> pydict option \<Rightarrow> pydict option \<Rightarrow> string list res" where
  "decision_summary baseline_doc threshold_doc capacity_doc =
     bindR (decision_baseline baseline_doc) (\<lambda>b.
     bindR (opt_line decision_capacity capacity_doc) (\<lambda>c.
     bindR (opt_line decision_threshold threshold_doc) (\<lambda>t.
     Inr ([''## Decision Summary'', [], b] @ c @ t @ [[]]))))"

section \<open>Context and setup\<close>

definition project_context :: "pydict \<Rightarrow> string list res" where
  "project_context reuse_doc =
     bindR (vitem (VDict reuse_doc) ''meta'') (\<lambda>m1.
     bindR (fill [''- Backend entrypoint: `'', ''`.''] [text_field m1 ''base_url'' ''unknown'']) (\<lambda>entry.
     bindR (fill [''- Model under test: `'', ''`.''] [text_field m1 ''model'' ''unknown'']) (\<lambda>model.
     Inr [''## Project Context'', [],
          ''- Objective: evaluate whether KV cache reuse signals are strong enough to support cache-aware serving '' @
            ''recommendations, not just raw throughput comparison.'',
          ''- Scope: local offline experiments over reuse scenarios, threshold scans, and capacity sweep points, using '' @
            ''the repository's exporter + benchmark + planner chain.'',
          entry, model, []])))"

text \<open>\<open>",".join(...) or "NA"\<close>: of strings, which have to be strings, and of the texts of any values.\<close>

definition str_of :: "pyval \<Rightarrow> string res" where
  "str_of v = (case v of VStr s \<Rightarrow> Inr s | _ \<Rightarrow> Inl TypeError)"

definition joined :: "(pyval \<Rightarrow> string res) \<Rightarrow> pyval \<Rightarrow> string res" where
  "joined f v = bindR (py_iter v) (\<lambda>xs. bindR (mapR f xs) (\<lambda>ss. Inr (if join '','' ss = [] then ''NA'' else join '','' ss)))"

definition setup_capacity :: "pydict \<Rightarrow> string res" where
  "setup_capacity d =
     bindR (vget (VDict d) ''meta'' (VDict [])) (\<lambda>m.
     fill [''- Capacity sweep: scenarios `'', ''`, concurrency_values `'', ''`, repeats `'', ''`.'']
       [bindR (vget m ''scenarios'' (VList [])) (joined str_of),
        bindR (vget m ''concurrency_values'' (VList [])) (joined (\<lambda>v. Inr (py_str v))), text_field m ''repeats'' ''NA''])"

definition experiment_setup :: "pydict \<Rightarrow> pydict option \<Rightarrow> string list res" where
  "experiment_setup reuse_doc capacity_doc =
     bindR (vget (VDict reuse_doc) ''meta'' (VDict [])) (\<lambda>m.
     bindR (fill [''- Reuse experiment: repeats `'', ''`, concurrency `'', ''`, num_requests `'', ''`, input_len `'',
                  ''`, output_len `'', ''`.'']
              [text_field m ''repeats'' ''NA'', text_field m ''concurrency'' ''NA'', text_field m ''num_requests'' ''NA'',
               text_field m ''input_len'' ''NA'', text_field m ''output_len'' ''NA'']) (\<lambda>a.
     bindR (fill [''- Metrics source: backend metrics `'', ''` and exporter metrics `'', ''`.'']
              [text_field m ''backend_metrics_url'' ''unknown'', text_field m ''exporter_metrics_url'' ''unknown'']) (\<lambda>b.
     bindR (opt_line setup_capacity capacity_doc) (\<lambda>c.
     Inr ([''## Experiment Setup'', [], a, b] @ c @ [[]])))))"

section \<open>Executive summary and findings\<close>

definition reuse_aggregates :: "pydict \<Rightarrow> string \<Rightarrow> pyval res" where
  "reuse_aggregates reuse_doc scenario = get_path [''aggregates'', scenario] (VDict reuse_doc)"

definition quality_of :: "pyval \<Rightarrow> pyval res" where
  "quality_of agg = vget agg ''quality_summary'' (VDict [])"

definition quality_text :: "pyval \<Rightarrow> string res" where
  "quality_text agg = bindR (quality_of agg) (\<lambda>q. text_field q ''metric_quality'' ''missing'')"

definition coverage_text :: "pyval \<Rightarrow> string res" where
  "coverage_text agg = bindR (quality_of agg) (\<lambda>q. fmt_metric_coverage q ''total_runs'')"

text \<open>The fields are evaluated in the order of the keyword arguments, which is not that of the text.\<close>

definition reuse_headline :: "pyval \<Rightarrow> pyval \<Rightarrow> string res" where
  "reuse_headline low high =
     bindR (float_field low ''req_s_mean'') (\<lambda>low_req. bindR (float_field high ''req_s_mean'') (\<lambda>high_req.
     bindR (float_field low ''hit_ratio_mean'') (\<lambda>low_hit. bindR (float_field high ''hit_ratio_mean'') (\<lambda>high_hit.
     bindR (quality_text low) (\<lambda>low_quality. bindR (quality_text high) (\<lambda>high_quality.
     bindR (coverage_text low) (\<lambda>low_cov. bindR (coverage_text high) (\<lambda>high_cov.
     Inr (''- Reuse experiment headline: low_reuse req/s mean `'' @ low_req @ ''` vs high_reuse req/s mean `'' @ high_req @
          ''`; low_reuse hit_ratio mean `'' @ low_hit @ ''` (quality `'' @ low_quality @ ''`, ok runs `'' @ low_cov @
          ''`) vs high_reuse hit_ratio mean `'' @ high_hit @ ''` (quality `'' @ high_quality @ ''`, ok runs `'' @ high_cov @
          ''`).'')))))))))"

definition policy_headline :: "pydict \<Rightarrow> string res" where
  "policy_headline d =
     bindR (get_path [''scenarios'', ''high_reuse''] (VDict d)) (\<lambda>high.
     fill [''- Policy headline: high_reuse baseline `'', ''` vs dual `'', ''` with delta `'', ''`.'']
       [float_field high ''baseline_hard_only_recommended_rps'', float_field high ''dual_boundary_recommended_rps'',
        float_field high ''delta_dual_minus_baseline''])"

definition threshold_headline :: "pydict \<Rightarrow> string res" where
  "threshold_headline d =
     bindR (kept_threshold d ''high_reuse'') (\<lambda>m.
     fill [''- Threshold headline: the highest threshold that still preserves dual capacity in high_reuse is `'', ''`.'']
       [fmt_float m])"

definition capacity_headline :: "pydict \<Rightarrow> string res" where
  "capacity_headline d =
     bindR (capacity_scenario d ''high_reuse'') (\<lambda>cap. with_points cap (\<lambda>highest best_safe.
     fill [''- Capacity headline: high_reuse highest feasible point is concurrency `'', ''` at req/s mean `'',
           ''`; best safe point is concurrency `'', ''` at dual RPS `'', ''`.'']
       [concurrency_of highest, point_float highest ''req_s_mean'', concurrency_of best_safe,
        point_float best_safe ''dual_boundary_recommended_rps'']))"

definition executive_summary ::
  "pydict \<Rightarrow> pydict option \<Rightarrow> pydict option \<Rightarrow> pydict option \<Rightarrow> string list res" where
  "executive_summary reuse_doc baseline_doc threshold_doc capacity_doc =
     bindR (reuse_aggregates reuse_doc ''low_reuse'') (\<lambda>low. bindR (reuse_aggregates reuse_doc ''high_reuse'') (\<lambda>high.
     bindR (reuse_headline low high) (\<lambda>headline.
     bindR (opt_line policy_headline baseline_doc) (\<lambda>b. bindR (opt_line threshold_headline threshold_doc) (\<lambda>t.
     bindR (opt_line capacity_headline capacity_doc) (\<lambda>c.
     Inr ([''## Executive Summary'', [],
           ''- This report consolidates reuse behavior, baseline-vs-dual policy comparison, threshold sensitivity, and '' @
             ''capacity sweep recommendations.'', headline] @ b @ t @ c @ [[]])))))))"

definition policy_gap :: "pydict \<Rightarrow> string \<Rightarrow> string res" where
  "policy_gap d scenario =
     bindR (get_path [''scenarios'', scenario] (VDict d)) (\<lambda>item.
     fill [''- '' @ scenario @ '' policy gap: baseline `'', ''`, dual `'', ''`, delta `'', ''`, source `'', ''`.'']
       [float_field item ''baseline_hard_only_recommended_rps'', float_field item ''dual_boundary_recommended_rps'',
        float_field item ''delta_dual_minus_baseline'', text_field item ''hit_ratio_source'' ''missing''])"

definition threshold_resilience :: "pydict \<Rightarrow> string \<Rightarrow> string res" where
  "threshold_resilience d scenario =
     bindR (kept_threshold d scenario) (\<lambda>m.
     fill [''- '' @ scenario @ '' threshold resilience: max threshold with dual > 0 is `'', ''`.''] [fmt_float m])"

definition capacity_finding :: "pydict \<Rightarrow> string \<Rightarrow> string res" where
  "capacity_finding d scenario =
     bindR (capacity_scenario d scenario) (\<lambda>item. with_points item (\<lambda>highest best_safe.
     fill [''- '' @ scenario @ '' capacity recommendation: highest feasible concurrency `'', ''`, best safe concurrency `'', ''`.'']
       [concurrency_of highest, concurrency_of best_safe]))"

definition scenario_lines :: "(pydict \<Rightarrow> string \<Rightarrow> string res) \<Rightarrow> pydict option \<Rightarrow> string list res" where
  "scenario_lines f d = (case d of None \<Rightarrow> Inr [] | Some x \<Rightarrow> mapR (f x) both_scenarios)"

definition benefit_finding :: "pyval \<Rightarrow> pyval \<Rightarrow> string res" where
  "benefit_finding low high =
     fill [''- High reuse delivers stronger cache benefit signals than low reuse, reflected by hit_ratio mean `'', ''` vs `'', ''`.'']
       [float_field high ''hit_ratio_mean'', float_field low ''hit_ratio_mean'']"

definition throughput_finding :: "pyval \<Rightarrow> pyval \<Rightarrow> string res" where
  "throughput_finding low high =
     fill [''- Throughput stays competitive across reuse scenarios, with req/s mean `'', ''` for low_reuse and `'',
           ''` for high_reuse.''] [float_field low ''req_s_mean'', float_field high ''req_s_mean'']"

definition key_findings ::
  "pydict \<Rightarrow> pydict option \<Rightarrow> pydict option \<Rightarrow> pydict option \<Rightarrow> string list res" where
  "key_findings reuse_doc baseline_doc threshold_doc capacity_doc =
     bindR (reuse_aggregates reuse_doc ''low_reuse'') (\<lambda>low. bindR (reuse_aggregates reuse_doc ''high_reuse'') (\<lambda>high.
     bindR (benefit_finding low high) (\<lambda>f1. bindR (throughput_finding low high) (\<lambda>f2.
     bindR (scenario_lines policy_gap baseline_doc) (\<lambda>b. bindR (scenario_lines threshold_resilience threshold_doc) (\<lambda>t.
     bindR (scenario_lines capacity_finding capacity_doc) (\<lambda>c.
     Inr ([''## Key Findings'', [], f1, f2] @ b @ t @ c @ [[]]))))))))"

section \<open>Tables\<close>

definition reuse_head :: "pydict \<Rightarrow> string list res" where
  "reuse_head reuse_doc =
     bindR (vitem (VDict reuse_doc) ''meta'') (\<lambda>m.
     bindR (fill [''- base_url: `'', ''`''] [item_text m ''base_url'']) (\<lambda>b.
     bindR (fill [''- model: `'', ''`''] [item_text m ''model'']) (\<lambda>model.
     bindR (fill [''- repeats: `'', ''`''] [item_text m ''repeats'']) (\<lambda>r.
     Inr [''## Reuse Summary'', [], b, model, r, [],
          ''| Scenario | req/s mean | e2e p95 mean(ms) | hit_ratio mean | metric_quality | ok runs | prefix_check | '' @
            ''strict runs | token fallback runs | hit_ratio_source |'',
          ''|---|---:|---:|---:|---|---:|---|---:|---:|---|'']))))"

definition reuse_row :: "pydict \<Rightarrow> string \<Rightarrow> string res" where
  "reuse_row reuse_doc scenario =
     bindR (reuse_aggregates reuse_doc scenario) (\<lambda>agg. bindR (quality_of agg) (\<lambda>q.
     table_row [Inr scenario, float_field agg ''req_s_mean'', float_field agg ''e2e_p95_ms_mean'',
       float_field agg ''hit_ratio_mean'', text_field q ''metric_quality'' ''missing'', fmt_metric_coverage q ''total_runs'',
       text_field q ''prefix_metric_check'' ''missing'', fmt_count_coverage q ''num_runs_prefix_metric_strict'' ''total_runs'',
       fmt_count_coverage q ''num_runs_prefix_metric_token_fallback'' ''total_runs'',
       text_field q ''hit_ratio_source'' ''missing'']))"

definition reuse_section :: "pydict \<Rightarrow> string list res" where
  "reuse_section reuse_doc =
     bindR (reuse_head reuse_doc) (\<lambda>h. bindR (mapR (reuse_row reuse_doc) both_scenarios) (\<lambda>rows. Inr (h @ rows @ [[]])))"

definition quality_cells :: "pyval \<Rightarrow> string res list" where
  "quality_cells item =
     [text_field item ''prefix_metric_check'' ''missing'',
      fmt_count_coverage item ''num_runs_prefix_metric_strict'' ''num_runs'',
      fmt_count_coverage item ''num_runs_prefix_metric_token_fallback'' ''num_runs'']"

definition baseline_row :: "pydict \<Rightarrow> string \<Rightarrow> string res" where
  "baseline_row d scenario =
     bindR (get_path [''scenarios'', scenario] (VDict d)) (\<lambda>item.
     table_row ([Inr scenario, float_field item ''baseline_hard_only_recommended_rps'',
       float_field item ''dual_boundary_recommended_rps'', float_field item ''delta_dual_minus_baseline'',
       text_field item ''metric_quality'' ''missing'', fmt_metric_coverage item ''num_runs''] @ quality_cells item @
       [text_field item ''hit_ratio_source'' ''missing'']))"

definition baseline_section :: "pydict \<Rightarrow> string list res" where
  "baseline_section d =
     bindR (mapR (baseline_row d) both_scenarios) (\<lambda>rows.
     Inr ([''## Baseline Compare'', [],
           ''| Scenario | baseline_rps | dual_rps | delta | metric_quality | ok runs | prefix_check | strict runs | '' @
             ''token fallback runs | hit_ratio_source |'',
           ''|---|---:|---:|---:|---|---:|---|---:|---:|---|''] @ rows @ [[]]))"

text \<open>The rows of a scenario, each of which has to name one.\<close>

definition grouped_rows :: "pyval list \<Rightarrow> string \<Rightarrow> pyval list res" where
  "grouped_rows rows scenario =
     bindR (mapR (\<lambda>row. item_text row ''scenario'') rows) (\<lambda>names.
     Inr (map snd (filter (\<lambda>(n, row). n = scenario) (zip names rows))))"

definition threshold_cells :: "pyval list \<Rightarrow> (pyval \<times> string \<times> string) res" where
  "threshold_cells rows =
     (case rows of
        [] \<Rightarrow> Inr (VNone, ''missing'', ''missing'')
      | row # _ \<Rightarrow>
          bindR (bindR (vitem row ''baseline_rps'') py_float) (\<lambda>b.
          bindR (item_text row ''metric_quality'') (\<lambda>q. bindR (item_text row ''hit_ratio_source'') (\<lambda>src.
          Inr (VFloat b, q, src)))))"

definition threshold_table_row :: "pyval list \<Rightarrow> string \<Rightarrow> string res" where
  "threshold_table_row rows scenario =
     bindR (grouped_rows rows scenario) (\<lambda>mine.
     bindR (positive_threshold mine) (\<lambda>m.
     bindR (mapR (\<lambda>row. bindR (vitem row ''dual_rps'') py_float) mine) (\<lambda>duals.
     let best_dual = (if duals = [] then VFloat (Fin 0) else max_or_none duals) in
     bindR (threshold_cells mine) (\<lambda>(b, q, src).
     table_row ([Inr scenario, fmt_float b, fmt_float best_dual, fmt_float m, Inr q] @
       (case mine of
          [] \<Rightarrow> [Inr ''NA'', Inr ''missing'', Inr ''NA'', Inr ''NA'']
        | row # _ \<Rightarrow> fmt_metric_coverage row ''num_runs'' # quality_cells row) @ [Inr src])))))"

definition path_stem :: "string \<Rightarrow> string" where
  "path_stem p =
     (let name = last (split_on (CHR ''/'') p); back = rev name; ext = length (takeWhile (\<lambda>c. c \<noteq> CHR ''.'') back);
          i = length name - ext - 1
      in if CHR ''.'' \<in> set name \<and> 0 < i \<and> 0 < ext then take i name else name)"

definition threshold_section :: "pydict \<Rightarrow> string list \<Rightarrow> string list res" where
  "threshold_section d pngs =
     bindR (threshold_doc_rows d) (\<lambda>rows.
     bindR (mapR (threshold_table_row rows) both_scenarios) (\<lambda>ls.
     Inr ([''## Threshold Scan'', [],
           ''| Scenario | baseline_rps | best_dual_rps | max_threshold_with_dual | metric_quality | ok runs | prefix_check | '' @
             ''strict runs | token fallback runs | hit_ratio_source |'',
           ''|---|---:|---:|---:|---|---:|---|---:|---:|---|''] @ ls @ [[]] @
          concat (map (\<lambda>png. [''!['' @ path_stem png @ ''](''  @ png @ '')'', []]) pngs))))"

definition capacity_row :: "pydict \<Rightarrow> string \<Rightarrow> string res" where
  "capacity_row d scenario =
     bindR (capacity_scenario d scenario) (\<lambda>item. with_points item (\<lambda>highest best_safe.
     table_row [Inr scenario, concurrency_of highest, point_float highest ''req_s_mean'', concurrency_of best_safe,
       point_float best_safe ''dual_boundary_recommended_rps'']))"

definition capacity_section :: "pydict \<Rightarrow> string option \<Rightarrow> string list res" where
  "capacity_section d png =
     bindR (mapR (capacity_row d) both_scenarios) (\<lambda>rows.
     Inr ([''## Capacity Sweep'', [],
           ''| Scenario | highest_feasible_concurrency | highest_feasible_req/s | best_safe_concurrency | best_safe_dual_rps |'',
           ''|---|---:|---:|---:|---:|''] @ rows @ [[]] @
          (case png of None \<Rightarrow> [] | Some p \<Rightarrow> if p = [] then [] else [''![capacity_sweep_ranking]('' @ p @ '')'', []])))"

section \<open>The report\<close>

record report_input =
  ri_reuse :: pydict
  ri_baseline :: "pydict option"
  ri_threshold :: "pydict option"
  ri_threshold_pngs :: "string list"
  ri_capacity :: "pydict option"
  ri_capacity_png :: "string option"

definition opt_section :: "('a \<Rightarrow> string list res) \<Rightarrow> 'a option \<Rightarrow> string list res" where
  "opt_section f d = (case d of None \<Rightarrow> Inr [] | Some x \<Rightarrow> f x)"

definition report_sections :: "report_input \<Rightarrow> string list list res" where
  "report_sections r =
     mapR id
       [decision_summary (ri_baseline r) (ri_threshold r) (ri_capacity r), project_context (ri_reuse r),
        experiment_setup (ri_reuse r) (ri_capacity r),
        executive_summary (ri_reuse r) (ri_baseline r) (ri_threshold r) (ri_capacity r),
        key_findings (ri_reuse r) (ri_baseline r) (ri_threshold r) (ri_capacity r), reuse_section (ri_reuse r),
        opt_section baseline_section (ri_baseline r),
        opt_section (\<lambda>d. threshold_section d (ri_threshold_pngs r)) (ri_threshold r),
        opt_section (\<lambda>d. capacity_section d (ri_capacity_png r)) (ri_capacity r)]"

definition rstrip :: "string \<Rightarrow> string" where
  "rstrip s = rev (lstrip (rev s))"

definition build_report :: "report_input \<Rightarrow> string res" where
  "build_report r =
     bindR (report_sections r) (\<lambda>sections.
     Inr (rstrip (join [CHR 0x0A] ([''# Final Experiment Report'', []] @ concat sections)) @ [CHR 0x0A]))"

section \<open>The report bundle\<close>

text \<open>
  \<open>scripts/generate_report_bundle.py\<close> builds the report from the files of an experiment directory and, when there
  is one, a capacity sweep's.  \<open>rd_doc\<close> is what reading and decoding a file gives, \<open>None\<close> when it is not a file;
  the copies of the plots keep their names.
\<close>

record report_dir =
  rd_doc :: "string \<Rightarrow> pydict res option"
  rd_plot :: "string \<Rightarrow> bool"

definition read_optional :: "pydict res option \<Rightarrow> pydict option res" where
  "read_optional d = (case d of None \<Rightarrow> Inr None | Some r \<Rightarrow> bindR r (\<lambda>x. Inr (Some x)))"

definition build_one_report :: "report_dir \<Rightarrow> report_dir option \<Rightarrow> string res" where
  "build_one_report experiment capacity =
     (case rd_doc experiment ''summary.json'' of
        None \<Rightarrow> Inl OSError
      | Some reuse \<Rightarrow>
          bindR reuse (\<lambda>reuse_doc.
          bindR (read_optional (rd_doc experiment ''baseline_compare.json'')) (\<lambda>baseline_doc.
          bindR (read_optional (rd_doc experiment ''threshold_recommended_rps_curve.json'')) (\<lambda>threshold_doc.
          bindR (case capacity of None \<Rightarrow> Inr None | Some c \<Rightarrow> read_optional (rd_doc c ''summary.json'')) (\<lambda>capacity_doc.
          build_report \<lparr>ri_reuse = reuse_doc, ri_baseline = baseline_doc, ri_threshold = threshold_doc,
            ri_threshold_pngs = filter (rd_plot experiment)
              [''threshold_recommended_rps_curve.png'', ''threshold_recommended_rps_curve_split.png''],
            ri_capacity = capacity_doc,
            ri_capacity_png = (case capacity of None \<Rightarrow> None
              | Some c \<Rightarrow> if rd_plot c ''capacity_sweep_ranking.png'' then Some ''capacity_sweep_ranking.png'' else None)\<rparr>)))))"

section \<open>The document of a threshold scan\<close>

definition threshold_row_doc :: "threshold_row \<Rightarrow> pydict" where
  "threshold_row_doc t =
     (let c = tr_comparison t; r = cm_dual c; n = re_counts r; p = re_prefix r in
      [(''min_hit_ratio'', VFloat (tr_min_hit t)), (''scenario'', VStr (tr_scenario t)),
       (''baseline_rps'', VFloat (cm_baseline_rps c)), (''dual_rps'', VFloat (cm_dual_rps c)), (''delta'', VFloat (cm_delta c)),
       (''metric_quality'', VStr (re_metric_quality r)), (''num_runs'', VInt (re_num_runs r)),
       (''num_runs_ok_metrics'', VInt (pl_ok n)), (''num_runs_missing_hit_ratio'', VInt (pl_missing n)),
       (''num_runs_stale_metrics'', VInt (pl_stale n)), (''num_runs_window_hit_ratio'', VInt (pl_window n)),
       (''num_runs_snapshot_fallback_hit_ratio'', VInt (pl_snapshot n)),
       (''hit_ratio_source'', VStr (re_hit_ratio_source r)), (''hit_ratio_comparable'', VBool (re_comparable r)),
       (''num_runs_prefix_metric_strict'', VInt (pc_strict p)),
       (''num_runs_prefix_metric_token_fallback'', VInt (pc_token_fallback p)),
       (''num_runs_prefix_metric_other'', VInt (pc_other p)), (''num_runs_prefix_metric_missing'', VInt (pc_missing p)),
       (''prefix_metric_check'', VStr (re_prefix_check r))])"

definition threshold_document :: "threshold_row list \<Rightarrow> pydict" where
  "threshold_document rows =
     [(''schema_version'', VInt 3), (''rows'', VList (map (\<lambda>t. VDict (threshold_row_doc t)) rows))]"

section \<open>Facts\<close>

text \<open>The report claims the benefit of reuse whatever the measured ratios are.\<close>

lemma benefit_claimed_always:
  "\<exists>t. benefit_finding (VDict [(''hit_ratio_mean'', VFloat low)]) (VDict [(''hit_ratio_mean'', VFloat high)]) =
     Inr (''- High reuse delivers stronger cache benefit signals than low reuse'' @ t)"
  by (simp add: benefit_finding_def float_field_def fmt_float_def dget_or_def dget_def)


lemma row_doc_fields:
  "dget_or (threshold_row_doc t) ''scenario'' v = VStr (tr_scenario t)"
  "dget_or (threshold_row_doc t) ''dual_rps'' v = VFloat (cm_dual_rps (tr_comparison t))"
  "dget (threshold_row_doc t) ''min_hit_ratio'' = Some (VFloat (tr_min_hit t))"
  by (simp_all add: threshold_row_doc_def Let_def dget_or_def dget_def)

definition dual_positive :: "threshold_row \<Rightarrow> bool" where
  "dual_positive t \<longleftrightarrow> flt (Fin 0) (cm_dual_rps (tr_comparison t))"

lemma filterR_docs: "(\<And>t. P (f t) = Inr (Q t)) \<Longrightarrow> filterR P (map f ts) = Inr (map f (filter Q ts))"
  by (induction ts) auto

lemma positive_threshold_docs:
  "positive_threshold (map (\<lambda>t. VDict (threshold_row_doc t)) ts) = Inr (max_or_none (map tr_min_hit (filter dual_positive ts)))"
proof -
  have "mapR (\<lambda>row. bindR (vitem row ''min_hit_ratio'') py_float) (map (\<lambda>t. VDict (threshold_row_doc t)) ts) = Inr (map tr_min_hit ts)" for ts
    by (induction ts) (simp_all add: row_doc_fields)
  then show ?thesis
    unfolding positive_threshold_def
    by (subst filterR_docs [where Q = dual_positive]) (simp_all add: row_doc_fields dual_positive_def)
qed

lemma kept_threshold_eq:
  "kept_threshold (threshold_document rows) s =
     Inr (max_or_none (map tr_min_hit (filter (\<lambda>t. tr_scenario t = s \<and> dual_positive t) rows)))"
proof -
  let ?d = "\<lambda>t. VDict (threshold_row_doc t)"
  have rows: "threshold_doc_rows (threshold_document rows) = Inr (map ?d rows)"
    by (simp add: threshold_doc_rows_def threshold_document_def dget_or_def dget_def)
  have mine: "rows_of_scenario s (map ?d rows) = Inr (map ?d (filter (\<lambda>t. tr_scenario t = s) rows))"
    unfolding rows_of_scenario_def by (rule filterR_docs) (simp add: row_doc_fields)
  show ?thesis by (simp add: kept_threshold_def rows mine positive_threshold_docs conj_commute)
qed

section \<open>Property\<close>

text \<open>
  Property C22.  The threshold the report recommends is right for the scan it was made from: when every run of a
  scenario has a sound throughput, the dual capacity of the scanned thresholds is positive exactly up to the quoted
  one, and none is quoted exactly when no scanned threshold keeps any capacity.
\<close>

theorem recommended_threshold_sound:
  assumes "threshold_rows p document ts = Inr rows" and "scenario_runs document s = Inr runs"
    and "po_safety p = Fin k" "0 \<le> k" and "list_all sane_run runs" and "NaN \<notin> set ts"
  shows "\<exists>v. kept_threshold (threshold_document rows) s = Inr v \<and>
    (case v of
       VNone \<Rightarrow> list_all (\<lambda>t. tr_scenario t = s \<longrightarrow> \<not> dual_positive t) rows
     | VFloat m \<Rightarrow> list_ex (\<lambda>t. tr_scenario t = s \<and> dual_positive t \<and> tr_min_hit t = m) rows \<and>
         list_all (\<lambda>t. tr_scenario t = s \<longrightarrow> (dual_positive t \<longleftrightarrow> fle (tr_min_hit t) m)) rows
     | _ \<Rightarrow> False)"
proof -
  have row: "compare_runs p (tr_min_hit t) runs = Inr (tr_comparison t) \<and> tr_min_hit t \<noteq> NaN"
    if "t \<in> set rows" "tr_scenario t = s" for t
    using mapR_Inr_set [OF assms(1) [unfolded threshold_rows_def] that(1)] that(2) assms(2,6)
    by (auto simp: bindR_eq_Inr)
  let ?kept = "filter (\<lambda>t. tr_scenario t = s \<and> dual_positive t) rows"
  show ?thesis
  proof (cases ?kept)
    case Nil
    then show ?thesis by (simp add: kept_threshold_eq max_or_none_def list_all_iff filter_empty_conv)
  next
    case (Cons x xs)
    define m where "m = foldl py_max (tr_min_hit x) (map tr_min_hit xs)"
    have set: "insert (tr_min_hit x) (set (map tr_min_hit xs)) = tr_min_hit ` set ?kept" using Cons by simp
    have "m \<in> tr_min_hit ` set ?kept" using foldl_py_max_mem [of "tr_min_hit x" "map tr_min_hit xs"] unfolding m_def set .
    then obtain y where y: "y \<in> set rows" "tr_scenario y = s" "dual_positive y" "tr_min_hit y = m" by auto
    have "\<forall>z \<in> tr_min_hit ` set ?kept. z \<noteq> NaN" using row by auto
    then have "\<forall>z \<in> insert (tr_min_hit x) (set (map tr_min_hit xs)). z \<noteq> NaN" unfolding set .
    then have "fle z m" if "z \<in> insert (tr_min_hit x) (set (map tr_min_hit xs))" for z
      unfolding m_def using foldl_py_max_ge [OF _ _ that] by simp
    then have le: "fle (tr_min_hit t) m" if "t \<in> set ?kept" for t unfolding set using that by blast
    have "dual_positive t" if "t \<in> set rows" "tr_scenario t = s" "fle (tr_min_hit t) m" for t
      using dual_rate_falls(2) [OF row [OF that(1,2), THEN conjunct1] row [OF y(1,2), THEN conjunct1] assms(3,4,5)] that(3) y(3,4)
        flt_fle_trans by (auto simp: dual_positive_def)
    then have iff: "dual_positive t \<longleftrightarrow> fle (tr_min_hit t) m" if "t \<in> set rows" "tr_scenario t = s" for t
      using le [of t] that by auto
    have "kept_threshold (threshold_document rows) s = Inr (VFloat m)"
      using Cons by (simp add: kept_threshold_eq max_or_none_def m_def)
    then show ?thesis using y iff by (auto simp: list_all_iff list_ex_iff)
  qed
qed

section \<open>Witness\<close>

definition scan_runs :: "pydict list" where
  "scan_runs = [sample_run 10 None, sample_run 8 (Some (Fin 1))]"

definition scan_document :: pyval where
  "scan_document = VDict [(''runs'', VDict [(''low_reuse'', VList (map VDict scan_runs)), (''high_reuse'', VList (map VDict scan_runs))])]"

lemma scan_scenarios: "s \<in> {''low_reuse'', ''high_reuse''} \<Longrightarrow> scenario_runs scan_document s = Inr scan_runs"
  by (auto simp: scenario_runs_def scan_document_def scan_runs_def dget_or_def dget_def as_dict_def)

lemma scan_rows: "\<exists>rows. threshold_rows sample_policy scan_document [Fin 0, Fin 1] = Inr rows"
proof -
  obtain c1 c2 where "compare_runs sample_policy (Fin 0) scan_runs = Inr c1" "compare_runs sample_policy (Fin 1) scan_runs = Inr c2"
    using recommend_sample_ok [of None] recommend_sample_ok [of "Some (Fin 0)"] recommend_sample_ok [of "Some (Fin 1)"]
    by (auto simp: compare_runs_def scan_runs_def)
  then show ?thesis by (simp add: threshold_rows_def scan_scenarios)
qed

theorem recommended_threshold_sound_witness:
  "\<exists>rows v. threshold_rows sample_policy scan_document [Fin 0, Fin 1] = Inr rows \<and>
     kept_threshold (threshold_document rows) ''high_reuse'' = Inr v \<and> (v = VNone \<or> (\<exists>m. v = VFloat m))"
proof -
  obtain rows where rows: "threshold_rows sample_policy scan_document [Fin 0, Fin 1] = Inr rows" using scan_rows ..
  have "is_f64 (Fin 10)" "is_f64 (Fin 8)"
    using fl_is_f64 [of 10] fl_is_f64 [of 8] by (simp_all add: float_simps del: is_f64.simps fl_is_f64)
  then have "list_all sane_run scan_runs" by (simp add: scan_runs_def sane_run_def observe_sample)
  moreover have "po_safety sample_policy = Fin 1" by (simp add: sample_policy_def)
  moreover have "scenario_runs scan_document ''high_reuse'' = Inr scan_runs" by (simp add: scan_scenarios)
  ultimately obtain v where v: "kept_threshold (threshold_document rows) ''high_reuse'' = Inr v"
    and "case v of VNone \<Rightarrow> list_all (\<lambda>t. tr_scenario t = ''high_reuse'' \<longrightarrow> \<not> dual_positive t) rows
     | VFloat m \<Rightarrow> list_ex (\<lambda>t. tr_scenario t = ''high_reuse'' \<and> dual_positive t \<and> tr_min_hit t = m) rows \<and>
         list_all (\<lambda>t. tr_scenario t = ''high_reuse'' \<longrightarrow> (dual_positive t \<longleftrightarrow> fle (tr_min_hit t) m)) rows
     | _ \<Rightarrow> False"
    using recommended_threshold_sound [OF rows, of "''high_reuse''" scan_runs 1] by auto
  then have "v = VNone \<or> (\<exists>m. v = VFloat m)" by (cases v) simp_all
  with rows v show ?thesis by blast
qed

end
