(* ===== verification/Artifact.thy ===== *)
theory Artifact
  imports SweepReport "HOL-Library.Sublist"
begin

text \<open>
  \<open>scripts/check_capacity_sweep_artifact.py\<close>: the check of the directory a sweep leaves behind.  The
  directory is a record of answers to the questions the check asks of the file system and of the image
  library; \<open>loads\<close> is \<open>json.loads\<close>, whose decoding error is a \<open>ValueError\<close>; \<open>order\<close> is the
  iteration order of a set; \<open>err_text\<close> is \<open>str(exc)\<close>.
\<close>

section \<open>The directory\<close>

record artifact =
  ar_path :: "string \<Rightarrow> string"
  ar_file :: "string \<Rightarrow> bool"
  ar_text :: "string \<Rightarrow> string res"
  ar_pngs :: "string list"
  ar_size :: "string \<Rightarrow> nat res"
  ar_image :: "string \<Rightarrow> unit res"

section \<open>The document\<close>

definition missing_keys :: "string \<Rightarrow> string list \<Rightarrow> pydict \<Rightarrow> string list" where
  "missing_keys place keys d = map (\<lambda>k. place @ '' missing '' @ k) (filter (\<lambda>k. \<not> dhas d k) keys)"

definition check_meta :: "pyval \<Rightarrow> string list" where
  "check_meta meta =
     (case meta of
        VDict d \<Rightarrow> missing_keys ''summary.meta''
          [''experiment_schema_version'', ''run_entry_schema_version'', ''scenarios'', ''concurrency_values'', ''repeats''] d
      | _ \<Rightarrow> [''summary.meta must be an object''])"

definition nonempty_list :: "pyval \<Rightarrow> bool" where
  "nonempty_list v = (case v of VList (x # xs) \<Rightarrow> True | _ \<Rightarrow> False)"

definition check_aggregates :: "string \<Rightarrow> pyval \<Rightarrow> string list" where
  "check_aggregates place v =
     (case v of
        VDict a \<Rightarrow> if is_dict (dget_or a ''quality_summary'' VNone) then []
                   else [place @ ''.aggregates.quality_summary must be an object'']
      | _ \<Rightarrow> [place @ ''.aggregates must be an object''])"

definition check_point :: "nat \<Rightarrow> pyval \<Rightarrow> string list" where
  "check_point i point =
     (let place = ''summary.points['' @ nat_str i @ '']'' in
      case point of
        VDict d \<Rightarrow>
          missing_keys place [''scenario'', ''concurrency'', ''runs'', ''aggregates'', ''recommendation'', ''ranking''] d @
          check_aggregates place (dget_or d ''aggregates'' VNone) @
          (if nonempty_list (dget_or d ''runs'' VNone) then [] else [place @ ''.runs must be a non-empty array''])
      | _ \<Rightarrow> [place @ '' must be an object''])"

definition check_points :: "pyval \<Rightarrow> string list" where
  "check_points v =
     (case v of
        VList (x # xs) \<Rightarrow> concat (map (\<lambda>(i, p). check_point i p) (enumerate 0 (x # xs)))
      | _ \<Rightarrow> [''summary.points must be a non-empty array''])"

definition check_ranking :: "pyval \<Rightarrow> string list" where
  "check_ranking v =
     (case v of
        VDict d \<Rightarrow> if is_dict (dget_or d ''by_scenario'' VNone) then [] else [''summary.ranking.by_scenario must be an object'']
      | _ \<Rightarrow> [''summary.ranking.by_scenario must be an object''])"

section \<open>The report and its plots\<close>

text \<open>What stands between each opening parenthesis and the next closing one; the last path component.\<close>

definition in_parens :: "string \<Rightarrow> string list" where
  "in_parens report = map (\<lambda>token. hd (split_on (CHR '')'') token)) (tl (split_on (CHR ''('') report))"

definition path_name :: "string \<Rightarrow> string" where
  "path_name p = last (split_on (CHR ''/'') p)"

definition referenced_plots :: "string \<Rightarrow> string list" where
  "referenced_plots report = remdups (map path_name (filter (suffix ''.png'') (in_parens report)))"

definition check_plot :: "(pyerr \<Rightarrow> string) \<Rightarrow> artifact \<Rightarrow> string \<Rightarrow> string list res" where
  "check_plot err_text ar name =
     (if \<not> ar_file ar name then Inr [''summary.md references missing plot: '' @ ar_path ar name]
      else bindR (ar_size ar name) (\<lambda>n.
        if n = 0 then Inr [''plot is empty: '' @ ar_path ar name]
        else (case ar_image ar name of
            Inr _ \<Rightarrow> Inr []
          | Inl OSError \<Rightarrow> Inr [''plot is not a valid image: '' @ ar_path ar name @ '' ('' @ err_text OSError @ '')'']
          | Inl e \<Rightarrow> Inl e)))"

definition check_size :: "artifact \<Rightarrow> string \<Rightarrow> string list res" where
  "check_size ar name =
     bindR (ar_size ar name) (\<lambda>n. Inr (if n = 0 then [''plot is empty: '' @ ar_path ar name] else []))"

definition check_report ::
  "(pyerr \<Rightarrow> string) \<Rightarrow> (string list \<Rightarrow> string list) \<Rightarrow> artifact \<Rightarrow> string list res" where
  "check_report err_text order ar =
     bindR (ar_text ar ''summary.md'') (\<lambda>report.
     let names = order (referenced_plots report) in
     bindR (mapR (check_plot err_text ar) names) (\<lambda>plots.
     bindR (mapR (check_size ar) (order (ar_pngs ar))) (\<lambda>sizes.
     Inr ((if sublist ''## Ranking Plot'' report then [] else [''summary.md missing Ranking Plot section'']) @
          (if names = [] then [''summary.md does not reference a PNG plot''] else []) @ concat plots @ concat sizes))))"

section \<open>The check\<close>

definition check_document ::
  "(pyerr \<Rightarrow> string) \<Rightarrow> (string list \<Rightarrow> string list) \<Rightarrow> artifact \<Rightarrow> pydict \<Rightarrow> string list res" where
  "check_document err_text order ar d =
     (let meta = dget_or d ''meta'' VNone in
      bindR (if is_dict meta \<and> ar_file ar ''summary.md'' then check_report err_text order ar else Inr []) (\<lambda>report.
      Inr (check_meta meta @ check_points (dget_or d ''points'' VNone) @
           check_ranking (dget_or d ''ranking'' VNone) @ report)))"

definition validate_artifact ::
  "(string \<Rightarrow> pyval res) \<Rightarrow> (pyerr \<Rightarrow> string) \<Rightarrow> (string list \<Rightarrow> string list) \<Rightarrow> artifact \<Rightarrow> string list res" where
  "validate_artifact loads err_text order ar =
     (if \<not> ar_file ar ''summary.json'' then Inr [''missing artifact: '' @ ar_path ar ''summary.json'']
      else
        let invalid = (\<lambda>e. Inr [''invalid JSON '' @ ar_path ar ''summary.json'' @ '': '' @ err_text e]) in
        case ar_text ar ''summary.json'' of
          Inl OSError \<Rightarrow> invalid OSError
        | Inl e \<Rightarrow> Inl e
        | Inr t \<Rightarrow>
            (case loads t of
               Inl OSError \<Rightarrow> invalid OSError
             | Inl (ValueError m) \<Rightarrow> invalid (ValueError m)
             | Inl e \<Rightarrow> Inl e
             | Inr (VDict d) \<Rightarrow>
                 bindR (check_document err_text order ar d) (\<lambda>es.
                 Inr ((if ar_file ar ''summary.md'' then [] else [''missing artifact: '' @ ar_path ar ''summary.md'']) @ es))
             | Inr _ \<Rightarrow> Inl AttributeError))"

text \<open>The exit code of the command.\<close>

definition checker_exit :: "string list \<Rightarrow> int" where
  "checker_exit errors = (if errors \<noteq> [] then 1 else 0)"

section \<open>Facts about the report\<close>

definition plain :: "string \<Rightarrow> bool" where
  "plain s \<longleftrightarrow> CHR ''('' \<notin> set s"

lemma plain_simps [simp]:
  "plain []" "plain (c # s) \<longleftrightarrow> c \<noteq> CHR ''('' \<and> plain s" "plain (s @ t) \<longleftrightarrow> plain s \<and> plain t"
  by (auto simp: plain_def)

lemma plain_nat_str [simp]: "plain (nat_str n)"
  using nat_str_digits [of "CHR ''(''" n] by (auto simp: plain_def is_digit_def)

lemma plain_int_str [simp]: "plain (int_str n)"
  by (simp add: int_str_def)

lemma plain_sub: "set t \<subseteq> set s \<Longrightarrow> plain s \<Longrightarrow> plain t"
  by (auto simp: plain_def)

lemma plain_parts [simp]: "plain s \<Longrightarrow> plain (take n s)" "plain s \<Longrightarrow> plain (drop n s)"
  by (auto intro: plain_sub [OF set_take_subset] plain_sub [OF set_drop_subset])

lemma plain_pad [simp]: "c \<noteq> CHR ''('' \<Longrightarrow> plain s \<Longrightarrow> plain (pad_left n c s)"
  by (auto simp: pad_left_def plain_def)

lemma plain_fixed_str [simp]: "plain (fixed_str n x)"
  by (cases x) (simp_all add: fixed_str_def Let_def)

lemma plain_yes_no [simp]: "plain (yes_no b)"
  by (simp add: yes_no_def)

lemma plain_join: "plain sep \<Longrightarrow> list_all plain xs \<Longrightarrow> plain (join sep xs)"
  by (induction sep xs rule: join.induct) auto

lemma join_append: "xs \<noteq> [] \<Longrightarrow> ys \<noteq> [] \<Longrightarrow> join sep (xs @ ys) = join sep xs @ sep @ join sep ys"
proof (induction sep xs rule: join.induct)
  case (2 sep x)
  then show ?case by (cases ys) auto
qed auto

lemma in_parens_two:
  assumes "plain a" "plain p" "plain b" "plain c" "CHR '')'' \<notin> set p" "CHR '')'' \<notin> set q" "plain q"
  shows "in_parens (a @ ''('' @ p @ '')'' @ b @ ''('' @ q @ '')'' @ c) = [p, q]"
proof -
  have 1: "CHR ''('' \<notin> set a" "CHR ''('' \<notin> set (p @ '')'' @ b)" "CHR ''('' \<notin> set (q @ '')'' @ c)"
    using assms by (simp_all add: plain_def)
  have "a @ ''('' @ p @ '')'' @ b @ ''('' @ q @ '')'' @ c = a @ CHR ''('' # (p @ '')'' @ b) @ CHR ''('' # (q @ '')'' @ c)"
    by simp
  then have "in_parens (a @ ''('' @ p @ '')'' @ b @ ''('' @ q @ '')'' @ c) =
      map (\<lambda>token. hd (split_on (CHR '')'') token)) [p @ '')'' @ b, q @ '')'' @ c]"
    unfolding in_parens_def by (simp only: split_on_at [OF 1(1)] split_on_at [OF 1(2)] split_on_absent [OF 1(3)] list.sel)
  then show ?thesis using split_on_at [OF assms(5), of b] split_on_at [OF assms(6), of c] by simp
qed

text \<open>The quality words of the documents are plain.\<close>

lemma plain_quality: "plain (summarize_metric_quality_counts a b c d)" "plain (summarize_hit_ratio_source_counts x y z)"
  by (simp_all add: summarize_metric_quality_counts_def summarize_hit_ratio_source_counts_def Let_def)

lemma summarized_plain:
  assumes "summarize_runs_quality es = Inr q"
  shows "plain (rq_metric_quality q)" "plain (rq_hit_ratio_source q)"
  using assms by (auto simp: summarize_runs_quality_def bindR_eq_Inr Let_def plain_quality)

lemma plain_single_or_mixed: "list_all plain xs \<Longrightarrow> plain (single_or_mixed xs)"
  by (auto simp: single_or_mixed_def list_all_iff split: list.splits dest!: arg_cong [where f = set])

lemma aggregated_plain:
  assumes "aggregate_run_entries es = Inr a"
  shows "plain (rq_metric_quality (ag_quality a))" "plain (rq_hit_ratio_source (ag_quality a))" "ag_repeats a = length es"
  using assms by (auto simp: aggregate_run_entries_def bindR_eq_Inr summarized_plain split: if_splits)

lemma plain_evidence_names: "q \<in> set evidence_names \<Longrightarrow> plain q"
  by (auto simp: evidence_names_def)

lemma judged_plain: "judge_run cs t run = Inr (Feasible f) \<Longrightarrow> plain (fr_evidence f)"
  by (auto simp: judge_run_def bindR_eq_Inr dest!: evidence_cases plain_evidence_names split: if_splits option.splits)

lemma feasible_of_mem: "f \<in> set (feasible_of vs) \<Longrightarrow> Feasible f \<in> set vs"
  by (induction vs rule: feasible_of.induct) auto

lemma candidate_plain:
  assumes "evaluate_candidate cs w point t = Inr c"
  shows "plain (cd_quality c)"
proof -
  obtain runs vs where vs: "mapR (judge_run cs t) runs = Inr vs"
    and c: "candidate_of point t cs w (int (length runs)) (fold count_rejected vs none_rejected) (feasible_of vs) = Inr c"
    using assms by (auto simp: evaluate_candidate_def bindR_eq_Inr)
  have "list_all plain (map fr_evidence (feasible_of vs))"
    using mapR_Inr_set [OF vs] by (auto simp: list_all_iff dest!: feasible_of_mem judged_plain)
  with c show ?thesis by (auto simp: candidate_of_def bindR_eq_Inr Let_def plain_single_or_mixed split: if_splits)
qed

lemma calibrated_plain:
  assumes "calibrate cs w ts points = Inr c"
  shows "list_all plain (report_calibration c)"
proof -
  obtain cands where d: "decide cs cands = Inr c" and q: "list_all (\<lambda>k. plain (cd_quality k)) cands"
    using calibrateD [OF assms] evaluated_all by (fastforce simp: list_all_iff dest: candidate_plain)
  show ?thesis
  proof (cases "select_index cs cands")
    case None
    then show ?thesis using decideD [OF d] by (simp add: report_calibration_def)
  next
    case (Some i)
    have "plain (cd_quality (cands ! i))" using select_index_Some(1) [OF Some] q by (simp add: list_all_length)
    moreover have "cl_action c = ''replay_then_canary''" using d Some by (auto simp: decide_def bindR_eq_Inr Let_def)
    ultimately show ?thesis using decideD [OF d] Some by (simp add: report_calibration_def)
  qed
qed

text \<open>What a completed sweep has measured.\<close>

lemma measured_point:
  assumes "measure_points wd args = Inr points" "pt \<in> set points"
  shows "sp_scenario pt \<in> set (sa_scenarios args)" "aggregate_run_entries (sp_runs pt) = Inr (sp_aggregates pt)"
proof -
  obtain k sc c where x: "(k, sc, c) \<in> set (enumerate 0 (sweep_pairs args))" "measure_point wd args (k * nat (sa_repeats args)) sc c = Inr pt"
    using mapR_Inr_set [OF assms(1) [unfolded measure_points_def] assms(2)] by auto
  then have "(sc, c) \<in> set (sweep_pairs args)" by (auto simp: in_set_enumerate_eq) (metis nth_mem)
  with x(2) show "sp_scenario pt \<in> set (sa_scenarios args)" "aggregate_run_entries (sp_runs pt) = Inr (sp_aggregates pt)"
    by (auto simp: measure_point_def bindR_eq_Inr sweep_pairs_def)
qed

lemma row_plain:
  assumes "measure_points wd args = Inr points" "pt \<in> set points" "list_all plain (sa_scenarios args)" "report_row pt = Inr s"
  shows "plain s" "sp_runs pt \<noteq> []"
proof -
  note m = measured_point [OF assms(1,2)]
  have "plain (sp_scenario pt)" using m(1) assms(3) by (simp add: list_all_iff)
  with aggregated_plain [OF m(2)] assms(4) show "plain s" "sp_runs pt \<noteq> []"
    by (auto simp: report_row_def Let_def guardR_eq_Inr split: option.splits)
qed

lemma ranking_plain:
  assumes "measure_points wd args = Inr points" "list_all plain (sa_scenarios args)"
  shows "list_all plain (concat (map report_scenario (build_sweep_ranking points)))"
proof -
  have "plain s" if "(s, r) \<in> set (build_sweep_ranking points)" for s r
    using that measured_point(1) [OF assms(1)] assms(2) by (auto simp: build_sweep_ranking_def list_all_iff)
  then show ?thesis by (auto simp: list_all_iff report_scenario_def split: option.splits)
qed

text \<open>The parentheses of the report: around the plot and around the unit of the latency.\<close>

definition table_top :: string where
  "table_top = '') | hit_ratio mean | metric_quality | ok_metric_runs | hit_ratio_source | feasible | best_safe | baseline_rps | dual_rps |''"

lemma report_parens:
  assumes r: "sweep_markdown tg args d = Inr r" "run_sweep wd args = Inr d"
    and p: "plain (tg_base_url tg)" "plain (tg_model tg)" "list_all plain (sa_scenarios args)"
    and plot: "plain (tg_plot tg)" "CHR '')'' \<notin> set (tg_plot tg)"
  shows "in_parens r = [tg_plot tg, ''ms'']"
proof -
  obtain rows c where rows: "mapR report_row (sd_points d) = Inr rows" and points: "measure_points wd args = Inr (sd_points d)"
    and ranking: "sd_ranking d = build_sweep_ranking (sd_points d)" and cal: "list_all plain (report_calibration (sd_calibration d))"
    using r calibrated_plain by (auto simp: sweep_markdown_def run_sweep_def bindR_eq_Inr)
  define xs where "xs = take 8 (report_head tg args)"
  define ys where "ys = ''|---|---:|---:|---:|---:|---|---:|---|---|---|---:|---:|'' # rows @ [[], ''## Recommendations'', []] @
       concat (map report_scenario (sd_ranking d)) @ [[], ''## Auto Calibration'', []] @
       report_calibration (sd_calibration d) @ [[]]"
  have "list_all plain rows"
    using mapR_Inr_set [OF rows] row_plain(1) [OF points _ p(3)] by (auto simp: list_all_iff)
  then have y: "list_all plain ys"
    using cal ranking_plain [OF points p(3)] by (simp add: ys_def ranking)
  have x: "list_all plain xs" using p by (simp add: xs_def report_head_def)
  have nl: "plain newline" by (simp add: newline_def plain_def)
  have "r = join newline (xs @ (''![capacity_sweep_ranking]('' @ tg_plot tg @ '')'') # [] #
      (''| Scenario | Concurrency | req/s mean | e2e p95 mean(ms'' @ table_top) # ys)"
    using r(1) rows by (simp add: sweep_markdown_def xs_def ys_def report_head_def table_top_def)
  then have eq: "r = (join newline xs @ newline @ ''![capacity_sweep_ranking]'') @ ''('' @ tg_plot tg @ '')'' @
      (newline @ newline @ ''| Scenario | Concurrency | req/s mean | e2e p95 mean'') @ ''('' @ ''ms'' @ '')'' @
      (tl table_top @ newline @ join newline ys)"
    by (simp add: join_append xs_def report_head_def ys_def table_top_def)
  show ?thesis unfolding eq
    by (rule in_parens_two) (use plot nl plain_join [OF nl x] plain_join [OF nl y] in \<open>simp_all add: table_top_def\<close>)
qed

lemma main_files:
  assumes "sweep_main wd tg args = Inr f"
  obtains d where "run_sweep wd args = Inr d" "sweep_markdown tg args d = Inr (sf_report f)" "sf_json f = sweep_json tg args d"
    "sd_points d \<noteq> []" "list_all (\<lambda>pt. sp_runs pt \<noteq> []) (sd_points d)"
proof -
  obtain d where d: "run_sweep wd args = Inr d" "plot_panels d = Inr ()" "sweep_markdown tg args d = Inr (sf_report f)"
      "sf_json f = sweep_json tg args d"
    using assms by (auto simp: sweep_main_def bindR_eq_Inr)
  have m: "measure_points wd args = Inr (sd_points d)" "sd_ranking d = build_sweep_ranking (sd_points d)"
    using d(1) by (auto simp: run_sweep_def bindR_eq_Inr)
  have "sd_points d \<noteq> []" using d(2) m(2) by (auto simp: plot_panels_def build_plot_series_def build_sweep_ranking_def guardR_eq_Inr Let_def)
  moreover obtain rows where rows: "mapR report_row (sd_points d) = Inr rows" using d(3) by (auto simp: sweep_markdown_def bindR_eq_Inr)
  have "sp_runs pt \<noteq> []" if "pt \<in> set (sd_points d)" for pt
  proof -
    have "ag_repeats (sp_aggregates pt) \<noteq> 0"
      using mapR_Inr_all [OF rows] mapR_Inr_nth [OF rows] mapR_Inr_length [OF rows] that
      by (auto simp: in_set_conv_nth report_row_def Let_def guardR_eq_Inr)
    then show ?thesis using aggregated_plain(3) [OF measured_point(2) [OF m(1) that]] by simp
  qed
  ultimately show ?thesis using that d by (simp add: list_all_iff)
qed

text \<open>The document of a sweep has everything the check asks for.\<close>

lemma point_checked: "sp_runs pt \<noteq> [] \<Longrightarrow> check_point i (VDict (full_point_doc pt)) = []"
  by (cases "sp_runs pt")
     (simp_all add: check_point_def full_point_doc_def point_doc_def missing_keys_def dhas_def dget_or_def dget_def
       check_aggregates_def aggregates_doc_def nonempty_list_def Let_def)

lemma points_checked:
  assumes "pts \<noteq> []" "list_all (\<lambda>pt. sp_runs pt \<noteq> []) pts"
  shows "check_points (VList (map (\<lambda>pt. VDict (full_point_doc pt)) pts)) = []"
proof -
  have "check_points (VList (map (\<lambda>pt. VDict (full_point_doc pt)) pts)) =
      concat (map (\<lambda>(i, p). check_point i p) (enumerate 0 (map (\<lambda>pt. VDict (full_point_doc pt)) pts)))"
    using assms(1) by (cases pts) (simp_all add: check_points_def)
  moreover have "check_point i p = []" if "(i, p) \<in> set (enumerate 0 (map (\<lambda>pt. VDict (full_point_doc pt)) pts))" for i p
    using that assms(2) point_checked by (auto simp: in_set_enumerate_eq list_all_length)
  ultimately show ?thesis by auto
qed

lemma meta_checked: "check_meta (VDict (meta_doc tg args)) = []"
  by (simp add: check_meta_def missing_keys_def meta_doc_def dhas_def)

lemma sweep_json_parts:
  "dget_or (sweep_json tg args d) ''meta'' VNone = VDict (meta_doc tg args)"
  "dget_or (sweep_json tg args d) ''points'' VNone = VList (map (\<lambda>pt. VDict (full_point_doc pt)) (sd_points d))"
  "dget_or (sweep_json tg args d) ''ranking'' VNone = VDict (ranking_doc (sd_ranking d))"
  by (simp_all add: sweep_json_def dget_or_def dget_def)

lemma document_checked:
  assumes "sd_points d \<noteq> []" "list_all (\<lambda>pt. sp_runs pt \<noteq> []) (sd_points d)" "ar_file ar ''summary.md''"
  shows "check_document err_text order ar (sweep_json tg args d) = check_report err_text order ar"
proof -
  have "check_ranking (VDict (ranking_doc (sd_ranking d))) = []"
    by (simp add: check_ranking_def ranking_doc_def dget_or_def dget_def)
  then show ?thesis using assms
    by (cases "check_report err_text order ar")
       (simp_all add: check_document_def Let_def sweep_json_parts points_checked meta_checked)
qed

lemma plot_section:
  assumes "sweep_markdown tg args d = Inr r"
  shows "sublist ''## Ranking Plot'' r"
proof -
  obtain rows where rows: "mapR report_row (sd_points d) = Inr rows" using assms by (auto simp: sweep_markdown_def bindR_eq_Inr)
  obtain xs ys where "r = join newline (xs @ ''## Ranking Plot'' # [] # ys)" "xs \<noteq> []"
  proof
    show "take 6 (report_head tg args) \<noteq> []" by (simp add: report_head_def)
    show "r = join newline (take 6 (report_head tg args) @ ''## Ranking Plot'' # [] # drop 8 (report_head tg args) @
        rows @ [[], ''## Recommendations'', []] @ concat (map report_scenario (sd_ranking d)) @
        [[], ''## Auto Calibration'', []] @ report_calibration (sd_calibration d) @ [[]])"
      using assms rows by (simp add: sweep_markdown_def report_head_def)
  qed
  then show ?thesis by (simp add: join_append sublist_appendI sublist_append)
qed

section \<open>Property\<close>

definition holds_files :: "(string \<Rightarrow> pyval res) \<Rightarrow> artifact \<Rightarrow> sweep_files \<Rightarrow> bool" where
  "holds_files loads ar f \<longleftrightarrow>
     ar_file ar ''summary.json'' \<and> ar_file ar ''summary.md'' \<and> ar_text ar ''summary.md'' = Inr (sf_report f) \<and>
     bindR (ar_text ar ''summary.json'') loads = Inr (VDict (sf_json f))"

definition sound_plots :: "artifact \<Rightarrow> string \<Rightarrow> bool" where
  "sound_plots ar name \<longleftrightarrow>
     (ar_file ar name \<longrightarrow> ar_size ar name \<in> Inr ` {1..} \<and> ar_image ar name = Inr ()) \<and>
     list_all (\<lambda>x. ar_size ar x \<in> Inr ` {1..}) (ar_pngs ar)"

definition plot_name_ok :: "string \<Rightarrow> bool" where
  "plot_name_ok p \<longleftrightarrow> suffix ''.png'' p \<and> plain p \<and> CHR '')'' \<notin> set p \<and> CHR ''/'' \<notin> set p"

lemma sizes_checked:
  assumes "list_all (\<lambda>x. ar_size ar x \<in> Inr ` {1..}) xs"
  shows "mapR (check_size ar) xs = Inr (replicate (length xs) [])"
  using assms by (induction xs) (auto simp: check_size_def)

text \<open>
  Property C29.  A sweep and the check of its artifact agree: whenever the sweep gets as far as writing its files,
  the check of a directory that holds them, with a readable nonempty plot, reports nothing; and when the plot was
  written elsewhere (\<open>--out-png\<close>), it reports exactly the missing plot.
\<close>

theorem sweep_artifact_checked:
  assumes "sweep_main wd tg args = Inr f" and "holds_files loads ar f" and "sound_plots ar (tg_plot tg)"
    and texts: "plain (tg_base_url tg)" "plain (tg_model tg)" "list_all plain (sa_scenarios args)" "plot_name_ok (tg_plot tg)"
    and order: "\<And>xs. mset (order xs) = mset xs"
  shows "validate_artifact loads err_text order ar =
    Inr (if ar_file ar (tg_plot tg) then [] else [''summary.md references missing plot: '' @ ar_path ar (tg_plot tg)])"
proof -
  obtain d where d: "run_sweep wd args = Inr d" "sweep_markdown tg args d = Inr (sf_report f)" "sf_json f = sweep_json tg args d"
    "sd_points d \<noteq> []" "list_all (\<lambda>pt. sp_runs pt \<noteq> []) (sd_points d)"
    using main_files [OF assms(1)] .
  have "in_parens (sf_report f) = [tg_plot tg, ''ms'']"
    using report_parens [OF d(2,1)] texts by (simp add: plot_name_ok_def)
  then have "referenced_plots (sf_report f) = [tg_plot tg]"
    using texts(4) by (simp add: referenced_plots_def path_name_def plot_name_ok_def split_on_absent suffix_def)
  moreover have "order [p] = [p]" for p using order [of "[p]"] by simp
  moreover have "mapR (check_size ar) (order (ar_pngs ar)) = Inr (replicate (length (order (ar_pngs ar))) [])"
    using assms(3) mset_eq_setD [OF order [of "ar_pngs ar"]] by (intro sizes_checked) (simp add: sound_plots_def list_all_iff)
  ultimately have "check_report err_text order ar =
      Inr (if ar_file ar (tg_plot tg) then [] else [''summary.md references missing plot: '' @ ar_path ar (tg_plot tg)])"
    using assms(2,3) plot_section [OF d(2)]
    by (auto simp: check_report_def holds_files_def sound_plots_def check_plot_def Let_def)
  with assms(2) document_checked [OF d(4,5)] d(3) show ?thesis
    by (auto simp: validate_artifact_def holds_files_def bindR_eq_Inr Let_def)
qed

section \<open>Witness\<close>

text \<open>The sweep of one run of theory Sweep, with its calibration, and a directory that holds its files.\<close>

definition demo_target :: sweep_target where
  "demo_target = \<lparr>tg_base_url = ''http://b'', tg_endpoint = ''/v1/completions'', tg_model = ''m'', tg_backend_metrics = [],
     tg_exporter_metrics = ''http://e/metrics'', tg_timeout = Fin 30, tg_plot = ''ranking.png''\<rparr>"

definition demo_artifact :: "sweep_files \<Rightarrow> artifact" where
  "demo_artifact f = \<lparr>ar_path = (\<lambda>n. ''out/'' @ n), ar_file = (\<lambda>_. True),
     ar_text = (\<lambda>n. Inr (if n = ''summary.md'' then sf_report f else [])), ar_pngs = [''ranking.png''],
     ar_size = (\<lambda>_. Inr 1), ar_image = (\<lambda>_. Inr ())\<rparr>"

lemma demo_run_made:
  "\<exists>e. measure_run sweep_demo demo_args sc c label i r seed = Inr e \<and>
     (\<forall>cs t. \<exists>v. judge_run cs t e = Inr v \<and> (is_feasible v \<longrightarrow> v = Feasible \<lparr>fr_rps = Fin 1, fr_hit = Fin 1, fr_evidence = ''strict''\<rparr>))"
proof -
  obtain e sm w x y where e: "measure_run sweep_demo demo_args sc c label i r seed = Inr e"
    and w: "window_found w" "dget e ''derived_window_metrics'' = Some (VDict (set_missing False w))"
    and d: "dget e ''summary'' = Some (VDict sm)"
    and sm: "dget sm ''requests'' = Some (VDict [(''total'', VInt 1), (''ok'', VInt 1), (''failed'', VInt 0)])"
      "dget sm ''latency'' = Some (VDict ((''e2e_latency_p95_ms'', VFloat (Fin 1000)) # x))"
      "dget sm ''throughput'' = Some (VDict ((''req_s'', VFloat (Fin 1)) # y))"
    using demo_run by blast
  note ob = observe_runD [OF demo_observed [OF w(2,1) d sm], simplified]
  have n: "calib_number e [''summary'', ''latency'', ''e2e_latency_p95_ms''] = Inr (Fin 1000)"
    "calib_number e [''summary'', ''throughput'', ''req_s''] = Inr (Fin 1)"
    using d sm by (simp_all add: calib_number_def path_step_def dget_or_def dget_first float_or0_def)
  have s: "calib_success_rate e = Inr (Fin 1)"
    using d sm(1) by (simp add: calib_success_rate_def dget_or_def dget_def float_or0_def float_of_int_def fdiv_def)
  show ?thesis using e ob n s by (intro exI [of _ e]) (simp add: judge_run_def)
qed

lemma demo_stats: "\<exists>st. candidate_stats w [\<lparr>fr_rps = Fin 1, fr_hit = Fin 1, fr_evidence = ''strict''\<rparr>] = Inr st"
  by (simp add: candidate_stats_def stat_mean_def finite_part_def float_simps sqrt64_1 fdiv_def
      uncertainty_values_def evidence_uncertainty_of_def dget_def Let_def)

lemma decide_total: "\<exists>r. decide cs cands = Inr r"
proof -
  have "\<exists>x. advantage_of e b = Inr x" for e b
    by (cases "flt (Fin 0) b") (auto simp: advantage_of_def fdiv_def feq_iff)
  then show ?thesis
    by (cases "select_index cs cands") (auto simp: decide_def Let_def, metis bindR_simps(2))
qed

lemma demo_calibrated:
  assumes "measure_point sweep_demo demo_args k sc c = Inr pt"
  shows "\<exists>r. calibrate cs w ts [point_doc pt] = Inr r"
proof -
  have list: "[1..<nat (sa_repeats demo_args) + 1] = [1]" by (simp add: demo_args_def upt_rec)
  obtain e where m: "measure_run sweep_demo demo_args sc c (sc @ '':c'' @ int_str c) (k + 1) (int 1)
        (sa_base_seed demo_args + int (k + 1) * 1000) = Inr e"
    and j: "\<And>cs t. \<exists>v. judge_run cs t e = Inr v \<and>
       (is_feasible v \<longrightarrow> v = Feasible \<lparr>fr_rps = Fin 1, fr_hit = Fin 1, fr_evidence = ''strict''\<rparr>)"
    using demo_run_made by blast
  have e: "sp_runs pt = [e]" "sp_concurrency pt = c"
    using assms unfolding measure_point_def list mapR.simps m bindR_simps by (auto simp: bindR_eq_Inr)
  have "\<exists>x. evaluate_candidate cs' w' (point_doc pt) t = Inr x" for cs' w' t
  proof -
    obtain v where v: "judge_run cs' t e = Inr v" "is_feasible v \<longrightarrow> v = Feasible \<lparr>fr_rps = Fin 1, fr_hit = Fin 1, fr_evidence = ''strict''\<rparr>"
      using j by blast
    have r: "point_runs (point_doc pt) = Inr [e]" "dget_or (point_doc pt) ''concurrency'' (VInt 0) = VInt c"
      by (simp_all add: point_runs_def point_doc_def dget_or_def dget_def e)
    show ?thesis
      using v demo_stats [of w'] by (cases v) (auto simp: evaluate_candidate_def r candidate_of_def Let_def)
  qed
  then obtain g where "\<And>t. evaluate_candidate cs (case w of Some x \<Rightarrow> x | None \<Rightarrow> default_weights) (point_doc pt) t = Inr (g t)"
    by metis
  then have "\<exists>cands. mapR (\<lambda>(point, t). evaluate_candidate cs (case w of Some x \<Rightarrow> x | None \<Rightarrow> default_weights) point t)
      (concat (map (\<lambda>point. map (\<lambda>t. (point, t)) ts) [point_doc pt])) = Inr cands"
    by (intro exI, subst mapR_total [where g = "\<lambda>(point, t). g t"]) auto
  then show ?thesis using decide_total by (auto simp: calibrate_def)
qed

lemma demo_main: "\<exists>f. sweep_main sweep_demo demo_target demo_args = Inr f"
proof -
  have pairs: "sweep_pairs demo_args = [(''low_reuse'', 1)]" by (simp add: sweep_pairs_def demo_args_def)
  obtain pt where pt: "measure_point sweep_demo demo_args 0 ''low_reuse'' 1 = Inr pt" "sp_scenario pt = ''low_reuse''"
    using demo_point [of 0 "''low_reuse''" 1] by auto
  then have m: "measure_points sweep_demo demo_args = Inr [pt]" by (simp add: measure_points_def pairs)
  obtain cl where "run_sweep sweep_demo demo_args =
      Inr \<lparr>sd_points = [pt], sd_ranking = build_sweep_ranking [pt], sd_records = [point_rank_record pt], sd_calibration = cl\<rparr>"
    using demo_calibrated [OF pt(1), of "sweep_constraints demo_args"
        "Some (default_weights\<lparr>wt_safety := po_safety (sa_policy demo_args)\<rparr>)" default_thresholds]
    by (auto simp: run_sweep_def m)
  moreover have "ag_repeats (sp_aggregates pt) = length (sp_runs pt)"
    using aggregated_plain(3) measured_point(2) [OF m] by simp
  moreover have "length (sp_runs pt) = 1"
    using pt(1) by (auto simp: measure_point_def bindR_eq_Inr demo_args_def dest!: mapR_Inr_length)
  ultimately show ?thesis
    by (simp add: sweep_main_def plot_panels_def build_plot_series_def build_sweep_ranking_def sweep_markdown_def report_row_def
        guardR_def Let_def)
qed

theorem sweep_artifact_checked_witness:
  "\<exists>f. sweep_main sweep_demo demo_target demo_args = Inr f \<and>
     validate_artifact (\<lambda>_. Inr (VDict (sf_json f))) (\<lambda>_. []) (\<lambda>xs. xs) (demo_artifact f) = Inr []"
proof -
  obtain f where f: "sweep_main sweep_demo demo_target demo_args = Inr f" using demo_main by blast
  let ?l = "\<lambda>_ :: string. Inr (VDict (sf_json f)) :: pyval res"
  have h: "holds_files ?l (demo_artifact f) f" by (simp add: holds_files_def demo_artifact_def)
  have s: "sound_plots (demo_artifact f) (tg_plot demo_target)" by (simp add: sound_plots_def demo_artifact_def)
  have t: "plain (tg_base_url demo_target)" "plain (tg_model demo_target)" "list_all plain (sa_scenarios demo_args)"
    "plot_name_ok (tg_plot demo_target)" by (simp_all add: demo_target_def demo_args_def plot_name_ok_def suffix_def)
  show ?thesis using f sweep_artifact_checked [OF f h s t, of "\<lambda>xs. xs" "\<lambda>_. []"] by (auto simp: demo_artifact_def)
qed

end
