(* ===== verification/Reports.thy ===== *)
theory Reports
  imports FinalReport Artifact
begin

text \<open>
  The documents of \<open>scripts/run_reuse_experiment.py\<close> (with its Markdown report) and of
  \<open>planner/compare_baseline.py\<close>, and the agreement between the programs that write documents and the
  final report that reads them: each document is written and read as dictionaries, by different programs,
  and only the spelling of the keys connects them.
\<close>

section \<open>The reuse experiment's files\<close>

definition reuse_meta_doc :: "sweep_target \<Rightarrow> sweep_args \<Rightarrow> int \<Rightarrow> pydict" where
  "reuse_meta_doc tg args concurrency =
     [(''experiment_schema_version'', VInt 3), (''run_entry_schema_version'', VInt 3),
      (''base_url'', VStr (tg_base_url tg)), (''endpoint'', VStr (tg_endpoint tg)), (''model'', VStr (tg_model tg)),
      (''backend_metrics_url'', VStr (backend_metrics_url tg)), (''exporter_metrics_url'', VStr (tg_exporter_metrics tg)),
      (''repeats'', VInt (sa_repeats args)), (''num_requests'', VInt (sa_requests args)), (''concurrency'', VInt concurrency),
      (''input_len'', VInt (sa_input_len args)), (''output_len'', VInt (sa_output_len args)),
      (''warmup_requests'', VInt (sa_warmup args)), (''timeout_s'', VFloat (tg_timeout tg))]"

definition reuse_json :: "sweep_target \<Rightarrow> sweep_args \<Rightarrow> int \<Rightarrow> reuse_report \<Rightarrow> pydict" where
  "reuse_json tg args concurrency r =
     [(''meta'', VDict (reuse_meta_doc tg args concurrency)),
      (''runs'', VDict (map (\<lambda>(s, es). (s, VList (map VDict es))) (ru_runs r))),
      (''aggregates'', VDict (map (\<lambda>(s, a). (s, VDict (aggregates_doc a))) (ru_aggregates r)))]"

definition reuse_run_row :: "string \<Rightarrow> pydict \<Rightarrow> string res" where
  "reuse_run_row scenario e =
     bindR (item_path [''summary'', ''requests'', ''ok''] (VDict e)) (\<lambda>v. bindR (py_int v) (\<lambda>ok.
     bindR (item_path [''summary'', ''requests'', ''total''] (VDict e)) (\<lambda>v. bindR (py_int v) (\<lambda>total_runs.
     bindR (get_entry_hit_ratio_and_quality e) (\<lambda>(hit, quality).
     bindR (bindR (vget (VDict e) ''quality'' (VDict [])) (\<lambda>q. text_field q ''hit_ratio_source'' ''missing'')) (\<lambda>source.
     bindR (get_entry_prefix_metric_check e) (\<lambda>check.
     bindR (item_text (VDict e) ''repeat'') (\<lambda>repeat_text.
     bindR (path_number [''summary'', ''throughput'', ''req_s''] e) (\<lambda>req.
     bindR (path_number [''summary'', ''latency'', ''e2e_latency_p95_ms''] e) (\<lambda>e2e.
     bindR (vget (dget_or e ''exporter_metrics'' (VDict [])) ''kvcache_kv_hidden_reuse_ready_perc'' (VFloat (Fin 0))) (\<lambda>v.
     bindR (py_float v) (\<lambda>hidden.
     Inr (''| '' @ scenario @ '' | '' @ repeat_text @ '' | '' @ fixed_str 4 req @ '' | '' @ fixed_str 2 e2e @ '' | '' @
          (case hit of None \<Rightarrow> ''NA'' | Some h \<Rightarrow> fixed_str 4 h) @ '' | '' @ quality @ ''/'' @ source @ '' | '' @ check @
          '' | '' @ fixed_str 4 hidden @ '' | '' @ int_str ok @ ''/'' @ int_str total_runs @ '' |'')))))))))))))"

definition reuse_aggregate_row :: "string \<times> run_aggregates \<Rightarrow> string" where
  "reuse_aggregate_row x = (case x of (scenario, a) \<Rightarrow>
     let q = ag_quality a; pc = ps_counts (rq_prefix q); n = int_str (rq_total q) in
     ''| '' @ scenario @ '' | '' @ fixed_str 4 (or_zero (ag_req_s a)) @ '' | '' @ fixed_str 2 (or_zero (ag_e2e a)) @ '' | '' @
     (case ag_hit a of None \<Rightarrow> ''NA'' | Some h \<Rightarrow> fixed_str 4 h) @ '' | '' @ int_str (rc_missing (rq_counts q)) @ '' | '' @
     int_str (rc_stale (rq_counts q)) @ '' | '' @ ps_check (rq_prefix q) @ '' | '' @ int_str (pc_strict pc) @ ''/'' @ n @
     '' | '' @ int_str (pc_token_fallback pc) @ ''/'' @ n @ '' | '' @ fixed_str 4 (or_zero (ag_hidden a)) @ '' |'')"

definition reuse_markdown :: "sweep_target \<Rightarrow> sweep_args \<Rightarrow> reuse_report \<Rightarrow> string res" where
  "reuse_markdown tg args r =
     bindR (mapR (\<lambda>(s, es). mapR (reuse_run_row s) es) (ru_runs r)) (\<lambda>rows.
     Inr (join newline (
       [''# Reuse Experiment Report'', [], ''- base_url: `'' @ tg_base_url tg @ ''`'',
        ''- exporter_metrics_url: `'' @ tg_exporter_metrics tg @ ''`'', ''- model: `'' @ tg_model tg @ ''`'',
        ''- repeats: `'' @ int_str (sa_repeats args) @ ''`'', [],
        ''| Scenario | Repeat | req/s | e2e_p95_ms | hit_ratio_window | metric_quality | prefix_check | hidden_reuse | ok/total |'',
        ''|---|---:|---:|---:|---:|---|---|---:|---:|''] @ concat rows @
       [[], ''## Aggregates'', [],
        ''| Scenario | req/s mean | e2e_p95_ms mean | hit_ratio mean | hit missing | hit stale | prefix_check | strict runs | '' @
          ''token fallback runs | hidden_reuse mean |'',
        ''|---|---:|---:|---:|---:|---:|---|---:|---:|---:|''] @ map reuse_aggregate_row (ru_aggregates r) @ [[]])))"

definition reuse_main :: "sweep_world \<Rightarrow> sweep_target \<Rightarrow> sweep_args \<Rightarrow> int \<Rightarrow> sweep_files res" where
  "reuse_main wd tg args concurrency =
     bindR (run_reuse wd args concurrency) (\<lambda>r. bindR (reuse_markdown tg args r) (\<lambda>t.
     Inr \<lparr>sf_json = reuse_json tg args concurrency r, sf_report = t\<rparr>))"

section \<open>The baseline comparison's file\<close>

definition comparison_doc :: "comparison \<Rightarrow> pydict" where
  "comparison_doc c =
     (let r = cm_dual c; n = re_counts r; p = re_prefix r in
      [(''baseline_hard_only_recommended_rps'', VFloat (cm_baseline_rps c)),
       (''dual_boundary_recommended_rps'', VFloat (cm_dual_rps c)), (''delta_dual_minus_baseline'', VFloat (cm_delta c)),
       (''num_runs'', VInt (re_num_runs r)), (''num_runs_missing_hit_ratio'', VInt (pl_missing n)),
       (''num_runs_stale_metrics'', VInt (pl_stale n)), (''num_runs_ok_metrics'', VInt (pl_ok n)),
       (''metric_quality'', VStr (re_metric_quality r)), (''num_runs_window_hit_ratio'', VInt (pl_window n)),
       (''num_runs_snapshot_fallback_hit_ratio'', VInt (pl_snapshot n)),
       (''hit_ratio_source'', VStr (re_hit_ratio_source r)), (''ok_metric_run_fraction'', VFloat (re_ok_fraction r)),
       (''hit_ratio_comparable'', VBool (re_comparable r)), (''num_runs_prefix_metric_strict'', VInt (pc_strict p)),
       (''num_runs_prefix_metric_token_fallback'', VInt (pc_token_fallback p)),
       (''num_runs_prefix_metric_other'', VInt (pc_other p)), (''num_runs_prefix_metric_missing'', VInt (pc_missing p)),
       (''prefix_metric_check'', VStr (re_prefix_check r))])"

definition baseline_json :: "policy \<Rightarrow> pyfloat \<Rightarrow> (string \<times> comparison) list \<Rightarrow> pydict" where
  "baseline_json p min_hit cs =
     [(''schema_version'', VInt 3),
      (''policy'', VDict [(''e2e_p95_slo_ms'', VFloat (po_slo_ms p)), (''min_success_rate'', VFloat (po_min_success p)),
         (''min_hit_ratio'', VFloat min_hit), (''safety_factor'', VFloat (po_safety p))]),
      (''scenarios'', VDict (map (\<lambda>(s, c). (s, VDict (comparison_doc c))) cs))]"

section \<open>Facts\<close>

text \<open>What a field has to hold for the report's formatting to return.\<close>

definition floaty :: "pydict \<Rightarrow> string \<Rightarrow> bool" where
  "floaty d k = (case dget d k of None \<Rightarrow> True | Some VNone \<Rightarrow> True | Some (VFloat _) \<Rightarrow> True | _ \<Rightarrow> False)"

definition inty :: "pydict \<Rightarrow> string \<Rightarrow> bool" where
  "inty d k = (case dget d k of None \<Rightarrow> True | Some VNone \<Rightarrow> True | Some (VInt _) \<Rightarrow> True | _ \<Rightarrow> False)"

lemma returns_float: "floaty d k \<Longrightarrow> returns (float_field (VDict d) k)"
  by (auto simp: floaty_def float_field_def fmt_float_def dget_or_def split: option.splits pyval.splits)

lemma returns_coverage: "inty d k \<Longrightarrow> inty d t \<Longrightarrow> returns (fmt_count_coverage (VDict d) k t)"
  by (auto simp: inty_def fmt_count_coverage_def dget_or_def split: option.splits pyval.splits)

subsection \<open>The documents have the fields the report reads\<close>

lemma opt_v_cases: "opt_v x = VNone \<or> (\<exists>y. opt_v x = VFloat y)"
  by (cases x) (simp_all add: opt_v_def)

lemma floatyI: "dget d k = Some (opt_v x) \<Longrightarrow> floaty d k" "dget d k = Some (VFloat y) \<Longrightarrow> floaty d k" "dget d k = None \<Longrightarrow> floaty d k"
  using opt_v_cases [of x] by (auto simp: floaty_def)

lemma intyI: "dget d k = Some (VInt n) \<Longrightarrow> inty d k" "dget d k = None \<Longrightarrow> inty d k"
  by (auto simp: inty_def)

definition float_keys :: "pydict \<Rightarrow> string list \<Rightarrow> bool" where
  "float_keys d ks = list_all (floaty d) ks"

definition int_keys :: "pydict \<Rightarrow> string list \<Rightarrow> bool" where
  "int_keys d ks = list_all (inty d) ks"

definition count_keys :: "string list" where
  "count_keys = [''num_runs_ok_metrics'', ''num_runs_prefix_metric_strict'', ''num_runs_prefix_metric_token_fallback'']"

lemma empty_keys [simp]: "float_keys [] ks" "int_keys [] ks"
  by (simp_all add: float_keys_def int_keys_def floaty_def inty_def dget_def list_all_iff)

lemma aggregates_floats: "float_keys (aggregates_doc a) [''req_s_mean'', ''e2e_p95_ms_mean'', ''hit_ratio_mean'']"
  by (auto simp: float_keys_def aggregates_doc_def dget_def Let_def intro: floatyI)

lemma quality_ints: "int_keys (quality_doc q) (''total_runs'' # count_keys)"
  by (auto simp: int_keys_def count_keys_def quality_doc_def dget_def Let_def intro: intyI)

lemma comparison_keys:
  "float_keys (comparison_doc c)
     [''baseline_hard_only_recommended_rps'', ''dual_boundary_recommended_rps'', ''delta_dual_minus_baseline'']"
  "int_keys (comparison_doc c) (''num_runs'' # count_keys)"
  by (auto simp: float_keys_def int_keys_def count_keys_def comparison_doc_def dget_def Let_def intro: floatyI intyI)

lemma threshold_row_ints: "int_keys (threshold_row_doc t) (''num_runs'' # count_keys)"
  by (auto simp: int_keys_def count_keys_def threshold_row_doc_def dget_def Let_def intro: intyI)

lemma rank_floats: "float_keys (rank_doc k) [''req_s_mean'', ''dual_boundary_recommended_rps'']"
  by (auto simp: float_keys_def rank_doc_def dget_def intro: floatyI)

lemma rank_concurrency: "dget (rank_doc k) ''concurrency'' = Some (VInt (rk_concurrency k))"
  by (simp add: rank_doc_def dget_def)

lemma map_values: "map_of (map (\<lambda>(k, v). (k, f v)) xs) k = map_option f (map_of xs k)"
  by (induction xs) auto

definition doc_or_empty :: "('a \<Rightarrow> pydict) \<Rightarrow> 'a option \<Rightarrow> pydict" where
  "doc_or_empty f x = (case x of None \<Rightarrow> [] | Some y \<Rightarrow> f y)"

lemma values_path:
  "dget_or (map (\<lambda>(k, v). (k, VDict (f v))) xs) k (VDict []) = VDict (doc_or_empty f (map_of xs k))"
  by (simp add: dget_or_def dget_def map_values doc_or_empty_def split: option.split)

lemma reuse_agg: "reuse_aggregates (reuse_json tg args c r) s = Inr (VDict (doc_or_empty aggregates_doc (map_of (ru_aggregates r) s)))"
  using values_path [of aggregates_doc "ru_aggregates r" s]
  by (simp add: reuse_aggregates_def reuse_json_def dget_or_def dget_def)

lemma baseline_item:
  "get_path [''scenarios'', s] (VDict (baseline_json p h cs)) = Inr (VDict (doc_or_empty comparison_doc (map_of cs s)))"
  using values_path [of comparison_doc cs s] by (simp add: baseline_json_def dget_or_def dget_def)

lemma capacity_item:
  "capacity_scenario (sweep_json tg args d) s = Inr (VDict (doc_or_empty scenario_doc (map_of (sd_ranking d) s)))"
  using values_path [of scenario_doc "sd_ranking d" s]
  by (simp add: capacity_scenario_def sweep_json_def ranking_doc_def dget_or_def dget_def)

lemma agg_quality:
  "\<exists>q. quality_of (VDict (doc_or_empty aggregates_doc x)) = Inr (VDict (doc_or_empty quality_doc q))"
proof (cases x)
  case None
  then show ?thesis by (intro exI [of _ None]) (simp add: quality_of_def doc_or_empty_def dget_or_def dget_def)
next
  case (Some a)
  then show ?thesis
    by (intro exI [of _ "Some (ag_quality a)"]) (simp add: quality_of_def doc_or_empty_def aggregates_doc_def dget_or_def dget_def Let_def)
qed

lemma scenario_points:
  "\<exists>h b. vget (VDict (doc_or_empty scenario_doc x)) ''highest_feasible_point'' VNone = Inr (opt_rank_doc h) \<and>
     vget (VDict (doc_or_empty scenario_doc x)) ''best_safe_point'' VNone = Inr (opt_rank_doc b)"
proof (cases x)
  case None
  then show ?thesis by (intro exI [of _ None]) (simp add: doc_or_empty_def dget_or_def dget_def opt_rank_doc_def)
next
  case (Some r)
  then show ?thesis
    by (intro exI [of _ "sr_highest r"] exI [of _ "sr_best_safe r"]) (simp add: doc_or_empty_def scenario_doc_def dget_or_def dget_def)
qed

subsection \<open>The report's parts return\<close>

lemma keys_doc_or_empty:
  "(\<And>a. float_keys (f a) ks) \<Longrightarrow> float_keys (doc_or_empty f x) ks" "(\<And>a. int_keys (f a) ks) \<Longrightarrow> int_keys (doc_or_empty f x) ks"
  by (cases x; simp add: doc_or_empty_def)+

lemma returns_float_keys: "float_keys d ks \<Longrightarrow> k \<in> set ks \<Longrightarrow> returns (float_field (VDict d) k)"
  by (auto simp: float_keys_def list_all_iff intro: returns_float)

lemma returns_int_keys: "int_keys d ks \<Longrightarrow> k \<in> set ks \<Longrightarrow> t \<in> set ks \<Longrightarrow> returns (fmt_count_coverage (VDict d) k t)"
  by (auto simp: int_keys_def list_all_iff intro: returns_coverage)

lemmas agg_returns = returns_float_keys [OF keys_doc_or_empty(1) [of aggregates_doc, OF aggregates_floats]]
lemmas quality_returns = returns_int_keys [OF keys_doc_or_empty(2) [of quality_doc, OF quality_ints]]
lemmas comparison_returns =
  returns_float_keys [OF keys_doc_or_empty(1) [of comparison_doc, OF comparison_keys(1)]] returns_int_keys [OF keys_doc_or_empty(2) [of comparison_doc, OF comparison_keys(2)]]
lemmas row_returns = returns_int_keys [OF threshold_row_ints]

lemma point_returns:
  "returns (concurrency_of (opt_rank_doc h))"
  "k \<in> {''req_s_mean'', ''dual_boundary_recommended_rps''} \<Longrightarrow> returns (point_float (opt_rank_doc h) k)"
proof -
  show "returns (concurrency_of (opt_rank_doc h))"
    by (cases h) (simp_all add: concurrency_of_def opt_rank_doc_def rank_concurrency)
  show "k \<in> {''req_s_mean'', ''dual_boundary_recommended_rps''} \<Longrightarrow> returns (point_float (opt_rank_doc h) k)"
    using returns_float_keys [OF rank_floats] by (cases h) (auto simp: point_float_def opt_rank_doc_def fmt_float_def)
qed

lemma returns_points:
  assumes "\<And>h b. returns (f (opt_rank_doc h) (opt_rank_doc b))"
  shows "returns (bindR (capacity_scenario (sweep_json tg args d) s) (\<lambda>item. with_points item f))"
proof -
  obtain h b where "vget (VDict (doc_or_empty scenario_doc (map_of (sd_ranking d) s))) ''highest_feasible_point'' VNone = Inr (opt_rank_doc h)"
    "vget (VDict (doc_or_empty scenario_doc (map_of (sd_ranking d) s))) ''best_safe_point'' VNone = Inr (opt_rank_doc b)"
    using scenario_points by blast
  then show ?thesis using assms by (simp add: capacity_item with_points_def)
qed

lemma returns_kept: "returns (bindR (kept_threshold (threshold_document rows) s) (\<lambda>m. fill [x, y] [fmt_float m]))"
  by (auto simp: kept_threshold_eq max_or_none_def fmt_float_def intro!: returns_bind returns_fill split: list.split)

lemma lines_return:
  "returns (decision_baseline (Some (baseline_json p h cs)))" "returns (policy_headline (baseline_json p h cs))"
  "returns (policy_gap (baseline_json p h cs) s)" "returns (baseline_row (baseline_json p h cs) s)"
  unfolding decision_baseline_def policy_headline_def policy_gap_def baseline_row_def option.case baseline_item bindR_simps
  by ((rule returns_fill returns_row; simp add: comparison_returns returns_text quality_cells_def fmt_metric_coverage_def count_keys_def)+)

lemma threshold_lines_return:
  "returns (decision_threshold (threshold_document rows))" "returns (threshold_headline (threshold_document rows))"
  "returns (threshold_resilience (threshold_document rows) s)"
  unfolding decision_threshold_def threshold_headline_def threshold_resilience_def by (rule returns_kept)+

lemma capacity_lines_return:
  "returns (decision_capacity (sweep_json tg args d))" "returns (capacity_headline (sweep_json tg args d))"
  "returns (capacity_finding (sweep_json tg args d) s)" "returns (capacity_row (sweep_json tg args d) s)"
  unfolding decision_capacity_def capacity_headline_def capacity_finding_def capacity_row_def
  by (rule returns_points, (rule returns_fill returns_row; simp add: point_returns))+

lemma setup_returns:
  "returns (project_context (reuse_json tg args c r))" "returns (setup_capacity (sweep_json tg args d))"
proof -
  have m: "vitem (VDict (reuse_json tg args c r)) ''meta'' = Inr (VDict (reuse_meta_doc tg args c))"
    by (simp add: reuse_json_def dget_def)
  show "returns (project_context (reuse_json tg args c r))"
    unfolding project_context_def m bindR_simps
    by (intro returns_bind returns_fill returns_Inr) (simp_all add: returns_text)
  have j: "returns (joined str_of (VList (map VStr xs)))" "returns (joined (\<lambda>v. Inr (py_str v)) (VList ys))" for xs ys
    by (auto simp: joined_def str_of_def intro!: returns_bind returns_mapR)
  have k: "vget (VDict (sweep_json tg args d)) ''meta'' (VDict []) = Inr (VDict (meta_doc tg args))"
    "vget (VDict (meta_doc tg args)) ''scenarios'' (VList []) = Inr (VList (map VStr (sa_scenarios args)))"
    "vget (VDict (meta_doc tg args)) ''concurrency_values'' (VList []) = Inr (VList (map VInt (sa_concurrency args)))"
    by (simp_all add: sweep_json_def meta_doc_def dget_or_def dget_def)
  show "returns (setup_capacity (sweep_json tg args d))"
    unfolding setup_capacity_def k bindR_simps by (rule returns_fill) (simp_all add: j returns_text)
qed

lemma reuse_returns:
  "returns (reuse_headline (VDict (doc_or_empty aggregates_doc x)) (VDict (doc_or_empty aggregates_doc y)))"
  "returns (benefit_finding (VDict (doc_or_empty aggregates_doc x)) (VDict (doc_or_empty aggregates_doc y)))"
  "returns (throughput_finding (VDict (doc_or_empty aggregates_doc x)) (VDict (doc_or_empty aggregates_doc y)))"
  "returns (reuse_row (reuse_json tg args c r) s)"
proof -
  have q: "returns (quality_text (VDict (doc_or_empty aggregates_doc x)))" "returns (coverage_text (VDict (doc_or_empty aggregates_doc x)))" for x
    using agg_quality [of x] quality_returns
    by (auto simp: quality_text_def coverage_text_def returns_text fmt_metric_coverage_def count_keys_def)
  show "returns (reuse_headline (VDict (doc_or_empty aggregates_doc x)) (VDict (doc_or_empty aggregates_doc y)))"
    unfolding reuse_headline_def by (intro returns_bind returns_Inr q agg_returns) simp_all
  show "returns (benefit_finding (VDict (doc_or_empty aggregates_doc x)) (VDict (doc_or_empty aggregates_doc y)))"
    "returns (throughput_finding (VDict (doc_or_empty aggregates_doc x)) (VDict (doc_or_empty aggregates_doc y)))"
    unfolding benefit_finding_def throughput_finding_def by (rule returns_fill; simp add: agg_returns)+
  obtain z where z: "quality_of (VDict (doc_or_empty aggregates_doc (map_of (ru_aggregates r) s))) = Inr (VDict (doc_or_empty quality_doc z))"
    using agg_quality by blast
  show "returns (reuse_row (reuse_json tg args c r) s)"
    unfolding reuse_row_def reuse_agg bindR_simps z
    by (rule returns_row) (simp add: agg_returns returns_text quality_returns fmt_metric_coverage_def count_keys_def)
qed

lemma grouped_docs:
  "grouped_rows (map (\<lambda>t. VDict (threshold_row_doc t)) rows) s =
     Inr (map (\<lambda>t. VDict (threshold_row_doc t)) (filter (\<lambda>t. tr_scenario t = s) rows))"
proof -
  have "mapR (\<lambda>row. item_text row ''scenario'') (map (\<lambda>t. VDict (threshold_row_doc t)) rows) = Inr (map tr_scenario rows)"
    by (induction rows) (simp_all add: item_text_def threshold_row_doc_def dget_def Let_def)
  moreover have "map snd (filter (\<lambda>(n, row). n = s) (zip (map tr_scenario rows) (map f rows))) =
      map f (filter (\<lambda>t. tr_scenario t = s) rows)" for f :: "threshold_row \<Rightarrow> pyval"
    by (induction rows) auto
  ultimately show ?thesis by (simp add: grouped_rows_def)
qed

lemma row_items:
  "vitem (VDict (threshold_row_doc t)) ''dual_rps'' = Inr (VFloat (cm_dual_rps (tr_comparison t)))"
  "vitem (VDict (threshold_row_doc t)) ''baseline_rps'' = Inr (VFloat (cm_baseline_rps (tr_comparison t)))"
  "item_text (VDict (threshold_row_doc t)) ''metric_quality'' = Inr (re_metric_quality (cm_dual (tr_comparison t)))"
  "item_text (VDict (threshold_row_doc t)) ''hit_ratio_source'' = Inr (re_hit_ratio_source (cm_dual (tr_comparison t)))"
  by (simp_all add: item_text_def threshold_row_doc_def dget_def Let_def)

lemma max_or_none_returns: "returns (fmt_float (max_or_none xs))"
  by (auto simp: max_or_none_def fmt_float_def split: list.split)

lemma threshold_row_returns: "returns (threshold_table_row (map (\<lambda>t. VDict (threshold_row_doc t)) rows) s)"
proof -
  let ?d = "\<lambda>t. VDict (threshold_row_doc t)" and ?mine = "filter (\<lambda>t. tr_scenario t = s) rows"
  have duals: "mapR (\<lambda>row. bindR (vitem row ''dual_rps'') py_float) (map ?d ts) =
      Inr (map (\<lambda>t. cm_dual_rps (tr_comparison t)) ts)" for ts
    by (induction ts) (simp_all add: row_items del: vitem.simps)
  have cells: "\<exists>b q src. threshold_cells (map ?d ts) = Inr (b, q, src) \<and> returns (fmt_float b)" for ts
    by (cases ts) (simp_all add: threshold_cells_def row_items fmt_float_def del: vitem.simps)
  obtain b q src where c: "threshold_cells (map ?d ?mine) = Inr (b, q, src)" "returns (fmt_float b)" using cells by blast
  have best: "returns (fmt_float (if xs = [] then VFloat (Fin 0) else max_or_none xs))" for xs
    by (cases "xs = []") (simp_all add: max_or_none_returns, simp add: fmt_float_def)
  have rest: "list_all returns (case map ?d ts of [] \<Rightarrow> [Inr ''NA'', Inr ''missing'', Inr ''NA'', Inr ''NA'']
        | row # _ \<Rightarrow> fmt_metric_coverage row ''num_runs'' # quality_cells row)" for ts
    by (cases ts) (simp_all add: quality_cells_def fmt_metric_coverage_def returns_text row_returns count_keys_def)
  show ?thesis
    unfolding threshold_table_row_def grouped_docs bindR_simps positive_threshold_docs duals c(1) Let_def prod.case
    by (rule returns_row) (simp only: list_all_append list.pred_inject id_apply returns_Inr c(2) best rest max_or_none_returns simp_thms)
qed

subsection \<open>The sections return\<close>

text \<open>Who wrote a document.\<close>

definition of_compare :: "pydict \<Rightarrow> bool" where
  "of_compare d \<longleftrightarrow> (\<exists>p h cs. d = baseline_json p h cs)"

definition of_scan :: "pydict \<Rightarrow> bool" where
  "of_scan d \<longleftrightarrow> (\<exists>rows. d = threshold_document rows)"

definition of_sweep :: "pydict \<Rightarrow> bool" where
  "of_sweep d \<longleftrightarrow> (\<exists>tg args s. d = sweep_json tg args s)"

lemma compare_returns:
  assumes "of_compare d"
  shows "returns (decision_baseline (Some d))" "returns (policy_headline d)" "returns (policy_gap d s)" "returns (baseline_row d s)"
proof -
  obtain p h cs where d: "d = baseline_json p h cs" using assms unfolding of_compare_def by (elim exE)
  show "returns (decision_baseline (Some d))" "returns (policy_headline d)" "returns (policy_gap d s)" "returns (baseline_row d s)"
    unfolding d by (rule lines_return)+
qed

lemma scan_returns:
  assumes "of_scan d"
  shows "returns (decision_threshold d)" "returns (threshold_headline d)" "returns (threshold_resilience d s)"
proof -
  obtain rows where d: "d = threshold_document rows" using assms unfolding of_scan_def by (elim exE)
  show "returns (decision_threshold d)" "returns (threshold_headline d)" "returns (threshold_resilience d s)"
    unfolding d by (rule threshold_lines_return)+
qed

lemma sweep_returns:
  assumes "of_sweep d"
  shows "returns (decision_capacity d)" "returns (capacity_headline d)" "returns (capacity_finding d s)" "returns (capacity_row d s)"
    "returns (setup_capacity d)"
proof -
  obtain tg args x where d: "d = sweep_json tg args x" using assms unfolding of_sweep_def by (elim exE)
  show "returns (decision_capacity d)" "returns (capacity_headline d)" "returns (capacity_finding d s)" "returns (capacity_row d s)"
    "returns (setup_capacity d)"
    unfolding d by (rule capacity_lines_return setup_returns)+
qed

lemma returns_opt_docs:
  "pred_option P d \<Longrightarrow> (\<And>x. P x \<Longrightarrow> returns (f x)) \<Longrightarrow> returns (opt_line f d)"
  "pred_option P d \<Longrightarrow> (\<And>x. P x \<Longrightarrow> returns (g x)) \<Longrightarrow> returns (opt_section g d)"
  "pred_option P d \<Longrightarrow> (\<And>x s. P x \<Longrightarrow> returns (h x s)) \<Longrightarrow> returns (scenario_lines h d)"
  by (cases d; auto simp: opt_line_def opt_section_def scenario_lines_def intro!: returns_bind returns_mapR)+

lemma decision_returns:
  assumes "pred_option of_compare b" "pred_option of_scan t" "pred_option of_sweep k"
  shows "returns (decision_summary b t k)"
proof -
  have "returns (decision_baseline b)"
    using assms(1) by (cases b) (simp add: decision_baseline_def, simp add: compare_returns(1))
  then show ?thesis unfolding decision_summary_def
    by (intro returns_bind returns_Inr returns_opt_docs(1) [OF assms(2)] returns_opt_docs(1) [OF assms(3)] scan_returns sweep_returns)
qed

lemma experiment_setup_returns:
  assumes "pred_option of_sweep k"
  shows "returns (experiment_setup (reuse_json tg args c r) k)"
proof -
  have m: "vget (VDict (reuse_json tg args c r)) ''meta'' (VDict []) = Inr (VDict (reuse_meta_doc tg args c))"
    by (simp add: reuse_json_def dget_or_def dget_def)
  have "returns (opt_line setup_capacity k)" by (rule returns_opt_docs(1) [OF assms sweep_returns(5)])
  then show ?thesis unfolding experiment_setup_def m bindR_simps
    by (intro returns_bind returns_fill returns_Inr) (simp_all add: returns_text)
qed

lemma summary_returns:
  assumes "pred_option of_compare b" "pred_option of_scan t" "pred_option of_sweep k"
  shows "returns (executive_summary (reuse_json tg args c r) b t k)"
  unfolding executive_summary_def reuse_agg bindR_simps
  by (intro returns_bind returns_Inr reuse_returns returns_opt_docs(1) [OF assms(1) compare_returns(2)]
      returns_opt_docs(1) [OF assms(2) scan_returns(2)] returns_opt_docs(1) [OF assms(3) sweep_returns(2)])

lemma findings_returns:
  assumes "pred_option of_compare b" "pred_option of_scan t" "pred_option of_sweep k"
  shows "returns (key_findings (reuse_json tg args c r) b t k)"
  unfolding key_findings_def reuse_agg bindR_simps
  by (intro returns_bind returns_Inr reuse_returns returns_opt_docs(3) [OF assms(1) compare_returns(3)]
      returns_opt_docs(3) [OF assms(2) scan_returns(3)] returns_opt_docs(3) [OF assms(3) sweep_returns(3)])

lemma reuse_section_returns: "returns (reuse_section (reuse_json tg args c r))"
proof -
  have m: "vitem (VDict (reuse_json tg args c r)) ''meta'' = Inr (VDict (reuse_meta_doc tg args c))"
    by (simp add: reuse_json_def dget_def)
  have f: "returns (item_text (VDict (reuse_meta_doc tg args c)) ''base_url'')"
    "returns (item_text (VDict (reuse_meta_doc tg args c)) ''model'')"
    "returns (item_text (VDict (reuse_meta_doc tg args c)) ''repeats'')"
    by (simp_all add: item_text_def reuse_meta_doc_def dget_def)
  have "returns (reuse_head (reuse_json tg args c r))"
    unfolding reuse_head_def m bindR_simps by (intro returns_bind returns_fill returns_Inr) (simp_all add: f)
  then show ?thesis unfolding reuse_section_def by (intro returns_bind returns_mapR returns_Inr reuse_returns)
qed

lemma table_returns:
  "of_compare d \<Longrightarrow> returns (baseline_section d)" "of_scan d \<Longrightarrow> returns (threshold_section d pngs)"
  "of_sweep d \<Longrightarrow> returns (capacity_section d png)"
proof -
  show "of_compare d \<Longrightarrow> returns (baseline_section d)"
    unfolding baseline_section_def by (intro returns_bind returns_mapR returns_Inr compare_returns(4))
  have rows: "threshold_doc_rows (threshold_document rows) = Inr (map (\<lambda>t. VDict (threshold_row_doc t)) rows)" for rows
    by (simp add: threshold_doc_rows_def threshold_document_def dget_or_def dget_def)
  have "returns (threshold_section (threshold_document rows) pngs)" for rows
    unfolding threshold_section_def rows bindR_simps by (intro returns_bind returns_mapR returns_Inr threshold_row_returns)
  then show "of_scan d \<Longrightarrow> returns (threshold_section d pngs)" by (auto simp: of_scan_def)
  show "of_sweep d \<Longrightarrow> returns (capacity_section d png)"
    unfolding capacity_section_def by (intro returns_bind returns_mapR returns_Inr sweep_returns(4))
qed

section \<open>Property\<close>

text \<open>
  Property C23.  The final report can always be built from what the repository's programs write: whatever
  the reuse experiment, the comparison, the scan and the sweep measured, and whichever of the optional documents
  are there, the report reads only fields those documents have, with values its formatting accepts, and returns.
\<close>

theorem final_report_total:
  "\<exists>text. build_report \<lparr>ri_reuse = reuse_json tg args concurrency r,
      ri_baseline = map_option (\<lambda>(p, h, cs). baseline_json p h cs) compared,
      ri_threshold = map_option threshold_document scanned, ri_threshold_pngs = pngs,
      ri_capacity = map_option (\<lambda>(tg', args', d). sweep_json tg' args' d) swept, ri_capacity_png = png\<rparr> = Inr text"
proof -
  define i where "i = \<lparr>ri_reuse = reuse_json tg args concurrency r,
      ri_baseline = map_option (\<lambda>(p, h, cs). baseline_json p h cs) compared,
      ri_threshold = map_option threshold_document scanned, ri_threshold_pngs = pngs,
      ri_capacity = map_option (\<lambda>(tg', args', d). sweep_json tg' args' d) swept, ri_capacity_png = png\<rparr>"
  have b: "pred_option of_compare (ri_baseline i)" by (cases compared) (auto simp: i_def of_compare_def)
  have t: "pred_option of_scan (ri_threshold i)" by (cases scanned) (auto simp: i_def of_scan_def)
  have c: "pred_option of_sweep (ri_capacity i)" by (cases swept) (auto simp: i_def of_sweep_def)
  have r: "ri_reuse i = reuse_json tg args concurrency r" by (simp add: i_def)
  have "list_all returns
       [decision_summary (ri_baseline i) (ri_threshold i) (ri_capacity i), project_context (ri_reuse i),
        experiment_setup (ri_reuse i) (ri_capacity i),
        executive_summary (ri_reuse i) (ri_baseline i) (ri_threshold i) (ri_capacity i),
        key_findings (ri_reuse i) (ri_baseline i) (ri_threshold i) (ri_capacity i), reuse_section (ri_reuse i),
        opt_section baseline_section (ri_baseline i),
        opt_section (\<lambda>d. threshold_section d (ri_threshold_pngs i)) (ri_threshold i),
        opt_section (\<lambda>d. capacity_section d (ri_capacity_png i)) (ri_capacity i)]"
    unfolding r by (simp add: decision_returns [OF b t c] summary_returns [OF b t c] findings_returns [OF b t c] setup_returns
        experiment_setup_returns [OF c] reuse_section_returns returns_opt_docs(2) [OF b table_returns(1)]
        returns_opt_docs(2) [OF t table_returns(2)] returns_opt_docs(2) [OF c table_returns(3)])
  then have "returns (build_report i)"
    unfolding build_report_def report_sections_def
    by (intro returns_bind returns_mapR returns_Inr) (auto simp: list_all_iff)
  then show ?thesis unfolding i_def by (rule returnsD)
qed

end
