(* ===== verification/EvaluationDoc.thy ===== *)
theory EvaluationDoc
  imports Stage2 Reports
begin

text \<open>
  The document an evaluation of \<open>benchmark/stage2_evaluation.py\<close> writes, and the Markdown report
  \<open>benchmark/stage2_report.py\<close> makes of it.  The report reads the document as dictionaries, so that only the spelling of
  the keys connects the two programs.
\<close>

section \<open>The document\<close>

definition quantiles_doc :: "quantiles \<Rightarrow> pydict" where
  "quantiles_doc q = [(''p50'', opt_v (qs_p50 q)), (''p95'', opt_v (qs_p95 q)), (''p99'', opt_v (qs_p99 q))]"

definition counts_doc :: "(string \<times> int) list \<Rightarrow> pydict" where
  "counts_doc d = map (\<lambda>(k, n). (k, VInt n)) d"

definition summary_doc :: "sample_summary \<Rightarrow> pydict" where
  "summary_doc s =
     [(''requests'', VInt (ss_requests s)), (''ok'', VInt (ss_ok s)), (''failed'', VInt (ss_failed s)),
      (''error_rate'', VFloat (ss_error_rate s)), (''throughput_req_s'', VFloat (ss_throughput s)),
      (''latency_ms'', VDict (quantiles_doc (ss_latency s))), (''ttft_ms'', VDict (quantiles_doc (ss_ttft s))),
      (''routing_distribution'', VDict (counts_doc (ss_routing s))), (''route_switches'', VInt (ss_switches s)),
      (''fallback_count'', VInt (ss_fallbacks s)), (''sample_errors'', VList (map VStr (ss_errors s))),
      (''elapsed_s'', VFloat (ss_elapsed s))]"

definition backend_window_doc :: "backend_window \<Rightarrow> pydict" where
  "backend_window_doc w =
     [(''prefix_hits_delta'', opt_v (bw_hits_delta w)), (''prefix_queries_delta'', opt_v (bw_queries_delta w)),
      (''kv_reuse_rate'', opt_v (bw_kv_reuse_rate w)), (''gpu_kv_utilization_mean'', opt_v (bw_gpu_kv_utilization w)),
      (''queue_depth_mean'', opt_v (bw_queue_depth w)), (''metric_quality'', VStr (bw_metric_quality w))]"

definition bench_sample_doc :: "bench_sample \<Rightarrow> pydict" where
  "bench_sample_doc s =
     [(''index'', VInt (sm_index s)), (''ok'', VBool (sm_ok s)), (''status'', VInt (sm_status s)), (''error'', VStr (sm_error s)),
      (''latency_ms'', VFloat (sm_latency_ms s)), (''ttft_ms'', opt_v (sm_ttft_ms s)), (''response_bytes'', VInt (sm_bytes s)),
      (''backend'', VStr (sm_backend s)), (''fallback'', VBool (sm_fallback s)), (''request_id'', VStr (sm_request_id s))]"

definition errors_doc :: "(string \<times> string) list \<Rightarrow> pydict" where
  "errors_doc d = map (\<lambda>(k, e). (k, VStr e)) d"

definition repetition_doc :: "repetition \<Rightarrow> pydict" where
  "repetition_doc r =
     [(''repetition'', VInt (rt_repetition r)), (''summary'', VDict (summary_doc (rt_summary r))),
      (''backend_window'', VDict (backend_window_doc (rt_window r))),
      (''metric_scrape_errors'', VDict [(''before'', VDict (errors_doc (rt_errors_before r))),
                                        (''after'', VDict (errors_doc (rt_errors_after r)))]),
      (''samples'', VList (map (\<lambda>s. VDict (bench_sample_doc s)) (rt_samples r)))]"

definition estimate_doc :: "estimate \<Rightarrow> pydict" where
  "estimate_doc e =
     [(''mean'', opt_v (es_mean e)), (''ci95_low'', opt_v (es_low e)), (''ci95_high'', opt_v (es_high e)), (''n'', VInt (es_n e))]"

definition case_aggregate_doc :: "case_aggregate \<Rightarrow> pydict" where
  "case_aggregate_doc a =
     [(''repetitions'', VInt (cg_repetitions a)), (''throughput_req_s'', VDict (estimate_doc (cg_throughput a))),
      (''error_rate'', VDict (estimate_doc (cg_error_rate a))), (''latency_p50_ms'', VDict (estimate_doc (cg_latency_p50 a))),
      (''latency_p95_ms'', VDict (estimate_doc (cg_latency_p95 a))), (''latency_p99_ms'', VDict (estimate_doc (cg_latency_p99 a))),
      (''ttft_p50_ms'', VDict (estimate_doc (cg_ttft_p50 a))), (''ttft_p95_ms'', VDict (estimate_doc (cg_ttft_p95 a))),
      (''ttft_p99_ms'', VDict (estimate_doc (cg_ttft_p99 a))), (''kv_reuse_rate'', VDict (estimate_doc (cg_kv_reuse_rate a))),
      (''gpu_kv_utilization_mean'', VDict (estimate_doc (cg_gpu_kv_utilization a))),
      (''queue_depth_mean'', VDict (estimate_doc (cg_queue_depth a))), (''route_switches'', VInt (cg_switches a)),
      (''fallback_count'', VInt (cg_fallbacks a)), (''routing_distribution'', VDict (counts_doc (cg_routing a))),
      (''metric_quality'', VStr (cg_metric_quality a))]"

definition case_result_doc :: "case_result \<Rightarrow> pydict" where
  "case_result_doc r =
     [(''strategy'', VStr (cs_strategy r)), (''workload'', VStr (cs_workload r)),
      (''repetitions'', VList (map (\<lambda>p. VDict (repetition_doc p)) (cs_repetitions r))),
      (''aggregate'', VDict (case_aggregate_doc (cs_aggregate r)))]"

definition overhead_doc :: "overhead \<Rightarrow> pydict" where
  "overhead_doc o' =
     [(''strategy'', VStr (oh_strategy o')), (''workload'', VStr (oh_workload o')),
      (''gateway_ttft_p95_overhead_ms'', opt_v (oh_ttft_p95 o')), (''gateway_latency_p95_overhead_ms'', opt_v (oh_latency_p95 o'))]"

text \<open>What the host says: the output of two commands, \<open>None\<close> when one fails, versions and the clock.\<close>

record run_host =
  rh_git :: "string option"
  rh_gpu :: "string option"
  rh_python :: string
  rh_platform :: string
  rh_time :: pyfloat

definition command_output :: "string option \<Rightarrow> string" where
  "command_output out = (case out of None \<Rightarrow> ''unknown'' | Some s \<Rightarrow> let t = strip s in if t = [] then ''unknown'' else t)"

definition manifest_doc :: "run_host \<Rightarrow> evaluation_config \<Rightarrow> pydict" where
  "manifest_doc host c =
     [(''model'', VStr (ec_model c)), (''model_revision'', VStr (ec_model_revision c)), (''backend_version'', VStr (ec_backend_version c)),
      (''repetitions'', VInt (ec_repetitions c)), (''requests_per_repetition'', VInt (ec_requests c)),
      (''concurrency'', VInt (ec_concurrency c)), (''max_tokens'', VInt (ec_max_tokens c)), (''seed'', VInt (ec_seed c)),
      (''workloads'', VList (map VStr (ec_workloads c))),
      (''targets'', VList (map (\<lambda>t. VDict [(''strategy'', VStr (ts_strategy t)), (''url'', VStr (ts_url t))]) (ec_targets c))),
      (''backends'', VList (map (\<lambda>b. VDict [(''id'', VStr (bs_id b)), (''metrics_url'', VStr (bs_metrics_url b))]) (ec_backends c))),
      (''git_revision'', VStr (command_output (rh_git host))), (''python'', VStr (rh_python host)),
      (''platform'', VStr (rh_platform host)), (''gpu'', VStr (command_output (rh_gpu host)))]"

definition evaluation_doc :: "run_host \<Rightarrow> evaluation_config \<Rightarrow> evaluation_outcome \<Rightarrow> pydict" where
  "evaluation_doc host c e =
     [(''schema_version'', VStr ''kavora-stage2-evaluation/v2''), (''status'', VStr ''real_backend_measurement''),
      (''config_hash'', VStr (eo_config_hash e)), (''generated_at_unix'', VFloat (rh_time host)),
      (''manifest'', VDict (manifest_doc host c)), (''results'', VList (map (\<lambda>r. VDict (case_result_doc r)) (eo_results e))),
      (''execution_schedule'',
       VList (map (\<lambda>(w, r, order). VDict [(''workload'', VStr w), (''repetition'', VInt r), (''target_order'', VList (map VStr order))])
                (eo_schedule e))),
      (''comparisons'', VList (map (\<lambda>o'. VDict (overhead_doc o')) (eo_comparisons e))),
      (''claim_boundary'', VStr ''Measurements describe this exact hardware, model, configuration, and workload manifest only; no general performance claim is made without independent replication.'')]"

section \<open>The report\<close>

definition estimate_text :: "pyval \<Rightarrow> string res" where
  "estimate_text metric =
     bindR (vget metric ''mean'' VNone) (\<lambda>mean. bindR (vget metric ''ci95_low'' VNone) (\<lambda>low.
     bindR (vget metric ''ci95_high'' VNone) (\<lambda>high.
     if mean = VNone then Inr ''n/a''
     else if low = VNone \<or> high = VNone then fixed_or_na 2 mean
     else fill [[], '' ['', '', '', '']''] (map (fixed_or_na 2) [mean, low, high]))))"

definition backend_label :: "pyval \<Rightarrow> pyval res" where
  "backend_label b = (if is_dict b then vitem b ''id'' else Inr (VStr (py_str b)))"

definition stage2_row :: "pyval \<Rightarrow> string res" where
  "stage2_row result =
     bindR (vitem result ''aggregate'') (\<lambda>aggregate.
     fill [''| `'', ''` | `'', ''` | '', '' | '', '' | '', '' | '', '' | '', '' | '', '' | '', '' | '', '' | '', '' | '', '' | '', '' |'']
       ([item_text result ''strategy'', item_text result ''workload''] @
        map (\<lambda>k. bindR (vitem aggregate k) estimate_text)
          [''ttft_p50_ms'', ''ttft_p95_ms'', ''ttft_p99_ms'', ''latency_p95_ms'', ''throughput_req_s'', ''error_rate'',
           ''kv_reuse_rate'', ''gpu_kv_utilization_mean'', ''queue_depth_mean''] @
        [item_text aggregate ''route_switches'', item_text aggregate ''fallback_count'']))"

definition overhead_row :: "pyval \<Rightarrow> string res" where
  "overhead_row o' =
     fill [''| `'', ''` | `'', ''` | '', '' | '', '' |'']
       [item_text o' ''strategy'', item_text o' ''workload'', bindR (vitem o' ''gateway_ttft_p95_overhead_ms'') (fixed_or_na 2),
        bindR (vitem o' ''gateway_latency_p95_overhead_ms'') (fixed_or_na 2)]"

definition stage2_report :: "pydict \<Rightarrow> string res" where
  "stage2_report report =
     bindR (vitem (VDict report) ''manifest'') (\<lambda>manifest.
     bindR (bindR (vitem manifest ''backends'') py_iter) (\<lambda>backends. bindR (mapR backend_label backends) (\<lambda>backend_ids.
     bindR (mapR id
       [labelled ''Status'' (item_text (VDict report) ''status''), labelled ''Config hash'' (item_text (VDict report) ''config_hash''),
        labelled ''Model'' (item_text manifest ''model''), labelled ''Model revision'' (item_text manifest ''model_revision''),
        labelled ''Backend version'' (item_text manifest ''backend_version''), labelled ''Repetitions'' (item_text manifest ''repetitions''),
        labelled ''Backends'' (join_texts '', '' backend_ids), labelled ''GPU'' (item_text manifest ''gpu'')]) (\<lambda>head.
     bindR (bindR (vitem (VDict report) ''results'') py_iter) (\<lambda>results. bindR (mapR stage2_row results) (\<lambda>rows.
     bindR (py_iter (dget_or report ''comparisons'' (VList []))) (\<lambda>comparisons. bindR (mapR overhead_row comparisons) (\<lambda>overheads.
     bindR (vitem (VDict report) ''claim_boundary'') (\<lambda>boundary.
     bindR (join_texts newline [boundary]) (\<lambda>boundary_text.
     Inr (join newline
       ([''# Kavora Stage 2 Real-Backend Evaluation'', []] @ head @
        [[], ''Values with brackets are mean and 95% confidence interval across repetitions.'', [],
         ''| Strategy | Workload | TTFT p50 ms | TTFT p95 ms | TTFT p99 ms | E2E p95 ms | Throughput req/s | Error rate | KV reuse | KV util | Queue | Switches | Fallbacks |'',
         ''|---|---|---:|---:|---:|---:|---:|---:|---:|---:|---:|---:|---:|''] @ rows @
        [[], ''## Gateway Overhead'', [], ''| Strategy | Workload | TTFT p95 overhead ms | E2E p95 overhead ms |'', ''|---|---|---:|---:|''] @
        overheads @
        [[], ''## Claim Boundary'', [], boundary_text, [],
         ''A missing KV metric is reported as `n/a`; it is never converted to zero. Shadow routing is evaluated as an observation mode, not described as enforced traffic placement.'',
         []]))))))))))))"

section \<open>Facts\<close>

subsection \<open>The report can be made\<close>

lemma returns_fixed: "returns (fixed_or_na n (opt_v x))"
  by (cases x) (simp_all add: fixed_or_na_def py_fixed_def opt_v_def)

lemma returns_estimate: "returns (estimate_text (VDict (estimate_doc e)))"
  using returns_fixed
  by (auto simp: estimate_text_def estimate_doc_def dget_or_def dget_def intro!: returns_fill returns_bind)

definition estimate_keys :: "string list" where
  "estimate_keys =
     [''ttft_p50_ms'', ''ttft_p95_ms'', ''ttft_p99_ms'', ''latency_p50_ms'', ''latency_p95_ms'', ''latency_p99_ms'', ''throughput_req_s'', ''error_rate'',
      ''kv_reuse_rate'', ''gpu_kv_utilization_mean'', ''queue_depth_mean'']"

lemma aggregate_estimates:
  "k \<in> set estimate_keys \<Longrightarrow> \<exists>e. vitem (VDict (case_aggregate_doc a)) k = Inr (VDict (estimate_doc e))"
  unfolding estimate_keys_def list.set by (elim insertE emptyE; hypsubst; simp add: case_aggregate_doc_def dget_def; blast)

lemma stage2_row_returns: "returns (stage2_row (VDict (case_result_doc r)))"
proof -
  have cell: "returns (bindR (vitem (VDict (case_aggregate_doc a)) k) estimate_text)"
    if "k \<in> set estimate_keys" for a k
    using aggregate_estimates [OF that, of a] returns_estimate by auto
  have item: "vitem (VDict (case_result_doc r)) ''aggregate'' = Inr (VDict (case_aggregate_doc (cs_aggregate r)))"
    by (simp add: case_result_doc_def dget_def)
  have "returns (item_text (VDict (case_result_doc r)) k)" if "k \<in> {''strategy'', ''workload''}" for k
    using that by (auto intro!: returns_item simp: case_result_doc_def dhas_def)
  moreover have "returns (item_text (VDict (case_aggregate_doc a)) k)" if "k \<in> {''route_switches'', ''fallback_count''}" for a k
    using that by (auto intro!: returns_item simp: case_aggregate_doc_def dhas_def)
  ultimately show ?thesis
    unfolding stage2_row_def item bindR_simps by (intro returns_fill) (simp_all del: vitem.simps add: cell estimate_keys_def)
qed

lemma overhead_row_returns: "returns (overhead_row (VDict (overhead_doc o')))"
  unfolding overhead_row_def
  by (rule returns_fill) (simp_all add: returns_item overhead_doc_def dhas_def dget_def returns_fixed)

lemma backend_labels:
  "mapR backend_label (map (\<lambda>b. VDict [(''id'', VStr (bs_id b)), (''metrics_url'', VStr (bs_metrics_url b))]) bs) =
     Inr (map (\<lambda>b. VStr (bs_id b)) bs)"
  by (induction bs) (simp_all add: backend_label_def dget_def)

lemma manifest_backends:
  "vitem (VDict (manifest_doc host c)) ''backends'' =
     Inr (VList (map (\<lambda>b. VDict [(''id'', VStr (bs_id b)), (''metrics_url'', VStr (bs_metrics_url b))]) (ec_backends c)))"
  by (simp add: manifest_doc_def dget_def)

lemma evaluation_items:
  "vitem (VDict (evaluation_doc host c e)) ''manifest'' = Inr (VDict (manifest_doc host c))"
  "vitem (VDict (evaluation_doc host c e)) ''results'' = Inr (VList (map (\<lambda>r. VDict (case_result_doc r)) (eo_results e)))"
  "dget_or (evaluation_doc host c e) ''comparisons'' x = VList (map (\<lambda>o'. VDict (overhead_doc o')) (eo_comparisons e))"
  "\<exists>t. vitem (VDict (evaluation_doc host c e)) ''claim_boundary'' = Inr (VStr t)"
  by (simp_all add: evaluation_doc_def dget_def dget_or_def)

lemma stage2_report_returns: "returns (stage2_report (evaluation_doc host c e))"
proof -
  obtain t where t: "vitem (VDict (evaluation_doc host c e)) ''claim_boundary'' = Inr (VStr t)" using evaluation_items(4) by blast
  have "returns (item_text (VDict (manifest_doc host c)) k)"
    if "k \<in> {''model'', ''model_revision'', ''backend_version'', ''repetitions'', ''gpu''}" for k
    using that by (auto intro!: returns_item simp: manifest_doc_def dhas_def)
  moreover have "returns (item_text (VDict (evaluation_doc host c e)) k)" if "k \<in> {''status'', ''config_hash''}" for k
    using that by (auto intro!: returns_item simp: evaluation_doc_def dhas_def)
  moreover have "returns (join_texts newline [VStr t])" using join_texts_eq [of newline "\<lambda>x. x" "[t]"] by simp
  ultimately have head: "list_all returns
      [labelled ''Status'' (item_text (VDict (evaluation_doc host c e)) ''status''),
       labelled ''Config hash'' (item_text (VDict (evaluation_doc host c e)) ''config_hash''),
       labelled ''Model'' (item_text (VDict (manifest_doc host c)) ''model''),
       labelled ''Model revision'' (item_text (VDict (manifest_doc host c)) ''model_revision''),
       labelled ''Backend version'' (item_text (VDict (manifest_doc host c)) ''backend_version''),
       labelled ''Repetitions'' (item_text (VDict (manifest_doc host c)) ''repetitions''),
       labelled ''Backends'' (Inr x), labelled ''GPU'' (item_text (VDict (manifest_doc host c)) ''gpu'')]" "returns (join_texts newline [VStr t])" for x
    by (simp_all add: returns_labelled)
  show ?thesis
    unfolding stage2_report_def evaluation_items(1-3) t manifest_backends bindR_simps py_iter.simps backend_labels join_texts_eq
    using head [unfolded list_all_iff] stage2_row_returns overhead_row_returns
    by (intro returns_bind returns_mapR returns_Inr) (unfold id_apply set_map, blast+)
qed

subsection \<open>The document can be written\<close>

lemma writable_opt [simp]: "writable (opt_v y)"
  by (simp add: opt_v_def split: option.split)

lemma writable_counts: "writable (VDict (counts_doc d))" "writable (VDict (errors_doc es))"
  by (auto simp: counts_doc_def errors_doc_def writable_simps)

lemma writable_docs:
  "writable (VDict (quantiles_doc q))" "writable (VDict (backend_window_doc w))" "writable (VDict (bench_sample_doc s))"
  "writable (VDict (estimate_doc x))" "writable (VDict (overhead_doc o'))" "writable (VDict (manifest_doc host c))"
  by (simp_all add: quantiles_doc_def backend_window_doc_def bench_sample_doc_def estimate_doc_def overhead_doc_def manifest_doc_def)

lemma writable_case: "writable (VDict (case_result_doc r))"
proof -
  have "writable (VDict (summary_doc s))" for s by (simp add: summary_doc_def writable_docs writable_counts)
  then have "writable (VDict (repetition_doc p))" for p by (simp add: repetition_doc_def writable_docs writable_counts)
  moreover have "writable (VDict (case_aggregate_doc a))" for a by (simp add: case_aggregate_doc_def writable_docs writable_counts)
  ultimately show ?thesis by (simp add: case_result_doc_def)
qed

lemma writable_evaluation: "writable (VDict (evaluation_doc host c e))"
  by (simp add: evaluation_doc_def writable_case writable_docs split_def)

text \<open>
  Whatever an evaluation measured, its document can be written as JSON and its report can be made from it:
  the two programs agree on every key, and no missing measurement stops them.
\<close>

theorem evaluation_reported:
  "\<exists>t r. json_dumps (VDict (evaluation_doc host c e)) = Inr t \<and> stage2_report (evaluation_doc host c e) = Inr r"
  using writable_evaluation [of host c e] returnsD [OF stage2_report_returns, of host c e] unfolding writable_def by blast

subsection \<open>What is missing is shown as missing\<close>

lemma estimate_na_iff: "estimate_text (VDict (estimate_doc e)) = Inr ''n/a'' \<longleftrightarrow> es_mean e = None"
proof -
  have no: "s @ t \<noteq> ''n/a''" if "CHR ''/'' \<notin> set s" "CHR ''/'' \<notin> set t" for s t :: string
  proof
    assume "s @ t = ''n/a''"
    then have "CHR ''/'' \<in> set (s @ t)" by simp
    with that show False by simp
  qed
  have shown: "fixed_or_na 2 (opt_v (Some x)) = Inr (fixed_str 2 x)" for x by (simp add: fixed_or_na_def py_fixed_def opt_v_def)
  have items: "vget (VDict (estimate_doc e)) ''mean'' VNone = Inr (opt_v (es_mean e))"
    "vget (VDict (estimate_doc e)) ''ci95_low'' VNone = Inr (opt_v (es_low e))"
    "vget (VDict (estimate_doc e)) ''ci95_high'' VNone = Inr (opt_v (es_high e))"
    by (simp_all add: estimate_doc_def dget_or_def dget_def)
  have none: "opt_v None = VNone" "opt_v (Some x) \<noteq> VNone" for x by (simp_all add: opt_v_def)
  show ?thesis
    unfolding estimate_text_def items bindR_simps
    using no [of "fixed_str 2 _" "[]"] no [OF fixed_str_no_slash]
    by (cases "es_mean e"; cases "es_low e"; cases "es_high e") (simp_all add: none shown fixed_str_no_slash)
qed

lemma estimate_of_None: "estimate_of f reps = Inr e \<Longrightarrow> es_mean e = None \<longleftrightarrow> list_all (\<lambda>r. f r = None) reps"
proof -
  assume "estimate_of f reps = Inr e"
  then have "es_mean e = None \<longleftrightarrow> List.map_filter f reps = []"
    by (auto simp: estimate_of_def mean_ci95_def bindR_eq_Inr split: if_splits)
  then show ?thesis by (auto simp: map_filter_def filter_empty_conv list_all_iff)
qed

text \<open>
  Property C34.  The report's promise that a missing cache metric is shown as \<open>n/a\<close> and never as a number holds in both directions: in
  the row of a case the reuse rate, the utilisation and the queue depth read \<open>n/a\<close> exactly when no repetition of the case
  measured them.
\<close>

theorem missing_metric_shown_missing:
  assumes "aggregate_repetitions reps = Inr a"
  shows "(estimate_text (VDict (estimate_doc (cg_kv_reuse_rate a))) = Inr ''n/a'' \<longleftrightarrow>
      list_all (\<lambda>r. bw_kv_reuse_rate (rt_window r) = None) reps) \<and>
    (estimate_text (VDict (estimate_doc (cg_gpu_kv_utilization a))) = Inr ''n/a'' \<longleftrightarrow>
      list_all (\<lambda>r. bw_gpu_kv_utilization (rt_window r) = None) reps) \<and>
    (estimate_text (VDict (estimate_doc (cg_queue_depth a))) = Inr ''n/a'' \<longleftrightarrow>
      list_all (\<lambda>r. bw_queue_depth (rt_window r) = None) reps)"
proof -
  have "estimate_of (\<lambda>r. bw_kv_reuse_rate (rt_window r)) reps = Inr (cg_kv_reuse_rate a)"
    "estimate_of (\<lambda>r. bw_gpu_kv_utilization (rt_window r)) reps = Inr (cg_gpu_kv_utilization a)"
    "estimate_of (\<lambda>r. bw_queue_depth (rt_window r)) reps = Inr (cg_queue_depth a)"
    using assms by (auto simp: aggregate_repetitions_def Let_def bindR_eq_Inr)
  then show ?thesis unfolding estimate_na_iff using estimate_of_None by blast
qed

definition unmeasured_repetition :: repetition where
  "unmeasured_repetition =
     \<lparr>rt_repetition = 1,
      rt_summary = \<lparr>ss_requests = 1, ss_ok = 0, ss_failed = 1, ss_error_rate = Fin 1, ss_throughput = Fin 0,
        ss_latency = \<lparr>qs_p50 = None, qs_p95 = None, qs_p99 = None\<rparr>, ss_ttft = \<lparr>qs_p50 = None, qs_p95 = None, qs_p99 = None\<rparr>,
        ss_routing = [], ss_switches = 0, ss_fallbacks = 0, ss_errors = [''ConnectError: ''], ss_elapsed = Fin 1\<rparr>,
      rt_window = \<lparr>bw_hits_delta = None, bw_queries_delta = None, bw_kv_reuse_rate = None, bw_gpu_kv_utilization = None,
        bw_queue_depth = None, bw_metric_quality = ''missing''\<rparr>,
      rt_errors_before = [], rt_errors_after = [], rt_samples = []\<rparr>"

theorem missing_metric_shown_missing_witness:
  "\<exists>a. aggregate_repetitions (replicate 10 unmeasured_repetition) = Inr a \<and>
     estimate_text (VDict (estimate_doc (cg_kv_reuse_rate a))) = Inr ''n/a''"
proof -
  have "silent_repetition unmeasured_repetition" by (simp add: silent_repetition_def unmeasured_repetition_def)
  then obtain a where a: "aggregate_repetitions (replicate 10 unmeasured_repetition) = Inr a"
    using silent_aggregate [of "replicate 10 unmeasured_repetition"] by (auto simp: list_all_iff)
  have "list_all (\<lambda>r. bw_kv_reuse_rate (rt_window r) = None) (replicate 10 unmeasured_repetition)"
    by (simp add: unmeasured_repetition_def list_all_iff)
  with a show ?thesis using missing_metric_shown_missing [OF a] by blast
qed

end
