(* ===== verification/GatewayBench.thy ===== *)
theory GatewayBench
  imports Stage2 "HOL-Library.Sublist"
begin

text \<open>
  The gateway benchmark (\<open>benchmark/gateway_runner.py\<close>): the same deterministic prompts are sent over several paths,
  a path's samples are summarised, and the differences between paths are attributed to phases.  The exchanges and the
  clock are arguments; the environment, the memory reading and the command line are not modelled.
\<close>

section \<open>Prompts and paths\<close>

definition prompt_alphabet :: string where
  "prompt_alphabet = ''abcdefghijklmnopqrstuvwxyz ''"

definition gateway_prompt :: "int \<Rightarrow> int \<Rightarrow> string" where
  "gateway_prompt seed len =
     map (\<lambda>i. prompt_alphabet ! nat ((seed + int i * 17) mod int (length prompt_alphabet))) [0..<nat (max 1 len)]"

record path_spec =
  pa_name :: string
  pa_url :: string

definition pa_stream :: "path_spec \<Rightarrow> bool" where
  "pa_stream path = sublist ''stream'' (lower (pa_name path))"

definition parse_path :: "string \<Rightarrow> path_spec res" where
  "parse_path v =
     (case partition_at (CHR ''='') v of (name, separator, url) \<Rightarrow>
        guardR (\<not> separator \<or> name = [] \<or> \<not> (startswith url ''http://'' \<or> startswith url ''https://''))
          (ValueError (''path must be NAME=HTTP_URL, got '' @ py_repr (VStr v)))
          (Inr \<lparr>pa_name = name, pa_url = url\<rparr>))"

definition parse_paths :: "string list \<Rightarrow> path_spec list res" where
  "parse_paths args =
     bindR (mapR parse_path args) (\<lambda>paths.
     guardR (paths = []) (ValueError ''at least one --path is required'') (Inr paths))"

section \<open>Requests\<close>

record gateway_request =
  gr_url :: string
  gr_model :: string
  gr_prompt :: string
  gr_stream :: bool
  gr_authorization :: "string option"

text \<open>A plain POST gives an exception, or a status, the content and the clock after it.\<close>

record posted =
  po_started :: pyfloat
  po_reply :: "string \<times> string + int \<times> string \<times> pyfloat"
  po_finished :: pyfloat

record gateway_net =
  gn_stream :: "gateway_request \<Rightarrow> exchange"
  gn_post :: "gateway_request \<Rightarrow> posted"

record gateway_sample =
  gs_ok :: bool
  gs_status :: int
  gs_error :: string
  gs_latency_ms :: pyfloat
  gs_ttft_ms :: "pyfloat option"
  gs_bytes :: int

text \<open>What the request measured; a first byte at clock zero counts as none.\<close>

definition measured :: "pyfloat \<Rightarrow> pyfloat \<Rightarrow> int \<Rightarrow> string \<Rightarrow> pyfloat option \<Rightarrow> int \<Rightarrow> gateway_sample" where
  "measured started finished status error first_byte bytes =
     \<lparr>gs_ok = (error = [] \<and> 200 \<le> status \<and> status < 300), gs_status = status, gs_error = error,
      gs_latency_ms = elapsed_ms finished started,
      gs_ttft_ms = (case first_byte of None \<Rightarrow> None
                    | Some t \<Rightarrow> if feq t (Fin 0) then None else Some (elapsed_ms t started)),
      gs_bytes = bytes\<rparr>"

definition status_error :: "int \<Rightarrow> string" where
  "status_error status = (if status < 200 \<or> 300 \<le> status then ''HTTP '' @ int_str status else [])"

definition streamed_sample :: "exchange \<Rightarrow> gateway_sample" where
  "streamed_sample x =
     (case xc_response x of
        Refused e \<Rightarrow> measured (xc_started x) (xc_finished x) 0 (exception_text e) None 0
      | Answered status _ parts failure \<Rightarrow>
          measured (xc_started x) (xc_finished x) status
            (case failure of Some e \<Rightarrow> exception_text e | None \<Rightarrow> status_error status)
            (map_option snd (find (\<lambda>(c, _). c \<noteq> []) parts)) (sum_list (map (\<lambda>(c, _). int (length c)) parts)))"

definition posted_sample :: "posted \<Rightarrow> gateway_sample" where
  "posted_sample x =
     (case po_reply x of
        Inl e \<Rightarrow> measured (po_started x) (po_finished x) 0 (exception_text e) None 0
      | Inr (status, content, t) \<Rightarrow>
          measured (po_started x) (po_finished x) status (status_error status)
            (if content = [] then None else Some t) (int (length content)))"

definition gateway_request_of :: "path_spec \<Rightarrow> string \<Rightarrow> string \<Rightarrow> string \<Rightarrow> gateway_request" where
  "gateway_request_of path model prompt api_key =
     \<lparr>gr_url = rstrip_slash (pa_url path) @ ''/v1/chat/completions'', gr_model = model, gr_prompt = prompt,
      gr_stream = pa_stream path, gr_authorization = (if api_key \<noteq> [] then Some (''Bearer '' @ api_key) else None)\<rparr>"

definition gateway_run_one :: "gateway_net \<Rightarrow> path_spec \<Rightarrow> string \<Rightarrow> string \<Rightarrow> string \<Rightarrow> gateway_sample" where
  "gateway_run_one net path model prompt api_key =
     (let q = gateway_request_of path model prompt api_key
      in if pa_stream path then streamed_sample (gn_stream net q) else posted_sample (gn_post net q))"

section \<open>The summary of a path\<close>

record path_result =
  pr_path :: path_spec
  pr_requests :: int
  pr_ok :: int
  pr_failed :: int
  pr_error_rate :: pyfloat
  pr_throughput :: pyfloat
  pr_latency :: quantiles
  pr_ttft :: quantiles
  pr_bytes_mean :: "(int + pyfloat) option"
  pr_errors :: "string list"
  pr_elapsed :: pyfloat

text \<open>\<open>statistics.mean\<close> of integers: an integer where the mean is one, and a float otherwise.\<close>

definition int_mean :: "int list \<Rightarrow> int + pyfloat" where
  "int_mean xs =
     (let s = sum_list xs; n = int (length xs)
      in if n dvd s then Inl (s div n) else Inr (fl (of_int s / of_int n)))"

definition summarize_path :: "path_spec \<Rightarrow> gateway_sample list \<Rightarrow> pyfloat \<Rightarrow> path_result res" where
  "summarize_path path samples elapsed =
     (let successful = filter gs_ok samples; total = int (length samples); ok = int (length successful) in
      bindR (fdiv (fl (of_int ok)) elapsed) (\<lambda>throughput.
      bindR (quantiles_of (map gs_latency_ms successful)) (\<lambda>latency.
      bindR (quantiles_of (List.map_filter gs_ttft_ms successful)) (\<lambda>ttft.
      Inr \<lparr>pr_path = path, pr_requests = total, pr_ok = ok, pr_failed = total - ok,
           pr_error_rate = fl (of_int (total - ok) / of_int (max total 1)), pr_throughput = throughput,
           pr_latency = latency, pr_ttft = ttft,
           pr_bytes_mean = (if successful = [] then None else Some (int_mean (map gs_bytes successful))),
           pr_errors = take 5 (filter (\<lambda>e. e \<noteq> []) (map gs_error samples)), pr_elapsed = elapsed\<rparr>))))"

record gateway_args =
  ga_paths :: "string list"
  ga_model :: string
  ga_requests :: int
  ga_concurrency :: int
  ga_input_length :: int
  ga_api_key :: string
  ga_seed :: int

text \<open>The network and the measured time of a path; which exchange serves a request may depend on its index.\<close>

record gateway_world =
  gw_net :: "path_spec \<Rightarrow> int \<Rightarrow> gateway_net"
  gw_elapsed :: "path_spec \<Rightarrow> pyfloat"

definition run_path :: "gateway_world \<Rightarrow> gateway_args \<Rightarrow> path_spec \<Rightarrow> path_result res" where
  "run_path wd args path =
     summarize_path path
       (map (\<lambda>i. gateway_run_one (gw_net wd path (int i)) path (ga_model args)
                    (gateway_prompt (ga_seed args + int i) (ga_input_length args)) (ga_api_key args))
          [0..<nat (ga_requests args)])
       (py_max (gw_elapsed wd path) (fl (1 / 10 ^ 9)))"

section \<open>Attribution\<close>

record attribution =
  at_go_forward :: "pyfloat option"
  at_rust_policy :: "pyfloat option"
  at_stream_present :: bool

definition path_named :: "string \<Rightarrow> path_result list \<Rightarrow> path_result option" where
  "path_named name results = find (\<lambda>r. pa_name (pr_path r) = name) (rev results)"

definition phase_attribution :: "path_result list \<Rightarrow> attribution option" where
  "phase_attribution results =
     (let p95 = \<lambda>r. qs_p95 (pr_latency r) in
      case (path_named ''direct'' results, path_named ''go_only'' results, path_named ''go_rust_unary'' results) of
        (Some direct, Some go_only, Some go_rust) \<Rightarrow>
          Some \<lparr>at_go_forward = difference (p95 go_only) (p95 direct), at_rust_policy = difference (p95 go_rust) (p95 go_only),
                at_stream_present = (path_named ''go_rust_stream'' results \<noteq> None)\<rparr>
      | _ \<Rightarrow> None)"

definition gateway_configuration :: "gateway_args \<Rightarrow> path_spec list \<Rightarrow> pydict" where
  "gateway_configuration args paths =
     [(''paths'', VList (map (\<lambda>p. VDict [(''name'', VStr (pa_name p)), (''url'', VStr (pa_url p))]) paths)),
      (''model'', VStr (ga_model args)), (''requests'', VInt (ga_requests args)), (''concurrency'', VInt (ga_concurrency args)),
      (''input_length'', VInt (ga_input_length args)), (''seed'', VInt (ga_seed args))]"

record gateway_matrix =
  gm_config_hash :: string
  gm_configuration :: pydict
  gm_results :: "path_result list"
  gm_attribution :: "attribution option"

definition run_matrix :: "gateway_world \<Rightarrow> gateway_args \<Rightarrow> gateway_matrix res" where
  "run_matrix wd args =
     bindR (parse_paths (ga_paths args)) (\<lambda>paths.
     let configuration = gateway_configuration args paths in
     bindR (mapR (run_path wd args) paths) (\<lambda>results.
     bindR (json_dumps (VDict configuration)) (\<lambda>encoded.
     Inr \<lparr>gm_config_hash = sha256_hex (utf8 encoded), gm_configuration = configuration, gm_results = results,
          gm_attribution = phase_attribution results\<rparr>)))"

section \<open>Facts\<close>

subsection \<open>Prompts\<close>

lemma prompt_alphabet: "length prompt_alphabet = 27" "distinct prompt_alphabet"
  by (simp_all add: prompt_alphabet_def)

lemma gateway_prompt_nth:
  "i < nat (max 1 len) \<Longrightarrow> gateway_prompt seed len ! i = prompt_alphabet ! nat ((seed + int i * 17) mod 27)"
  by (simp add: gateway_prompt_def prompt_alphabet(1))

lemma alphabet_inject: "prompt_alphabet ! nat (a mod 27) = prompt_alphabet ! nat (b mod 27) \<longleftrightarrow> a mod 27 = b mod 27"
  using prompt_alphabet by (auto simp: nth_eq_iff_index_eq)

text \<open>
  Two prompts of a path are equal exactly when their seeds agree modulo 27, whatever their length: a run
  of up to 27 requests sends different prompts, and a longer one repeats them.
\<close>

theorem prompts_repeat:
  "gateway_prompt a len = gateway_prompt b len \<longleftrightarrow> a mod 27 = b mod 27"
proof
  assume "gateway_prompt a len = gateway_prompt b len"
  then have "gateway_prompt a len ! 0 = gateway_prompt b len ! 0" by simp
  then show "a mod 27 = b mod 27" by (simp add: gateway_prompt_nth alphabet_inject)
next
  assume "a mod 27 = b mod 27"
  then have "(a + int i * 17) mod 27 = (b + int i * 17) mod 27" for i by (rule mod_add_cong) simp
  then show "gateway_prompt a len = gateway_prompt b len" by (simp add: gateway_prompt_def prompt_alphabet(1))
qed

subsection \<open>Summaries\<close>

lemma gateway_percentile_total:
  assumes "0 \<le> q" "q \<le> 1" "length xs \<le> 2 ^ 53"
  shows "\<exists>x. gateway_percentile xs (Fin q) = Inr x \<and> (x = None \<longleftrightarrow> xs = [])"
proof (cases "xs = []")
  case False
  then obtain p where p: "fmul (Fin q) (Fin (of_int (int (length xs) - 1))) = Fin p" "0 \<le> p" "p \<le> of_int (int (length xs) - 1)"
    using fmul_unit_index [of q "length xs"] assms by auto
  have nth: "\<exists>x. py_nth (py_sorted xs) k = Inr x" if "0 \<le> k" "k < int (length xs)" for k
    using that by (simp add: py_nth_def)
  have l: "0 \<le> \<lfloor>p\<rfloor>" "\<lfloor>p\<rfloor> < int (length xs)" using p by (simp_all add: floor_less_iff)
  have m: "0 \<le> min (\<lfloor>p\<rfloor> + 1) (int (length xs) - 1)" "min (\<lfloor>p\<rfloor> + 1) (int (length xs) - 1) < int (length xs)"
    using l False by (cases xs; simp)+
  obtain a b where "py_nth (py_sorted xs) \<lfloor>p\<rfloor> = Inr a" "py_nth (py_sorted xs) (min (\<lfloor>p\<rfloor> + 1) (int (length xs) - 1)) = Inr b"
    using nth [OF l] nth [OF m] by blast
  with p(1,2) False show ?thesis by (simp add: gateway_percentile_def Let_def del: fmul.simps)
qed (simp add: gateway_percentile_def)

lemma quantile_constants: "\<exists>a b c. fl (50 / 100) = Fin a \<and> fl (95 / 100) = Fin b \<and> fl (99 / 100) = Fin c \<and>
    0 \<le> a \<and> a \<le> 1 \<and> 0 \<le> b \<and> b \<le> 1 \<and> 0 \<le> c \<and> c \<le> 1"
proof -
  have "\<exists>y. fl x = Fin y \<and> 0 \<le> y \<and> y \<le> 1" if "0 \<le> x" "x \<le> 1" for x
    using fl_nonneg [OF that(1)] fl_le_1 [OF that(2)] by (cases "fl x") auto
  from this [of "50 / 100"] this [of "95 / 100"] this [of "99 / 100"] show ?thesis by auto
qed

lemma quantiles_total:
  assumes "length xs \<le> 2 ^ 53"
  shows "\<exists>q. quantiles_of xs = Inr q \<and> (qs_p95 q = None \<longleftrightarrow> xs = [])"
proof -
  obtain a b c where "fl (50 / 100) = Fin a" "fl (95 / 100) = Fin b" "fl (99 / 100) = Fin c" "0 \<le> a" "a \<le> 1" "0 \<le> b" "b \<le> 1" "0 \<le> c" "c \<le> 1"
    using quantile_constants by blast
  then show ?thesis
    using gateway_percentile_total [of a xs] gateway_percentile_total [of b xs] gateway_percentile_total [of c xs] assms
    by (auto simp: quantiles_of_def)
qed

lemma exception_text_nonempty [simp]: "exception_text e \<noteq> []"
  by (simp add: exception_text_def)

lemma measured_ok: "gs_ok (measured s f st e t n) \<longleftrightarrow> e = [] \<and> 200 \<le> st \<and> st < 300" "gs_error (measured s f st e t n) = e"
  by (simp_all add: measured_def)

lemma gateway_sample_ok_iff: "gs_ok (gateway_run_one net path model prompt key) \<longleftrightarrow> gs_error (gateway_run_one net path model prompt key) = []"
  by (auto simp: gateway_run_one_def Let_def streamed_sample_def posted_sample_def measured_ok status_error_def
      split: chat_response.splits option.splits sum.splits)

lemma at_least_nonzero: "flt (Fin 0) b \<Longrightarrow> py_max a b \<noteq> Fin 0"
  by (auto simp: py_max_def)

lemma smallest_elapsed: "flt (Fin 0) (fl (1 / 10 ^ 9))"
proof -
  have "is_f64 (Fin (1 / 2 ^ 30))" by code_simp
  then have "fl (1 / 2 ^ 30) = Fin (1 / 2 ^ 30)" by (rule fl_exact)
  moreover have "fle (fl (1 / 2 ^ 30)) (fl (1 / 10 ^ 9))" by (rule fl_mono) simp
  ultimately show ?thesis by (cases "fl (1 / 10 ^ 9)") auto
qed

definition path_sound :: "int \<Rightarrow> path_result \<Rightarrow> bool" where
  "path_sound n r \<longleftrightarrow>
     pr_requests r = n \<and> 0 \<le> pr_ok r \<and> 0 \<le> pr_failed r \<and> pr_ok r + pr_failed r = n \<and> in_unit (pr_error_rate r) \<and>
     (pr_errors r = [] \<longleftrightarrow> pr_failed r = 0) \<and> length (pr_errors r) \<le> 5 \<and>
     (qs_p95 (pr_latency r) = None \<longleftrightarrow> pr_ok r = 0) \<and> (pr_bytes_mean r = None \<longleftrightarrow> pr_ok r = 0)"

lemma summarize_path_total:
  assumes "length samples \<le> 2 ^ 53" "\<And>x. x \<in> set samples \<Longrightarrow> gs_ok x \<longleftrightarrow> gs_error x = []" "elapsed \<noteq> Fin 0"
  shows "\<exists>r. summarize_path path samples elapsed = Inr r \<and> pr_path r = path \<and> path_sound (int (length samples)) r"
proof -
  let ?ok = "filter gs_ok samples"
  have len: "length ?ok \<le> 2 ^ 53" "length (List.map_filter gs_ttft_ms ?ok) \<le> 2 ^ 53"
    using order_trans [OF length_filter_le assms(1)] order_trans [OF length_filter_le order_trans [OF length_filter_le assms(1)]]
    by (simp_all add: map_filter_def)
  obtain l where l: "quantiles_of (map gs_latency_ms ?ok) = Inr l" "qs_p95 l = None \<longleftrightarrow> ?ok = []"
    using quantiles_total [of "map gs_latency_ms ?ok"] len(1) by auto
  obtain t where t: "quantiles_of (List.map_filter gs_ttft_ms ?ok) = Inr t" using quantiles_total [OF len(2)] by blast
  have d: "fdiv x elapsed = Inr (fquot x elapsed)" for x using assms(3) by (simp add: fdiv_def feq_iff)
  have split: "length samples = length ?ok + length (filter (\<lambda>x. \<not> gs_ok x) samples)"
    by (simp add: sum_length_filter_compl)
  have errors: "filter (\<lambda>e. e \<noteq> []) (map gs_error samples) = map gs_error (filter (\<lambda>x. \<not> gs_ok x) samples)"
    using assms(2) by (simp add: filter_map comp_def cong: filter_cong)
  have rate: "in_unit (fl (of_int (int (length samples) - int (length ?ok)) / of_int (max (int (length samples)) 1)))"
    using split by (intro fl_unit_fraction) auto
  show ?thesis
    unfolding summarize_path_def Let_def d l(1) t bindR_simps errors
    using rate split l(2) by (auto simp: path_sound_def)
qed

lemma run_path_total:
  assumes "0 < ga_requests args" "ga_requests args \<le> 2 ^ 53"
  shows "\<exists>r. run_path wd args path = Inr r \<and> pr_path r = path \<and> path_sound (ga_requests args) r"
proof -
  let ?samples = "map (\<lambda>i. gateway_run_one (gw_net wd path (int i)) path (ga_model args)
      (gateway_prompt (ga_seed args + int i) (ga_input_length args)) (ga_api_key args)) [0..<nat (ga_requests args)]"
  have "\<exists>r. summarize_path path ?samples (py_max (gw_elapsed wd path) (fl (1 / 10 ^ 9))) = Inr r \<and> pr_path r = path \<and>
      path_sound (int (length ?samples)) r"
  proof (rule summarize_path_total)
    show "length ?samples \<le> 2 ^ 53" using assms(2) by simp
    show "gs_ok x \<longleftrightarrow> gs_error x = []" if "x \<in> set ?samples" for x using that by (auto simp: gateway_sample_ok_iff)
  qed (rule at_least_nonzero [OF smallest_elapsed])
  then show ?thesis unfolding run_path_def using assms(1) by simp
qed

lemma path_named_None: "path_named n rs = None \<longleftrightarrow> n \<notin> set (map (\<lambda>r. pa_name (pr_path r)) rs)"
  by (auto simp: path_named_def find_None_iff)

lemma attribution_iff:
  "phase_attribution rs \<noteq> None \<longleftrightarrow> {''direct'', ''go_only'', ''go_rust_unary''} \<subseteq> pa_name ` pr_path ` set rs"
proof -
  have "phase_attribution rs \<noteq> None \<longleftrightarrow>
      path_named ''direct'' rs \<noteq> None \<and> path_named ''go_only'' rs \<noteq> None \<and> path_named ''go_rust_unary'' rs \<noteq> None"
    unfolding phase_attribution_def Let_def
    by (cases "path_named ''direct'' rs"; cases "path_named ''go_only'' rs"; cases "path_named ''go_rust_unary'' rs") simp_all
  then show ?thesis unfolding path_named_None by (simp add: image_image)
qed

lemma configuration_writable: "\<exists>t. json_dumps (VDict (gateway_configuration args paths)) = Inr t"
proof -
  have "writable (VInt n)" for n by (simp add: writable_def)
  then have "writable (VDict (gateway_configuration args paths))" by (simp add: gateway_configuration_def writable_simps)
  then show ?thesis unfolding writable_def .
qed

lemma run_matrix_total:
  assumes "parse_paths (ga_paths args) = Inr paths" "0 < ga_requests args" "ga_requests args \<le> 2 ^ 53"
  shows "\<exists>m. run_matrix wd args = Inr m \<and> map pr_path (gm_results m) = paths \<and>
    list_all (path_sound (ga_requests args)) (gm_results m) \<and> gm_attribution m = phase_attribution (gm_results m)"
proof -
  have run: "\<exists>r. run_path wd args p = Inr r" for p using run_path_total [OF assms(2,3)] by blast
  have sound: "pr_path r = p" "path_sound (ga_requests args) r" if "run_path wd args p = Inr r" for p r
    using run_path_total [OF assms(2,3), of wd p] that by auto
  have "\<exists>rs. mapR (run_path wd args) paths = Inr rs" unfolding mapR_returns using run ..
  then obtain rs where rs: "mapR (run_path wd args) paths = Inr rs" ..
  have "map pr_path rs = paths" using mapR_map [OF rs, of pr_path "\<lambda>p. p"] sound(1) by simp
  moreover have "list_all (path_sound (ga_requests args)) rs" using mapR_Inr_all [OF rs] sound(2) by blast
  moreover obtain t where "json_dumps (VDict (gateway_configuration args paths)) = Inr t" using configuration_writable by blast
  ultimately show ?thesis by (simp add: run_matrix_def assms(1) rs Let_def)
qed

text \<open>
  Property C35.  A benchmark over valid paths always finishes, whatever the network does: it has one result per path, in
  order, which accounts for every request, names an error exactly when one failed and has a latency and a size exactly
  when one succeeded; and the phases are attributed exactly when the three paths that are compared were measured.
\<close>

theorem gateway_matrix_accounts:
  assumes "parse_paths (ga_paths args) = Inr paths" "0 < ga_requests args" "ga_requests args \<le> 2 ^ 53"
  shows "\<exists>m. run_matrix wd args = Inr m \<and> map pr_path (gm_results m) = paths \<and>
    list_all (path_sound (ga_requests args)) (gm_results m) \<and>
    (gm_attribution m \<noteq> None \<longleftrightarrow> {''direct'', ''go_only'', ''go_rust_unary''} \<subseteq> pa_name ` set paths)"
proof -
  obtain m where m: "run_matrix wd args = Inr m" "map pr_path (gm_results m) = paths"
    "list_all (path_sound (ga_requests args)) (gm_results m)" "gm_attribution m = phase_attribution (gm_results m)"
    using run_matrix_total [OF assms] by blast
  have "phase_attribution (gm_results m) \<noteq> None \<longleftrightarrow> {''direct'', ''go_only'', ''go_rust_unary''} \<subseteq> pa_name ` set paths"
    unfolding attribution_iff m(2) [symmetric] set_map ..
  with m show ?thesis by auto
qed

definition silent_gateway :: gateway_world where
  "silent_gateway =
     \<lparr>gw_net = (\<lambda>_ _. \<lparr>gn_stream = (\<lambda>_. \<lparr>xc_started = Fin 0, xc_response = Refused (''ConnectError'', []), xc_finished = Fin 1\<rparr>),
                        gn_post = (\<lambda>_. \<lparr>po_started = Fin 0, po_reply = Inr (200, ''{}'', Fin 1), po_finished = Fin 1\<rparr>)\<rparr>),
      gw_elapsed = (\<lambda>_. Fin 1)\<rparr>"

definition silent_args :: gateway_args where
  "silent_args =
     \<lparr>ga_paths = [''direct=http://a'', ''go_only=http://b'', ''go_rust_unary=http://c'', ''go_rust_stream=http://c''],
      ga_model = ''m'', ga_requests = 2, ga_concurrency = 1, ga_input_length = 8, ga_api_key = [], ga_seed = 42\<rparr>"

lemma silent_paths:
  "parse_paths (ga_paths silent_args) = Inr (map (\<lambda>(n, u). \<lparr>pa_name = n, pa_url = u\<rparr>)
      [(''direct'', ''http://a''), (''go_only'', ''http://b''), (''go_rust_unary'', ''http://c''), (''go_rust_stream'', ''http://c'')])"
  by code_simp

lemma silent_matrix: "\<exists>m. run_matrix silent_gateway silent_args = Inr m"
  using run_matrix_total [OF silent_paths, of silent_gateway] by (auto simp: silent_args_def)

theorem gateway_matrix_accounts_witness:
  "\<exists>m. run_matrix silent_gateway silent_args = Inr m \<and> length (gm_results m) = 4 \<and> gm_attribution m \<noteq> None"
proof -
  from gateway_matrix_accounts [OF silent_paths, of silent_gateway] obtain m where
    "run_matrix silent_gateway silent_args = Inr m" "length (map pr_path (gm_results m)) = 4" "gm_attribution m \<noteq> None"
    by (force simp: silent_args_def)
  then show ?thesis by auto
qed

end
