(* ===== verification/PaperReport.thy ===== *)
theory PaperReport
  imports EvaluationDoc GatewayBench
begin

text \<open>
  The document of the gateway benchmark with its Markdown report (\<open>benchmark/gateway_report.py\<close>), and the research report
  (\<open>benchmark/paper_report.py\<close>) made from the documents of the gateway benchmark and of the routing evaluation.
\<close>

section \<open>The document of the gateway benchmark\<close>

definition path_result_doc :: "path_result \<Rightarrow> pydict" where
  "path_result_doc r =
     [(''path'', VStr (pa_name (pr_path r))), (''url'', VStr (pa_url (pr_path r))), (''stream'', VBool (pa_stream (pr_path r))),
      (''requests'', VInt (pr_requests r)), (''ok'', VInt (pr_ok r)), (''failed'', VInt (pr_failed r)),
      (''error_rate'', VFloat (pr_error_rate r)), (''throughput_req_s'', VFloat (pr_throughput r)),
      (''latency_ms'', VDict (quantiles_doc (pr_latency r))), (''ttft_ms'', VDict (quantiles_doc (pr_ttft r))),
      (''response_bytes_mean'', case pr_bytes_mean r of None \<Rightarrow> VNone | Some (Inl n) \<Rightarrow> VInt n | Some (Inr x) \<Rightarrow> VFloat x),
      (''sample_errors'', VList (map VStr (pr_errors r))), (''elapsed_s'', VFloat (pr_elapsed r))]"

definition attribution_doc :: "attribution option \<Rightarrow> pydict" where
  "attribution_doc a =
     (case a of
        None \<Rightarrow> [(''status'', VStr ''insufficient_paths''),
                 (''required'', VList (map VStr [''direct'', ''go_only'', ''go_rust_unary'']))]
      | Some x \<Rightarrow>
          [(''status'', VStr ''proxy_deltas_only''), (''go_forward_p95_ms'', opt_v (at_go_forward x)),
           (''rust_policy_plus_rpc_p95_ms'', opt_v (at_rust_policy x)), (''stream_path_present'', VBool (at_stream_present x)),
           (''claim_boundary'', VStr ''deltas are end-to-end proxies, not isolated CPU timings'')])"

record runner_host =
  uh_python :: string
  uh_platform :: string
  uh_pid :: int
  uh_rss :: int
  uh_darwin :: bool
  uh_time :: pyfloat

definition matrix_doc :: "runner_host \<Rightarrow> gateway_matrix \<Rightarrow> pydict" where
  "matrix_doc h m =
     [(''schema_version'', VStr ''kavora-stage1-gateway-v1''), (''config_hash'', VStr (gm_config_hash m)),
      (''configuration'', VDict (gm_configuration m)),
      (''environment'', VDict [(''python'', VStr (uh_python h)), (''platform'', VStr (uh_platform h)), (''pid'', VInt (uh_pid h))]),
      (''memory'', VDict [(''peak_rss_mb'', VFloat (fl (of_int (uh_rss h) / (if uh_darwin h then 1048576 else 1024)))),
                          (''semantics'', VStr ''runner_process_high_water_mark'')]),
      (''paths'', VList (map (\<lambda>r. VDict (path_result_doc r)) (gm_results m))),
      (''phase_attribution'', VDict (attribution_doc (gm_attribution m))), (''generated_at_unix'', VFloat (uh_time h))]"

section \<open>The report of the gateway benchmark\<close>

text \<open>\<open>json.dumps(v, indent=2, sort_keys=True)\<close>: the text of \<open>v\<close> behind \<open>n\<close> spaces of indentation.\<close>

definition indented_items :: "nat \<Rightarrow> char \<Rightarrow> char \<Rightarrow> string list \<Rightarrow> string" where
  "indented_items n l r ts =
     (if ts = [] then [l, r]
      else l # newline @ join ('','' @ newline) (map (\<lambda>t. replicate (n + 2) (CHR '' '') @ t) ts) @
           newline @ replicate n (CHR '' '') @ [r])"

fun json_indented :: "nat \<Rightarrow> pyval \<Rightarrow> string res" where
  "json_indented n (VList xs) =
     bindR (mapR (json_indented (n + 2)) xs) (\<lambda>ts. Inr (indented_items n (CHR ''['') (CHR '']'') ts))"
| "json_indented n (VDict d) =
     bindR (mapR (\<lambda>(k, v). bindR (json_indented (n + 2) v) (\<lambda>t. Inr (k, t))) d) (\<lambda>kts.
     Inr (indented_items n (CHR ''{'') (CHR ''}'')
            (map (\<lambda>(k, t). json_string k @ '': '' @ t) (sort_lt (\<lambda>a b. str_lt (fst a) (fst b)) kts))))"
| "json_indented n v = json_dumps v"

definition gateway_row :: "pyval \<Rightarrow> pyval \<Rightarrow> string res" where
  "gateway_row memory path =
     bindR (vitem path ''latency_ms'') (\<lambda>latency. bindR (vitem path ''ttft_ms'') (\<lambda>ttft.
     fill [''| `'', ''` | '', ''/'', '' | '', '' | '', '' | '', '' | '', '' | '', '' | '', '' | '', '' |'']
       [item_text path ''path'', item_text path ''ok'', item_text path ''requests'', bindR (vitem path ''error_rate'') (py_fixed 3),
        bindR (vitem latency ''p50'') (fixed_or_na 2), bindR (vitem latency ''p95'') (fixed_or_na 2),
        bindR (vitem latency ''p99'') (fixed_or_na 2), bindR (vitem ttft ''p95'') (fixed_or_na 2),
        bindR (vitem path ''throughput_req_s'') (py_fixed 3), bindR (vitem memory ''peak_rss_mb'') (py_fixed 2)]))"

definition gateway_report :: "pydict \<Rightarrow> string res" where
  "gateway_report report =
     bindR (vitem (VDict report) ''environment'') (\<lambda>environment.
     bindR (mapR id
       [labelled ''Schema'' (item_text (VDict report) ''schema_version''),
        labelled ''Config hash'' (item_text (VDict report) ''config_hash''),
        fill [''- Environment: `'', ''` / Python `'', ''`''] [item_text environment ''platform'', item_text environment ''python'']]) (\<lambda>head.
     bindR (bindR (vitem (VDict report) ''paths'') py_iter) (\<lambda>paths.
     bindR (mapR (\<lambda>p. bindR (vitem (VDict report) ''memory'') (\<lambda>memory. gateway_row memory p)) paths) (\<lambda>rows.
     bindR (bindR (vitem (VDict report) ''phase_attribution'') (json_indented 0)) (\<lambda>attribution.
     Inr (join newline
       ([''# Kavora Stage 1 Gateway Benchmark'', []] @ head @
        [[], ''| Path | OK | Error rate | p50 ms | p95 ms | p99 ms | TTFT p95 ms | req/s | peak RSS MB |'',
         ''|---|---:|---:|---:|---:|---:|---:|---:|---:|''] @ rows @
        [[], ''## Phase Attribution'', [], ''```json'', attribution, ''```'', [],
         ''The phase deltas are end-to-end proxy measurements. They must not be described as isolated Go, RPC, or Rust CPU timings.'',
         []])))))))"

section \<open>The research report\<close>

definition research_manifest :: "run_host \<Rightarrow> pydict \<Rightarrow> pydict \<Rightarrow> pydict res" where
  "research_manifest host stage1 stage2 =
     bindR (bindR (vget (dget_or stage2 ''config'' (VDict [])) ''seed'' (VInt 42))
              (vget (dget_or stage2 ''manifest'' (VDict [])) ''seed'')) (\<lambda>seed.
     Inr [(''schema_version'', VStr ''kavora-research-manifest/v1''), (''git_revision'', VStr (command_output (rh_git host))),
          (''platform'', VStr (rh_platform host)), (''python'', VStr (rh_python host)), (''gpu'', VStr (command_output (rh_gpu host))),
          (''stage1_config_hash'', dget_or stage1 ''config_hash'' (VStr ''unknown'')),
          (''stage2_config_hash'', dget_or stage2 ''config_hash'' (VStr ''unknown'')),
          (''stage2_status'', dget_or stage2 ''status'' (VStr ''unknown'')), (''seed'', seed)])"

definition research_doc :: "run_host \<Rightarrow> pydict \<Rightarrow> string \<Rightarrow> pydict \<Rightarrow> pydict \<Rightarrow> pydict" where
  "research_doc host manifest encoded stage1 stage2 =
     [(''schema_version'', VStr ''kavora-paper-report/v1''), (''generated_at_unix'', VFloat (rh_time host)),
      (''manifest'', VDict manifest), (''manifest_hash'', VStr (sha256_hex (utf8 encoded))),
      (''research_question'', VStr ''Can a governed Go/Rust inference control plane preserve OpenAI-compatible behavior while exposing KV-aware routing evidence and safe fallback?''),
      (''method'', VDict
        [(''baselines'', VList (map VStr [''direct backend'', ''Gateway static path'', ''Gateway enforced controller path''])),
         (''metrics'', VList (map VStr [''throughput_req_s'', ''ttft_p95_ms'', ''tail_latency_p99_ms'', ''error_rate''])),
         (''quality_boundary'', VStr ''real measurements, proxy measurements, smoke evidence, and missing/stale signals are reported separately'')]),
      (''stage1'', VDict stage1), (''stage2'', VDict stage2),
      (''limitations'', VList
        [VStr ''A configured endpoint label is not evidence by itself; the raw Stage 2 artifact and service manifest must be reviewed together.'',
         dget_or stage2 ''claim_boundary'' (VStr ''KV-aware performance improvement is not claimed without repeated independent backends and matched workloads.''),
         VStr ''TTFT and latency are end-to-end measurements, not isolated Go/Rust CPU timings.''])]"

definition research_report :: "run_host \<Rightarrow> pydict \<Rightarrow> pydict \<Rightarrow> pydict res" where
  "research_report host stage1 stage2 =
     bindR (research_manifest host stage1 stage2) (\<lambda>manifest. bindR (json_dumps (VDict manifest)) (\<lambda>encoded.
     Inr (research_doc host manifest encoded stage1 stage2)))"

definition research_fmt :: "pyval \<Rightarrow> string res" where
  "research_fmt v = fixed_or_na 3 v"

definition measured_row :: "pyval \<Rightarrow> string res" where
  "measured_row result =
     bindR (vitem result ''aggregate'') (\<lambda>aggregate.
     fill [''| `'', '' / '', ''` | '', '' | '', '' | '', '' | '', '' |'']
       ([item_text result ''strategy'', item_text result ''workload''] @
        map (\<lambda>k. bindR (bindR (vitem aggregate k) (\<lambda>m. vitem m ''mean'')) research_fmt)
          [''throughput_req_s'', ''ttft_p95_ms'', ''latency_p99_ms'', ''error_rate'']))"

definition plain_row :: "pyval \<Rightarrow> string res" where
  "plain_row row =
     fill [''| `'', ''` | '', '' | '', '' | '', '' | '', '' |'']
       (item_text row ''strategy'' #
        map (\<lambda>k. bindR (vitem row k) research_fmt) [''throughput_req_s'', ''ttft_p95_ms'', ''tail_latency_p99_ms'', ''error_rate''])"

text \<open>The rows of the routing evaluation, or those of an older document.\<close>

definition research_rows :: "pyval \<Rightarrow> string list res" where
  "research_rows stage2 =
     bindR (vget stage2 ''results'' VNone) (\<lambda>results.
     if truthy results then bindR (py_iter results) (mapR measured_row)
     else bindR (bindR (vget stage2 ''rows'' (VList [])) py_iter) (mapR plain_row))"

definition research_markdown :: "pydict \<Rightarrow> string res" where
  "research_markdown report =
     bindR (vitem (VDict report) ''stage2'') (\<lambda>stage2.
     bindR (bindR (vitem (VDict report) ''research_question'') (\<lambda>v. join_texts newline [v])) (\<lambda>question.
     bindR (vitem (VDict report) ''manifest'') (\<lambda>manifest.
     bindR (mapR id
       [labelled ''Manifest hash'' (item_text (VDict report) ''manifest_hash''), labelled ''Git revision'' (item_text manifest ''git_revision''),
        labelled ''Hardware'' (item_text manifest ''gpu''), labelled ''Stage 2 status'' (text_field stage2 ''status'' ''unknown''),
        labelled ''Seed'' (item_text manifest ''seed'')]) (\<lambda>facts.
     bindR (research_rows stage2) (\<lambda>rows.
     bindR (bindR (vitem (VDict report) ''limitations'') py_iter) (\<lambda>limitations.
     Inr (join newline
       ([''# Kavora Performance Research Report'', [], ''## Abstract'', [], question,
         ''This report evaluates the implemented control plane with reproducible artifacts and keeps mechanism evidence separate from performance claims.'',
         [], ''## Reproducibility Manifest'', []] @ facts @
        [[], ''## Method'', [], ''| Baseline | Meaning |'', ''|---|---|'',
         ''| direct backend | vLLM OpenAI endpoint without Kavora |'',
         ''| Gateway static path | Go Gateway + Rust Policy + static backend candidates |'',
         ''| Gateway enforced path | Gateway with state-driven candidate preference and safe fallback |'',
         [], ''## Results'', [], ''| Path/strategy | Throughput req/s | TTFT p95 ms | p99 ms | Error rate |'', ''|---|---:|---:|---:|---:|''] @ rows @
        [[], ''## Interpretation'', [],
         ''The experiment validates the end-to-end path and the enforced controller's safety behavior. It does not establish a causal performance advantage for KV-aware routing.'',
         [], ''## Limitations'', []] @ map (\<lambda>v. ''- '' @ py_str v) limitations @ [[]]))))))))"

section \<open>Facts\<close>

lemma indented_returns: "writable v \<Longrightarrow> returns (json_indented n v)"
proof (induction n v rule: json_indented.induct)
  case (1 n xs)
  then show ?case by (auto simp: writable_simps(1) intro!: returns_bind returns_mapR)
next
  case (2 n d)
  then show ?case by (fastforce simp: writable_simps(2) intro!: returns_bind returns_mapR)
qed (auto simp: writable_def)

lemma writable_attribution: "writable (VDict (attribution_doc a))"
  by (cases a) (simp_all add: attribution_doc_def writable_simps(1))

lemma writable_path: "writable (VDict (path_result_doc r))"
  by (auto simp: path_result_doc_def writable_docs split: option.split sum.split)

lemma gateway_row_returns:
  "returns (gateway_row (VDict [(''peak_rss_mb'', VFloat x), (''semantics'', s)]) (VDict (path_result_doc r)))"
proof -
  have doc: "vitem (VDict (path_result_doc r)) ''latency_ms'' = Inr (VDict (quantiles_doc (pr_latency r)))"
    "vitem (VDict (path_result_doc r)) ''ttft_ms'' = Inr (VDict (quantiles_doc (pr_ttft r)))"
    "vitem (VDict (path_result_doc r)) ''error_rate'' = Inr (VFloat (pr_error_rate r))"
    "vitem (VDict (path_result_doc r)) ''throughput_req_s'' = Inr (VFloat (pr_throughput r))"
    by (simp_all add: path_result_doc_def dget_def)
  have quantile: "returns (bindR (vitem (VDict (quantiles_doc q)) k) (fixed_or_na 2))" if "k \<in> {''p50'', ''p95'', ''p99''}" for q k
    using that returns_fixed by (auto simp: quantiles_doc_def dget_def)
  have "returns (item_text (VDict (path_result_doc r)) k)" if "k \<in> {''path'', ''ok'', ''requests''}" for k
    using that by (auto intro!: returns_item simp: path_result_doc_def dhas_def)
  then show ?thesis
    unfolding gateway_row_def doc bindR_simps by (intro returns_fill) (simp_all add: quantile dget_def del: vitem.simps, simp add: dget_def)
qed

lemma matrix_items:
  "vitem (VDict (matrix_doc h m)) ''paths'' = Inr (VList (map (\<lambda>r. VDict (path_result_doc r)) (gm_results m)))"
  "vitem (VDict (matrix_doc h m)) ''phase_attribution'' = Inr (VDict (attribution_doc (gm_attribution m)))"
  "\<exists>x s. vitem (VDict (matrix_doc h m)) ''memory'' = Inr (VDict [(''peak_rss_mb'', VFloat x), (''semantics'', s)])"
  "\<exists>d. vitem (VDict (matrix_doc h m)) ''environment'' = Inr (VDict d) \<and> dhas d ''platform'' \<and> dhas d ''python''"
  "dhas (matrix_doc h m) ''schema_version''" "dhas (matrix_doc h m) ''config_hash''"
  "dget_or (matrix_doc h m) ''config_hash'' y = VStr (gm_config_hash m)"
  by (simp_all add: matrix_doc_def dget_def dget_or_def dhas_def)

lemma gateway_report_returns: "returns (gateway_report (matrix_doc h m))"
proof -
  obtain x s where memory: "vitem (VDict (matrix_doc h m)) ''memory'' = Inr (VDict [(''peak_rss_mb'', VFloat x), (''semantics'', s)])"
    using matrix_items(3) by blast
  obtain d where environment: "vitem (VDict (matrix_doc h m)) ''environment'' = Inr (VDict d)" "dhas d ''platform''" "dhas d ''python''"
    using matrix_items(4) by blast
  have head: "list_all returns
      [labelled ''Schema'' (item_text (VDict (matrix_doc h m)) ''schema_version''),
       labelled ''Config hash'' (item_text (VDict (matrix_doc h m)) ''config_hash''),
       fill [''- Environment: `'', ''` / Python `'', ''`''] [item_text (VDict d) ''platform'', item_text (VDict d) ''python'']]"
    using returns_item matrix_items(5,6) environment(2,3) by (simp add: returns_labelled returns_fill del: fill.simps)
  show ?thesis
    unfolding gateway_report_def environment(1) matrix_items(1,2) memory bindR_simps py_iter.simps
    using head [unfolded list_all_iff] gateway_row_returns indented_returns [OF writable_attribution]
    by (intro returns_bind returns_mapR returns_Inr) (unfold id_apply set_map, blast+)
qed

lemma evaluation_fields:
  "dget_or (evaluation_doc host c e) ''config_hash'' x = VStr (eo_config_hash e)"
  "dget_or (evaluation_doc host c e) ''status'' x = VStr ''real_backend_measurement''"
  "dget_or (evaluation_doc host c e) ''manifest'' x = VDict (manifest_doc host c)"
  "dget_or (evaluation_doc host c e) ''config'' x = x"
  "dget_or (evaluation_doc host c e) ''results'' x = VList (map (\<lambda>r. VDict (case_result_doc r)) (eo_results e))"
  "dget_or (evaluation_doc host c e) ''rows'' x = x"
  "\<exists>t. dget_or (evaluation_doc host c e) ''claim_boundary'' x = VStr t"
  by (simp_all add: evaluation_doc_def dget_def dget_or_def)

lemma research_manifest_eq:
  "research_manifest host (matrix_doc h m) (evaluation_doc host' c e) =
     Inr [(''schema_version'', VStr ''kavora-research-manifest/v1''), (''git_revision'', VStr (command_output (rh_git host))),
          (''platform'', VStr (rh_platform host)), (''python'', VStr (rh_python host)), (''gpu'', VStr (command_output (rh_gpu host))),
          (''stage1_config_hash'', VStr (gm_config_hash m)), (''stage2_config_hash'', VStr (eo_config_hash e)),
          (''stage2_status'', VStr ''real_backend_measurement''), (''seed'', VInt (ec_seed c))]"
proof -
  have "dget_or (manifest_doc host' c) ''seed'' x = VInt (ec_seed c)" for x by (simp add: manifest_doc_def dget_def dget_or_def)
  then show ?thesis by (simp add: research_manifest_def evaluation_fields matrix_items(7))
qed

lemma measured_row_returns: "returns (measured_row (VDict (case_result_doc r)))"
proof -
  have cell: "returns (bindR (bindR (vitem (VDict (case_aggregate_doc a)) k) (\<lambda>m. vitem m ''mean'')) research_fmt)"
    if "k \<in> set estimate_keys" for a k
  proof -
    from aggregate_estimates [OF that, of a] obtain x where x: "vitem (VDict (case_aggregate_doc a)) k = Inr (VDict (estimate_doc x))" ..
    have "vitem (VDict (estimate_doc x)) ''mean'' = Inr (opt_v (es_mean x))" by (simp add: estimate_doc_def dget_def)
    with x show ?thesis by (simp add: research_fmt_def returns_fixed del: vitem.simps)
  qed
  have item: "vitem (VDict (case_result_doc r)) ''aggregate'' = Inr (VDict (case_aggregate_doc (cs_aggregate r)))"
    by (simp add: case_result_doc_def dget_def)
  have "returns (item_text (VDict (case_result_doc r)) k)" if "k \<in> {''strategy'', ''workload''}" for k
    using that by (auto intro!: returns_item simp: case_result_doc_def dhas_def)
  then show ?thesis
    unfolding measured_row_def item bindR_simps by (intro returns_fill) (simp_all del: vitem.simps add: cell estimate_keys_def)
qed

lemma research_rows_return: "returns (research_rows (VDict (evaluation_doc host c e)))"
  unfolding research_rows_def vget.simps evaluation_fields bindR_simps py_iter.simps
  by (auto simp: measured_row_returns intro!: returns_mapR)

lemma research_items:
  "vitem (VDict (research_doc host manifest encoded s1 s2)) ''stage2'' = Inr (VDict s2)"
  "vitem (VDict (research_doc host manifest encoded s1 s2)) ''manifest'' = Inr (VDict manifest)"
  "\<exists>xs. vitem (VDict (research_doc host manifest encoded s1 s2)) ''limitations'' = Inr (VList xs)"
  "\<exists>t. vitem (VDict (research_doc host manifest encoded s1 s2)) ''research_question'' = Inr (VStr t)"
  "dget (research_doc host manifest encoded s1 s2) ''manifest_hash'' = Some (VStr (sha256_hex (utf8 encoded)))"
  "dget (research_doc host manifest encoded s1 s2) ''manifest'' = Some (VDict manifest)"
  by (simp_all add: research_doc_def dget_def)

lemma research_markdown_returns:
  assumes "\<forall>k \<in> {''git_revision'', ''gpu'', ''seed''}. dhas manifest k"
  shows "returns (research_markdown (research_doc host manifest encoded s1 (evaluation_doc host' c e)))" (is "returns (research_markdown ?r)")
proof -
  obtain xs where xs: "vitem (VDict ?r) ''limitations'' = Inr (VList xs)" using research_items(3) by blast
  obtain t where t: "vitem (VDict ?r) ''research_question'' = Inr (VStr t)" using research_items(4) by blast
  have question: "returns (join_texts newline [VStr t])" using join_texts_eq [of newline "\<lambda>x. x" "[t]"] by simp
  have "returns (item_text (VDict manifest) k)" if "k \<in> {''git_revision'', ''gpu'', ''seed''}" for k
    using assms that returns_item by blast
  moreover have "returns (item_text (VDict ?r) ''manifest_hash'')" using research_items(5) by (intro returns_item) (simp add: dhas_dget)
  ultimately have facts: "list_all returns
      [labelled ''Manifest hash'' (item_text (VDict ?r) ''manifest_hash''), labelled ''Git revision'' (item_text (VDict manifest) ''git_revision''),
       labelled ''Hardware'' (item_text (VDict manifest) ''gpu''),
       labelled ''Stage 2 status'' (text_field (VDict (evaluation_doc host' c e)) ''status'' ''unknown''),
       labelled ''Seed'' (item_text (VDict manifest) ''seed'')]"
    by (simp add: returns_labelled returns_text)
  show ?thesis
    unfolding research_markdown_def research_items(1,2) xs t bindR_simps py_iter.simps
    using question facts [unfolded list_all_iff] research_rows_return
    by (intro returns_bind returns_mapR returns_Inr) (unfold id_apply, blast+)
qed

text \<open>
  Property C39.  The research report can be made from whatever the two benchmarks wrote, as can the gateway report; its manifest
  names the hashes of exactly these two documents and the seed of the evaluation, and its hash is the one of that manifest.
\<close>

theorem research_report_bound:
  "\<exists>g r t manifest encoded. gateway_report (matrix_doc h m) = Inr g \<and>
     research_report host (matrix_doc h m) (evaluation_doc host' c e) = Inr r \<and> research_markdown r = Inr t \<and>
     dget r ''manifest'' = Some (VDict manifest) \<and> json_dumps (VDict manifest) = Inr encoded \<and>
     dget r ''manifest_hash'' = Some (VStr (sha256_hex (utf8 encoded))) \<and>
     dget manifest ''stage1_config_hash'' = Some (VStr (gm_config_hash m)) \<and>
     dget manifest ''stage2_config_hash'' = Some (VStr (eo_config_hash e)) \<and> dget manifest ''seed'' = Some (VInt (ec_seed c))"
proof -
  obtain g where g: "gateway_report (matrix_doc h m) = Inr g" using returnsD [OF gateway_report_returns] by blast
  obtain manifest where manifest: "research_manifest host (matrix_doc h m) (evaluation_doc host' c e) = Inr manifest"
    "writable (VDict manifest)" "dget manifest ''stage1_config_hash'' = Some (VStr (gm_config_hash m))"
    "dget manifest ''stage2_config_hash'' = Some (VStr (eo_config_hash e))" "dget manifest ''seed'' = Some (VInt (ec_seed c))"
    "\<forall>k \<in> {''git_revision'', ''gpu'', ''seed''}. dhas manifest k"
    unfolding research_manifest_eq by (simp add: dget_def dhas_def)
  obtain encoded where encoded: "json_dumps (VDict manifest) = Inr encoded" using manifest(2) unfolding writable_def ..
  have "research_report host (matrix_doc h m) (evaluation_doc host' c e) =
      Inr (research_doc host manifest encoded (matrix_doc h m) (evaluation_doc host' c e))"
    unfolding research_report_def manifest(1) encoded bindR_simps ..
  moreover obtain t where "research_markdown (research_doc host manifest encoded (matrix_doc h m) (evaluation_doc host' c e)) = Inr t"
    using returnsD [OF research_markdown_returns [OF manifest(6)]] by blast
  ultimately show ?thesis using g encoded manifest(3-5) research_items(5,6) by blast
qed

end
