(* ===== verification/ThresholdFiles.thy ===== *)
theory ThresholdFiles
  imports FinalReport
begin

text \<open>
  What \<open>scripts/plot_threshold_curve.py\<close> makes of its rows besides the JSON document: the CSV file and the four series it
  plots.  Drawing them is not modelled.
\<close>

section \<open>The CSV file\<close>

definition csv_fieldnames :: "string list" where
  "csv_fieldnames =
     [''min_hit_ratio'', ''scenario'', ''baseline_rps'', ''dual_rps'', ''delta'', ''metric_quality'', ''num_runs'', ''num_runs_ok_metrics'',
      ''num_runs_missing_hit_ratio'', ''num_runs_stale_metrics'', ''num_runs_window_hit_ratio'',
      ''num_runs_snapshot_fallback_hit_ratio'', ''hit_ratio_source'', ''hit_ratio_comparable'', ''num_runs_prefix_metric_strict'',
      ''num_runs_prefix_metric_token_fallback'', ''num_runs_prefix_metric_other'', ''num_runs_prefix_metric_missing'',
      ''prefix_metric_check'']"

text \<open>A field of \<open>csv.DictWriter\<close>: quoted, with doubled quotes, when it holds a separator, a quote or a line end.\<close>

definition csv_field :: "pyval \<Rightarrow> string" where
  "csv_field v =
     (let s = (if v = VNone then [] else py_str v); quote = CHR 0x22 in
      if list_ex (\<lambda>c. c \<in> set s) [CHR '','', quote, CHR 0x0D, CHR 0x0A]
      then quote # concat (map (\<lambda>c. if c = quote then [quote, quote] else [c]) s) @ [quote] else s)"

definition csv_line :: "pyval list \<Rightarrow> string" where
  "csv_line vs = join '','' (map csv_field vs) @ [CHR 0x0D, CHR 0x0A]"

text \<open>A row with a key that is no field name raises; a missing field is empty.\<close>

definition csv_row :: "pydict \<Rightarrow> string res" where
  "csv_row d =
     (let extra = filter (\<lambda>k. k \<notin> set csv_fieldnames) (map fst d) in
      guardR (extra \<noteq> [])
        (ValueError (''dict contains fields not in fieldnames: '' @ join '', '' (map repr_str extra)))
        (Inr (csv_line (map (\<lambda>k. dget_or d k (VStr [])) csv_fieldnames))))"

definition threshold_csv :: "threshold_row list \<Rightarrow> string res" where
  "threshold_csv rows =
     bindR (mapR (\<lambda>t. csv_row (threshold_row_doc t)) rows) (\<lambda>lines.
     Inr (csv_line (map VStr csv_fieldnames) @ concat lines))"

section \<open>The plotted series\<close>

text \<open>The value at a threshold is that of the first row with this threshold and scenario; without one, \<open>next\<close> raises.\<close>

definition row_at :: "threshold_row list \<Rightarrow> string \<Rightarrow> pyfloat \<Rightarrow> threshold_row option" where
  "row_at rows scenario t = find (\<lambda>r. feq (tr_min_hit r) t \<and> tr_scenario r = scenario) rows"

fun series_of :: "threshold_row list \<Rightarrow> string \<Rightarrow> (comparison \<Rightarrow> pyfloat) \<Rightarrow> pyfloat list \<Rightarrow> pyfloat list option" where
  "series_of rows scenario field [] = Some []"
| "series_of rows scenario field (t # ts) =
     (case row_at rows scenario t of
        None \<Rightarrow> None
      | Some r \<Rightarrow> map_option (\<lambda>ys. field (tr_comparison r) # ys) (series_of rows scenario field ts))"

section \<open>Facts\<close>

lemma csv_row_made: "\<exists>s. csv_row (threshold_row_doc t) = Inr s"
proof -
  have "map fst (threshold_row_doc t) = csv_fieldnames" by (simp add: threshold_row_doc_def Let_def csv_fieldnames_def)
  then have "filter (\<lambda>k. k \<notin> set csv_fieldnames) (map fst (threshold_row_doc t)) = []" by (simp add: filter_empty_conv)
  then show ?thesis by (simp add: csv_row_def Let_def)
qed

definition row_of :: "policy \<Rightarrow> pyval \<Rightarrow> pyfloat \<times> string \<Rightarrow> threshold_row res" where
  "row_of p document = (\<lambda>(t, scenario). bindR (scenario_runs document scenario) (\<lambda>runs. bindR (compare_runs p t runs) (\<lambda>c.
             Inr \<lparr>tr_min_hit = t, tr_scenario = scenario, tr_comparison = c\<rparr>)))"

lemma threshold_rows_of:
  "threshold_rows p document ts = mapR (row_of p document) (concat (map (\<lambda>t. map (\<lambda>s. (t, s)) both_scenarios) ts))"
  by (simp add: threshold_rows_def row_of_def both_scenarios_def)

lemma row_of_keys: "row_of p document x = Inr r \<Longrightarrow> (tr_min_hit r, tr_scenario r) = x"
  by (cases x) (auto simp: row_of_def bindR_eq_Inr)

lemma rows_determined:
  assumes "threshold_rows p document ts = Inr rows" "r \<in> set rows"
  shows "row_of p document (tr_min_hit r, tr_scenario r) = Inr r"
  using mapR_Inr_set [OF assms(1) [unfolded threshold_rows_of] assms(2)] row_of_keys by metis

lemma row_at_own:
  assumes "threshold_rows p document ts = Inr rows" "r \<in> set rows" "tr_min_hit r \<noteq> NaN"
  shows "row_at rows (tr_scenario r) (tr_min_hit r) = Some r"
proof -
  have "row_at rows (tr_scenario r) (tr_min_hit r) \<noteq> None"
    using assms(2,3) by (auto simp: row_at_def find_None_iff feq_iff)
  then obtain q where q: "row_at rows (tr_scenario r) (tr_min_hit r) = Some q" by blast
  then have "q \<in> set rows" "tr_min_hit q = tr_min_hit r" "tr_scenario q = tr_scenario r"
    by (auto simp: row_at_def find_Some_iff feq_iff)
  then have "q = r" using rows_determined [OF assms(1)] assms(2) by (metis sum.inject(2))
  with q show ?thesis by simp
qed

lemma series_of_rows:
  assumes "list_all (\<lambda>r. row_at rows s (tr_min_hit r) = Some r) rs"
  shows "series_of rows s field (map tr_min_hit rs) = Some (map (\<lambda>r. field (tr_comparison r)) rs)"
  using assms by (induction rs) auto

lemma scenario_thresholds:
  assumes "mapR (row_of p document) (concat (map (\<lambda>t. map (\<lambda>s. (t, s)) both_scenarios) ts)) = Inr rows" "s \<in> set both_scenarios"
  shows "map tr_min_hit (filter (\<lambda>r. tr_scenario r = s) rows) = ts"
  using assms
proof (induction ts arbitrary: rows)
  case (Cons t ts)
  obtain a b rest where rows: "row_of p document (t, ''low_reuse'') = Inr a" "row_of p document (t, ''high_reuse'') = Inr b"
    "mapR (row_of p document) (concat (map (\<lambda>t. map (\<lambda>s. (t, s)) both_scenarios) ts)) = Inr rest" "rows = a # b # rest"
    using Cons.prems(1) by (auto simp: both_scenarios_def bindR_eq_Inr)
  have "map tr_min_hit (filter (\<lambda>r. tr_scenario r = s) rest) = ts" by (rule Cons.IH [OF rows(3) Cons.prems(2)])
  then show ?case using row_of_keys [OF rows(1)] row_of_keys [OF rows(2)] Cons.prems(2) rows(4) by (auto simp: both_scenarios_def)
qed simp

text \<open>
  The files of a scan show the scan: the CSV file can always be written, and each plotted series, which is found
  again by comparing thresholds as floats, is exactly the column of its scenario in the order of the rows, one value per threshold.
\<close>

theorem scan_files_exact:
  assumes "threshold_rows p document ts = Inr rows" "NaN \<notin> set ts" "s \<in> set both_scenarios"
  shows "(\<exists>csv. threshold_csv rows = Inr csv) \<and>
    series_of rows s field ts = Some (map (\<lambda>r. field (tr_comparison r)) (filter (\<lambda>r. tr_scenario r = s) rows)) \<and>
    length (filter (\<lambda>r. tr_scenario r = s) rows) = length ts"
proof -
  let ?mine = "filter (\<lambda>r. tr_scenario r = s) rows"
  have ts: "map tr_min_hit ?mine = ts" using scenario_thresholds assms(1,3) unfolding threshold_rows_of by blast
  have "row_at rows s (tr_min_hit r) = Some r" if "r \<in> set ?mine" for r
  proof -
    have "tr_min_hit r \<in> set ts" unfolding ts [symmetric] using that by auto
    with assms(2) have "tr_min_hit r \<noteq> NaN" by metis
    with row_at_own [OF assms(1), of r] that show ?thesis by auto
  qed
  then have "series_of rows s field (map tr_min_hit ?mine) = Some (map (\<lambda>r. field (tr_comparison r)) ?mine)"
    by (intro series_of_rows) (simp add: list_all_iff)
  moreover have "\<exists>lines. mapR (\<lambda>t. csv_row (threshold_row_doc t)) rows = Inr lines"
    unfolding mapR_returns using csv_row_made by blast
  then have "\<exists>csv. threshold_csv rows = Inr csv" by (auto simp: threshold_csv_def)
  moreover have "length ?mine = length ts" using arg_cong [OF ts, of length] by simp
  ultimately show ?thesis unfolding ts by simp
qed

theorem scan_files_exact_witness:
  "\<exists>rows. threshold_rows sample_policy scan_document [Fin 0, Fin 1] = Inr rows \<and>
     (\<exists>xs. series_of rows ''high_reuse'' cm_dual_rps [Fin 0, Fin 1] = Some xs \<and> length xs = 2)"
proof -
  obtain rows where rows: "threshold_rows sample_policy scan_document [Fin 0, Fin 1] = Inr rows" using scan_rows ..
  have "NaN \<notin> set [Fin 0, Fin 1]" "''high_reuse'' \<in> set both_scenarios" by (simp_all add: both_scenarios_def)
  from scan_files_exact [OF rows this, of cm_dual_rps] rows show ?thesis by auto
qed

end
