(* ===== verification/CacheFidelity.thy ===== *)
theory CacheFidelity
  imports PyJson PyStats
begin

text \<open>
  The ablation of \<open>benchmark/cache_fidelity.py\<close>: a trace of requests with the backend that holds their prefix, derived
  from SHA-256, and the decisions a router of a given fidelity makes for it when its evidence is \<open>lag_ms\<close> old.
  \<open>math.exp\<close> and the clock are arguments.
\<close>

section \<open>The trace\<close>

text \<open>The bytes of a digest.\<close>

definition sha256_byte :: "string \<Rightarrow> nat \<Rightarrow> nat" where
  "sha256_byte m i = unat (drop_bit (24 - 8 * (i mod 4)) (foldl sha_block sha_init (chunks 64 (sha_pad m)) ! (i div 4)) AND 255)"

record trace_request =
  tq_request_id :: string
  tq_cache_key :: string
  tq_prompt_tokens :: int
  tq_exact_backend :: string
  tq_match_ratio :: pyfloat

definition gpu :: "int \<Rightarrow> string" where
  "gpu n = ''gpu-'' @ int_str n"

definition trace_request_of :: "int \<Rightarrow> int \<Rightarrow> int \<Rightarrow> trace_request" where
  "trace_request_of backends seed index =
     (let digest = sha256_byte (utf8 (int_str seed @ '':'' @ int_str (index div 3)))
      in \<lparr>tq_request_id = ''req-'' @ int_str index, tq_cache_key = ''prefix-'' @ int_str (index div 3),
          tq_prompt_tokens = 256 + int (digest 1) * 8, tq_exact_backend = gpu (int (digest 0) mod backends),
          tq_match_ratio = fadd (fl (55 / 100)) (fmul (fl (of_nat (digest 2) / 255)) (fl (4 / 10)))\<rparr>)"

definition build_trace :: "int \<Rightarrow> int \<Rightarrow> int \<Rightarrow> trace_request list res" where
  "build_trace requests backends seed =
     guardR (requests \<le> 0 \<or> backends < 2) (ValueError ''requests must be positive and backends must be at least two'')
       (Inr (map (\<lambda>i. trace_request_of backends seed (int i)) [0..<nat requests]))"

section \<open>Decisions\<close>

definition fidelities :: "string list" where
  "fidelities = [''none'', ''affinity'', ''shadow-index'', ''exact-kv-events'']"

text \<open>The tables of the source: a fidelity that is not listed raises.\<close>

definition lookup :: "(string \<times> 'v) list \<Rightarrow> string \<Rightarrow> 'v res" where
  "lookup d k = (case dget d k of None \<Rightarrow> Inl KeyError | Some v \<Rightarrow> Inr v)"

definition decay_rates :: "(string \<times> pyfloat) list" where
  "decay_rates = [(''none'', Fin 0), (''affinity'', fl (18 / 100)), (''shadow-index'', fl (12 / 100)), (''exact-kv-events'', fl (35 / 100))]"

definition confidence :: "(pyfloat \<Rightarrow> pyfloat res) \<Rightarrow> int \<Rightarrow> pyfloat \<Rightarrow> pyfloat res" where
  "confidence math_exp lag_ms decay_lambda =
     bindR (float_of_int lag_ms) (\<lambda>lag. bindR (fdiv (fmul (fneg decay_lambda) lag) (Fin 1000)) math_exp)"

definition trailing_number :: "string \<Rightarrow> int res" where
  "trailing_number s = str_to_int (last (split_on (CHR ''-'') s))"

definition py_mod :: "int \<Rightarrow> int \<Rightarrow> int res" where
  "py_mod a b = (if b = 0 then Inl ZeroDivisionError else Inr (a mod b))"

definition alternate_backend :: "trace_request \<Rightarrow> int \<Rightarrow> string res" where
  "alternate_backend q backends =
     bindR (trailing_number (tq_request_id q)) (\<lambda>n. bindR (py_mod n backends) (\<lambda>m. Inr (gpu m)))"

definition error_threshold :: "string \<Rightarrow> int \<Rightarrow> int res" where
  "error_threshold fidelity lag_ms =
     bindR (lookup [(''affinity'', 62), (''shadow-index'', 28), (''exact-kv-events'', 0)] fidelity) (\<lambda>b.
     Inr (b + min 80 (lag_ms div 150)))"

definition predicted_backend ::
  "(pyfloat \<Rightarrow> pyfloat res) \<Rightarrow> trace_request \<Rightarrow> string \<Rightarrow> int \<Rightarrow> int \<Rightarrow> (string \<times> pyfloat \<times> bool) res" where
  "predicted_backend math_exp q fidelity lag_ms backends =
     bindR (bindR (lookup decay_rates fidelity) (confidence math_exp lag_ms)) (\<lambda>conf.
     if fidelity = ''none'' then bindR (alternate_backend q backends) (\<lambda>b. Inr (b, Fin 0, False))
     else if flt conf (fl (2 / 10)) then bindR (alternate_backend q backends) (\<lambda>b. Inr (b, conf, True))
     else bindR (error_threshold fidelity lag_ms) (\<lambda>limit.
       let digest = sha256_byte (utf8 (fidelity @ '':'' @ tq_cache_key q @ '':'' @ int_str lag_ms)) in
       if int (digest 0) < limit then
         bindR (trailing_number (tq_exact_backend q)) (\<lambda>n. bindR (py_mod (int (digest 1)) (backends - 1)) (\<lambda>step.
         bindR (py_mod (n + 1 + step) backends) (\<lambda>wrong. Inr (gpu wrong, conf, False))))
       else Inr (tq_exact_backend q, conf, False)))"

section \<open>The evaluation of a trace\<close>

record fidelity_sums =
  fs_selected :: "string list"
  fs_correct :: nat
  fs_fallback :: nat
  fs_wrong_affinity :: nat
  fs_reversals :: nat
  fs_ttft :: "pyfloat list"
  fs_reuse :: "pyfloat list"

definition decide_request ::
  "(pyfloat \<Rightarrow> pyfloat res) \<Rightarrow> nat \<Rightarrow> string \<Rightarrow> int \<Rightarrow> int \<Rightarrow> trace_request \<Rightarrow> fidelity_sums \<Rightarrow> fidelity_sums res" where
  "decide_request math_exp n fidelity lag_ms backends q s =
     bindR (predicted_backend math_exp q fidelity lag_ms backends) (\<lambda>(backend, conf, fell_back).
     bindR (predicted_backend math_exp q fidelity 0 backends) (\<lambda>(zero_lag_backend, _, _).
     let selected = fs_selected s @ [backend]; is_correct = (backend = tq_exact_backend q);
         effective_reuse = (if is_correct \<and> fidelity \<noteq> ''none'' then fmul (tq_match_ratio q) conf else Fin 0);
         queue_penalty = fmul (fl (of_nat (count_list selected backend) / of_nat n)) (Fin 18)
     in Inr \<lparr>fs_selected = selected, fs_correct = fs_correct s + of_bool is_correct,
             fs_fallback = fs_fallback s + of_bool fell_back,
             fs_wrong_affinity = fs_wrong_affinity s + of_bool (fidelity = ''affinity'' \<and> \<not> is_correct \<and> \<not> fell_back),
             fs_reversals = fs_reversals s + of_bool (backend \<noteq> zero_lag_backend),
             fs_ttft = fs_ttft s @ [fadd (fadd (Fin 18) (fmul (fmul (Fin (of_int (tq_prompt_tokens q))) (fl (55 / 1000)))
                                                          (fsub (Fin 1) effective_reuse))) queue_penalty],
             fs_reuse = fs_reuse s @ [effective_reuse]\<rparr>))"

definition no_decisions :: fidelity_sums where
  "no_decisions = \<lparr>fs_selected = [], fs_correct = 0, fs_fallback = 0, fs_wrong_affinity = 0, fs_reversals = 0, fs_ttft = [], fs_reuse = []\<rparr>"

record fidelity_result =
  fy_fidelity :: string
  fy_lag_ms :: int
  fy_requests :: nat
  fy_routing_accuracy :: pyfloat
  fy_cache_reuse_ratio :: pyfloat
  fy_ttft_mean_ms :: pyfloat
  fy_throughput_proxy :: pyfloat
  fy_cpu_ns :: pyfloat
  fy_state_bytes :: int
  fy_state_bandwidth :: pyfloat
  fy_decision_latency_us :: pyfloat
  fy_wrong_affinity_rate :: pyfloat
  fy_imbalance_cv :: pyfloat
  fy_reversal_rate :: pyfloat
  fy_fallback_rate :: pyfloat
  fy_mean_confidence :: pyfloat

text \<open>The quotient of two integers.\<close>

definition true_div :: "int \<Rightarrow> int \<Rightarrow> pyfloat res" where
  "true_div a b = (if b = 0 then Inl ZeroDivisionError
     else case fl (of_int a / of_int b) of Fin x \<Rightarrow> Inr (Fin x) | _ \<Rightarrow> Inl OverflowError)"

definition share :: "nat \<Rightarrow> nat \<Rightarrow> pyfloat res" where
  "share k n = true_div (int k) (int n)"

text \<open>\<open>statistics.pstdev\<close> of counts over \<open>statistics.mean\<close>.\<close>

definition imbalance_cv :: "nat list \<Rightarrow> pyfloat res" where
  "imbalance_cv counts =
     (if counts = [] then Inl StatisticsError
      else let n = of_nat (length counts) :: rat; m = sum_list (map of_nat counts) / n
        in fdiv (Fin (sqrt64 (sum_list (map (\<lambda>c. (of_nat c - m) * (of_nat c - m)) counts) / n))) (fl m))"

definition evaluate_fidelity ::
  "(pyfloat \<Rightarrow> pyfloat res) \<Rightarrow> trace_request list \<Rightarrow> string \<Rightarrow> int \<Rightarrow> int \<Rightarrow> int \<Rightarrow> fidelity_result res" where
  "evaluate_fidelity math_exp trace fidelity lag_ms backends elapsed_ns =
     guardR (fidelity \<notin> set fidelities) (ValueError (''unknown fidelity '' @ fidelity))
    (let n = length trace in
     bindR (foldR (decide_request math_exp n fidelity lag_ms backends) trace no_decisions) (\<lambda>s.
     let counts = map (\<lambda>i. count_list (fs_selected s) (gpu (int i))) [0..<nat backends] in
     bindR (lookup [(''none'', 0), (''affinity'', int n * 48), (''shadow-index'', backends * 256), (''exact-kv-events'', int n * 96)] fidelity) (\<lambda>state_bytes.
     bindR (lookup [(''none'', 0), (''affinity'', 32), (''shadow-index'', 128), (''exact-kv-events'', 96)] fidelity) (\<lambda>update_bytes.
     bindR (stat_mean (fs_ttft s)) (\<lambda>avg_ttft.
     bindR (share (fs_correct s) n) (\<lambda>accuracy.
     bindR (stat_mean (fs_reuse s)) (\<lambda>reuse.
     bindR (fdiv (Fin 1000) avg_ttft) (\<lambda>throughput.
     bindR (true_div elapsed_ns (int n)) (\<lambda>cpu_ns.
     bindR (if lag_ms = 0 then Inr (Fin 0) else true_div (update_bytes * 1000) lag_ms) (\<lambda>bandwidth.
     bindR (fdiv cpu_ns (Fin 1000)) (\<lambda>latency.
     bindR (share (fs_wrong_affinity s) n) (\<lambda>wrong.
     bindR (imbalance_cv counts) (\<lambda>cv.
     bindR (share (fs_reversals s) n) (\<lambda>reversals.
     bindR (share (fs_fallback s) n) (\<lambda>fallback.
     bindR (if fidelity \<noteq> ''none'' then bindR (lookup decay_rates fidelity) (confidence math_exp lag_ms) else Inr (Fin 0)) (\<lambda>conf.
     Inr \<lparr>fy_fidelity = fidelity, fy_lag_ms = lag_ms, fy_requests = n, fy_routing_accuracy = accuracy,
          fy_cache_reuse_ratio = reuse, fy_ttft_mean_ms = avg_ttft, fy_throughput_proxy = throughput,
          fy_cpu_ns = cpu_ns, fy_state_bytes = state_bytes,
          fy_state_bandwidth = bandwidth,
          fy_decision_latency_us = latency, fy_wrong_affinity_rate = wrong, fy_imbalance_cv = cv,
          fy_reversal_rate = reversals, fy_fallback_rate = fallback, fy_mean_confidence = conf\<rparr>))))))))))))))))"

definition default_lags_ms :: "int list" where
  "default_lags_ms = [0, 100, 500, 1000, 2000, 5000, 10000]"

text \<open>\<open>run\<close>: every fidelity at every lag; \<open>elapsed\<close> is the measured time of each evaluation.\<close>

definition run_fidelity ::
  "(pyfloat \<Rightarrow> pyfloat res) \<Rightarrow> (string \<Rightarrow> int \<Rightarrow> int) \<Rightarrow> int \<Rightarrow> int \<Rightarrow> int \<Rightarrow> int list \<Rightarrow> fidelity_result list res" where
  "run_fidelity math_exp elapsed requests backends seed lags_ms =
     bindR (build_trace requests backends seed) (\<lambda>trace.
     mapR (\<lambda>(f, lag). evaluate_fidelity math_exp trace f lag backends (elapsed f lag))
       (concat (map (\<lambda>f. map (\<lambda>lag. (f, lag)) lags_ms) fidelities)))"

section \<open>Facts\<close>

subsection \<open>Intervals of floats\<close>

definition between :: "rat \<Rightarrow> rat \<Rightarrow> pyfloat \<Rightarrow> bool" where
  "between a b x \<longleftrightarrow> (\<exists>v. x = Fin v \<and> a \<le> v \<and> v \<le> b)"

lemma between_unit: "between 0 1 x \<longleftrightarrow> in_unit x"
  by (cases x) (auto simp: between_def in_unit_def)

lemma between_mono: "between a b x \<Longrightarrow> a' \<le> a \<Longrightarrow> b \<le> b' \<Longrightarrow> between a' b' x"
  by (auto simp: between_def)

lemma between_fl:
  assumes "is_f64 (Fin a)" "is_f64 (Fin b)" "a \<le> q" "q \<le> b"
  shows "between a b (fl q)"
  using fl_mono [OF assms(3)] fl_mono [OF assms(4)] fl_exact [OF assms(1)] fl_exact [OF assms(2)]
  by (cases "fl q") (auto simp: between_def)

lemma between_add:
  assumes "between a b x" "between c d y" "is_f64 (Fin (a + c))" "is_f64 (Fin (b + d))"
  shows "between (a + c) (b + d) (fadd x y)"
  using assms(1,2) by (auto simp: between_def [of a] between_def [of c] intro!: between_fl [OF assms(3,4)])

lemma between_mult:
  assumes "between 0 b x" "between 0 d y" "is_f64 (Fin (b * d))"
  shows "between 0 (b * d) (fmul x y)"
proof -
  obtain v w where v: "x = Fin v" "0 \<le> v" "v \<le> b" "y = Fin w" "0 \<le> w" "w \<le> d" using assms(1,2) by (auto simp: between_def)
  then have "v * w \<le> b * d" by (intro mult_mono) auto
  with v show ?thesis by (auto intro!: between_fl [OF _ assms(3)])
qed

lemma f64_scaled:
  assumes "\<bar>m\<bar> \<le> 2 ^ 53" "- 1074 \<le> k" "k \<le> 0"
  shows "is_f64 (Fin (of_int m * 2 powi k))"
proof -
  have "(2::rat) powi k \<le> 1" using power_int_increasing [of k 0 "2::rat"] assms(3) by simp
  then have "\<bar>of_int m\<bar> * (2::rat) powi k \<le> \<bar>of_int m\<bar> * 1" by (intro mult_left_mono) auto
  moreover have "\<bar>of_int m :: rat\<bar> \<le> 2 ^ 53" using assms(1) by (metis of_int_abs of_int_le_iff of_int_numeral of_int_power)
  moreover have "(2::rat) ^ 53 < 2 ^ 1024" by (intro power_strict_increasing) auto
  ultimately have "\<bar>of_int m * 2 powi k\<bar> < (2::rat) ^ 1024" by (simp add: abs_mult)
  then show ?thesis using rnd64_repr [OF assms(1,2)] by simp
qed

lemma f64_small:
  assumes "\<bar>m\<bar> \<le> 2 ^ 53" shows "is_f64 (Fin (of_int m))" "is_f64 (Fin (of_int m / 16))"
  using f64_scaled [OF assms, of 0] f64_scaled [OF assms, of "- 4"] by (simp_all add: power_int_minus field_simps)

lemma f64_numerals:
  "is_f64 (Fin 0)" "is_f64 (Fin 1)" "is_f64 (Fin 18)" "is_f64 (Fin 144)" "is_f64 (Fin 162)" "is_f64 (Fin 180)"
  "is_f64 (Fin (9 / 16))" "is_f64 (Fin (7 / 16))" "is_f64 (Fin (1 / 16))" "is_f64 (Fin (287 / 2))"
  using f64_small(1) [of 0] f64_small(1) [of 1] f64_small(1) [of 18] f64_small(1) [of 144] f64_small(1) [of 162] f64_small(1) [of 180]
    f64_small(2) [of 9] f64_small(2) [of 7] f64_small(2) [of 1] f64_small(2) [of 2296]
  by simp_all

lemma stat_mean_between:
  assumes "xs \<noteq> []" "list_all (between a b) xs" "is_f64 (Fin a)" "is_f64 (Fin b)"
  shows "\<exists>m. stat_mean xs = Inr m \<and> between a b m"
proof -
  let ?s = "sum_list (map finite_part xs)" and ?n = "of_nat (length xs) :: rat"
  have "a * ?n \<le> ?s \<and> ?s \<le> b * ?n"
    using assms(2) by (induction xs) (auto simp: finite_part_def between_def algebra_simps)
  moreover have n: "0 < ?n" using assms(1) by simp
  ultimately have "a \<le> ?s / ?n" "?s / ?n \<le> b" by (simp_all add: le_divide_eq divide_le_eq)
  then have "between a b (fl (?s / ?n))" by (rule between_fl [OF assms(3,4)])
  moreover have "list_all isfinite xs" using assms(2) by (auto simp: list_all_iff between_def)
  ultimately show ?thesis using assms(1) by (auto simp: stat_mean_def between_def)
qed

lemma true_div_total:
  assumes "0 \<le> a" "a \<le> 2 ^ 53" "0 < b"
  shows "\<exists>x. true_div a b = Inr x \<and> between 0 (2 ^ 53) x"
proof -
  have "(of_int a :: rat) / of_int b \<le> of_int a" using assms mult_left_mono [of 1 "of_int b :: rat" "of_int a"]
    by (simp add: divide_le_eq)
  moreover have "(of_int a :: rat) \<le> 2 ^ 53" using assms(2) by (metis of_int_le_iff of_int_numeral of_int_power)
  moreover have "is_f64 (Fin (2 ^ 53))" using f64_small(1) [of "2 ^ 53"] by simp
  ultimately have "between 0 (2 ^ 53) (fl (of_int a / of_int b))" using assms by (intro between_fl f64_numerals) auto
  then show ?thesis using assms(3) by (auto simp: true_div_def between_def)
qed

lemma share_unit: "0 < n \<Longrightarrow> k \<le> n \<Longrightarrow> \<exists>x. share k n = Inr x \<and> in_unit x"
proof -
  assume "0 < n" "k \<le> n"
  then have "between 0 1 (fl (of_nat k / of_nat n))" by (intro between_fl f64_numerals) auto
  then show ?thesis using \<open>0 < n\<close> by (auto simp: share_def true_div_def between_def in_unit_def)
qed

subsection \<open>Names\<close>

lemma int_str_digits: "0 \<le> n \<Longrightarrow> int_str n = nat_str (nat n)"
  by (simp add: int_str_def)

lemma trailing_number:
  assumes "CHR ''-'' \<notin> set p" "0 \<le> n"
  shows "trailing_number (p @ CHR ''-'' # int_str n) = Inr n"
proof -
  have "CHR ''-'' \<notin> set (nat_str (nat n))" using nat_str_digits minus_not_digit by blast
  then show ?thesis
    using assms by (simp add: trailing_number_def split_on_at split_on_absent int_str_digits str_to_int_nat_str)
qed

lemma gpu_inject [simp]: "gpu m = gpu n \<longleftrightarrow> m = n"
  by (simp add: gpu_def)

lemma gpu_number: "0 \<le> n \<Longrightarrow> trailing_number (gpu n) = Inr n"
  using trailing_number [of "''gpu''" n] by (simp add: gpu_def)

subsection \<open>The trace\<close>

definition backend_of :: "int \<Rightarrow> string \<Rightarrow> bool" where
  "backend_of backends b \<longleftrightarrow> (\<exists>m. 0 \<le> m \<and> m < backends \<and> b = gpu m)"

definition traced :: "int \<Rightarrow> trace_request \<Rightarrow> bool" where
  "traced backends q \<longleftrightarrow> (\<exists>i. 0 \<le> i \<and> tq_request_id q = ''req-'' @ int_str i) \<and> backend_of backends (tq_exact_backend q) \<and>
     0 \<le> tq_prompt_tokens q \<and> tq_prompt_tokens q \<le> 2296 \<and> in_unit (tq_match_ratio q)"

lemma sha256_byte_le: "sha256_byte m i \<le> 255"
proof -
  have "unat (w AND 255 :: 32 word) \<le> unat (255 :: 32 word)" for w by (simp only: word_le_nat_alt [symmetric] word_and_le1)
  then show ?thesis by (simp add: sha256_byte_def)
qed

lemma trace_request_traced:
  assumes "0 < backends" "0 \<le> i"
  shows "traced backends (trace_request_of backends seed i)"
proof -
  let ?d = "sha256_byte (utf8 (int_str seed @ '':'' @ int_str (i div 3)))"
  have d: "?d k \<le> 255" for k by (rule sha256_byte_le)
  have "between 0 1 (fl (of_nat (?d 2) / 255))"
    using d [of 2] by (intro between_fl f64_numerals) auto
  moreover have "between 0 (7 / 16) (fl (4 / 10))" by (rule between_fl [OF f64_numerals(1,8)]) simp_all
  moreover have "between 0 (9 / 16) (fl (55 / 100))" by (rule between_fl [OF f64_numerals(1,7)]) simp_all
  ultimately have "between (0 + 0) (9 / 16 + 1 * (7 / 16)) (fadd (fl (55 / 100)) (fmul (fl (of_nat (?d 2) / 255)) (fl (4 / 10))))"
    by (intro between_add [where a = 0 and c = 0] between_mult) (simp_all only: f64_numerals, simp_all add: f64_numerals del: is_f64.simps)
  then have "in_unit (tq_match_ratio (trace_request_of backends seed i))"
    by (simp add: trace_request_of_def Let_def between_unit)
  moreover have "backend_of backends (tq_exact_backend (trace_request_of backends seed i))"
    using assms(1) by (auto simp: trace_request_of_def Let_def backend_of_def)
  ultimately show ?thesis using d [of 1] assms(2) by (auto simp: traced_def trace_request_of_def Let_def)
qed

lemma build_traceD:
  assumes "build_trace requests backends seed = Inr trace"
  shows "2 \<le> backends" "length trace = nat requests" "0 < length trace" "list_all (traced backends) trace"
  using assms by (auto simp: build_trace_def guardR_eq_Inr list_all_iff intro!: trace_request_traced)

subsection \<open>Decisions\<close>

text \<open>What the evaluation relies on of \<open>math.exp\<close>: on numbers that are not positive it returns a number of the unit interval.\<close>

definition exp_ok :: "(pyfloat \<Rightarrow> pyfloat res) \<Rightarrow> bool" where
  "exp_ok math_exp \<longleftrightarrow> (\<forall>x. fle x (Fin 0) \<longrightarrow> (\<exists>y. math_exp x = Inr y \<and> in_unit y))"

lemma confidence_unit:
  assumes "exp_ok math_exp" "0 \<le> lag" "lag \<le> 2 ^ 53" "0 \<le> q"
  shows "\<exists>c. confidence math_exp lag (Fin q) = Inr c \<and> in_unit c"
proof -
  have lag: "float_of_int lag = Inr (Fin (of_int lag))"
    using fl_int [of lag] assms(2,3) by (simp add: float_of_int_def)
  have "fle (fl (- q * of_int lag)) (Fin 0)" using fl_mono [of "- q * of_int lag" 0] assms(2,4) by simp
  then have "fle (fquot (fl (- q * of_int lag)) (Fin 1000)) (Fin 0)"
    using fl_mono [of "x / 1000" 0 for x] by (cases "fl (- q * of_int lag)") (auto simp: inf_of_sgn_def)
  then show ?thesis using assms(1) by (auto simp: confidence_def lag exp_ok_def fdiv_def)
qed

lemma rates_finite:
  "\<exists>q. fl (18 / 100) = Fin q \<and> 0 \<le> q" "\<exists>q. fl (12 / 100) = Fin q \<and> 0 \<le> q" "\<exists>q. fl (35 / 100) = Fin q \<and> 0 \<le> q"
  using between_fl [OF f64_numerals(1,2), of "18 / 100"] between_fl [OF f64_numerals(1,2), of "12 / 100"]
    between_fl [OF f64_numerals(1,2), of "35 / 100"] by (auto simp: between_def)

lemma fidelity_cases:
  assumes "f \<in> set fidelities"
  obtains "f = ''none''" | "f = ''affinity''" | "f = ''shadow-index''" | "f = ''exact-kv-events''"
  using assms by (auto simp: fidelities_def)

lemma lookup_rate: "f \<in> set fidelities \<Longrightarrow> \<exists>q. lookup decay_rates f = Inr (Fin q) \<and> 0 \<le> q"
  by (erule fidelity_cases; hypsubst) (use rates_finite in \<open>simp_all add: lookup_def decay_rates_def dget_def\<close>)

lemma alternate_total: "traced backends q \<Longrightarrow> 2 \<le> backends \<Longrightarrow> \<exists>b. alternate_backend q backends = Inr b \<and> backend_of backends b"
proof -
  assume q: "traced backends q" "2 \<le> backends"
  then obtain i where "0 \<le> i" "tq_request_id q = ''req'' @ CHR ''-'' # int_str i" by (auto simp: traced_def)
  then have "trailing_number (tq_request_id q) = Inr i" using trailing_number [of "''req''" i] by simp
  then show ?thesis using q(2) by (auto simp: alternate_backend_def py_mod_def backend_of_def)
qed

lemma predicted_total:
  assumes "exp_ok math_exp" "traced backends q" "2 \<le> backends" "0 \<le> lag" "lag \<le> 2 ^ 53" "f \<in> set fidelities"
  shows "\<exists>b c fell. predicted_backend math_exp q f lag backends = Inr (b, c, fell) \<and> backend_of backends b \<and> in_unit c"
proof -
  obtain rate where r: "lookup decay_rates f = Inr (Fin rate)" "0 \<le> rate" using lookup_rate [OF assms(6)] by blast
  obtain c where c: "confidence math_exp lag (Fin rate) = Inr c" "in_unit c" using confidence_unit [OF assms(1,4,5) r(2)] by blast
  obtain a where a: "alternate_backend q backends = Inr a" "backend_of backends a" using alternate_total [OF assms(2,3)] by blast
  obtain e where e: "0 \<le> e" "tq_exact_backend q = gpu e" "backend_of backends (gpu e)"
    using assms(2) by (auto simp: traced_def backend_of_def)
  have "in_unit (Fin 0)" by (simp add: in_unit_def)
  moreover have "\<exists>limit. error_threshold f lag = Inr limit" if "f \<noteq> ''none''"
    using assms(6) that by (elim fidelity_cases) (simp_all add: error_threshold_def lookup_def dget_def)
  moreover have "backend_of backends (gpu (x mod backends))" for x using assms(3) by (auto simp: backend_of_def)
  ultimately show ?thesis
    using r c a e assms(3)
    by (cases "f = ''none''"; cases "flt c (fl (2 / 10))") (auto simp: predicted_backend_def gpu_number py_mod_def Let_def)
qed

lemma exact_at_zero:
  assumes "math_exp (Fin 0) = Inr (Fin 1)"
  shows "\<exists>c. predicted_backend math_exp q ''exact-kv-events'' 0 backends = Inr (tq_exact_backend q, c, False)"
proof -
  have "\<exists>x. fl (35 / 100) = Fin x" using between_fl [OF f64_numerals(1,2), of "35 / 100"] by (auto simp: between_def)
  then have "bindR (lookup decay_rates ''exact-kv-events'') (confidence math_exp 0) = Inr (Fin 1)"
    by (auto simp: lookup_def decay_rates_def dget_def confidence_def float_of_int_def fdiv_def assms)
  moreover have "\<not> flt (Fin 1) (fl (2 / 10))" using fl_le_1 [of "2 / 10"] flt_fle_trans flt_irrefl by fastforce
  moreover have "error_threshold ''exact-kv-events'' 0 = Inr 0" by (simp add: error_threshold_def lookup_def dget_def)
  ultimately show ?thesis by (simp add: predicted_backend_def Let_def)
qed

text \<open>The sums after \<open>k\<close> of \<open>n\<close> requests.\<close>

definition sums_ok :: "(pyfloat \<Rightarrow> pyfloat res) \<Rightarrow> string \<Rightarrow> int \<Rightarrow> int \<Rightarrow> nat \<Rightarrow> fidelity_sums \<Rightarrow> bool" where
  "sums_ok math_exp f lag backends k s \<longleftrightarrow>
     length (fs_selected s) = k \<and> list_all (backend_of backends) (fs_selected s) \<and>
     fs_correct s \<le> k \<and> fs_fallback s \<le> k \<and> fs_wrong_affinity s + fs_correct s \<le> k \<and> fs_reversals s \<le> k \<and>
     length (fs_ttft s) = k \<and> list_all (between 18 180) (fs_ttft s) \<and> length (fs_reuse s) = k \<and> list_all (between 0 1) (fs_reuse s) \<and>
     (lag = 0 \<longrightarrow> fs_reversals s = 0) \<and>
     (f = ''exact-kv-events'' \<and> lag = 0 \<and> math_exp (Fin 0) = Inr (Fin 1) \<longrightarrow> fs_correct s = k)"

lemma ttft_between:
  assumes "0 \<le> t" "t \<le> 2296" "between 0 1 r" "m \<le> n" "0 < n"
  shows "between 18 180 (fadd (fadd (Fin 18) (fmul (fmul (Fin (of_int t)) (fl (55 / 1000))) (fsub (Fin 1) r)))
    (fmul (fl (of_nat m / of_nat n)) (Fin 18)))"
proof -
  have "between 0 2296 (Fin (of_int t))" using assms(1,2) by (simp add: between_def)
  moreover have "between 0 (1 / 16) (fl (55 / 1000))" by (rule between_fl [OF f64_numerals(1,9)]) simp_all
  ultimately have "between 0 (2296 * (1 / 16)) (fmul (Fin (of_int t)) (fl (55 / 1000)))"
    by (rule between_mult) (use f64_numerals(10) in simp)
  then have "between 0 144 (fmul (Fin (of_int t)) (fl (55 / 1000)))" by (rule between_mono) simp_all
  moreover obtain v where v: "r = Fin v" "0 \<le> v" "v \<le> 1" using assms(3) by (auto simp: between_def)
  then have "between 0 1 (fsub (Fin 1) r)" by (auto simp: fsub_def intro!: between_fl [OF f64_numerals(1,2)])
  ultimately have "between 0 (144 * 1) (fmul (fmul (Fin (of_int t)) (fl (55 / 1000))) (fsub (Fin 1) r))"
    by (rule between_mult) (use f64_numerals(4) in simp)
  moreover have "between 18 18 (Fin 18)" by (simp add: between_def)
  ultimately have "between (18 + 0) (18 + 144 * 1) (fadd (Fin 18) (fmul (fmul (Fin (of_int t)) (fl (55 / 1000))) (fsub (Fin 1) r)))"
    by (intro between_add) (use f64_numerals(3,5) in simp_all)
  moreover have "between 0 1 (fl (of_nat m / of_nat n))" using assms(4,5) by (intro between_fl [OF f64_numerals(1,2)]) simp_all
  then have "between 0 (1 * 18) (fmul (fl (of_nat m / of_nat n)) (Fin 18))"
    by (rule between_mult [where d = 18]) (use f64_numerals(3) in \<open>simp_all add: between_def\<close>)
  ultimately have "between (18 + 0 + 0) (18 + 144 * 1 + 1 * 18) (fadd (fadd (Fin 18) (fmul (fmul (Fin (of_int t)) (fl (55 / 1000))) (fsub (Fin 1) r)))
    (fmul (fl (of_nat m / of_nat n)) (Fin 18)))"
    by (rule between_add) (use f64_numerals(3,6) in simp_all)
  then show ?thesis by simp
qed

lemma decide_request_total:
  assumes "exp_ok math_exp" "traced backends q" "2 \<le> backends" "0 \<le> lag" "lag \<le> 2 ^ 53" "f \<in> set fidelities"
    and "sums_ok math_exp f lag backends k s" "k < n"
  shows "\<exists>s'. decide_request math_exp n f lag backends q s = Inr s' \<and> sums_ok math_exp f lag backends (Suc k) s'"
proof -
  obtain b c fell where p: "predicted_backend math_exp q f lag backends = Inr (b, c, fell)" "backend_of backends b" "in_unit c"
    using predicted_total [OF assms(1-6)] by blast
  obtain z c0 f0 where z: "predicted_backend math_exp q f 0 backends = Inr (z, c0, f0)"
    using predicted_total [OF assms(1-3) _ _ assms(6), of 0] by auto
  define r where "r = (if b = tq_exact_backend q \<and> f \<noteq> ''none'' then fmul (tq_match_ratio q) c else Fin 0)"
  have "between 0 1 (tq_match_ratio q)" using assms(2) by (simp add: traced_def between_unit)
  then have "between 0 (1 * 1) (fmul (tq_match_ratio q) c)"
    by (rule between_mult) (use p(3) f64_numerals(2) in \<open>simp_all add: between_unit\<close>)
  then have r: "between 0 1 r" by (simp add: r_def between_def)
  have "count_list (fs_selected s @ [b]) b \<le> length (fs_selected s @ [b])" by (rule count_le_length)
  then have "count_list (fs_selected s @ [b]) b \<le> n" using assms(7,8) by (simp add: sums_ok_def)
  then have t: "between 18 180 (fadd (fadd (Fin 18) (fmul (fmul (Fin (of_int (tq_prompt_tokens q))) (fl (55 / 1000))) (fsub (Fin 1) r)))
      (fmul (fl (of_nat (count_list (fs_selected s @ [b]) b) / of_nat n)) (Fin 18)))"
    using assms(2,8) r by (intro ttft_between) (auto simp: traced_def)
  have same: "lag = 0 \<Longrightarrow> b = z" using p(1) z by simp
  have exact: "b = tq_exact_backend q" if "f = ''exact-kv-events''" "lag = 0" "math_exp (Fin 0) = Inr (Fin 1)"
    using exact_at_zero [where math_exp = math_exp and q = q and backends = backends, OF that(3)] p(1) that(1,2) by auto
  show ?thesis
    unfolding decide_request_def p(1) z bindR_simps prod.case Let_def r_def [symmetric]
    using assms(7) p(2) r t same exact by (auto simp: sums_ok_def)
qed

lemma decisions_total:
  assumes "exp_ok math_exp" "list_all (traced backends) qs" "2 \<le> backends" "0 \<le> lag" "lag \<le> 2 ^ 53" "f \<in> set fidelities"
    and "sums_ok math_exp f lag backends k s" "k + length qs = n"
  shows "\<exists>s'. foldR (decide_request math_exp n f lag backends) qs s = Inr s' \<and> sums_ok math_exp f lag backends n s'"
  using assms(2,7,8)
proof (induction qs arbitrary: k s)
  case (Cons q qs)
  obtain s' where s': "decide_request math_exp n f lag backends q s = Inr s'" "sums_ok math_exp f lag backends (Suc k) s'"
    using decide_request_total [OF assms(1) _ assms(3-6) Cons.prems(2), of q n] Cons.prems by auto
  show ?case using Cons.IH [OF _ s'(2)] s'(1) Cons.prems by simp
qed simp

subsection \<open>Counts\<close>

lemma count_one: "distinct ys \<Longrightarrow> x \<in> set ys \<Longrightarrow> sum_list (map (\<lambda>y. of_bool (x = y)) ys) = (1::nat)"
proof (induction ys)
  case (Cons y ys)
  have "sum_list (map (\<lambda>y. of_bool (x = y)) ys) = (0::nat)" if "x \<notin> set ys" using that by (induction ys) auto
  with Cons show ?case by auto
qed simp

lemma counts_sum:
  assumes "distinct ys" "set xs \<subseteq> set ys"
  shows "sum_list (map (count_list xs) ys) = length xs"
  using assms(2)
proof (induction xs)
  case (Cons x xs)
  have "count_list (x # xs) = (\<lambda>y. of_bool (x = y) + count_list xs y)" by auto
  then show ?case using Cons count_one [OF assms(1), of x] by (simp add: sum_list_addf)
qed simp

lemma imbalance_total:
  assumes "sum_list counts = n" "0 < n" "int (length counts) \<le> 2 ^ 53"
  shows "\<exists>x. imbalance_cv counts = Inr x"
proof -
  have ne: "counts \<noteq> []" using assms(1,2) by auto
  let ?n = "of_nat n :: rat" and ?l = "of_nat (length counts) :: rat"
  define e :: rat where "e = of_int 1 * 2 powi (- 53)"
  have e: "0 < e" "is_f64 (Fin e)" "e * 2 ^ 53 = 1"
    unfolding e_def by (simp, rule f64_scaled, simp_all add: power_int_minus)
  have "?l \<le> 2 ^ 53" using assms(3) by (metis of_int_le_iff of_int_numeral of_int_of_nat_eq of_int_power)
  then have "e * ?l \<le> e * 2 ^ 53" using e(1) by (intro mult_left_mono) auto
  then have "e * ?l \<le> 1" unfolding e(3) .
  also have "1 \<le> ?n" using assms(2) by simp
  finally have "e \<le> ?n / ?l" using ne by (simp add: le_divide_eq)
  then have "fle (Fin e) (fl (?n / ?l))" using fl_mono fl_exact [OF e(2)] by metis
  then have "flt (Fin 0) (fl (?n / ?l))" using e(1) by (cases "fl (?n / ?l)") auto
  moreover have "sum_list (map of_nat counts) = ?n" unfolding assms(1) [symmetric] by (induction counts) auto
  ultimately show ?thesis using ne by (simp add: imbalance_cv_def Let_def fdiv_positive)
qed

section \<open>Property\<close>

text \<open>
  What the figures of an evaluation claim: shares and ratios lie between 0 and 1, latencies between 18 and 180 ms; without lag no
  decision is reversed, and exact evidence is always right.
\<close>

definition figures_ok :: "(pyfloat \<Rightarrow> pyfloat res) \<Rightarrow> int \<Rightarrow> fidelity_result \<Rightarrow> bool" where
  "figures_ok math_exp requests r \<longleftrightarrow>
     fy_requests r = nat requests \<and> in_unit (fy_routing_accuracy r) \<and> in_unit (fy_cache_reuse_ratio r) \<and> in_unit (fy_wrong_affinity_rate r) \<and>
     in_unit (fy_reversal_rate r) \<and> in_unit (fy_fallback_rate r) \<and> in_unit (fy_mean_confidence r) \<and> between 18 180 (fy_ttft_mean_ms r) \<and>
     (fy_lag_ms r = 0 \<longrightarrow> fy_reversal_rate r = Fin 0) \<and>
     (fy_fidelity r = ''exact-kv-events'' \<and> fy_lag_ms r = 0 \<and> math_exp (Fin 0) = Inr (Fin 1) \<longrightarrow> fy_routing_accuracy r = Fin 1)"

lemma evaluate_total:
  assumes "exp_ok math_exp" "build_trace requests backends seed = Inr trace" "backends \<le> 2 ^ 53" "0 \<le> lag" "lag \<le> 2 ^ 53"
    "f \<in> set fidelities" "0 \<le> ns" "ns \<le> 2 ^ 53"
  shows "\<exists>r. evaluate_fidelity math_exp trace f lag backends ns = Inr r \<and> fy_fidelity r = f \<and> fy_lag_ms r = lag \<and>
    figures_ok math_exp requests r"
proof -
  note t = build_traceD [OF assms(2)]
  let ?n = "length trace"
  have "sums_ok math_exp f lag backends 0 no_decisions" by (simp add: sums_ok_def no_decisions_def)
  from decisions_total [OF assms(1) t(4,1) assms(4-6) this] obtain s
    where s: "foldR (decide_request math_exp ?n f lag backends) trace no_decisions = Inr s" "sums_ok math_exp f lag backends ?n s"
    by auto
  note ok = s(2) [unfolded sums_ok_def]
  have "fs_ttft s \<noteq> []" "fs_reuse s \<noteq> []" using ok t(3) by auto
  then obtain avg reuse where m: "stat_mean (fs_ttft s) = Inr avg" "between 18 180 avg" "stat_mean (fs_reuse s) = Inr reuse" "between 0 1 reuse"
    using stat_mean_between [of "fs_ttft s" 18 180] stat_mean_between [of "fs_reuse s" 0 1] ok f64_numerals by metis
  obtain acc wrong rev fall where sh: "share (fs_correct s) ?n = Inr acc" "in_unit acc" "share (fs_wrong_affinity s) ?n = Inr wrong" "in_unit wrong"
    "share (fs_reversals s) ?n = Inr rev" "in_unit rev" "share (fs_fallback s) ?n = Inr fall" "in_unit fall"
    using share_unit [OF t(3)] ok by (metis add_leD1)
  let ?counts = "map (\<lambda>i. count_list (fs_selected s) (gpu (int i))) [0..<nat backends]"
  have "sum_list (map (count_list (fs_selected s)) (map (\<lambda>i. gpu (int i)) [0..<nat backends])) = length (fs_selected s)"
  proof (rule counts_sum)
    show "set (fs_selected s) \<subseteq> set (map (\<lambda>i. gpu (int i)) [0..<nat backends])"
    proof
      fix b assume "b \<in> set (fs_selected s)"
      then obtain i where "0 \<le> i" "i < backends" "b = gpu i" using ok by (auto simp: list_all_iff backend_of_def)
      then show "b \<in> set (map (\<lambda>i. gpu (int i)) [0..<nat backends])" by (auto intro!: image_eqI [of _ _ "nat i"])
    qed
  qed (auto simp: distinct_map inj_on_def)
  then have "sum_list ?counts = ?n" using ok by (simp add: comp_def)
  then obtain cv where cv: "imbalance_cv ?counts = Inr cv" using imbalance_total t(1,3) assms(3) by fastforce
  obtain sb ub where tab: "lookup [(''none'', 0), (''affinity'', int ?n * 48), (''shadow-index'', backends * 256), (''exact-kv-events'', int ?n * 96)] f = Inr sb"
    "lookup [(''none'', 0), (''affinity'', 32), (''shadow-index'', 128), (''exact-kv-events'', 96)] f = Inr (ub :: int)" "0 \<le> ub" "ub * 1000 \<le> 2 ^ 53"
    using assms(6) by (elim fidelity_cases) (simp_all add: lookup_def dget_def)
  obtain cpu bw where q: "true_div ns (int ?n) = Inr cpu" "(if lag = 0 then Inr (Fin 0) else true_div (ub * 1000) lag) = Inr bw"
    using true_div_total [OF assms(7,8), of "int ?n"] true_div_total [OF _ tab(4), of lag] t(3) tab(3) assms(4) by (cases "lag = 0") fastforce+
  obtain rate where rate: "lookup decay_rates f = Inr (Fin rate)" "0 \<le> rate" using lookup_rate [OF assms(6)] by blast
  obtain c where c: "(if f \<noteq> ''none'' then bindR (lookup decay_rates f) (confidence math_exp lag) else Inr (Fin 0)) = Inr c" "in_unit c"
    using confidence_unit [OF assms(1,4,5) rate(2)] rate(1) by (cases "f = ''none''") (auto simp: in_unit_def)
  have "flt (Fin 0) avg" using m(2) by (auto simp: between_def)
  then have thr: "fdiv (Fin 1000) avg = Inr (fquot (Fin 1000) avg)" by (rule fdiv_positive)
  have lat: "fdiv cpu (Fin 1000) = Inr (fquot cpu (Fin 1000))" by (rule fdiv_positive) simp
  have zero: "rev = Fin 0" if "lag = 0" using sh(5) ok that t(3) by (auto simp: share_def true_div_def)
  have one: "acc = Fin 1" if "f = ''exact-kv-events''" "lag = 0" "math_exp (Fin 0) = Inr (Fin 1)"
    using sh(1) ok that t(3) by (simp add: share_def true_div_def)
  show ?thesis
    unfolding evaluate_fidelity_def Let_def s(1) bindR_simps tab(1,2) m(1,3) sh(1,3,5,7) thr q lat cv c(1)
    using assms(6) m sh c(2) zero one t(2) by (simp add: figures_ok_def between_unit)
qed

text \<open>
  Property C38.  The ablation always finishes, and its figures are what they claim to be: for a trace of at least one request over
  at least two backends, lags and times that are not negative, and an exponential that behaves, every evaluation returns; each
  share, reuse ratio and confidence lies between 0 and 1 and each mean latency between 18 and 180 ms; without lag no decision
  is reversed; and exact evidence without lag always routes to the backend that holds the prefix.
\<close>

theorem fidelity_sound:
  assumes "exp_ok math_exp" "0 < requests" "2 \<le> backends" "backends \<le> 2 ^ 53"
    and "\<forall>lag \<in> set lags. 0 \<le> lag \<and> lag \<le> 2 ^ 53" "\<forall>f lag. 0 \<le> elapsed f lag \<and> elapsed f lag \<le> 2 ^ 53"
  shows "\<exists>rs. run_fidelity math_exp elapsed requests backends seed lags = Inr rs \<and> list_all (figures_ok math_exp requests) rs \<and>
    map (\<lambda>r. (fy_fidelity r, fy_lag_ms r)) rs = concat (map (\<lambda>f. map (\<lambda>lag. (f, lag)) lags) fidelities)"
proof -
  obtain trace where t: "build_trace requests backends seed = Inr trace" using assms(2,3) by (simp add: build_trace_def)
  define run where "run = (\<lambda>(f, lag). evaluate_fidelity math_exp trace f lag backends (elapsed f lag))"
  define cs where "cs = concat (map (\<lambda>f. map (\<lambda>lag. (f, lag)) lags) fidelities)"
  have one: "\<exists>r. run x = Inr r \<and> (fy_fidelity r, fy_lag_ms r) = x \<and> figures_ok math_exp requests r" if "x \<in> set cs" for x
    using that evaluate_total [OF assms(1) t assms(4), of "snd x" "fst x" "elapsed (fst x) (snd x)"] assms(5,6)
    by (auto simp: run_def cs_def)
  then have "\<exists>rs. mapR run cs = Inr rs" unfolding mapR_returns by blast
  then obtain rs where rs: "mapR run cs = Inr rs" ..
  have "map (\<lambda>r. (fy_fidelity r, fy_lag_ms r)) rs = cs"
  proof (rule nth_equalityI)
    fix i assume "i < length (map (\<lambda>r. (fy_fidelity r, fy_lag_ms r)) rs)"
    then have i: "i < length cs" "i < length rs" using mapR_Inr_length [OF rs] by simp_all
    then obtain r where "run (cs ! i) = Inr r" "(fy_fidelity r, fy_lag_ms r) = cs ! i" using one [OF nth_mem [OF i(1)]] by blast
    then show "map (\<lambda>r. (fy_fidelity r, fy_lag_ms r)) rs ! i = cs ! i" using mapR_Inr_nth [OF rs i(1)] i(2) by simp
  qed (simp add: mapR_Inr_length [OF rs])
  moreover have "figures_ok math_exp requests r" if "r \<in> set rs" for r
  proof -
    obtain x where x: "x \<in> set cs" "run x = Inr r" using mapR_Inr_set [OF rs \<open>r \<in> set rs\<close>] by blast
    then show ?thesis using one [OF x(1)] by auto
  qed
  moreover have "run_fidelity math_exp elapsed requests backends seed lags = Inr rs"
    using rs unfolding run_fidelity_def t bindR_simps run_def cs_def .
  ultimately show ?thesis unfolding cs_def by (auto simp: list_all_iff)
qed

section \<open>Instance\<close>

text \<open>A coarse exponential: 1 at zero and above, 1/2 below.\<close>

definition coarse_exp :: "pyfloat \<Rightarrow> pyfloat res" where
  "coarse_exp x = Inr (if flt x (Fin 0) then Fin (1 / 2) else Fin 1)"

theorem fidelity_sound_witness:
  "\<exists>rs. run_fidelity coarse_exp (\<lambda>_ _. 1000) 6 4 17 default_lags_ms = Inr rs \<and> length rs = 28"
proof -
  have "exp_ok coarse_exp" by (simp add: exp_ok_def coarse_exp_def in_unit_def)
  then obtain rs where rs: "run_fidelity coarse_exp (\<lambda>_ _. 1000) 6 4 17 default_lags_ms = Inr rs"
    "map (\<lambda>r. (fy_fidelity r, fy_lag_ms r)) rs = concat (map (\<lambda>f. map (\<lambda>lag. (f, lag)) default_lags_ms) fidelities)"
    using fidelity_sound [of coarse_exp 6 4 default_lags_ms "\<lambda>_ _. 1000" 17] by (auto simp: default_lags_ms_def)
  have "length rs = 28" using arg_cong [OF rs(2), of length] by (simp add: fidelities_def default_lags_ms_def)
  with rs(1) show ?thesis by blast
qed

end
