(* ===== verification/FidelityReport.thy ===== *)
theory FidelityReport
  imports CacheFidelity Markdown
begin

text \<open>
  The document of the cache fidelity ablation (\<open>benchmark/cache_fidelity.py\<close>) and its Markdown table
  (\<open>benchmark/cache_fidelity_report.py\<close>).
\<close>

section \<open>The document\<close>

definition fidelity_result_doc :: "fidelity_result \<Rightarrow> pydict" where
  "fidelity_result_doc r =
     [(''fidelity'', VStr (fy_fidelity r)), (''lag_ms'', VInt (fy_lag_ms r)), (''requests'', VInt (int (fy_requests r))),
      (''routing_accuracy'', VFloat (fy_routing_accuracy r)), (''cache_reuse_ratio'', VFloat (fy_cache_reuse_ratio r)),
      (''ttft_mean_ms'', VFloat (fy_ttft_mean_ms r)), (''throughput_proxy_req_s'', VFloat (fy_throughput_proxy r)),
      (''controller_cpu_ns_per_decision'', VFloat (fy_cpu_ns r)), (''controller_state_bytes'', VInt (fy_state_bytes r)),
      (''state_bandwidth_bytes_s'', if fy_lag_ms r = 0 then VInt 0 else VFloat (fy_state_bandwidth r)),
      (''decision_latency_us'', VFloat (fy_decision_latency_us r)), (''wrong_affinity_rate'', VFloat (fy_wrong_affinity_rate r)),
      (''backend_imbalance_cv'', VFloat (fy_imbalance_cv r)), (''decision_reversal_rate'', VFloat (fy_reversal_rate r)),
      (''fallback_rate'', VFloat (fy_fallback_rate r)),
      (''mean_confidence'', if fy_fidelity r = ''none'' then VInt 0 else VFloat (fy_mean_confidence r))]"

definition fidelity_doc :: "string \<Rightarrow> int \<Rightarrow> int \<Rightarrow> int \<Rightarrow> int list \<Rightarrow> fidelity_result list \<Rightarrow> pydict" where
  "fidelity_doc python requests backends seed lags_ms results =
     [(''schema_version'', VStr ''kavora-cache-fidelity/v1''), (''status'', VStr ''deterministic_trace_ablation''),
      (''manifest'', VDict [(''requests'', VInt requests), (''backends'', VInt backends), (''seed'', VInt seed),
                            (''lags_ms'', VList (map VInt lags_ms)), (''python'', VStr python)]),
      (''results'', VList (map (\<lambda>r. VDict (fidelity_result_doc r)) results)),
      (''claim_boundary'', VStr ''This artifact validates fidelity and staleness sensitivity on a deterministic routing trace. It is not a real-GPU latency or throughput result; the Stage 2 real-backend artifact remains required for performance claims.'')]"

section \<open>The report\<close>

definition fidelity_row :: "pyval \<Rightarrow> string res" where
  "fidelity_row row =
     (let fixed = \<lambda>n k. bindR (vitem row k) (py_fixed n) in
      fill ([''| `'', ''` | ''] @ replicate 12 '' | '' @ ['' |''])
        [item_text row ''fidelity'', item_text row ''lag_ms'', fixed 3 ''routing_accuracy'', fixed 3 ''cache_reuse_ratio'',
         fixed 2 ''ttft_mean_ms'', fixed 2 ''throughput_proxy_req_s'', fixed 2 ''decision_latency_us'',
         fixed 0 ''controller_cpu_ns_per_decision'', item_text row ''controller_state_bytes'', fixed 1 ''state_bandwidth_bytes_s'',
         fixed 3 ''backend_imbalance_cv'', fixed 3 ''decision_reversal_rate'', fixed 3 ''fallback_rate'', fixed 3 ''wrong_affinity_rate''])"

definition fidelity_report :: "pydict \<Rightarrow> string res" where
  "fidelity_report artifact =
     bindR (vitem (VDict artifact) ''manifest'') (\<lambda>manifest.
     bindR (mapR id
       [labelled ''Status'' (item_text (VDict artifact) ''status''), labelled ''Requests'' (item_text manifest ''requests''),
        labelled ''Backends'' (item_text manifest ''backends''), labelled ''Seed'' (item_text manifest ''seed'')]) (\<lambda>head.
     bindR (bindR (vitem (VDict artifact) ''results'') py_iter) (\<lambda>results. bindR (mapR fidelity_row results) (\<lambda>rows.
     bindR (bindR (vitem (VDict artifact) ''claim_boundary'') (\<lambda>v. join_texts newline [v])) (\<lambda>boundary.
     Inr (join newline
       ([''# Kavora Cache-Evidence Fidelity and Lag Ablation'', []] @ head @
        [[], ''| Fidelity | Lag ms | Accuracy | Reuse | TTFT ms | Throughput proxy | Decision us | CPU ns | State bytes | Bandwidth B/s | Imbalance CV | Reversal | Fallback | Wrong affinity |'',
         ''|---|---:|---:|---:|---:|---:|---:|---:|---:|---:|---:|---:|---:|---:|''] @ rows @
        [[], ''## Claim Boundary'', [], boundary, []])))))))"

section \<open>Facts\<close>

lemma fidelity_row_returns: "returns (fidelity_row (VDict (fidelity_result_doc r)))"
  unfolding fidelity_row_def fidelity_result_doc_def Let_def
  by (rule returns_fill) (simp_all add: item_text_def dget_def py_fixed_def float_of_int_def)

text \<open>The table of an ablation can be made whatever its figures are, and has one row per fidelity and lag.\<close>

lemma fidelity_report_made: "\<exists>t. fidelity_report (fidelity_doc python requests backends seed lags_ms results) = Inr t"
proof -
  have "returns (mapR fidelity_row (map (\<lambda>r. VDict (fidelity_result_doc r)) results))"
    by (intro returns_mapR) (auto simp: fidelity_row_returns)
  then obtain rows where rows: "mapR fidelity_row (map (\<lambda>r. VDict (fidelity_result_doc r)) results) = Inr rows" using returnsD by blast
  have "returns (fidelity_report (fidelity_doc python requests backends seed lags_ms results))"
    unfolding fidelity_report_def fidelity_doc_def
    by (auto simp: item_text_def dget_def rows returns_labelled intro!: returns_bind returns_join)
  then show ?thesis by (rule returnsD)
qed

end
