(* ===== verification/Merging.thy ===== *)
theory Merging
  imports FinalReport
begin

text \<open>
  The two scripts that put JSON files together, \<open>planner/build_frontier.py\<close> and \<open>planner/aggregate_hard_vs_hot.py\<close>.
  Reading a file, and the text a path has once it is a \<open>Path\<close>, are arguments; writing the result is not modelled.
\<close>

definition frontier_labels :: "(string \<Rightarrow> string) \<Rightarrow> string list \<Rightarrow> string list \<Rightarrow> string list" where
  "frontier_labels path_text labels inputs = labels @ map (\<lambda>p. path_stem (path_text p)) (drop (length labels) inputs)"

definition frontier_entry :: "(string \<Rightarrow> string) \<Rightarrow> (string \<Rightarrow> pyval res) \<Rightarrow> string \<times> string \<Rightarrow> pyval res" where
  "frontier_entry path_text read x =
     bindR (read (fst x)) (\<lambda>data.
     Inr (VDict [(''label'', VStr (snd x)), (''source'', VStr (path_text (fst x))), (''summary'', data)]))"

text \<open>\<open>zip(..., strict=True)\<close> gives the pairs first and then complains about a label without an input.\<close>

definition build_frontier :: "(string \<Rightarrow> string) \<Rightarrow> (string \<Rightarrow> pyval res) \<Rightarrow> string list \<Rightarrow> string list \<Rightarrow> pydict res" where
  "build_frontier path_text read labels inputs =
     (let all_labels = frontier_labels path_text labels inputs in
      bindR (mapR (frontier_entry path_text read) (zip inputs all_labels)) (\<lambda>entries.
      guardR (length all_labels \<noteq> length inputs) (ValueError ''zip() argument 2 is longer than argument 1'')
        (Inr [(''kind'', VStr ''frontier_candidates''), (''entries'', VList entries)])))"

definition hard_vs_hot :: "(string \<Rightarrow> pyval res) \<Rightarrow> string \<Rightarrow> string \<Rightarrow> pydict res" where
  "hard_vs_hot read hard hot =
     bindR (read hard) (\<lambda>h. bindR (read hot) (\<lambda>t. Inr [(''kind'', VStr ''hard_vs_hot''), (''hard'', h), (''hot'', t)]))"

text \<open>
  The frontier is built exactly when every input can be read and no label is left over; then it has an entry per input, in order,
  with the given labels first and file names for the rest.
\<close>

lemma build_frontier_iff:
  "(\<exists>d. build_frontier path_text read labels inputs = Inr d) \<longleftrightarrow>
     list_all (\<lambda>p. \<exists>v. read p = Inr v) inputs \<and> length labels \<le> length inputs"
proof -
  have len: "length (frontier_labels path_text labels inputs) = max (length labels) (length inputs)"
    by (simp add: frontier_labels_def)
  have "map fst (zip inputs (frontier_labels path_text labels inputs)) = inputs" by (simp add: map_fst_zip_take len)
  then have firsts: "fst ` set (zip inputs (frontier_labels path_text labels inputs)) = set inputs" by (metis set_map)
  have "(\<exists>es. mapR (frontier_entry path_text read) (zip inputs (frontier_labels path_text labels inputs)) = Inr es) \<longleftrightarrow>
      (\<forall>p \<in> fst ` set (zip inputs (frontier_labels path_text labels inputs)). \<exists>v. read p = Inr v)"
    unfolding mapR_returns frontier_entry_def by (auto simp: bindR_eq_Inr)
  then have "(\<exists>es. mapR (frontier_entry path_text read) (zip inputs (frontier_labels path_text labels inputs)) = Inr es) \<longleftrightarrow>
      list_all (\<lambda>p. \<exists>v. read p = Inr v) inputs"
    unfolding firsts by (simp add: list_all_iff)
  then show ?thesis by (auto simp: build_frontier_def Let_def len bindR_eq_Inr guardR_eq_Inr max_def)
qed

end
