(* ===== verification/LoadBatch.thy ===== *)
theory LoadBatch
  imports Runner "HOL-Library.Multiset"
begin

text \<open>
  The concurrent part of \<open>benchmark/runner.py\<close>: a request of the load generator and the batch that sends one request
  per seed, at most as many at a time as the semaphore admits.  The tasks interleave at their awaits only, so a batch is
  a sequence of events: a task passes the semaphore, or the answer to a task arrives.  Which one comes next, what the
  server answers and what the clock shows is arbitrary.
\<close>

section \<open>A request\<close>

record batch_target =
  lt_base_url :: string
  lt_endpoint :: string
  lt_model :: string

text \<open>The outside world of one request: what the post gives (a status, or an exception) and the clock before and after.\<close>

record load_answer =
  la_post :: "string \<Rightarrow> pydict \<Rightarrow> int res"
  la_started :: pyfloat
  la_ended :: pyfloat

definition completion_payload ::
  "(int \<Rightarrow> nat \<Rightarrow> char) \<Rightarrow> (int \<Rightarrow> pyfloat) \<Rightarrow> batch_target \<Rightarrow> workload \<Rightarrow> int \<Rightarrow> pydict" where
  "completion_payload choice unit_draw tg w seed =
     [(''model'', VStr (lt_model tg)), (''prompt'', VStr (build_prompt_with_reuse choice unit_draw seed w)),
      (''max_tokens'', VInt (max 1 (wl_output_len w))), (''temperature'', VFloat (Fin 0))]"

definition completion_url :: "batch_target \<Rightarrow> string" where
  "completion_url tg = rstrip_slash (lt_base_url tg) @ lt_endpoint tg"

definition one_request ::
  "(int \<Rightarrow> nat \<Rightarrow> char) \<Rightarrow> (int \<Rightarrow> pyfloat) \<Rightarrow> batch_target \<Rightarrow> workload \<Rightarrow> int \<Rightarrow> load_answer \<Rightarrow> pyfloat \<times> bool" where
  "one_request choice unit_draw tg w seed an =
     (let payload = completion_payload choice unit_draw tg w seed;
          ok = (case la_post an (completion_url tg) payload of Inl _ \<Rightarrow> False | Inr status \<Rightarrow> status < 400)
      in (fsub (la_ended an) (la_started an), ok))"

section \<open>A batch as a sequence of events\<close>

record load_state =
  ls_waiting :: "int list"
  ls_flight :: "int list"
  ls_latencies :: "pyfloat list"
  ls_ok :: int

datatype load_event = Admitted int | Answered int load_answer

definition load_limit :: "workload \<Rightarrow> nat" where
  "load_limit w = nat (max 1 (wl_concurrency w))"

definition load_start :: "int list \<Rightarrow> load_state" where
  "load_start req_seeds = \<lparr>ls_waiting = req_seeds, ls_flight = [], ls_latencies = [], ls_ok = 0\<rparr>"

text \<open>One event, or nothing when the semaphore does not allow it or the request is not on its way.\<close>

fun load_step ::
  "(int \<Rightarrow> nat \<Rightarrow> char) \<Rightarrow> (int \<Rightarrow> pyfloat) \<Rightarrow> batch_target \<Rightarrow> workload \<Rightarrow> load_state \<Rightarrow> load_event \<Rightarrow> load_state option" where
  "load_step choice unit_draw tg w st (Admitted seed) =
     (if seed \<in> set (ls_waiting st) \<and> length (ls_flight st) < load_limit w
      then Some (st\<lparr>ls_waiting := remove1 seed (ls_waiting st), ls_flight := ls_flight st @ [seed]\<rparr>) else None)"
| "load_step choice unit_draw tg w st (Answered seed an) =
     (if seed \<in> set (ls_flight st)
      then (case one_request choice unit_draw tg w seed an of (dt, ok) \<Rightarrow>
        Some (st\<lparr>ls_flight := remove1 seed (ls_flight st), ls_latencies := ls_latencies st @ [dt],
                 ls_ok := (if ok then ls_ok st + 1 else ls_ok st)\<rparr>)) else None)"

fun load_run ::
  "(int \<Rightarrow> nat \<Rightarrow> char) \<Rightarrow> (int \<Rightarrow> pyfloat) \<Rightarrow> batch_target \<Rightarrow> workload \<Rightarrow> load_state \<Rightarrow> load_event list \<Rightarrow> load_state option" where
  "load_run choice unit_draw tg w st [] = Some st"
| "load_run choice unit_draw tg w st (e # es) =
     Option.bind (load_step choice unit_draw tg w st e) (\<lambda>t. load_run choice unit_draw tg w t es)"

text \<open>\<open>gather\<close> returns when no task is left.\<close>

definition load_done :: "load_state \<Rightarrow> bool" where
  "load_done st = (ls_waiting st = [] \<and> ls_flight st = [])"

definition load_result :: "load_state \<Rightarrow> pyfloat \<Rightarrow> batch" where
  "load_result st elapsed =
     \<lparr>bt_latencies = ls_latencies st, bt_ok = ls_ok st, bt_total = int (length (ls_latencies st)),
      bt_failed = int (length (ls_latencies st)) - ls_ok st, bt_elapsed = py_max (fl (1 / 10 ^ 9)) elapsed\<rparr>"

section \<open>What a batch did\<close>

text \<open>The completed requests of a sequence of events, in the order of their answers.\<close>

fun load_answers ::
  "(int \<Rightarrow> nat \<Rightarrow> char) \<Rightarrow> (int \<Rightarrow> pyfloat) \<Rightarrow> batch_target \<Rightarrow> workload \<Rightarrow> load_event list \<Rightarrow> (int \<times> pyfloat \<times> bool) list" where
  "load_answers choice unit_draw tg w [] = []"
| "load_answers choice unit_draw tg w (Admitted seed # es) = load_answers choice unit_draw tg w es"
| "load_answers choice unit_draw tg w (Answered seed an # es) =
     (seed, one_request choice unit_draw tg w seed an) # load_answers choice unit_draw tg w es"

definition load_left :: "load_state \<Rightarrow> nat" where
  "load_left st = 2 * length (ls_waiting st) + length (ls_flight st)"

definition load_open :: "load_state \<Rightarrow> int multiset" where
  "load_open st = mset (ls_waiting st) + mset (ls_flight st)"

lemma load_run_append:
  "load_run choice unit_draw tg w st (es @ fs) =
   Option.bind (load_run choice unit_draw tg w st es) (\<lambda>t. load_run choice unit_draw tg w t fs)"
  by (induction es arbitrary: st) (simp_all add: Option.bind_assoc)

lemma load_done_left: "load_done st = (load_left st = 0)"
  by (auto simp: load_done_def load_left_def)

lemma length_remove1_less: "x \<in> set xs \<Longrightarrow> length xs = Suc (length (remove1 x xs))"
  using length_pos_if_in_set [of x xs] by (simp add: length_remove1)

lemma load_step_left: "load_step choice unit_draw tg w st e = Some t \<Longrightarrow> load_left st = Suc (load_left t)"
  by (cases e) (auto simp: load_left_def length_remove1_less split: if_splits prod.splits)

lemma load_step_limit:
  "load_step choice unit_draw tg w st e = Some t \<Longrightarrow> length (ls_flight st) \<le> load_limit w \<Longrightarrow> length (ls_flight t) \<le> load_limit w"
  by (cases e) (auto simp: length_remove1 split: if_splits prod.splits)

lemma load_run_limit:
  "load_run choice unit_draw tg w st es = Some t \<Longrightarrow> length (ls_flight st) \<le> load_limit w \<Longrightarrow> length (ls_flight t) \<le> load_limit w"
  by (induction es arbitrary: st) (auto simp: bind_eq_Some_conv dest: load_step_limit)

lemma load_run_left:
  "load_run choice unit_draw tg w st es = Some t \<Longrightarrow> load_left st = length es + load_left t"
  by (induction es arbitrary: st) (auto simp: bind_eq_Some_conv dest!: load_step_left)

lemma load_step_open:
  "load_step choice unit_draw tg w st e = Some t \<Longrightarrow>
   load_open st = mset (map fst (load_answers choice unit_draw tg w [e])) + load_open t"
  by (cases e) (auto simp: load_open_def split: if_splits prod.splits)

lemma load_answers_Cons:
  "load_answers choice unit_draw tg w (e # es) = load_answers choice unit_draw tg w [e] @ load_answers choice unit_draw tg w es"
  by (cases e) simp_all

lemma load_run_open:
  "load_run choice unit_draw tg w st es = Some t \<Longrightarrow>
   load_open st = mset (map fst (load_answers choice unit_draw tg w es)) + load_open t"
proof (induction es arbitrary: st)
  case (Cons e es)
  then show ?case
    by (auto simp: bind_eq_Some_conv load_answers_Cons [of _ _ _ _ e es] dest!: load_step_open)
qed simp

definition load_counts :: "load_state \<Rightarrow> (int \<times> pyfloat \<times> bool) list \<Rightarrow> load_state \<Rightarrow> bool" where
  "load_counts st as t =
     (ls_latencies t = ls_latencies st @ map (fst \<circ> snd) as \<and> ls_ok t = ls_ok st + int (length (filter (snd \<circ> snd) as)))"

lemma load_step_counts:
  "load_step choice unit_draw tg w st e = Some t \<Longrightarrow> load_counts st (load_answers choice unit_draw tg w [e]) t"
  by (cases e) (auto simp: load_counts_def split: if_splits prod.splits)

lemma load_counts_append: "load_counts st as t \<Longrightarrow> load_counts t bs u \<Longrightarrow> load_counts st (as @ bs) u"
  by (simp add: load_counts_def)

lemma load_run_counts:
  "load_run choice unit_draw tg w st es = Some t \<Longrightarrow> load_counts st (load_answers choice unit_draw tg w es) t"
proof (induction es arbitrary: st)
  case Nil then show ?case by (simp add: load_counts_def)
next
  case (Cons e es)
  then show ?case
    unfolding load_answers_Cons [of _ _ _ _ e es]
    by (auto simp: bind_eq_Some_conv intro: load_counts_append load_step_counts)
qed

lemma load_counts_result:
  assumes "load_counts (load_start seeds) as st"
  shows "load_result st elapsed = run_request_batch (map snd as) elapsed"
  using assms
  by (simp add: load_counts_def load_start_def load_result_def run_request_batch_def filter_map Let_def)

text \<open>A batch that is done holds one completed request for each seed.\<close>

lemma load_finished:
  assumes "load_run choice unit_draw tg w (load_start seeds) evs = Some st" "load_done st"
  shows "mset (map fst (load_answers choice unit_draw tg w evs)) = mset seeds"
    and "length (load_answers choice unit_draw tg w evs) = length seeds"
    and "load_result st elapsed = run_request_batch (map snd (load_answers choice unit_draw tg w evs)) elapsed"
proof -
  show m: "mset (map fst (load_answers choice unit_draw tg w evs)) = mset seeds"
    using load_run_open [OF assms(1)] assms(2) by (simp add: load_open_def load_start_def load_done_def)
  show "length (load_answers choice unit_draw tg w evs) = length seeds" using mset_eq_length [OF m] by simp
  show "load_result st elapsed = run_request_batch (map snd (load_answers choice unit_draw tg w evs)) elapsed"
    by (rule load_counts_result [OF load_run_counts [OF assms(1)]])
qed

text \<open>
  So a load run whose measured batch is a finished run of events reports the configured number of requests, and as
  successful those that were answered with a status below 400.
\<close>

lemma load_report_accounts:
  assumes seeds: "seeds = map (\<lambda>i. deterministic_request_seed base_seed (int i)) [0..<nat (max 0 (wl_requests w))]"
    and run: "load_run choice unit_draw tg w (load_start seeds) evs = Some st" "load_done st"
    and sent: "send seeds = (map snd (load_answers choice unit_draw tg w evs), elapsed)"
    and summary: "run_custom_http choice unit_draw send ck base_seed w = Inr s"
  shows "dget s ''requests'' =
      Some (VDict [(''total'', VInt (max 0 (wl_requests w))), (''ok'', VInt (ls_ok st)),
                   (''failed'', VInt (max 0 (wl_requests w) - ls_ok st))])"
proof -
  have r: "(case send seeds of (rs, t) \<Rightarrow> run_request_batch rs t) = load_result st elapsed"
    using load_finished(3) [OF run] sent by simp
  have n: "int (length (ls_latencies st)) = max 0 (wl_requests w)"
    using load_run_counts [OF run(1)] load_finished(2) [OF run] by (simp add: load_counts_def load_start_def seeds)
  have "dget s ''requests'' =
      Some (VDict [(''total'', VInt (bt_total (load_result st elapsed))), (''ok'', VInt (bt_ok (load_result st elapsed))),
                   (''failed'', VInt (bt_failed (load_result st elapsed)))])"
    using summary unfolding run_custom_http_def Let_def seeds [symmetric] r
    by (auto simp: run_summary_def bindR_eq_Inr dget_def)
  then show ?thesis by (simp add: load_result_def n)
qed

text \<open>A batch that is not done can go on.\<close>

lemma load_progress:
  assumes "\<not> load_done st"
  shows "\<exists>e t. load_step choice unit_draw tg w st e = Some t"
proof (cases "ls_flight st")
  case Nil
  then obtain seed where "seed \<in> set (ls_waiting st)"
    using assms by (cases "ls_waiting st") (auto simp: load_done_def)
  then show ?thesis using Nil by (intro exI [of _ "Admitted seed"]) (simp add: load_limit_def)
next
  case (Cons seed rest)
  then show ?thesis by (intro exI [of _ "Answered seed an" for an]) (auto split: prod.splits)
qed

lemma load_can_finish:
  "\<exists>es t. load_run choice unit_draw tg w st es = Some t \<and> load_done t"
proof (induction "load_left st" arbitrary: st rule: less_induct)
  case less
  show ?case
  proof (cases "load_done st")
    case True then show ?thesis by (intro exI [of _ "[]"]) simp
  next
    case False
    then obtain e t where e: "load_step choice unit_draw tg w st e = Some t" using load_progress by blast
    then obtain es u where "load_run choice unit_draw tg w t es = Some u" "load_done u"
      using less [of t] load_step_left [OF e] by auto
    then show ?thesis using e by (intro exI [of _ "e # es"]) simp
  qed
qed

section \<open>Properties\<close>

text \<open>
  Property C17.  A batch in any order of events has never more requests on their way than the semaphore admits, never
  forgets or repeats a seed, and once done its result is that of the completed requests in the order of their answers,
  exactly one for each seed; successes and failures add up to the requests.
\<close>

theorem load_batch_accounts:
  assumes "load_run choice unit_draw tg w (load_start seeds) evs = Some st"
  shows "length (ls_flight st) \<le> load_limit w \<and>
     mset seeds = mset (map fst (load_answers choice unit_draw tg w evs)) + mset (ls_waiting st) + mset (ls_flight st) \<and>
     (load_done st \<longrightarrow>
        mset (map fst (load_answers choice unit_draw tg w evs)) = mset seeds \<and>
        load_result st elapsed = run_request_batch (map snd (load_answers choice unit_draw tg w evs)) elapsed \<and>
        bt_total (load_result st elapsed) = int (length seeds) \<and>
        bt_ok (load_result st elapsed) + bt_failed (load_result st elapsed) = int (length seeds) \<and>
        bt_ok (load_result st elapsed) =
          int (length (filter (snd \<circ> snd) (load_answers choice unit_draw tg w evs))))"
proof -
  let ?as = "load_answers choice unit_draw tg w evs"
  have all: "mset seeds = mset (map fst ?as) + mset (ls_waiting st) + mset (ls_flight st)"
    using load_run_open [OF assms] by (simp add: load_open_def load_start_def)
  have "length (ls_flight st) \<le> load_limit w"
    using load_run_limit [OF assms] by (simp add: load_start_def)
  then show ?thesis
    using all load_finished [OF assms] by (simp add: run_request_batch_def filter_map Let_def)
qed

text \<open>
  Property C18.  A batch does not hang and does not spin.  As long as it is not done some event is possible, every order of
  events can be continued to the end, and it ends after exactly one admission and one answer for each seed.
\<close>

theorem load_batch_finishes:
  assumes "load_run choice unit_draw tg w (load_start seeds) evs = Some st"
  shows "length evs \<le> 2 * length seeds \<and> (load_done st \<longleftrightarrow> length evs = 2 * length seeds) \<and>
     (\<exists>more final. load_run choice unit_draw tg w (load_start seeds) (evs @ more) = Some final \<and> load_done final \<and>
        length evs + length more = 2 * length seeds)"
proof -
  have l: "2 * length seeds = length evs + load_left st"
    using load_run_left [OF assms] by (simp add: load_left_def load_start_def)
  obtain more final where m: "load_run choice unit_draw tg w st more = Some final" "load_done final"
    using load_can_finish by blast
  then have "load_left st = length more" using load_run_left [OF m(1)] by (simp add: load_done_left)
  then show ?thesis using l m assms by (auto simp: load_done_left load_run_append)
qed

definition load_demo :: workload where
  "load_demo = \<lparr>wl_ratio = Fin 0, wl_prefix_len = 0, wl_suffix_len = 1, wl_input_len = 2, wl_output_len = 4,
     wl_concurrency = 2, wl_requests = 2, wl_warmup = 0\<rparr>"

definition load_demo_target :: batch_target where
  "load_demo_target = \<lparr>lt_base_url = ''http://b/'', lt_endpoint = ''/v1/completions'', lt_model = ''m''\<rparr>"

definition load_demo_answer :: "int res \<Rightarrow> load_answer" where
  "load_demo_answer r = \<lparr>la_post = (\<lambda>url payload. r), la_started = Fin 1, la_ended = Fin 3\<rparr>"

definition load_demo_events :: "load_event list" where
  "load_demo_events = [Admitted 7, Admitted 5, Answered 5 (load_demo_answer (Inr 500)), Answered 7 (load_demo_answer (Inr 200))]"

lemma load_demo_runs:
  "load_run (\<lambda>s i. CHR ''a'') (\<lambda>s. Fin 0) load_demo_target load_demo (load_start [7, 5]) load_demo_events =
     Some \<lparr>ls_waiting = [], ls_flight = [], ls_latencies = [fsub (Fin 3) (Fin 1), fsub (Fin 3) (Fin 1)], ls_ok = 1\<rparr>"
  by (simp add: load_demo_events_def load_demo_def load_start_def load_limit_def one_request_def load_demo_answer_def Let_def)

lemma load_demo_done: "load_done \<lparr>ls_waiting = [], ls_flight = [], ls_latencies = ls, ls_ok = n\<rparr>"
  by (simp add: load_done_def)

theorem load_batch_accounts_witness:
  "bt_total (load_result \<lparr>ls_waiting = [], ls_flight = [], ls_latencies = [fsub (Fin 3) (Fin 1), fsub (Fin 3) (Fin 1)],
     ls_ok = 1\<rparr> (Fin 2)) = int (length [7::int, 5])"
  using load_batch_accounts [OF load_demo_runs, of "Fin 2"] load_demo_done by blast

theorem load_batch_finishes_witness: "length load_demo_events = 4"
  using load_batch_finishes [OF load_demo_runs] load_demo_done by simp

end
