(* ===== verification/Spec2Isabelle.thy ===== *)
theory Spec2Isabelle
  imports KvLog BlockHash ExpApp PlannerReports PaperReport ThresholdFiles FidelityReport Merging LoadBatch
begin

text \<open>
  Kavora, the Python half: observation of LLM serving backends, native KV-cache events, measurement
  runs and the planners that turn measured runs into operating decisions.

  \<^bold>\<open>The program.\<close>  A serving backend (vLLM or SGLang) exposes metrics and, for vLLM, KV-cache events.
  Three data paths leave it.
  \<^item> Events: \<open>engine_events/vllm.py\<close> subscribes to the event socket, asks the replay socket for what it
    missed, normalises each batch, posts the events to the gateway and remembers the last completed batch
    in a checkpoint file.  \<open>engine_events/vllm_hash.py\<close> answers the gateway's question which cache keys a
    request's token blocks have, so that the events' block hashes can be matched.
  \<^item> Metrics: \<open>exporter/\<close> polls \<open>/metrics\<close>, parses the text, maps it by backend to one native snapshot,
    derives ratios, and publishes them as gauges, as a backend-state document with a content hash, and as
    tuning advice.
  \<^item> Measurements: \<open>benchmark/runner.py\<close> sends a deterministic workload, \<open>benchmark/experiment.py\<close>
    takes metrics snapshots around it and \<open>benchmark/window_metrics.py\<close> turns their differences into a
    run entry with a quality; \<open>scripts/run_capacity_sweep.py\<close> repeats that over scenarios and
    concurrencies.  The planners (\<open>planner/policy.py\<close>, \<open>operating_envelope.py\<close>, \<open>auto_calibrator.py\<close>,
    \<open>policy_evaluation.py\<close>, \<open>ttft_predictor.py\<close>, \<open>ttft_validation.py\<close>) read the resulting documents.

  \<^bold>\<open>Foundations.\<close>
  \<^item> PyBase: exceptions (\<open>exn\<close>), the result type \<open>'a res\<close> whose left values are raised exceptions,
    insertion-ordered dictionaries, stable sorting with a comparison.  The locale \<open>dict\<close> is the
    interface of a dictionary and \<open>weak_order_on\<close> that of a strict weak order on the sound elements of a
    type; they are interpreted on association lists, on the float comparison away from NaN and on sort
    keys.  \<open>kept_invariant\<close> and \<open>forward_simulation\<close> are the two ways to reason about runs of a step
    relation; the service of KvLog interprets the second.
  \<^item> PyFloat: binary64 with exact rationals for the finite values and round to nearest, ties to
    even; infinities and NaN are values.  \<^verbatim>\<open>rne_error\<close> and \<^verbatim>\<open>rnd64_error\<close> bound the
    rounding error, the other lemmas say that rounding is monotone, idempotent and exact on integers up to
    \<open>2 ^ 53\<close>.  A list length converted to a float is therefore exact below \<open>2 ^ 53\<close>, which the
    statements about ratios assume where they need it.
  \<^item> PyVal: dynamically typed values, \<open>isinstance\<close>, conversions, truth, slices.  PyJson: \<open>json.dumps\<close>
    with sorted keys, UTF-8, and SHA-256 on 32-bit words.  PyStats: \<open>round(x, n)\<close>, sums (as Python 3.12
    computes them), means, interpolated percentiles, comparison of sort keys.

  \<^bold>\<open>Components.\<close>
  \<^item> KvEvents, KvContract: \<open>VLLMEventAdapter\<close>.  The record \<open>adapter\<close> holds the object's attributes and the
    checkpoint file; \<open>prepare\<close>, \<open>commit\<close> and \<open>process\<close> are the methods of the same names.  The lemmas
    say which batches are accepted, which raise \<open>SequenceGap\<close>, and that a checkpoint reads back.  The locale
    \<open>event_source\<close> of KvContract is what the subscriber relies on: accepted batches continue the position.
  \<^item> KvSubscriber: \<open>VLLMSubscriber\<close>.  \<open>deliver\<close>, \<open>replay\<close>, \<open>handle_live\<close> and the \<open>run\<close> loop, with
    the success of every post and every file write given by a stream and the messages of the sockets as
    lists; a list that ends stands for the socket's timeout.  \<open>took\<close> says what a run takes in: a prefix of the messages
    it reads (\<open>run_reads\<close>), whose batches (\<open>intake\<close> of KvContract) are posted and committed one after the other, and after an
    exception possibly the beginning of the next one.  The theorems say that nothing is lost, that delivery is atomic
    and that a gap is recovered.
  \<^item> KvLog: the abstract log over the messages heard, whose steps send the content of the message at the next position
    (\<open>log_step\<close>), the service over any number of lives of its process (\<open>life\<close>: a start from the checkpoint file and a run),
    and the forward simulation of the lives by the log.
  \<^item> BlockHash: the hash alignment service; vLLM's hash functions are parameters.  The theorem that equal keys mean equal
    prefixes assumes nothing of them: it names the block at which they collide when they do.
  \<^item> PromParse, ExpDerive, ExpAdapters: text to flat metrics (the library parser is a parameter, the
    fallback line parser is transcribed and shown to read rendered texts back), \<open>compute_derived\<close>, and the two backend
    adapters.
  \<^item> ExpState, PromWriter, ExpApp: \<open>snapshot_from_derived\<close> and \<open>recommend_tuning\<close>; the gauges over a
    client library whose documented behaviour is the hypothesis \<open>prom_lib_ok\<close>; the polling loop as
    a fold over the turns' inputs, and the endpoints.
  \<^item> WindowMetrics, Runner, Experiment: snapshots, deltas, evidence quality and run entries; the workload
    and the summary of a load run; one measured run and the aggregates of a point.  The locale \<open>quality_reader\<close> is
    how the planners read a run: one of three qualities, one of three sources, and a ratio where the quality is \<open>ok\<close>.
  \<^item> LoadBatch: the load generator's concurrent batch as a sequence of events, a request passing the semaphore or
    its answer arriving, in any order (\<open>load_step\<close>, \<open>load_run\<close>); every order keeps to the limit, can be
    finished, and ends with the counters Runner's \<open>run_request_batch\<close> computes from the completed requests.
  \<^item> Policy, Envelope, Calibrator: the throughput recommendation and the dual-boundary comparison; admission,
    selection and Pareto points of a sweep; candidates with their gates, reasons and ranking.
  \<^item> PolicyEval: the join of decision and outcome journals, arms, window-cluster bootstrap, strata, gates and
    verdict.  Ttft: sample selection, ridge regression by Gaussian elimination, the clamped artifact and
    its validation on other journals.
  \<^item> Sweep: points, their ranking and calibration, and the reuse experiment's loop.  SweepReport: the document
    and the Markdown report a sweep writes.  Artifact: the check of the resulting directory
    (\<open>scripts/check_capacity_sweep_artifact.py\<close>), with the theorem that a sweep's own files pass it.
  \<^item> Threshold: the scan of thresholds, whose loop is a \<^theory_text>\<open>partial_function\<close> because it does not end for a
    step that rounding absorbs.  FinalReport: the English final report and its bundle; the threshold it recommends is
    shown to be the right one for the scan it was made from.  Reports: the files of the reuse experiment and of the
    baseline comparison, with the theorem that the final report can be built from whatever the programs write.
  \<^item> Stage2Config, Stage2: the routing evaluation of \<open>benchmark/stage2_evaluation.py\<close>.  Stage2Config loads and hashes
    a configuration and orders the targets; Stage2 has the workloads, an exchange and its sample, the summary of a repetition, the window of
    the backends' counters, the aggregates and the driver, whose world \<open>eval_world\<close> holds what the network answers.
    The theorems say what an accepted configuration guarantees, that the hash ignores secrets, and that every sample,
    case and comparison of an evaluation is the one its configuration asks for (\<open>measured_case\<close>, \<open>compared_with_direct\<close>).
  \<^item> CacheFidelity: the deterministic ablation of \<open>benchmark/cache_fidelity.py\<close>, with the theorem that it always
    finishes and that its figures are within their ranges.
  \<^item> Markdown: the pieces the English reports are written with (rows, tables, bullet items, a number or \<open>n/a\<close>) and the
    rules that a report made of pieces that return returns.  On it rest PlannerReports (the documents and reports of the
    envelope, the calibrator, the policy evaluation and the TTFT validation), EvaluationDoc (the documents and the report
    of the routing evaluation: a metric nothing was observed for is shown as missing, never as zero), FidelityReport and
    PaperReport.
  \<^item> GatewayBench: \<open>benchmark/gateway_runner.py\<close>, the gateway against the direct path for each concurrency.  PaperReport: its
    document and report, and \<open>benchmark/paper_report.py\<close>, which binds a report to the hashes of its inputs.
  \<^item> ThresholdFiles: the CSV file of a threshold scan and the series its plots are drawn from.  Merging: the helpers that
    merge the files of several runs.

  \<^bold>\<open>How the parts interact in the model.\<close>  The composition follows the calls: \<open>poll_once\<close> of ExpApp calls the
  adapters, \<open>compute_derived\<close>, the writer, the snapshot document and the advice; \<open>run_windowed_experiment\<close>
  calls the runner, the collection through the metrics parser and the window metrics; \<open>measure_points\<close> of
  Sweep calls it for each pair and hands the entries to \<open>recommend_runs\<close> of Policy and the finished document
  to the calibrator.

  \<^bold>\<open>Parameters and bounds.\<close>  The msgpack decoder, vLLM's hashing, \<open>prometheus_client\<close>'s parser and registry,
  the HTTP exchanges, the clock, the pseudo-random generator, the text of an exception and the iteration
  order of sets are arguments.  Strings are lists of characters, one per code point, so text outside the first 256 code
  points is not represented.  The scan of thresholds is shown to end for a positive step that stays above the
  rounding error of every partial sum; the witness gives concrete numbers.  No other definition uses fuel.  The two
  zeros of binary64 are one value; only a formatted negative zero would differ.

  \<^bold>\<open>Not modelled.\<close>  The Go gateway and the Rust policy engine (other languages); command lines and
  argument parsing; the drawing of the plots, which is the plotting library's; the Chinese final report, which is outside
  the characters represented here; the download, replay and metadata scripts, which are input and output only.
\<close>

end
